(* ===== verification/Js_Prelude.thy ===== *)
theory Js_Prelude
  imports Main "HOL-Library.AList"
begin

text \<open>
  Shared vocabulary of the development: the fragment of the JavaScript language and of its
  standard library that the console sources use.

  \<^item> Strings are lists of code units below 256 (\<open>string\<close>); \<open>split_on\<close>, \<open>js_join\<close>,
    \<open>str_includes\<close>, \<open>starts_with\<close> and \<open>replace_first\<close> are \<open>split\<close> at a single character,
    \<open>join\<close>, \<open>includes\<close>/\<open>indexOf\<close>, \<open>startsWith\<close> and \<open>replace\<close> with a string pattern.
  \<^item> Dynamically typed values are the datatype \<open>jsval\<close> with truthiness, \<open>typeof\<close> and the
    conversion a template literal performs.
  \<^item> A \<open>Map\<close> and a plain object with string keys are association lists in insertion order:
    \<open>AList.update\<close> keeps the position of a key that is present and appends a new one, which is
    what \<open>Map.prototype.set\<close> and property assignment do (keys that look like array indices,
    which an object would list first, do not occur in the sources).
  \<^item> A method that changes state is a statement: it takes the state and returns the new state,
    the visible effects in order and the exception that ended it, if one did.  \<open>block\<close> runs
    statements one after the other and stops at the first exception.
\<close>

named_theorems preserves_intros \<open>rules showing that a statement keeps a predicate of the state\<close>

section \<open>Strings\<close>

fun split_on :: "char \<Rightarrow> string \<Rightarrow> string list" where
  "split_on c [] = [[]]"
| "split_on c (x # xs) =
     (if x = c then [] # split_on c xs
      else (case split_on c xs of [] \<Rightarrow> [[x]] | y # ys \<Rightarrow> (x # y) # ys))"

fun js_join :: "string \<Rightarrow> string list \<Rightarrow> string" where
  "js_join sep [] = []"
| "js_join sep [x] = x"
| "js_join sep (x # y # ys) = x @ sep @ js_join sep (y # ys)"

fun starts_with :: "string \<Rightarrow> string \<Rightarrow> bool" where
  "starts_with [] s = True"
| "starts_with (p # ps) [] = False"
| "starts_with (p # ps) (x # xs) = (p = x \<and> starts_with ps xs)"

fun str_includes :: "string \<Rightarrow> string \<Rightarrow> bool" where
  "str_includes p [] = (p = [])"
| "str_includes p (x # xs) = (starts_with p (x # xs) \<or> str_includes p xs)"

fun replace_first :: "string \<Rightarrow> string \<Rightarrow> string \<Rightarrow> string" where
  "replace_first p r [] = (if p = [] then r else [])"
| "replace_first p r (x # xs) =
     (if starts_with p (x # xs) then r @ drop (length p) (x # xs)
      else x # replace_first p r xs)"

definition is_space :: "char \<Rightarrow> bool" where
  "is_space c \<longleftrightarrow> c \<in> set [CHR '' '', CHR 0x09, CHR 0x0A, CHR 0x0B, CHR 0x0C, CHR 0x0D, CHR 0xA0]"

definition js_trim :: "string \<Rightarrow> string" where
  "js_trim s = rev (dropWhile is_space (rev (dropWhile is_space s)))"

text \<open>\<open>toLowerCase\<close>, on the ASCII letters.\<close>

definition lower_char :: "char \<Rightarrow> char" where
  "lower_char c = (let n = of_char c :: nat in if 65 \<le> n \<and> n \<le> 90 then char_of (n + 32) else c)"

definition lower :: "string \<Rightarrow> string" where
  "lower s = map lower_char s"

fun digit_char :: "nat \<Rightarrow> char" where
  "digit_char n = char_of (48 + n)"

fun nat_str :: "nat \<Rightarrow> string" where
  "nat_str n = (if n < 10 then [digit_char n] else nat_str (n div 10) @ [digit_char (n mod 10)])"

declare nat_str.simps [simp del]

definition int_str :: "int \<Rightarrow> string" where
  "int_str i = (if i < 0 then CHR ''-'' # nat_str (nat (- i)) else nat_str (nat i))"

text \<open>Reading an array slot: \<open>None\<close> is \<open>undefined\<close>.\<close>

fun slot :: "'a list \<Rightarrow> nat \<Rightarrow> 'a option" where
  "slot [] i = None"
| "slot (x # xs) 0 = Some x"
| "slot (x # xs) (Suc i) = slot xs i"

text \<open>A destructuring default, \<open>const [.., x = d] = ..\<close>.\<close>

definition slot_or :: "'a list \<Rightarrow> nat \<Rightarrow> 'a \<Rightarrow> 'a" where
  "slot_or xs i d = (case slot xs i of None \<Rightarrow> d | Some x \<Rightarrow> x)"

lemma slot_nth: "slot xs i = (if i < length xs then Some (xs ! i) else None)"
  by (induction xs i rule: slot.induct) auto

lemma split_on_nonempty [simp]: "split_on c s \<noteq> []"
  by (induction s) (auto split: list.splits)

lemma split_on_no_sep: "c \<notin> set s \<Longrightarrow> split_on c s = [s]"
  by (induction s) auto

lemma split_on_pieces: "p \<in> set (split_on c s) \<Longrightarrow> c \<notin> set p"
proof (induction s arbitrary: p)
  case Nil
  then show ?case by simp
next
  case (Cons x xs)
  then show ?case by (auto split: if_splits list.splits)
qed

lemma split_on_subset: "p \<in> set (split_on c s) \<Longrightarrow> set p \<subseteq> set s"
proof (induction s arbitrary: p)
  case Nil
  then show ?case by simp
next
  case (Cons x xs)
  obtain y ys where ys: "split_on c xs = y # ys" by (cases "split_on c xs") auto
  with Cons.prems show ?case
    using Cons.IH [of p] Cons.IH [of y] by (auto split: if_splits)
qed

lemma split_on_append:
  "c \<notin> set a \<Longrightarrow> split_on c (a @ c # b) = a # split_on c b"
  by (induction a) (auto split: list.splits)

lemma join_split: "js_join [c] (split_on c s) = s"
proof (induction s)
  case Nil
  then show ?case by simp
next
  case (Cons x xs)
  then show ?case
    by (cases "split_on c xs"; cases "tl (split_on c xs)") (auto split: list.splits)
qed

lemma js_join_Cons: "xs \<noteq> [] \<Longrightarrow> js_join sep (x # xs) = x @ sep @ js_join sep xs"
  by (cases xs) auto

lemma split_join:
  "xs \<noteq> [] \<Longrightarrow> (\<forall>x \<in> set xs. c \<notin> set x) \<Longrightarrow> split_on c (js_join [c] xs) = xs"
proof (induction xs)
  case Nil
  then show ?case by simp
next
  case (Cons x xs)
  then show ?case
    by (cases xs) (auto simp: split_on_no_sep split_on_append)
qed

lemma set_js_join:
  "set (js_join sep xs) \<subseteq> set sep \<union> (\<Union>x \<in> set xs. set x)"
  by (induction sep xs rule: js_join.induct) auto

lemma starts_with_append: "starts_with p s \<longleftrightarrow> (\<exists>t. s = p @ t)"
  by (induction p s rule: starts_with.induct) auto

lemma starts_with_self [simp]: "starts_with p (p @ s)"
  by (simp add: starts_with_append)

lemma includes_iff: "str_includes p s \<longleftrightarrow> (\<exists>a b. s = a @ p @ b)"
proof (induction s)
  case Nil
  then show ?case by simp
next
  case (Cons x xs)
  show ?case
  proof
    assume "str_includes p (x # xs)"
    then consider "starts_with p (x # xs)" | "str_includes p xs" by auto
    then show "\<exists>a b. x # xs = a @ p @ b"
    proof cases
      case 1
      then show ?thesis by (auto simp: starts_with_append intro: exI [of _ "[]"])
    next
      case 2
      then obtain a b where "xs = a @ p @ b" using Cons.IH by auto
      then have "x # xs = (x # a) @ p @ b" by simp
      then show ?thesis by blast
    qed
  next
    assume "\<exists>a b. x # xs = a @ p @ b"
    then obtain a b where ab: "x # xs = a @ p @ b" by blast
    show "str_includes p (x # xs)"
    proof (cases a)
      case Nil
      with ab have "x # xs = p @ b" by simp
      then have "starts_with p (x # xs)" by (auto simp: starts_with_append)
      then show ?thesis by simp
    next
      case (Cons y ys)
      with ab have "xs = ys @ p @ b" by simp
      then show ?thesis using Cons.IH by auto
    qed
  qed
qed

lemma length_nat_str_pos [simp]: "nat_str n \<noteq> []"
  by (subst nat_str.simps) simp

section \<open>Values\<close>

text \<open>
  \<open>Dec\<close> is a number that is not an integer, kept as its decimal literal: the sources pass such
  numbers through (weights, thresholds) and never compute with them.
\<close>

datatype jsval =
    Undef
  | Null
  | Bool bool
  | Num int
  | Dec string
  | Str string
  | Arr "jsval list"
  | Obj "(string \<times> jsval) list"

fun truthy :: "jsval \<Rightarrow> bool" where
  "truthy Undef = False"
| "truthy Null = False"
| "truthy (Bool b) = b"
| "truthy (Num n) = (n \<noteq> 0)"
| "truthy (Dec l) = True"
| "truthy (Str s) = (s \<noteq> [])"
| "truthy (Arr xs) = True"
| "truthy (Obj fs) = True"

fun js_typeof :: "jsval \<Rightarrow> string" where
  "js_typeof Undef = ''undefined''"
| "js_typeof Null = ''object''"
| "js_typeof (Bool b) = ''boolean''"
| "js_typeof (Num n) = ''number''"
| "js_typeof (Dec l) = ''number''"
| "js_typeof (Str s) = ''string''"
| "js_typeof (Arr xs) = ''object''"
| "js_typeof (Obj fs) = ''object''"

text \<open>What a template literal and \<open>Array.prototype.join\<close> make of a value.\<close>

fun to_str :: "jsval \<Rightarrow> string"
  and join_vals :: "jsval list \<Rightarrow> string" where
  "to_str Undef = ''undefined''"
| "to_str Null = ''null''"
| "to_str (Bool b) = (if b then ''true'' else ''false'')"
| "to_str (Num n) = int_str n"
| "to_str (Dec l) = l"
| "to_str (Str s) = s"
| "to_str (Arr xs) = join_vals xs"
| "to_str (Obj fs) = ''[object Object]''"
| "join_vals [] = []"
| "join_vals [x] = (if x \<in> {Undef, Null} then [] else to_str x)"
| "join_vals (x # y # ys) =
     (if x \<in> {Undef, Null} then [] else to_str x) @ '','' @ join_vals (y # ys)"

text \<open>\<open>a || b\<close>.\<close>

definition js_or :: "jsval \<Rightarrow> jsval \<Rightarrow> jsval" where
  "js_or a b = (if truthy a then a else b)"

text \<open>Reading a property: a primitive other than \<open>undefined\<close> and \<open>null\<close> has none of its own.\<close>

definition field :: "jsval \<Rightarrow> string \<Rightarrow> jsval" where
  "field v k = (case v of Obj fs \<Rightarrow> (case map_of fs k of None \<Rightarrow> Undef | Some x \<Rightarrow> x) | _ \<Rightarrow> Undef)"

text \<open>A destructuring default replaces \<open>undefined\<close> only.\<close>

definition with_default :: "jsval \<Rightarrow> jsval \<Rightarrow> jsval" where
  "with_default v d = (if v = Undef then d else v)"

text \<open>\<open>Object.assign\<close> of the fields of the second list into the first.\<close>

definition assign :: "('k \<times> 'v) list \<Rightarrow> ('k \<times> 'v) list \<Rightarrow> ('k \<times> 'v) list" where
  "assign a b = fold (\<lambda>(k, v). AList.update k v) b a"

text \<open>The own enumerable properties that \<open>Object.assign\<close> copies from a value.\<close>

fun indexed :: "nat \<Rightarrow> jsval list \<Rightarrow> (string \<times> jsval) list" where
  "indexed n [] = []"
| "indexed n (x # xs) = (nat_str n, x) # indexed (Suc n) xs"

definition own_fields :: "jsval \<Rightarrow> (string \<times> jsval) list" where
  "own_fields v = (case v of Obj fs \<Rightarrow> fs | Arr xs \<Rightarrow> indexed 0 xs
     | Str s \<Rightarrow> indexed 0 (map (\<lambda>c. Str [c]) s) | _ \<Rightarrow> [])"

text \<open>\<open>getParams(..) || ''\<close> and \<open>localStorage.getItem(..) || ''\<close>.\<close>

definition or_empty :: "string option \<Rightarrow> string" where
  "or_empty m = (case m of None \<Rightarrow> [] | Some s \<Rightarrow> s)"

text \<open>A nullable string in a template literal.\<close>

definition null_str :: "string option \<Rightarrow> string" where
  "null_str m = (case m of None \<Rightarrow> ''null'' | Some s \<Rightarrow> s)"

lemma or_empty_simps [simp]: "or_empty None = []" "or_empty (Some s) = s"
  by (simp_all add: or_empty_def)

lemma null_str_simps [simp]: "null_str None = ''null''" "null_str (Some s) = s"
  by (simp_all add: null_str_def)

lemma field_Obj [simp]: "field (Obj fs) k = (case map_of fs k of None \<Rightarrow> Undef | Some x \<Rightarrow> x)"
  by (simp add: field_def)

lemma field_update: "field (Obj (AList.update k v fs)) j = (if j = k then v else field (Obj fs) j)"
  by (simp add: AList.update_conv')

lemma assign_Nil [simp]: "assign a [] = a"
  by (simp add: assign_def)

lemma assign_Cons [simp]: "assign a ((k, v) # b) = assign (AList.update k v a) b"
  by (simp add: assign_def)

lemma map_of_assign: "map_of (assign a b) k = (case map_of (rev b) k of None \<Rightarrow> map_of a k | Some v \<Rightarrow> Some v)"
proof (induction b arbitrary: a)
  case Nil
  then show ?case by simp
next
  case (Cons p b)
  then show ?case
    by (cases p) (auto simp: AList.update_conv' map_add_def split: option.splits)
qed

lemma distinct_assign: "distinct (map fst a) \<Longrightarrow> distinct (map fst (assign a b))"
proof (induction b arbitrary: a)
  case Nil
  then show ?case by simp
next
  case (Cons p b)
  then show ?case by (cases p) (simp add: distinct_update)
qed

end
