(* ===== verification/Js_Effects.thy ===== *)
theory Js_Effects
  imports Js_Prelude
begin

text \<open>
  Statements: state passing with visible effects and exceptions, and the life of an ajax call.

  An \<open>effect\<close> is what a handler does to the world outside the state of its component: a
  navigation, a dialog, a notification, a request that leaves, a call of a function it was given.
  The continuations of a request (\<open>success\<close>, \<open>error\<close>, \<open>complete\<close>) are statements of their own,
  run when the response arrives: \<open>settle\<close> runs them in jQuery's order.
\<close>

datatype js_error = URIError | SyntaxError | TypeError

datatype effect =
    Push string
  | GoBack
  | OpenWindow string
  | Alert string string
  | Confirm string
  | HideDialog
  | MsgError string
  | MsgSuccess string
  | Ajax string string "(string \<times> jsval) list"
  | Call string "jsval list"
  | GoLogin

text \<open>\<open>Ajax method url data\<close> is a request handed to the transport.\<close>

type_synonym 's stmt = "'s \<Rightarrow> 's \<times> effect list \<times> js_error option"

fun block :: "'s stmt list \<Rightarrow> 's stmt" where
  "block [] s = (s, [], None)"
| "block (a # as) s =
     (case a s of
        (s1, e1, Some x) \<Rightarrow> (s1, e1, Some x)
      | (s1, e1, None) \<Rightarrow> (case block as s1 of (s2, e2, x) \<Rightarrow> (s2, e1 @ e2, x)))"

definition skip :: "'s stmt" where
  "skip s = (s, [], None)"

definition modify :: "('s \<Rightarrow> 's) \<Rightarrow> 's stmt" where
  "modify f s = (f s, [], None)"

definition emit :: "('s \<Rightarrow> effect) \<Rightarrow> 's stmt" where
  "emit f s = (s, [f s], None)"

definition throw :: "js_error \<Rightarrow> 's stmt" where
  "throw x s = (s, [], Some x)"

definition cond :: "('s \<Rightarrow> bool) \<Rightarrow> 's stmt \<Rightarrow> 's stmt \<Rightarrow> 's stmt" where
  "cond c a b s = (if c s then a s else b s)"

definition with_state :: "('s \<Rightarrow> 's stmt) \<Rightarrow> 's stmt" where
  "with_state f s = f s s"

definition state_of :: "'s \<times> effect list \<times> js_error option \<Rightarrow> 's" where
  "state_of r = fst r"

definition effects_of :: "'s \<times> effect list \<times> js_error option \<Rightarrow> effect list" where
  "effects_of r = fst (snd r)"

definition error_of :: "'s \<times> effect list \<times> js_error option \<Rightarrow> js_error option" where
  "error_of r = snd (snd r)"

lemmas stmt_defs = skip_def modify_def emit_def throw_def cond_def with_state_def

lemma outcome_simps [simp]:
  "state_of (s, e, x) = s" "effects_of (s, e, x) = e" "error_of (s, e, x) = x"
  by (simp_all add: state_of_def effects_of_def error_of_def)

lemma block_append:
  "block (as @ bs) s =
     (case block as s of
        (s1, e1, Some x) \<Rightarrow> (s1, e1, Some x)
      | (s1, e1, None) \<Rightarrow> (case block bs s1 of (s2, e2, x) \<Rightarrow> (s2, e1 @ e2, x)))"
  by (induction as arbitrary: s) (auto split: prod.splits option.splits)

section \<open>Keeping an invariant\<close>

definition preserves :: "('s \<Rightarrow> bool) \<Rightarrow> 's stmt \<Rightarrow> bool" where
  "preserves P a \<longleftrightarrow> (\<forall>s. P s \<longrightarrow> P (state_of (a s)))"

lemma preservesI: "(\<And>s. P s \<Longrightarrow> P (state_of (a s))) \<Longrightarrow> preserves P a"
  by (simp add: preserves_def)

lemma preservesD: "preserves P a \<Longrightarrow> P s \<Longrightarrow> P (state_of (a s))"
  by (simp add: preserves_def)

lemma preserves_skip [preserves_intros]: "preserves P skip"
  by (simp add: preserves_def skip_def)

lemma preserves_emit [preserves_intros]: "preserves P (emit f)"
  by (simp add: preserves_def emit_def)

lemma preserves_throw [preserves_intros]: "preserves P (throw x)"
  by (simp add: preserves_def throw_def)

lemma preserves_modify [preserves_intros]:
  "(\<And>s. P s \<Longrightarrow> P (f s)) \<Longrightarrow> preserves P (modify f)"
  by (simp add: preserves_def modify_def)

lemma preserves_cond [preserves_intros]:
  "preserves P a \<Longrightarrow> preserves P b \<Longrightarrow> preserves P (cond c a b)"
  by (simp add: preserves_def cond_def)

lemma preserves_with_state [preserves_intros]:
  "(\<And>s. preserves P (f s)) \<Longrightarrow> preserves P (with_state f)"
  by (simp add: preserves_def with_state_def)

lemma preserves_if [preserves_intros]: "preserves P a \<Longrightarrow> preserves P b \<Longrightarrow> preserves P (if c then a else b)"
  by simp

lemma preserves_block_Nil [preserves_intros]: "preserves P (block [])"
  by (simp add: preserves_def)

lemma preserves_block_Cons [preserves_intros]:
  assumes "preserves P a" and "preserves P (block as)"
  shows "preserves P (block (a # as))"
proof (rule preservesI)
  fix s assume "P s"
  obtain s1 e1 x1 where a: "a s = (s1, e1, x1)" by (cases "a s")
  have s1: "P s1" using preservesD [OF assms(1) \<open>P s\<close>] a by simp
  show "P (state_of (block (a # as) s))"
  proof (cases x1)
    case None
    obtain s2 e2 x2 where b: "block as s1 = (s2, e2, x2)" by (cases "block as s1")
    have "P s2" using preservesD [OF assms(2) s1] b by simp
    then show ?thesis using a b None by simp
  next
    case (Some x)
    then show ?thesis using a s1 by simp
  qed
qed

lemma preserves_block: "(\<And>a. a \<in> set as \<Longrightarrow> preserves P a) \<Longrightarrow> preserves P (block as)"
  by (induction as) (auto intro: preserves_intros)

text \<open>A run of a component: the statements the environment makes it execute, one after the other;
  an exception ends the statement that raised it, not the component.\<close>

fun run :: "'s stmt list \<Rightarrow> 's \<Rightarrow> 's" where
  "run [] s = s"
| "run (a # as) s = run as (state_of (a s))"

lemma run_append: "run (as @ bs) s = run bs (run as s)"
  by (induction as arbitrary: s) simp_all

lemma run_preserves: "(\<And>a. a \<in> set as \<Longrightarrow> preserves P a) \<Longrightarrow> P s \<Longrightarrow> P (run as s)"
  by (induction as arbitrary: s) (auto dest: preservesD)

section \<open>The life of an ajax call\<close>

text \<open>
  jQuery runs the \<open>success\<close> or the \<open>error\<close> callback and then \<open>complete\<close>, all three in one go when the
  response has arrived; an exception of the first stops the second.
\<close>

datatype 'r response = Success 'r | Failure jsval

definition settle ::
  "('r \<Rightarrow> 's stmt) \<Rightarrow> (jsval \<Rightarrow> 's stmt) \<Rightarrow> 's stmt \<Rightarrow> 'r response \<Rightarrow> 's stmt" where
  "settle succ err compl r =
     block [case r of Success x \<Rightarrow> succ x | Failure e \<Rightarrow> err e, compl]"

lemma preserves_settle [preserves_intros]:
  "(\<And>x. preserves P (succ x)) \<Longrightarrow> (\<And>e. preserves P (err e)) \<Longrightarrow> preserves P compl \<Longrightarrow>
   preserves P (settle succ err compl r)"
  unfolding settle_def by (intro preserves_intros) (auto split: response.split)

text \<open>
  The contract between a page and its loading overlay: the indicator is raised by what the page
  runs before it sends and lowered by what it runs last.
\<close>

locale ajax_call =
  fixes loading :: "'s \<Rightarrow> bool"
    and before :: "'s stmt"
    and succ :: "'r \<Rightarrow> 's stmt"
    and err :: "jsval \<Rightarrow> 's stmt"
    and compl :: "'s stmt"
  assumes before_raises: "loading (state_of (before s))"
    and before_ok: "error_of (before s) = None"
    and compl_lowers: "\<not> loading (state_of (compl s))"
    and compl_ok: "error_of (compl s) = None"
begin

lemma settle_lowers:
  assumes "error_of (settle succ err compl r s) = None"
  shows "\<not> loading (state_of (settle succ err compl r s))"
proof -
  let ?a = "case r of Success x \<Rightarrow> succ x | Failure e \<Rightarrow> err e"
  obtain s1 e1 x1 where a: "?a s = (s1, e1, x1)" by (cases "?a s")
  obtain s2 e2 x2 where c: "compl s1 = (s2, e2, x2)" by (cases "compl s1")
  have "\<not> loading s2" and "x2 = None"
    using compl_lowers [of s1] compl_ok [of s1] c by simp_all
  with a c assms show ?thesis
    by (cases x1) (simp_all add: settle_def)
qed

lemma settle_error_iff:
  "error_of (settle succ err compl r s) = None \<longleftrightarrow>
   error_of ((case r of Success x \<Rightarrow> succ x | Failure e \<Rightarrow> err e) s) = None"
proof -
  let ?a = "case r of Success x \<Rightarrow> succ x | Failure e \<Rightarrow> err e"
  obtain s1 e1 x1 where a: "?a s = (s1, e1, x1)" by (cases "?a s")
  obtain s2 e2 x2 where c: "compl s1 = (s2, e2, x2)" by (cases "compl s1")
  have "x2 = None" using compl_ok [of s1] c by simp
  with a c show ?thesis by (cases x1) (simp_all add: settle_def)
qed

end

text \<open>A call whose continuations never raise leaves the page without its overlay, whatever arrives.\<close>

locale safe_ajax_call = ajax_call +
  assumes succ_ok: "error_of (succ x s) = None"
    and err_ok: "error_of (err e s) = None"
begin

lemma settle_safe: "error_of (settle succ err compl r s) = None"
  unfolding settle_error_iff by (cases r) (simp_all add: succ_ok err_ok)

lemma settle_done: "\<not> loading (state_of (settle succ err compl r s))"
  by (rule settle_lowers) (rule settle_safe)

end

section \<open>Promises\<close>

text \<open>\<open>p.then(f).catch(g)\<close> once \<open>p\<close> has settled (\<open>None\<close>: rejected); \<open>g\<close> also takes over what \<open>f\<close>
  raises.  Without a \<open>catch\<close> the rejection ends the chain and is visible to nobody.\<close>

definition then_catch :: "('r \<Rightarrow> 's stmt) \<Rightarrow> 's stmt \<Rightarrow> 'r option \<Rightarrow> 's stmt" where
  "then_catch f g r s =
     (case r of
        None \<Rightarrow> g s
      | Some x \<Rightarrow>
          (case f x s of
             (s1, e1, None) \<Rightarrow> (s1, e1, None)
           | (s1, e1, Some e) \<Rightarrow> (case g s1 of (s2, e2, y) \<Rightarrow> (s2, e1 @ e2, y))))"

definition then_only :: "('r \<Rightarrow> 's stmt) \<Rightarrow> 'r option \<Rightarrow> 's stmt" where
  "then_only f r s = (case r of None \<Rightarrow> (s, [], None) | Some x \<Rightarrow> f x s)"

lemma then_catch_None [simp]: "then_catch f g None s = g s"
  by (simp add: then_catch_def)

lemma then_catch_ok: "f x s = (s1, e1, None) \<Longrightarrow> then_catch f g (Some x) s = (s1, e1, None)"
  by (simp add: then_catch_def)

lemma then_only_simps [simp]: "then_only f None s = (s, [], None)" "then_only f (Some x) s = f x s"
  by (simp_all add: then_only_def)

lemma preserves_then_only [preserves_intros]:
  "(\<And>x. preserves P (f x)) \<Longrightarrow> preserves P (then_only f r)"
  by (cases r) (simp_all add: preserves_def)

end
