(* ===== verification/Event_Bus.thy ===== *)
theory Event_Bus
  imports Js_Effects
begin

text \<open>
  \<open>nacosEvent\<close> and \<open>nacosUtils\<close> of \<open>src/console-ui/src/globalLib.js\<close>: the publish/subscribe
  object of the console and the counter behind its loading overlay.

  A callback is a value of a type \<open>'c\<close>; the record \<open>'c callbacks\<close> says which of them are functions
  and what each does to the bus when it is called, so a callback may register, remove and trigger
  while an event is being delivered.  Deliveries can nest without bound; the executor spends one unit
  of fuel per level and \<open>None\<close> means it ran out: \<open>exec_ops_mono\<close> shows that more fuel never changes
  an outcome, \<open>exec_ops_quiet\<close> that one level is enough when callbacks do not trigger.
\<close>

section \<open>The bus\<close>

datatype 'c entry = Entry (callback: 'c) (only_once: bool)

text \<open>\<open>eventListObj\<close>, where absent and \<open>null\<close> are both \<open>None\<close>, and the unread messages of
  \<open>ignoreEventListObj\<close>, oldest first.\<close>

record 'c bus =
  event_list :: "string \<Rightarrow> 'c entry list option"
  unread :: "string \<Rightarrow> jsval list list"

datatype 'c bus_op =
    Listen string "'c option" bool
  | ListenAllTask string "'c option" bool
  | Trigger string "jsval list"
  | Remove string "'c option"

record 'c callbacks =
  is_function :: "'c \<Rightarrow> bool"
  body :: "'c \<Rightarrow> jsval list \<Rightarrow> 'c bus_op list"

definition empty_bus :: "'c bus" where
  "empty_bus = \<lparr>event_list = (\<lambda>_. None), unread = (\<lambda>_. [])\<rparr>"

definition listen :: "string \<Rightarrow> 'c option \<Rightarrow> bool \<Rightarrow> 'c bus \<Rightarrow> 'c bus" where
  "listen name cb one b =
     (case cb of
        None \<Rightarrow> b
      | Some f \<Rightarrow>
          if name = [] then b
          else
            (let old = (case event_list b name of None \<Rightarrow> [] | Some es \<Rightarrow> es)
             in b\<lparr>event_list := (event_list b)(name := Some (old @ [Entry f one]))\<rparr>))"

definition once :: "string \<Rightarrow> 'c option \<Rightarrow> 'c bus_op" where
  "once name cb = Listen name cb True"

definition remove_listener :: "string \<Rightarrow> 'c option \<Rightarrow> 'c bus \<Rightarrow> 'c bus" where
  "remove_listener name cb b =
     (case (if name = [] then None else event_list b name) of
        None \<Rightarrow> b
      | Some es \<Rightarrow>
          (case cb of
             None \<Rightarrow> b\<lparr>event_list := (event_list b)(name := None)\<rparr>
           | Some f \<Rightarrow>
               (let new = filter (\<lambda>e. callback e \<noteq> f) es in
                b\<lparr>event_list := (event_list b)(name := if new = [] then None else Some new)\<rparr>)))"

text \<open>The message is kept for a later subscriber.\<close>

definition keep_unread :: "string \<Rightarrow> jsval list \<Rightarrow> 'c bus \<Rightarrow> 'c bus" where
  "keep_unread name args b = b\<lparr>unread := (unread b)(name := unread b name @ [args])\<rparr>"

text \<open>The listeners that stay after a delivery.\<close>

definition kept :: "'c callbacks \<Rightarrow> 'c entry list \<Rightarrow> 'c entry list" where
  "kept cs es = filter (\<lambda>e. is_function cs (callback e) \<and> \<not> only_once e) es"

type_synonym 'c trace = "('c \<times> jsval list) list"

text \<open>
  \<open>fire\<close> is the \<open>forEach\<close> over the listeners that were registered when the delivery started: what a
  callback pushes onto the list meanwhile is not visited, and the list is replaced at the end.
\<close>

function exec_op :: "'c callbacks \<Rightarrow> nat \<Rightarrow> 'c bus_op \<Rightarrow> 'c bus \<Rightarrow> ('c bus \<times> 'c trace) option"
  and exec_ops :: "'c callbacks \<Rightarrow> nat \<Rightarrow> 'c bus_op list \<Rightarrow> 'c bus \<Rightarrow> ('c bus \<times> 'c trace) option"
  and fire :: "'c callbacks \<Rightarrow> nat \<Rightarrow> 'c entry list \<Rightarrow> jsval list \<Rightarrow> 'c bus \<Rightarrow> ('c bus \<times> 'c trace) option"
where
  "exec_op cs n (Listen name cb one) b = Some (listen name cb one b, [])"
| "exec_op cs n (Remove name cb) b = Some (remove_listener name cb b, [])"
| "exec_op cs n (ListenAllTask name cb one) b =
     (if name = [] then Some (b, [])
      else
        (let b1 = listen name cb one b in
         if unread b1 name = [] then Some (b1, [])
         else exec_op cs n (Trigger name (last (unread b1 name)))
                (b1\<lparr>unread := (unread b1)(name := butlast (unread b1 name))\<rparr>)))"
| "exec_op cs n (Trigger name args) b =
     (case event_list b name of
        None \<Rightarrow> Some (keep_unread name args b, [])
      | Some es \<Rightarrow>
          (case n of
             0 \<Rightarrow> None
           | Suc m \<Rightarrow>
               (case fire cs m es args b of
                  None \<Rightarrow> None
                | Some (b1, t) \<Rightarrow>
                    Some (b1\<lparr>event_list := (event_list b1)(name := Some (kept cs es))\<rparr>, t))))"
| "exec_ops cs n [] b = Some (b, [])"
| "exec_ops cs n (op # ops) b =
     (case exec_op cs n op b of
        None \<Rightarrow> None
      | Some (b1, t1) \<Rightarrow>
          (case exec_ops cs n ops b1 of None \<Rightarrow> None | Some (b2, t2) \<Rightarrow> Some (b2, t1 @ t2)))"
| "fire cs n [] args b = Some (b, [])"
| "fire cs n (e # es) args b =
     (if \<not> is_function cs (callback e) then fire cs n es args b
      else
        (case exec_ops cs n (body cs (callback e) args) b of
           None \<Rightarrow> None
         | Some (b1, t1) \<Rightarrow>
             (case fire cs n es args b1 of
                None \<Rightarrow> None
              | Some (b2, t2) \<Rightarrow> Some (b2, (callback e, args) # t1 @ t2))))"
  by pat_completeness auto
termination
  by (relation "inv_image (less_than <*lex*> less_than <*lex*> less_than)
    (\<lambda>x. case x of
       Inl (cs, n, op, b) \<Rightarrow>
         (n, 0, case op of ListenAllTask _ _ _ \<Rightarrow> 1 | Listen _ _ _ \<Rightarrow> 0 | Trigger _ _ \<Rightarrow> 0 | Remove _ _ \<Rightarrow> 0)
     | Inr (Inl (cs, n, ops, b)) \<Rightarrow> (n, 1, length ops)
     | Inr (Inr (cs, n, es, args, b)) \<Rightarrow> (n, 2, length es))") auto

section \<open>Fuel\<close>

lemma exec_mono:
  "exec_op cs n op b = Some r \<Longrightarrow> n \<le> m \<Longrightarrow> exec_op cs m op b = Some r"
  "exec_ops cs n ops b = Some r \<Longrightarrow> n \<le> m \<Longrightarrow> exec_ops cs m ops b = Some r"
  "fire cs n es args b = Some r \<Longrightarrow> n \<le> m \<Longrightarrow> fire cs m es args b = Some r"
proof (induction cs n op b and cs n ops b and cs n es args b
    arbitrary: m r and m r and m r rule: exec_op_exec_ops_fire.induct)
  case (3 cs n name cb one b)
  let ?b = "listen name cb one b"
  show ?case
  proof (cases "name = [] \<or> unread ?b name = []")
    case True
    with "3.prems" show ?thesis by (auto simp: Let_def)
  next
    case False
    with "3.prems"(1) have t: "exec_op cs n (Trigger name (last (unread ?b name)))
        (?b\<lparr>unread := (unread ?b)(name := butlast (unread ?b name))\<rparr>) = Some r"
      by (simp add: Let_def del: exec_op.simps(4))
    with "3.IH" [OF _ refl _ t "3.prems"(2)] False show ?thesis
      by (simp add: Let_def del: exec_op.simps(4))
  qed
next
  case (4 cs n name args b)
  show ?case
  proof (cases "event_list b name")
    case None
    with "4.prems" show ?thesis by simp
  next
    case (Some es)
    with "4.prems"(1) obtain k b1 t where n: "n = Suc k" and f: "fire cs k es args b = Some (b1, t)"
      by (auto split: nat.splits option.splits)
    from "4.prems"(2) n obtain j where m: "m = Suc j" and "k \<le> j" by (cases m) auto
    from "4.IH" [OF Some n f \<open>k \<le> j\<close>] have "fire cs j es args b = Some (b1, t)" .
    with "4.prems"(1) Some n m f show ?thesis by simp
  qed
next
  case (6 cs n op ops b)
  from "6.prems"(1) obtain b1 t1 b2 t2 where o: "exec_op cs n op b = Some (b1, t1)"
    and os: "exec_ops cs n ops b1 = Some (b2, t2)" and r: "r = (b2, t1 @ t2)"
    by (auto split: option.splits)
  from "6.IH"(1) [OF o "6.prems"(2)] "6.IH"(2) [OF o _ os "6.prems"(2)] r
  show ?case by simp
next
  case (8 cs n e es args b)
  show ?case
  proof (cases "is_function cs (callback e)")
    case False
    with "8.prems"(1) have "fire cs n es args b = Some r" by simp
    from "8.IH"(1) [OF False this "8.prems"(2)] False show ?thesis by simp
  next
    case True
    with "8.prems"(1) obtain b1 t1 b2 t2 where
      o: "exec_ops cs n (body cs (callback e) args) b = Some (b1, t1)"
      and f: "fire cs n es args b1 = Some (b2, t2)"
      and r: "r = (b2, (callback e, args) # t1 @ t2)"
      by (auto split: option.splits)
    from True have nn: "\<not> \<not> is_function cs (callback e)" by simp
    from "8.IH"(2) [OF nn o "8.prems"(2)] "8.IH"(3) [OF nn o _ f "8.prems"(2)] r True
    show ?thesis by simp
  qed
qed simp_all

lemmas exec_ops_mono = exec_mono(2)

text \<open>Operations that deliver nothing.\<close>

fun silent :: "'c bus_op \<Rightarrow> bool" where
  "silent (Listen name cb one) = True"
| "silent (Remove name cb) = True"
| "silent (ListenAllTask name cb one) = False"
| "silent (Trigger name args) = False"

lemma exec_ops_silent:
  "list_all silent ops \<Longrightarrow> \<exists>b'. exec_ops cs n ops b = Some (b', []) \<and> unread b' = unread b"
proof (induction ops arbitrary: b)
  case Nil
  then show ?case by simp
next
  case (Cons op ops)
  then obtain b1 where one: "exec_op cs n op b = Some (b1, [])" "unread b1 = unread b"
    by (cases op) (auto simp: listen_def remove_listener_def Let_def split: option.splits)
  from Cons obtain b2 where "exec_ops cs n ops b1 = Some (b2, [])" "unread b2 = unread b1" by auto
  with one show ?case by simp
qed

text \<open>The calls a delivery makes.\<close>

definition delivery :: "'c callbacks \<Rightarrow> 'c entry list \<Rightarrow> jsval list \<Rightarrow> 'c trace" where
  "delivery cs es args =
     map (\<lambda>e. (callback e, args)) (filter (\<lambda>e. is_function cs (callback e)) es)"

lemma fire_silent:
  assumes "\<And>c. list_all silent (body cs c args)"
  shows "\<exists>b'. fire cs n es args b = Some (b', delivery cs es args) \<and> unread b' = unread b"
proof (induction es arbitrary: b)
  case Nil
  then show ?case by (simp add: delivery_def)
next
  case (Cons e es)
  obtain b1 where "exec_ops cs n (body cs (callback e) args) b = Some (b1, [])"
    and "unread b1 = unread b"
    using exec_ops_silent [OF assms] by blast
  moreover obtain b2 where "fire cs n es args b1 = Some (b2, delivery cs es args)"
    and "unread b2 = unread b1"
    using Cons.IH by blast
  moreover obtain b3 where "fire cs n es args b = Some (b3, delivery cs es args)"
    and "unread b3 = unread b"
    using Cons.IH by blast
  ultimately show ?case by (auto simp: delivery_def)
qed

lemma trigger_silent:
  assumes "\<And>c. list_all silent (body cs c args)" and "event_list b name = Some es"
  shows "\<exists>b'. exec_op cs (Suc n) (Trigger name args) b = Some (b', delivery cs es args)
    \<and> event_list b' name = Some (kept cs es) \<and> unread b' = unread b"
proof -
  from fire_silent [OF assms(1), of n es b] obtain b1 where
    "fire cs n es args b = Some (b1, delivery cs es args)" and "unread b1 = unread b"
    by blast
  with assms(2) show ?thesis by simp
qed

lemma delivery_kept: "delivery cs (kept cs es) a = map (\<lambda>e. (callback e, a)) (kept cs es)"
  by (auto simp: delivery_def kept_def intro!: arg_cong [where f = "map _"] filter_cong)

lemma kept_kept [simp]: "kept cs (kept cs es) = kept cs es"
  by (simp add: kept_def)

lemma exec_ops_quiet:
  assumes quiet: "\<And>c a. list_all silent (body cs c a)" and "event_list b name = Some es"
    and "kept cs es = es"
  shows "\<exists>b'. exec_ops cs (Suc n) (map (Trigger name) argss) b =
    Some (b', concat (map (\<lambda>a. map (\<lambda>e. (callback e, a)) es) argss))"
  using assms(2)
proof (induction argss arbitrary: b)
  case Nil
  then show ?case by simp
next
  case (Cons a argss)
  obtain b1 where one: "exec_op cs (Suc n) (Trigger name a) b =
      Some (b1, map (\<lambda>e. (callback e, a)) es)" and "event_list b1 name = Some es"
    using trigger_silent [OF quiet Cons.prems, of n a] delivery_kept [of cs es a] assms(3) by auto
  from Cons.IH [OF this(2)] one show ?case by (auto simp del: exec_op.simps)
qed

section \<open>The loading overlay\<close>

text \<open>
  \<open>nacosUtils\<close>: a counter of open requests and the attributes it publishes.  Every operation that
  changes what is shown also triggers \<open>nacosLoadingEvent\<close> with the attributes.
\<close>

record overlay =
  loadingCount :: int
  loadingState :: "(string \<times> jsval) list"

definition initial_overlay :: overlay where
  "initial_overlay = \<lparr>loadingCount = 0, loadingState =
     [(''visible'', Bool False), (''shape'', Str ''flower''), (''tip'', Str ''loading...'')]\<rparr>"

text \<open>The messages an operation publishes, as operations on the bus.\<close>

definition loading_events :: "jsval list \<Rightarrow> 'c bus_op list" where
  "loading_events msgs = map (\<lambda>m. Trigger ''nacosLoadingEvent'' [m]) msgs"

text \<open>\<open>Object.assign(\{\}, loadingCount, obj)\<close>: a number has no properties to copy.\<close>

definition changeLoadingAttr :: "jsval \<Rightarrow> overlay \<Rightarrow> overlay" where
  "changeLoadingAttr obj o1 = (case obj of Obj fs \<Rightarrow> o1\<lparr>loadingState := assign [] fs\<rparr> | _ \<Rightarrow> o1)"

definition publish :: "bool \<Rightarrow> overlay \<Rightarrow> overlay \<times> jsval list" where
  "publish on o1 =
     (let st = assign (loadingState o1) [(''visible'', Bool on), (''spinning'', Bool on)]
      in (o1\<lparr>loadingState := st\<rparr>, [Obj st]))"

definition openLoading :: "overlay \<Rightarrow> overlay \<times> jsval list" where
  "openLoading o1 = publish True (o1\<lparr>loadingCount := loadingCount o1 + 1\<rparr>)"

definition closeLoading :: "overlay \<Rightarrow> overlay \<times> jsval list" where
  "closeLoading o1 =
     (let c = loadingCount o1 - 1 in
      if c \<le> 0 then publish False (o1\<lparr>loadingCount := 0\<rparr>)
      else (o1\<lparr>loadingCount := c\<rparr>, []))"

definition closeAllLoading :: "overlay \<Rightarrow> overlay \<times> jsval list" where
  "closeAllLoading o1 = publish False (o1\<lparr>loadingCount := 0\<rparr>)"

datatype overlay_call = Open | Close | CloseAll

fun overlay_do :: "overlay_call \<Rightarrow> overlay \<Rightarrow> overlay \<times> jsval list" where
  "overlay_do Open o1 = openLoading o1"
| "overlay_do Close o1 = closeLoading o1"
| "overlay_do CloseAll o1 = closeAllLoading o1"

fun overlay_run :: "overlay_call list \<Rightarrow> overlay \<Rightarrow> overlay \<times> jsval list" where
  "overlay_run [] o1 = (o1, [])"
| "overlay_run (x # xs) o1 =
     (case overlay_do x o1 of (o2, ops) \<Rightarrow>
       (case overlay_run xs o2 of (o3, ops') \<Rightarrow> (o3, ops @ ops')))"

definition overlay_visible :: "overlay \<Rightarrow> bool" where
  "overlay_visible o1 = truthy (field (Obj (loadingState o1)) ''visible'')"

definition overlay_inv :: "overlay \<Rightarrow> bool" where
  "overlay_inv o1 \<longleftrightarrow> 0 \<le> loadingCount o1 \<and> (overlay_visible o1 \<longleftrightarrow> 0 < loadingCount o1)"

lemma publish_visible: "overlay_visible (fst (publish on o1)) = on"
  by (simp add: publish_def overlay_visible_def Let_def AList.update_conv')

lemma publish_count [simp]: "loadingCount (fst (publish on o1)) = loadingCount o1"
  by (simp add: publish_def Let_def)

lemma overlay_do_inv:
  assumes "overlay_inv o1"
  shows "overlay_inv (fst (overlay_do x o1))"
proof (cases x)
  case Close
  show ?thesis
  proof (cases "loadingCount o1 - 1 \<le> 0")
    case False
    then have "overlay_visible o1" using assms by (simp add: overlay_inv_def)
    then show ?thesis using False by (simp add: Close closeLoading_def overlay_inv_def overlay_visible_def)
  qed (simp add: Close closeLoading_def overlay_inv_def publish_visible)
qed (use assms in \<open>simp_all add: openLoading_def closeAllLoading_def overlay_inv_def publish_visible\<close>)

text \<open>The count a sequence of calls leads to: closing never goes below zero.\<close>

fun overlay_count :: "overlay_call list \<Rightarrow> int \<Rightarrow> int" where
  "overlay_count [] n = n"
| "overlay_count (Open # xs) n = overlay_count xs (n + 1)"
| "overlay_count (Close # xs) n = overlay_count xs (max 0 (n - 1))"
| "overlay_count (CloseAll # xs) n = overlay_count xs 0"

lemma overlay_run_spec:
  "overlay_inv o1 \<Longrightarrow>
   overlay_inv (fst (overlay_run xs o1)) \<and>
   loadingCount (fst (overlay_run xs o1)) = overlay_count xs (loadingCount o1)"
proof (induction xs arbitrary: o1)
  case Nil
  then show ?case by simp
next
  case (Cons x xs)
  obtain o2 msgs where o2: "overlay_do x o1 = (o2, msgs)" by (cases "overlay_do x o1")
  obtain o3 msgs' where o3: "overlay_run xs o2 = (o3, msgs')" by (cases "overlay_run xs o2")
  have "overlay_inv o2" using overlay_do_inv [OF Cons.prems, of x] o2 by simp
  moreover have "loadingCount o2 =
      (case x of Open \<Rightarrow> loadingCount o1 + 1 | Close \<Rightarrow> max 0 (loadingCount o1 - 1) | CloseAll \<Rightarrow> 0)"
    using o2 by (cases x)
      (auto simp: openLoading_def closeLoading_def closeAllLoading_def Let_def publish_def
        split: if_splits)
  ultimately show ?case using Cons.IH [of o2] o2 o3 by (cases x) (auto simp del: overlay_do.simps)
qed

section \<open>Properties\<close>

text \<open>Delivery: when no callback publishes in turn, an event reaches every registered function, in
  the order of registration and once each, with the arguments of the trigger; afterwards exactly the
  functions that were not registered for a single delivery are left.\<close>

theorem trigger_delivers:
  assumes "\<And>c. list_all silent (body cs c args)" and "event_list b name = Some es"
  shows "\<exists>b'. exec_op cs (Suc n) (Trigger name args) b =
      Some (b', map (\<lambda>e. (callback e, args)) (filter (\<lambda>e. is_function cs (callback e)) es))
    \<and> event_list b' name = Some (filter (\<lambda>e. is_function cs (callback e) \<and> \<not> only_once e) es)"
  using trigger_silent [OF assms, of n] unfolding kept_def delivery_def by blast

theorem trigger_delivers_witness:
  "\<exists>b'. exec_op \<lparr>is_function = (\<lambda>c. c \<noteq> (9::nat)), body = (\<lambda>_ _. [])\<rparr> 1 (Trigger ''e'' [Num 4])
      (listen ''e'' (Some 9) False (listen ''e'' (Some 2) True (listen ''e'' (Some 1) False empty_bus)))
    = Some (b', [(1, [Num 4]), (2, [Num 4])]) \<and> event_list b' ''e'' = Some [Entry 1 False]"
  using trigger_delivers [of "\<lparr>is_function = (\<lambda>c. c \<noteq> (9::nat)), body = (\<lambda>_ _. [])\<rparr>" "[Num 4]"
      "listen ''e'' (Some 9) False (listen ''e'' (Some 2) True (listen ''e'' (Some 1) False empty_bus))"
      "''e''" "[Entry 1 False, Entry 2 True, Entry 9 False]" 0]
  by (simp add: listen_def empty_bus_def)

text \<open>What callbacks do to the listeners of the event that is being delivered is lost: whatever
  they register or remove, after the delivery the listeners are the repeatable ones from before it.\<close>

theorem trigger_overwrites_listeners:
  assumes "exec_op cs n (Trigger name args) b = Some (b', t)" and "event_list b name = Some es"
  shows "event_list b' name = Some (filter (\<lambda>e. is_function cs (callback e) \<and> \<not> only_once e) es)"
  using assms by (auto simp: kept_def split: nat.splits option.splits)

theorem trigger_overwrites_listeners_witness:
  "\<exists>b' t. exec_op \<lparr>is_function = (\<lambda>c. True), body = (\<lambda>c _. if c = 1 then [Listen ''e'' (Some 2) False] else [])\<rparr>
      1 (Trigger ''e'' []) (listen ''e'' (Some (1::nat)) False empty_bus) = Some (b', t)
    \<and> event_list b' ''e'' = Some [Entry 1 False]"
proof -
  let ?cs = "\<lparr>is_function = (\<lambda>c. True),
    body = (\<lambda>c _. if c = 1 then [Listen ''e'' (Some 2) False] else [])\<rparr> :: nat callbacks"
  let ?b = "listen ''e'' (Some (1::nat)) False empty_bus"
  have b: "event_list ?b ''e'' = Some [Entry 1 False]" by (simp add: listen_def empty_bus_def)
  obtain b' t where run: "exec_op ?cs 1 (Trigger ''e'' []) ?b = Some (b', t)"
    by (auto simp: listen_def empty_bus_def)
  from trigger_overwrites_listeners [OF run b] run show ?thesis by auto
qed

text \<open>C32. A callback registered for a single delivery that triggers its own event never returns: it is
  taken off the list only after the delivery, so it is called again inside its own call, whatever
  the depth allowed.\<close>

theorem once_self_trigger_diverges:
  assumes "event_list b name = Some [Entry c True]" and "is_function cs c"
    and "body cs c args = [Trigger name args]"
  shows "exec_op cs n (Trigger name args) b = None"
proof (induction n)
  case 0
  then show ?case using assms(1) by simp
next
  case (Suc n)
  then show ?case using assms by (simp split: option.split)
qed

theorem once_self_trigger_diverges_witness:
  "exec_op \<lparr>is_function = (\<lambda>_. True), body = (\<lambda>_ a. [Trigger ''e'' a])\<rparr> 50 (Trigger ''e'' [])
     (listen ''e'' (Some ()) True empty_bus) = None"
  using once_self_trigger_diverges [of "listen ''e'' (Some ()) True empty_bus" "''e''" "()"
      "\<lparr>is_function = (\<lambda>_. True), body = (\<lambda>_ a. [Trigger ''e'' a])\<rparr>" "[]" 50]
  by (simp add: listen_def empty_bus_def)

text \<open>Subscribing to the backlog delivers one message of it, the newest, and leaves the older ones
  unread.\<close>

theorem listenAllTask_newest:
  assumes "\<And>c a. list_all silent (body cs c a)" and "name \<noteq> []"
    and "event_list b name = None" and "unread b name = old @ [msg]" and "is_function cs f"
  shows "\<exists>b'. exec_op cs (Suc n) (ListenAllTask name (Some f) False) b = Some (b', [(f, msg)])
    \<and> unread b' name = old \<and> event_list b' name = Some [Entry f False]"
proof -
  let ?b = "(listen name (Some f) False b)\<lparr>unread := (unread b)(name := old)\<rparr>"
  have l: "event_list ?b name = Some [Entry f False]"
    using assms(2,3) by (simp add: listen_def)
  have u: "unread (listen name (Some f) False b) = unread b"
    using assms(2) by (simp add: listen_def)
  from trigger_silent [OF assms(1) l, of n msg] assms(5) obtain b' where
    b': "exec_op cs (Suc n) (Trigger name msg) ?b = Some (b', [(f, msg)])"
      "event_list b' name = Some [Entry f False]" "unread b' = unread ?b"
    by (auto simp: delivery_def kept_def)
  then have "exec_op cs (Suc n) (ListenAllTask name (Some f) False) b = Some (b', [(f, msg)])"
    using assms(2,4) u by (simp add: Let_def del: exec_op.simps(4))
  with b' show ?thesis by simp
qed

theorem listenAllTask_newest_witness:
  "\<exists>b'. exec_op \<lparr>is_function = (\<lambda>_. True), body = (\<lambda>_ _. [])\<rparr> 1 (ListenAllTask ''e'' (Some ()) False)
      (keep_unread ''e'' [Num 2] (keep_unread ''e'' [Num 1] empty_bus)) = Some (b', [((), [Num 2])])
    \<and> unread b' ''e'' = [[Num 1]] \<and> event_list b' ''e'' = Some [Entry () False]"
  using listenAllTask_newest [of "\<lparr>is_function = (\<lambda>_. True), body = (\<lambda>_ _. [])\<rparr>" "''e''"
      "keep_unread ''e'' [Num 2] (keep_unread ''e'' [Num 1] empty_bus)" "[[Num 1]]" "[Num 2]" "()" 0]
  by (simp add: keep_unread_def empty_bus_def)

text \<open>C31. The overlay: after any sequence of openings and closings it shows exactly while the counter
  is positive, and the counter is the number of openings not yet closed, a closing too many being
  ignored.\<close>

theorem overlay_counts:
  "loadingCount (fst (overlay_run xs initial_overlay)) = overlay_count xs 0 \<and>
   overlay_visible (fst (overlay_run xs initial_overlay)) = (0 < overlay_count xs 0)"
proof -
  have "overlay_inv initial_overlay"
    by (simp add: overlay_inv_def initial_overlay_def overlay_visible_def)
  moreover have "loadingCount initial_overlay = 0" by (simp add: initial_overlay_def)
  ultimately show ?thesis using overlay_run_spec [of initial_overlay xs]
    by (simp add: overlay_inv_def)
qed

text \<open>Setting an attribute drops the others: the object is rebuilt from the counter, which has no
  properties, instead of from the attributes.\<close>

lemma changeLoadingAttr_drops:
  "field (Obj (loadingState (changeLoadingAttr (Obj [(''tip'', Str ''wait'')]) initial_overlay))) ''shape'' = Undef"
  by (simp add: changeLoadingAttr_def initial_overlay_def)

end
