(* ===== verification/Js_Json.thy ===== *)
theory Js_Json
  imports Js_Prelude
begin

text \<open>
  \<open>JSON.parse\<close> and \<open>JSON.stringify\<close> of the language's standard library, as far as the console
  uses them: a recursive-descent parser of RFC 8259 texts into \<open>jsval\<close>.  \<open>None\<close> is the
  \<open>SyntaxError\<close>.  A code unit above 0xFF written as an escape is represented by a question mark,
  so acceptance is exact and the characters of such strings are not.

  The parser spends one unit of fuel per nested value; \<open>json_parse\<close> starts it with more fuel than
  the text has characters, and \<open>p_val_enough\<close> shows that any such amount gives the same answer.
\<close>

fun skip_ws :: "string \<Rightarrow> string" where
  "skip_ws [] = []"
| "skip_ws (c # s) =
     (if c \<in> set [CHR '' '', CHR 0x09, CHR 0x0A, CHR 0x0D] then skip_ws s else c # s)"

definition is_digit :: "char \<Rightarrow> bool" where
  "is_digit c \<longleftrightarrow> 48 \<le> (of_char c :: nat) \<and> (of_char c :: nat) \<le> 57"

definition is_hex :: "char \<Rightarrow> bool" where
  "is_hex c \<longleftrightarrow> (let n = of_char c :: nat in
     (48 \<le> n \<and> n \<le> 57) \<or> (65 \<le> n \<and> n \<le> 70) \<or> (97 \<le> n \<and> n \<le> 102))"

definition hex_val :: "char \<Rightarrow> nat" where
  "hex_val c = (let n = of_char c :: nat in
     if n \<le> 57 then n - 48 else if n \<le> 70 then n - 55 else n - 87)"

definition code_unit :: "nat \<Rightarrow> char" where
  "code_unit n = (if n < 256 then char_of n else CHR ''?'')"

definition simple_escape :: "char \<Rightarrow> char option" where
  "simple_escape c = map_of
     [(CHR 0x22, CHR 0x22), (CHR 0x5C, CHR 0x5C), (CHR ''/'', CHR ''/''), (CHR ''b'', CHR 0x08),
      (CHR ''f'', CHR 0x0C), (CHR ''n'', CHR 0x0A), (CHR ''r'', CHR 0x0D), (CHR ''t'', CHR 0x09)] c"

text \<open>The next character, when it is the given one.\<close>

fun expect :: "char \<Rightarrow> string \<Rightarrow> string option" where
  "expect c [] = None"
| "expect c (x # s) = (if x = c then Some s else None)"

text \<open>
  An escape after the backslash: its character and the rest.
\<close>

definition p_escape :: "string \<Rightarrow> (char \<times> string) option" where
  "p_escape s =
     (case s of
        [] \<Rightarrow> None
      | x # r \<Rightarrow>
          if x = CHR ''u'' then
            (case r of
               a # b # d # e # t \<Rightarrow>
                 (if list_all is_hex [a, b, d, e]
                  then Some (code_unit
                    (((hex_val a * 16 + hex_val b) * 16 + hex_val d) * 16 + hex_val e), t)
                  else None)
             | _ \<Rightarrow> None)
          else map_option (\<lambda>y. (y, r)) (simple_escape x))"

lemma p_escape_shorter: "p_escape s = Some (c, r) \<Longrightarrow> length r < length s"
  by (auto simp: p_escape_def split: list.splits if_splits)

text \<open>The body of a string literal, up to and past the closing quote.\<close>

function p_str :: "string \<Rightarrow> (string \<times> string) option" where
  "p_str [] = None"
| "p_str (c # s) =
     (if c = CHR 0x22 then Some ([], s)
      else if c = CHR 0x5C then
        (case p_escape s of
           None \<Rightarrow> None
         | Some (y, r) \<Rightarrow> map_option (map_prod ((#) y) id) (p_str r))
      else if (of_char c :: nat) < 32 then None
      else map_option (map_prod ((#) c) id) (p_str s))"
  by pat_completeness auto
termination
  by (relation "measure length") (auto dest: p_escape_shorter)

definition digits :: "string \<Rightarrow> string" where
  "digits s = takeWhile is_digit s"

fun dec_val :: "string \<Rightarrow> nat \<Rightarrow> nat" where
  "dec_val [] n = n"
| "dec_val (c # s) n = dec_val s (n * 10 + (of_char c - 48))"

text \<open>Integer part: a lone zero or digits that do not start with one.\<close>

definition p_int :: "string \<Rightarrow> (string \<times> string) option" where
  "p_int s = (let d = digits s in
     if d = [] then None
     else if hd d = CHR ''0'' then Some (''0'', drop 1 s)
     else Some (d, drop (length d) s))"

definition p_frac :: "string \<Rightarrow> (string \<times> string) option" where
  "p_frac s = (case expect (CHR ''.'') s of
     Some r \<Rightarrow> (let d = digits r in
       if d = [] then None else Some (CHR ''.'' # d, drop (length d) r))
   | None \<Rightarrow> Some ([], s))"

definition p_exp :: "string \<Rightarrow> (string \<times> string) option" where
  "p_exp s = (case s of
     e # r \<Rightarrow>
       if e = CHR ''e'' \<or> e = CHR ''E'' then
         (let sign = (case r of c # _ \<Rightarrow> if c = CHR ''+'' \<or> c = CHR ''-'' then [c] else [] | [] \<Rightarrow> []);
              t = drop (length sign) r; d = digits t
          in if d = [] then None else Some (e # sign @ d, drop (length d) t))
       else Some ([], s)
   | [] \<Rightarrow> Some ([], s))"

text \<open>
  A number without fraction and exponent is an integer; one whose digits are all zero is zero
  whatever its exponent; any other keeps its literal.
\<close>

definition num_val :: "bool \<Rightarrow> string \<Rightarrow> string \<Rightarrow> string \<Rightarrow> jsval" where
  "num_val neg i f e =
     (if f = [] \<and> e = [] then Num (if neg then - int (dec_val i 0) else int (dec_val i 0))
      else if list_all (\<lambda>c. c = CHR ''0'') (i @ drop 1 f) then Num 0
      else Dec ((if neg then ''-'' else []) @ i @ f @ e))"

definition p_num :: "string \<Rightarrow> (jsval \<times> string) option" where
  "p_num s =
     (let neg = starts_with ''-'' s; s0 = (if neg then drop 1 s else s) in
      case p_int s0 of None \<Rightarrow> None
      | Some (i, s1) \<Rightarrow> (case p_frac s1 of None \<Rightarrow> None
      | Some (f, s2) \<Rightarrow> (case p_exp s2 of None \<Rightarrow> None
      | Some (e, s3) \<Rightarrow> Some (num_val neg i f e, s3))))"

definition p_lit :: "string \<Rightarrow> jsval \<Rightarrow> string \<Rightarrow> (jsval \<times> string) option" where
  "p_lit w v s = (if starts_with w s then Some (v, drop (length w) s) else None)"

text \<open>
  Values, the elements after an opening bracket and the members after an opening brace.  The tails
  \<open>p_elems\<close> and \<open>p_members\<close> start at an element or member.
\<close>

fun p_val :: "nat \<Rightarrow> string \<Rightarrow> (jsval \<times> string) option"
  and p_elems :: "nat \<Rightarrow> string \<Rightarrow> (jsval list \<times> string) option"
  and p_members :: "nat \<Rightarrow> string \<Rightarrow> ((string \<times> jsval) list \<times> string) option" where
  "p_val 0 s = None"
| "p_val (Suc n) s =
     (case skip_ws s of
        [] \<Rightarrow> None
      | c # r \<Rightarrow>
          if c = CHR 0x22 then map_option (map_prod Str id) (p_str r)
          else if c = CHR ''{'' then
            (case expect (CHR ''}'') (skip_ws r) of
               Some t \<Rightarrow> Some (Obj [], t)
             | None \<Rightarrow> map_option (map_prod (\<lambda>fs. Obj (assign [] fs)) id) (p_members n r))
          else if c = CHR ''['' then
            (case expect (CHR '']'') (skip_ws r) of
               Some t \<Rightarrow> Some (Arr [], t)
             | None \<Rightarrow> map_option (map_prod Arr id) (p_elems n r))
          else if c = CHR ''t'' then p_lit ''true'' (Bool True) (c # r)
          else if c = CHR ''f'' then p_lit ''false'' (Bool False) (c # r)
          else if c = CHR ''n'' then p_lit ''null'' Null (c # r)
          else p_num (c # r))"
| "p_elems 0 s = None"
| "p_elems (Suc n) s =
     (case p_val n s of
        None \<Rightarrow> None
      | Some (v, r) \<Rightarrow>
          (case skip_ws r of
             [] \<Rightarrow> None
           | c # t \<Rightarrow>
               if c = CHR '','' then map_option (map_prod ((#) v) id) (p_elems n t)
               else if c = CHR '']'' then Some ([v], t) else None))"
| "p_members 0 s = None"
| "p_members (Suc n) s =
     (case Option.bind (expect (CHR 0x22) (skip_ws s)) p_str of
        None \<Rightarrow> None
      | Some (k, r1) \<Rightarrow>
          (case Option.bind (expect (CHR '':'') (skip_ws r1)) (p_val n) of
             None \<Rightarrow> None
           | Some (v, r3) \<Rightarrow>
               (case skip_ws r3 of
                  [] \<Rightarrow> None
                | c # t \<Rightarrow>
                    if c = CHR '','' then map_option (map_prod ((#) (k, v)) id) (p_members n t)
                    else if c = CHR ''}'' then Some ([(k, v)], t) else None)))"

definition json_parse :: "string \<Rightarrow> jsval option" where
  "json_parse s =
     (case p_val (2 * length s + 2) s of
        None \<Rightarrow> None
      | Some (v, r) \<Rightarrow> if skip_ws r = [] then Some v else None)"

section \<open>The fuel is enough\<close>

lemma length_skip_ws: "length (skip_ws s) \<le> length s"
  by (induction s) auto

lemma skip_ws_shorter: "skip_ws s = c # r \<Longrightarrow> length r < length s"
  using length_skip_ws [of s] by simp

lemma expect_shorter: "expect c s = Some r \<Longrightarrow> length r < length s"
  by (cases s) (auto split: if_splits)

lemma expect_ws_shorter: "expect c (skip_ws s) = Some r \<Longrightarrow> length r < length s"
  using expect_shorter [of c "skip_ws s" r] length_skip_ws [of s] by simp

lemma p_str_shorter: "p_str s = Some (v, r) \<Longrightarrow> length r < length s"
proof (induction s arbitrary: v r rule: p_str.induct)
  case 1
  then show ?case by simp
next
  case (2 c s)
  show ?case
  proof (cases "c = CHR 0x5C")
    case True
    with "2.prems" obtain y t v' where esc: "p_escape s = Some (y, t)"
      and t: "p_str t = Some (v', r)"
      by (auto split: option.splits)
    have "length r < length t" using "2.IH"(1) [OF _ True esc _ t] True by simp
    with p_escape_shorter [OF esc] show ?thesis by simp
  next
    case False
    show ?thesis
    proof (cases "c = CHR 0x22")
      case True
      with "2.prems" show ?thesis by simp
    next
      case quote: False
      with False "2.prems" obtain v' where t: "p_str s = Some (v', r)"
        and "\<not> (of_char c :: nat) < 32"
        by (auto split: if_splits)
      then have "length r < length s" using "2.IH"(2) [OF quote False _ t] by simp
      then show ?thesis by simp
    qed
  qed
qed

lemma p_int_shorter: "p_int s = Some (d, r) \<Longrightarrow> length r < length s"
  by (cases s) (auto simp: p_int_def digits_def Let_def split: if_splits)

lemma p_frac_shorter: "p_frac s = Some (d, r) \<Longrightarrow> length r \<le> length s"
  by (auto simp: p_frac_def Let_def split: option.splits if_splits dest!: expect_shorter)

lemma p_exp_shorter: "p_exp s = Some (d, r) \<Longrightarrow> length r \<le> length s"
  by (auto simp: p_exp_def Let_def split: list.splits if_splits)

lemma p_num_shorter: "p_num s = Some (v, r) \<Longrightarrow> length r < length s"
  by (cases s) (auto simp: p_num_def Let_def split: option.splits if_splits
      dest!: p_int_shorter p_frac_shorter p_exp_shorter)

lemma p_lit_shorter: "p_lit w v s = Some (x, r) \<Longrightarrow> w \<noteq> [] \<Longrightarrow> length r < length s"
  by (cases w; cases s) (auto simp: p_lit_def split: if_splits)

lemma p_shorter:
  "(\<forall>s v r. p_val n s = Some (v, r) \<longrightarrow> length r < length s) \<and>
   (\<forall>s v r. p_elems n s = Some (v, r) \<longrightarrow> length r < length s) \<and>
   (\<forall>s v r. p_members n s = Some (v, r) \<longrightarrow> length r < length s)"
proof (induction n)
  case 0
  then show ?case by simp
next
  case (Suc n)
  then have IH: "\<And>s v r. p_val n s = Some (v, r) \<Longrightarrow> length r < length s"
    "\<And>s v r. p_elems n s = Some (v, r) \<Longrightarrow> length r < length s"
    "\<And>s v r. p_members n s = Some (v, r) \<Longrightarrow> length r < length s" by blast+
  have "length r < length s" if "p_val (Suc n) s = Some (v, r)" for s v r
  proof -
    from that obtain c t where ws: "skip_ws s = c # t" by (auto split: list.splits)
    have "length r \<le> length t"
      using that ws by (auto split: if_splits option.splits
          dest!: IH p_str_shorter p_num_shorter p_lit_shorter expect_ws_shorter)
    with skip_ws_shorter [OF ws] show ?thesis by simp
  qed
  moreover have "length r < length s" if "p_elems (Suc n) s = Some (v, r)" for s v r
    using that by (auto split: if_splits option.splits list.splits
        dest!: IH skip_ws_shorter)
  moreover have "length r < length s" if "p_members (Suc n) s = Some (v, r)" for s v r
    using that by (auto split: if_splits option.splits list.splits simp: bind_eq_Some_conv
        dest!: IH skip_ws_shorter expect_ws_shorter p_str_shorter)
  ultimately show ?case by blast
qed

lemma p_enough:
  "(\<forall>s m. 2 * length s < n \<longrightarrow> n \<le> m \<longrightarrow> p_val m s = p_val n s) \<and>
   (\<forall>s m. 2 * length s + 1 < n \<longrightarrow> n \<le> m \<longrightarrow> p_elems m s = p_elems n s) \<and>
   (\<forall>s m. 2 * length s < n \<longrightarrow> n \<le> m \<longrightarrow> p_members m s = p_members n s)"
proof (induction n)
  case 0
  then show ?case by simp
next
  case (Suc n)
  have V: "\<And>s m. 2 * length s < n \<Longrightarrow> n \<le> m \<Longrightarrow> p_val m s = p_val n s"
    and E: "\<And>s m. 2 * length s + 1 < n \<Longrightarrow> n \<le> m \<Longrightarrow> p_elems m s = p_elems n s"
    and M: "\<And>s m. 2 * length s < n \<Longrightarrow> n \<le> m \<Longrightarrow> p_members m s = p_members n s"
    using Suc.IH by blast+
  have S: "\<And>n s v r. p_val n s = Some (v, r) \<Longrightarrow> length r < length s"
    "\<And>n s v r. p_elems n s = Some (v, r) \<Longrightarrow> length r < length s"
    using p_shorter by blast+
  have "p_val (Suc m) s = p_val (Suc n) s" if "2 * length s < Suc n" "n \<le> m" for s m
  proof (cases "skip_ws s")
    case Nil
    then show ?thesis by simp
  next
    case (Cons c t)
    have "length t < length s" by (rule skip_ws_shorter [OF Cons])
    with that have "p_elems m t = p_elems n t" "p_members m t = p_members n t"
      by (auto intro!: E M)
    with Cons show ?thesis by (simp cong: option.case_cong)
  qed
  moreover have "p_elems (Suc m) s = p_elems (Suc n) s"
    if "2 * length s + 1 < Suc n" "n \<le> m" for s m
  proof -
    have v: "p_val m s = p_val n s" using that by (intro V) auto
    have "p_elems m t = p_elems n t" if "p_val n s = Some (v, r)" "skip_ws r = c # t" for v r c t
      using S(1) [OF that(1)] skip_ws_shorter [OF that(2)] \<open>2 * length s + 1 < Suc n\<close> \<open>n \<le> m\<close>
      by (intro E) auto
    then show ?thesis by (simp add: v split: option.split list.split)
  qed
  moreover have "p_members (Suc m) s = p_members (Suc n) s"
    if "2 * length s < Suc n" "n \<le> m" for s m
  proof (cases "Option.bind (expect (CHR 0x22) (skip_ws s)) p_str")
    case None
    then show ?thesis by simp
  next
    case (Some kr)
    obtain k r where kr: "kr = (k, r)" by (cases kr)
    from Some kr have r: "length r + 1 < length s"
      by (auto simp: bind_eq_Some_conv dest!: expect_ws_shorter p_str_shorter)
    have v: "p_val m u = p_val n u" if "expect (CHR '':'') (skip_ws r) = Some u" for u
      using expect_ws_shorter [OF that] r \<open>2 * length s < Suc n\<close> \<open>n \<le> m\<close> by (intro V) auto
    then have b: "Option.bind (expect (CHR '':'') (skip_ws r)) (p_val m)
      = Option.bind (expect (CHR '':'') (skip_ws r)) (p_val n)"
      by (cases "expect (CHR '':'') (skip_ws r)") simp_all
    have "p_members m t = p_members n t"
      if "Option.bind (expect (CHR '':'') (skip_ws r)) (p_val n) = Some (v, r3)"
        "skip_ws r3 = c # t" for v r3 c t
    proof -
      from that(1) have "length r3 < length r"
        by (auto simp: bind_eq_Some_conv dest!: expect_ws_shorter S(1))
      with skip_ws_shorter [OF that(2)] r \<open>2 * length s < Suc n\<close> \<open>n \<le> m\<close>
      show ?thesis by (intro M) auto
    qed
    then show ?thesis by (simp add: Some kr b split: option.split list.split)
  qed
  ultimately have step:
    "\<And>s m. 2 * length s < Suc n \<Longrightarrow> n \<le> m \<Longrightarrow> p_val (Suc m) s = p_val (Suc n) s"
    "\<And>s m. 2 * length s + 1 < Suc n \<Longrightarrow> n \<le> m \<Longrightarrow> p_elems (Suc m) s = p_elems (Suc n) s"
    "\<And>s m. 2 * length s < Suc n \<Longrightarrow> n \<le> m \<Longrightarrow> p_members (Suc m) s = p_members (Suc n) s"
    by blast+
  show ?case
  proof (intro conjI allI impI)
    fix s :: string and m assume a: "2 * length s < Suc n" "Suc n \<le> m"
    from a(2) obtain k where "m = Suc k" and "n \<le> k" by (cases m) auto
    then show "p_val m s = p_val (Suc n) s" and "p_members m s = p_members (Suc n) s"
      using step(1,3) [OF a(1)] by blast+
  next
    fix s :: string and m assume a: "2 * length s + 1 < Suc n" "Suc n \<le> m"
    from a(2) obtain k where "m = Suc k" and "n \<le> k" by (cases m) auto
    then show "p_elems m s = p_elems (Suc n) s"
      using step(2) [OF a(1)] by blast
  qed
qed

lemma p_val_enough:
  assumes "2 * length s < n"
  shows "p_val n s = p_val (2 * length s + 2) s"
proof -
  have e: "p_val m s = p_val (2 * length s + 1) s" if "2 * length s + 1 \<le> m" for m
    using p_enough [of "2 * length s + 1"] that by simp
  show ?thesis using e [of n] e [of "2 * length s + 2"] assms by (simp del: p_val.simps)
qed

section \<open>\<open>JSON.stringify\<close>\<close>

text \<open>
  \<open>ser gap ind v\<close> is the text of \<open>v\<close> at the indentation \<open>ind\<close>; \<open>gap\<close> is the third argument of
  \<open>JSON.stringify\<close>, empty for the compact form.  Members whose value is \<open>undefined\<close> are left out,
  such elements are written as \<open>null\<close>.
\<close>

definition hex_lower :: "nat \<Rightarrow> char" where
  "hex_lower n = (if n < 10 then char_of (48 + n) else char_of (87 + n))"

definition quote_char :: "char \<Rightarrow> string" where
  "quote_char c =
     (case map_of [(CHR 0x22, CHR 0x22), (CHR 0x5C, CHR 0x5C), (CHR 0x08, CHR ''b''),
        (CHR 0x0C, CHR ''f''), (CHR 0x0A, CHR ''n''), (CHR 0x0D, CHR ''r''), (CHR 0x09, CHR ''t'')] c of
        Some e \<Rightarrow> [CHR 0x5C, e]
      | None \<Rightarrow>
          (let n = of_char c :: nat in
           if n < 32 then [CHR 0x5C, CHR ''u'', CHR ''0'', CHR ''0'', hex_lower (n div 16), hex_lower (n mod 16)]
           else [c]))"

definition quote :: "string \<Rightarrow> string" where
  "quote s = CHR 0x22 # concat (map quote_char s) @ [CHR 0x22]"

definition wrap_items :: "string \<Rightarrow> string \<Rightarrow> string \<Rightarrow> string \<Rightarrow> string list \<Rightarrow> string" where
  "wrap_items gap ind l r items =
     (if items = [] then l @ r
      else if gap = [] then l @ js_join '','' items @ r
      else l @ [CHR 0x0A] @ ind @ gap @ js_join ('','' @ [CHR 0x0A] @ ind @ gap) items @ [CHR 0x0A] @ ind @ r)"

fun ser :: "string \<Rightarrow> string \<Rightarrow> jsval \<Rightarrow> string" where
  "ser gap ind Undef = ''null''"
| "ser gap ind Null = ''null''"
| "ser gap ind (Bool b) = (if b then ''true'' else ''false'')"
| "ser gap ind (Num n) = int_str n"
| "ser gap ind (Dec l) = l"
| "ser gap ind (Str s) = quote s"
| "ser gap ind (Arr xs) = wrap_items gap ind ''['' '']'' (map (ser gap (ind @ gap)) xs)"
| "ser gap ind (Obj fs) =
     wrap_items gap ind ''{'' ''}''
       (map (\<lambda>(k, v). quote k @ (if gap = [] then '':'' else '': '') @ ser gap (ind @ gap) v)
         (filter (\<lambda>(k, v). v \<noteq> Undef) fs))"

definition json_stringify :: "string \<Rightarrow> jsval \<Rightarrow> jsval" where
  "json_stringify gap v = (if v = Undef then Undef else Str (ser gap [] v))"

end
