(* ===== verification/Url_Params.thy ===== *)
theory Url_Params
  imports Js_Effects Js_Json
begin

text \<open>
  The address bar as a store of parameters: \<open>getParams\<close>, \<open>setParams\<close>, \<open>setParam\<close> and
  \<open>removeParams\<close> of \<open>src/console-ui/src/globalLib.js\<close>, and the query-string helpers
  \<open>getParameter\<close>, \<open>generateUrl\<close> and \<open>getLink\<close> of \<open>src/console-ui/src/utils/nacosutil.js\<close>.

  \<open>encode_uri\<close> and \<open>decode_uri\<close> are \<open>encodeURIComponent\<close> and \<open>decodeURIComponent\<close> of the
  language on code units below 256 (a decoded code point above is represented by a question mark,
  as in the JSON reader).  The page's windows are the record \<open>win\<close>.  The last sections show that
  on a canonical address the three operations are lookup, update and deletion of an association
  list, and state this as an interpretation of the locale \<open>param_store\<close>.
\<close>

section \<open>Percent encoding\<close>

definition hex_digit :: "nat \<Rightarrow> char" where
  "hex_digit n = (if n < 10 then char_of (48 + n) else char_of (55 + n))"

definition pct :: "nat \<Rightarrow> string" where
  "pct n = [CHR ''%'', hex_digit (n div 16), hex_digit (n mod 16)]"

definition uri_unreserved :: "char \<Rightarrow> bool" where
  "uri_unreserved c \<longleftrightarrow> (let n = of_char c :: nat in
     (48 \<le> n \<and> n \<le> 57) \<or> (65 \<le> n \<and> n \<le> 90) \<or> (97 \<le> n \<and> n \<le> 122)
     \<or> c \<in> set [CHR ''-'', CHR ''_'', CHR ''.'', CHR ''!'', CHR ''~'', CHR ''*'', CHR 0x27,
                CHR ''('', CHR '')''])"

definition enc_char :: "char \<Rightarrow> string" where
  "enc_char c = (let n = of_char c :: nat in
     if uri_unreserved c then [c]
     else if n < 128 then pct n
     else pct (192 + n div 64) @ pct (128 + n mod 64))"

definition encode_uri :: "string \<Rightarrow> string" where
  "encode_uri s = concat (map enc_char s)"

text \<open>One \<open>%XX\<close> triple: its byte and the rest.\<close>

definition p_pct :: "string \<Rightarrow> (nat \<times> string) option" where
  "p_pct s = (case s of
     p # a # b # r \<Rightarrow>
       if p = CHR ''%'' \<and> is_hex a \<and> is_hex b then Some (hex_val a * 16 + hex_val b, r) else None
   | _ \<Rightarrow> None)"

text \<open>The continuation bytes of a UTF-8 sequence, accumulated into its code point.\<close>

fun p_cont :: "nat \<Rightarrow> nat \<Rightarrow> string \<Rightarrow> (nat \<times> string) option" where
  "p_cont 0 v s = Some (v, s)"
| "p_cont (Suc k) v s =
     (case p_pct s of
        None \<Rightarrow> None
      | Some (b, r) \<Rightarrow> if 128 \<le> b \<and> b < 192 then p_cont k (v * 64 + (b - 128)) r else None)"

text \<open>The code units of one percent-encoded code point and the rest; overlong forms, surrogates
  and values above 0x10FFFF are malformed.\<close>

definition p_code_point :: "string \<Rightarrow> (string \<times> string) option" where
  "p_code_point s =
     (case p_pct s of
        None \<Rightarrow> None
      | Some (b, r) \<Rightarrow>
          if b < 128 then Some ([code_unit b], r)
          else if 192 \<le> b \<and> b < 224 then
            (case p_cont 1 (b - 192) r of None \<Rightarrow> None
             | Some (v, t) \<Rightarrow> if 128 \<le> v then Some ([code_unit v], t) else None)
          else if 224 \<le> b \<and> b < 240 then
            (case p_cont 2 (b - 224) r of None \<Rightarrow> None
             | Some (v, t) \<Rightarrow> if 2048 \<le> v \<and> \<not> (55296 \<le> v \<and> v < 57344)
                 then Some ([code_unit v], t) else None)
          else if 240 \<le> b \<and> b < 248 then
            (case p_cont 3 (b - 240) r of None \<Rightarrow> None
             | Some (v, t) \<Rightarrow> if 65536 \<le> v \<and> v \<le> 1114111
                 then Some ([CHR ''?'', CHR ''?''], t) else None)
          else None)"

lemma p_pct_shorter: "p_pct s = Some (b, r) \<Longrightarrow> length r < length s"
  by (auto simp: p_pct_def split: list.splits if_splits)

lemma p_cont_shorter: "p_cont k v s = Some (x, r) \<Longrightarrow> length r \<le> length s"
  by (induction k v s rule: p_cont.induct)
    (auto split: option.splits if_splits dest!: p_pct_shorter, fastforce)

lemma p_code_point_shorter: "p_code_point s = Some (u, r) \<Longrightarrow> length r < length s"
  by (auto simp: p_code_point_def split: option.splits if_splits simp del: p_cont.simps
      dest!: p_pct_shorter p_cont_shorter)

function decode_uri :: "string \<Rightarrow> string option" where
  "decode_uri [] = Some []"
| "decode_uri (c # s) =
     (if c = CHR ''%'' then
        (case p_code_point (c # s) of
           None \<Rightarrow> None
         | Some (u, r) \<Rightarrow> map_option ((@) u) (decode_uri r))
      else map_option ((#) c) (decode_uri s))"
  by pat_completeness auto
termination
  by (relation "measure length") (auto dest: p_code_point_shorter)

lemma hex_digit_ok: "n < 16 \<Longrightarrow> is_hex (hex_digit n) \<and> hex_val (hex_digit n) = n"
  by (auto simp: is_hex_def hex_val_def hex_digit_def Let_def)

lemma p_pct_pct: "n < 256 \<Longrightarrow> p_pct (pct n @ r) = Some (n, r)"
proof -
  assume "n < 256"
  then have "n div 16 < 16" "n mod 16 < 16" by auto
  then show ?thesis
    using hex_digit_ok [of "n div 16"] hex_digit_ok [of "n mod 16"]
    by (simp add: p_pct_def pct_def)
qed

lemma char_nat_lt: "(of_char c :: nat) < 256"
  using of_char_of [of "of_char c :: nat"] by (metis of_char_mod_256 mod_less_divisor zero_less_numeral)

lemma append_single: "(@) [c] = (#) c"
  by (simp add: fun_eq_iff)

lemma decode_enc_char: "decode_uri (enc_char c @ s) = map_option ((#) c) (decode_uri s)"
proof -
  define n where "n = (of_char c :: nat)"
  have n: "n < 256" and c: "char_of n = c" by (simp_all add: n_def char_nat_lt)
  consider "uri_unreserved c" | "\<not> uri_unreserved c" "n < 128" | "\<not> uri_unreserved c" "128 \<le> n"
    by linarith
  then show ?thesis
  proof cases
    case 1
    then have "c \<noteq> CHR ''%''" by (auto simp: uri_unreserved_def)
    with 1 show ?thesis by (simp add: enc_char_def)
  next
    case 2
    have "p_code_point (pct n @ s) = Some ([c], s)"
      using p_pct_pct [of n s] n 2 c by (simp add: p_code_point_def code_unit_def)
    with 2 show ?thesis by (simp add: enc_char_def n_def [symmetric] pct_def append_single)
  next
    case 3
    have "n div 64 < 4" "2 \<le> n div 64" using n 3 by auto
    then have "p_code_point (pct (192 + n div 64) @ pct (128 + n mod 64) @ s) = Some ([c], s)"
      using p_pct_pct [of "192 + n div 64" "pct (128 + n mod 64) @ s"]
        p_pct_pct [of "128 + n mod 64" s] n 3 c
      by (simp add: p_code_point_def code_unit_def)
    with 3 show ?thesis by (simp add: enc_char_def n_def [symmetric] pct_def append_single)
  qed
qed

lemma decode_encode: "decode_uri (encode_uri s) = Some s"
  by (induction s) (simp_all add: encode_uri_def decode_enc_char)

text \<open>What the encoding leaves out of its alphabet, in particular the separators of a query.\<close>

definition query_seps :: "char list" where
  "query_seps = [CHR ''&'', CHR ''='', CHR ''?'', CHR ''#'']"

lemma query_seps_code: "c \<in> set query_seps \<Longrightarrow> (of_char c :: nat) \<in> {35, 38, 61, 63}"
  by (auto simp: query_seps_def)

lemma hex_digit_not_sep: "n < 16 \<Longrightarrow> hex_digit n \<notin> set query_seps"
  using query_seps_code [of "hex_digit n"] by (auto simp: hex_digit_def split: if_splits)

lemma pct_not_sep: "n < 256 \<Longrightarrow> set (pct n) \<inter> set query_seps = {}"
  using hex_digit_not_sep [of "n div 16"] hex_digit_not_sep [of "n mod 16"]
  by (auto simp: pct_def) (auto simp: query_seps_def)

lemma encode_uri_no_sep: "set (encode_uri s) \<inter> set query_seps = {}"
proof -
  have "set (enc_char c) \<inter> set query_seps = {}" for c
  proof -
    have n: "(of_char c :: nat) < 256" by (rule char_nat_lt)
    have "192 + m div 64 < 256 \<and> 128 + m mod 64 < 256" if "m < 256" for m :: nat
      using that by auto
    from this [OF n]
    have "192 + (of_char c :: nat) div 64 < 256" "128 + (of_char c :: nat) mod 64 < 256"
      by blast+
    with n have "set (pct (of_char c)) \<inter> set query_seps = {}"
      "set (pct (192 + of_char c div 64)) \<inter> set query_seps = {}"
      "set (pct (128 + of_char c mod 64)) \<inter> set query_seps = {}"
      by (simp_all add: pct_not_sep)
    moreover have "c \<notin> set query_seps" if "uri_unreserved c"
      using that by (auto simp: uri_unreserved_def query_seps_def)
    ultimately show ?thesis by (auto simp: enc_char_def Let_def)
  qed
  then show ?thesis by (auto simp: encode_uri_def)
qed

section \<open>The address bar\<close>

text \<open>
  \<open>w_href\<close> is \<open>location.href\<close>; the hash is its part from the first number sign on, and empty when
  nothing follows the sign.  \<open>w_origin\<close> is \<open>_originHref\<close>, the part of the address before the hash
  that \<open>setParams\<close> and \<open>removeParams\<close> captured when the script was loaded, \<open>w_parent_hash\<close> the
  hash of the parent window and \<open>w_replace\<close> whether \<open>history.replaceState\<close> exists.
\<close>

record win =
  w_href :: string
  w_origin :: string
  w_parent_hash :: string
  w_replace :: bool

definition before_hash :: "string \<Rightarrow> string" where
  "before_hash url = takeWhile (\<lambda>c. c \<noteq> CHR ''#'') url"

definition hash_of :: "string \<Rightarrow> string" where
  "hash_of url = (let r = dropWhile (\<lambda>c. c \<noteq> CHR ''#'') url in if length r \<le> 1 then [] else r)"

definition w_hash :: "win \<Rightarrow> string" where
  "w_hash w = hash_of (w_href w)"

text \<open>Assigning \<open>location.hash\<close>; a leading number sign of the value is dropped.\<close>

definition assign_hash :: "win \<Rightarrow> string \<Rightarrow> win" where
  "assign_hash w h =
     w\<lparr>w_href := before_hash (w_href w) @ ''#'' @ (if starts_with ''#'' h then drop 1 h else h)\<rparr>"

definition write_hash :: "win \<Rightarrow> string \<Rightarrow> win" where
  "write_hash w h = (if w_replace w then w\<lparr>w_href := w_origin w @ h\<rparr> else assign_hash w h)"

text \<open>
  The match of \<open>(^|&)name=([^&]*)(&|$)\<close>, ignoring case, in the query: the first of its
  \<open>&\<close>-separated pieces that starts with the name and an equals sign.  The names the console asks
  for contain no character that is special in a regular expression.
\<close>

fun find_param :: "string \<Rightarrow> string list \<Rightarrow> string option" where
  "find_param n [] = None"
| "find_param n (p # ps) =
     (if starts_with (lower n @ ''='') (lower p) then Some (drop (length n + 1) p)
      else find_param n ps)"

definition get_params :: "win \<Rightarrow> string \<Rightarrow> js_error + string option" where
  "get_params w name =
     (let result = (if w_hash w \<noteq> [] then split_on (CHR ''?'') (w_hash w)
                    else split_on (CHR ''?'') (w_href w));
          result = (if length result = 1 then split_on (CHR ''?'') (w_parent_hash w) else result)
      in case slot result 1 of
           None \<Rightarrow> Inr None
         | Some q \<Rightarrow>
             (case find_param name (split_on (CHR ''&'') q) of
                None \<Rightarrow> Inr None
              | Some v \<Rightarrow> (case decode_uri v of None \<Rightarrow> Inl URIError | Some d \<Rightarrow> Inr (Some d))))"

text \<open>The pieces of the hash, and its query as a list of pieces (none when it is empty).\<close>

definition hash_arr :: "win \<Rightarrow> string list" where
  "hash_arr w = (if w_hash w \<noteq> [] then split_on (CHR ''?'') (w_hash w) else [])"

definition param_arr :: "win \<Rightarrow> string list" where
  "param_arr w =
     (case slot (hash_arr w) 1 of
        None \<Rightarrow> []
      | Some q \<Rightarrow> if q = [] then [] else split_on (CHR ''&'') q)"

text \<open>\<open>hashArr[1] = q; hashArr.join('?')\<close>: the slot before a hole joins as an empty string.\<close>

fun put_query :: "string list \<Rightarrow> string \<Rightarrow> string list" where
  "put_query [] q = [[], q]"
| "put_query [h] q = [h, q]"
| "put_query (h # _ # t) q = h # q # t"

text \<open>The parameters the address holds: the value is what stands between the first and the second
  equals sign of the piece, decoded; a repeated key keeps its first position and its last value.\<close>

fun parse_params :: "string list \<Rightarrow> (string \<times> jsval) list \<Rightarrow> (string \<times> jsval) list option" where
  "parse_params [] m = Some m"
| "parse_params (p # ps) m =
     (let t = split_on (CHR ''='') p in
      case decode_uri (slot_or t 1 []) of
        None \<Rightarrow> None
      | Some v \<Rightarrow> parse_params ps (AList.update (slot_or t 0 []) (Str v) m))"

definition show_param :: "string \<times> jsval \<Rightarrow> string" where
  "show_param kv = fst kv @ ''='' @ encode_uri (to_str (js_or (snd kv) (Str [])))"

text \<open>\<open>setParams\<close> with an object; \<open>set_param\<close> is its call with a name and a value.\<close>

definition set_params :: "win \<Rightarrow> (string \<times> jsval) list \<Rightarrow> js_error + win" where
  "set_params w obj =
     (case parse_params (param_arr w) [] of
        None \<Rightarrow> Inl URIError
      | Some m \<Rightarrow>
          Inr (write_hash w (js_join ''?''
                 (put_query (hash_arr w) (js_join ''&'' (map show_param (assign m obj)))))))"

definition set_param :: "win \<Rightarrow> string \<Rightarrow> jsval \<Rightarrow> js_error + win" where
  "set_param w name v = (if name = [] then Inr w else set_params w [(name, v)])"

text \<open>\<open>removeParams\<close> takes a string, an array or an object; anything else does nothing.\<close>

definition remove_list :: "jsval \<Rightarrow> jsval list option" where
  "remove_list v = (case v of Str s \<Rightarrow> Some [Str s] | Arr xs \<Rightarrow> Some xs
     | Obj fs \<Rightarrow> Some (map (\<lambda>f. Str (fst f)) fs) | _ \<Rightarrow> None)"

definition remove_params :: "win \<Rightarrow> jsval \<Rightarrow> win" where
  "remove_params w name =
     (case remove_list name of
        None \<Rightarrow> w
      | Some rs \<Rightarrow>
          write_hash w (js_join ''?'' (put_query (hash_arr w) (js_join ''&''
            (filter (\<lambda>p. Str (slot_or (split_on (CHR ''='') p) 0 []) \<notin> set rs) (param_arr w))))))"

section \<open>Canonical addresses\<close>

text \<open>
  A canonical address is the captured origin, a hash path and a query rendered from an association
  list.  On such addresses the operations are lookup, update and deletion.
\<close>

definition render_param :: "string \<times> string \<Rightarrow> string" where
  "render_param kv = fst kv @ ''='' @ encode_uri (snd kv)"

definition render_query :: "(string \<times> string) list \<Rightarrow> string" where
  "render_query m = js_join ''&'' (map render_param m)"

definition good_key :: "string \<Rightarrow> bool" where
  "good_key k \<longleftrightarrow> k \<noteq> [] \<and> set k \<inter> set query_seps = {}"

definition hash_path :: "string \<Rightarrow> bool" where
  "hash_path p \<longleftrightarrow> starts_with ''#'' p \<and> CHR ''?'' \<notin> set p"

definition canonical :: "string \<Rightarrow> (string \<times> string) list \<Rightarrow> win \<Rightarrow> bool" where
  "canonical path m w \<longleftrightarrow>
     w_href w = w_origin w @ path @ ''?'' @ render_query m \<and> CHR ''#'' \<notin> set (w_origin w)
     \<and> hash_path path \<and> w_replace w \<and> distinct (map fst m) \<and> (\<forall>k \<in> fst ` set m. good_key k)"

definition val_str :: "jsval \<Rightarrow> string" where
  "val_str v = to_str (js_or v (Str []))"

lemma val_str_Str [simp]: "val_str (Str s) = s"
  by (cases s) (simp_all add: val_str_def js_or_def)

lemma hash_of_origin:
  assumes "CHR ''#'' \<notin> set a" and "starts_with ''#'' h"
  shows "hash_of (a @ h) = (if length h \<le> 1 then [] else h)"
proof -
  have "dropWhile (\<lambda>c. c \<noteq> CHR ''#'') a = []" using assms(1) by (simp add: dropWhile_eq_Nil_conv) blast
  moreover obtain t where "h = CHR ''#'' # t" using assms(2) by (auto simp: starts_with_append)
  ultimately show ?thesis
    using assms(1) by (simp add: hash_of_def Let_def dropWhile_append dropWhile_eq_Nil_conv)
qed

lemma render_param_seps:
  assumes "good_key (fst kv)"
  shows "CHR ''&'' \<notin> set (render_param kv)" and "CHR ''?'' \<notin> set (render_param kv)"
    and "CHR ''='' \<notin> set (fst kv)" and "CHR ''='' \<notin> set (encode_uri (snd kv))"
  using assms encode_uri_no_sep [of "snd kv"]
  by (auto simp: good_key_def render_param_def query_seps_def)

lemma render_query_no_question:
  assumes "\<forall>k \<in> fst ` set m. good_key k"
  shows "CHR ''?'' \<notin> set (render_query m)"
  using set_js_join [of "''&''" "map render_param m"] assms render_param_seps(2)
  by (force simp: render_query_def)

lemma render_query_split:
  assumes "\<forall>k \<in> fst ` set m. good_key k" and "m \<noteq> []"
  shows "split_on (CHR ''&'') (render_query m) = map render_param m"
  unfolding render_query_def
  by (rule split_join) (use assms render_param_seps(1) in auto)

lemma render_query_Nil: "render_query m = [] \<longleftrightarrow> m = []"
proof (cases m)
  case (Cons a l)
  then show ?thesis by (cases l) (simp_all add: render_query_def render_param_def)
qed (simp add: render_query_def)

lemma canonical_hash: "canonical path m w \<Longrightarrow> w_hash w = path @ ''?'' @ render_query m"
  using hash_of_origin [of "w_origin w" "path @ ''?'' @ render_query m"]
  by (auto simp: canonical_def w_hash_def hash_path_def starts_with_append)

lemma canonical_hash_arr: "canonical path m w \<Longrightarrow> hash_arr w = [path, render_query m]"
  using canonical_hash [of path m w] render_query_no_question [of m]
  by (auto simp: hash_arr_def canonical_def hash_path_def split_on_append split_on_no_sep)

lemma canonical_param_arr:
  assumes "canonical path m w"
  shows "param_arr w = map render_param m"
proof -
  have "\<forall>k \<in> fst ` set m. good_key k" using assms by (simp add: canonical_def)
  then show ?thesis
    using render_query_split [of m] render_query_Nil [of m]
    by (auto simp: param_arr_def canonical_hash_arr [OF assms])
qed

lemma split_render_param:
  assumes "good_key (fst kv)"
  shows "split_on (CHR ''='') (render_param kv) = [fst kv, encode_uri (snd kv)]"
  using render_param_seps(3,4) [OF assms]
  by (simp add: render_param_def split_on_append split_on_no_sep)

lemma parse_rendered:
  "\<forall>k \<in> fst ` set m. good_key k \<Longrightarrow>
   parse_params (map render_param m) acc = Some (assign acc (map (apsnd Str) m))"
  by (induction m arbitrary: acc)
    (auto simp: split_render_param slot_or_def decode_encode)

lemma update_append_new: "k \<notin> fst ` set m \<Longrightarrow> AList.update k v m = m @ [(k, v)]"
  by (induction m) auto

lemma assign_append_new:
  "distinct (map fst m) \<Longrightarrow> fst ` set m \<inter> fst ` set acc = {} \<Longrightarrow> assign acc m = acc @ m"
proof (induction m arbitrary: acc)
  case Nil
  then show ?case by simp
next
  case (Cons p m)
  obtain k v where p: "p = (k, v)" by (cases p)
  have "AList.update k v acc = acc @ [(k, v)]"
    by (rule update_append_new) (use Cons.prems p in auto)
  moreover have "assign (acc @ [(k, v)]) m = (acc @ [(k, v)]) @ m"
    by (rule Cons.IH) (use Cons.prems p in auto)
  ultimately show ?case by (simp add: p)
qed

lemma assign_Nil_distinct: "distinct (map fst m) \<Longrightarrow> assign [] m = m"
  using assign_append_new [of m "[]"] by simp

lemma update_map_snd: "AList.update k (f v) (map (apsnd f) m) = map (apsnd f) (AList.update k v m)"
  by (induction m) auto

lemma assign_map_snd: "assign (map (apsnd f) a) (map (apsnd f) b) = map (apsnd f) (assign a b)"
proof (induction b arbitrary: a)
  case Nil
  then show ?case by simp
next
  case (Cons p b)
  then show ?case by (cases p) (simp add: update_map_snd)
qed

lemma fst_assign: "fst ` set (assign a b) = fst ` set a \<union> fst ` set b"
proof (induction b arbitrary: a)
  case Nil
  then show ?case by simp
next
  case (Cons p b)
  then show ?case by (cases p) (auto simp: dom_update)
qed

lemma show_param_render: "show_param kv = render_param (apsnd val_str kv)"
  by (simp add: show_param_def render_param_def val_str_def)

lemma show_param_render': "show_param = render_param \<circ> apsnd val_str"
  by (simp add: fun_eq_iff show_param_render)

lemma set_params_canonical:
  assumes can: "canonical path m w" and good: "\<forall>k \<in> fst ` set obj. good_key k"
  defines "m' \<equiv> assign m (map (apsnd val_str) obj)"
  shows "\<exists>w'. set_params w obj = Inr w' \<and> canonical path m' w' \<and> w_origin w' = w_origin w"
proof -
  have keys: "distinct (map fst m)" "\<forall>k \<in> fst ` set m. good_key k"
    using can by (simp_all add: canonical_def)
  have parsed: "parse_params (param_arr w) [] = Some (map (apsnd Str) m)"
    using parse_rendered [OF keys(2)] assign_Nil_distinct [of "map (apsnd Str) m"] keys(1)
    by (simp add: canonical_param_arr [OF can] comp_def)
  have "map (apsnd val_str) (assign (map (apsnd Str) m) obj)
      = assign (map (apsnd val_str) (map (apsnd Str) m)) (map (apsnd val_str) obj)"
    by (rule assign_map_snd [symmetric])
  also have "map (apsnd val_str) (map (apsnd Str) m) = m"
    by (induction m) auto
  finally have "map show_param (assign (map (apsnd Str) m) obj) = map render_param m'"
    unfolding m'_def show_param_render' map_map [symmetric] by simp
  then have "set_params w obj
      = Inr (write_hash w (js_join ''?'' [path, render_query m']))"
    by (simp add: set_params_def parsed canonical_hash_arr [OF can] render_query_def)
  moreover have "canonical path m' (write_hash w (js_join ''?'' [path, render_query m']))"
    using can good distinct_assign [OF keys(1)] fst_assign [of m "map (apsnd val_str) obj"]
    by (auto simp: canonical_def write_hash_def m'_def image_image)
  moreover have "w_origin (write_hash w (js_join ''?'' [path, render_query m'])) = w_origin w"
    using can by (simp add: canonical_def write_hash_def)
  ultimately show ?thesis by blast
qed

lemma lower_char_eq: "lower_char c = CHR ''='' \<longleftrightarrow> c = CHR ''=''"
proof (cases "65 \<le> (of_char c :: nat) \<and> (of_char c :: nat) \<le> 90")
  case True
  then have "(of_char (lower_char c) :: nat) = of_char c + 32"
    by (simp add: lower_char_def Let_def)
  with True show ?thesis by auto
next
  case False
  then show ?thesis by (auto simp: lower_char_def Let_def)
qed

lemma lower_no_eq: "CHR ''='' \<in> set (lower s) \<longleftrightarrow> CHR ''='' \<in> set s"
proof (induction s)
  case Nil
  then show ?case by (simp add: lower_def)
next
  case (Cons c s)
  have "CHR ''='' = lower_char c \<longleftrightarrow> CHR ''='' = c" using lower_char_eq by metis
  with Cons show ?case by (simp add: lower_def)
qed

lemma lower_eq_sign: "lower ''='' = ''=''"
  by code_simp

lemma lower_Nil [simp]: "lower [] = []"
  by (simp add: lower_def)

lemma starts_with_snoc_Nil [simp]: "\<not> starts_with (a @ [c]) []"
  by (cases a) simp_all

lemma length_lower [simp]: "length (lower s) = length s"
  by (simp add: lower_def)

lemma lower_append [simp]: "lower (a @ b) = lower a @ lower b"
  by (simp add: lower_def)

lemma key_match:
  assumes "CHR ''='' \<notin> set a" and "CHR ''='' \<notin> set b"
  shows "starts_with (a @ ''='') (b @ ''='' @ t) \<longleftrightarrow> a = b"
  using assms
proof (induction a arbitrary: b)
  case Nil
  then show ?case by (cases b) auto
next
  case (Cons x xs)
  then show ?case by (cases b) auto
qed

text \<open>What the regular expression finds: the first key that agrees up to case.\<close>

fun lookup_ci :: "(string \<times> string) list \<Rightarrow> string \<Rightarrow> string option" where
  "lookup_ci [] k = None"
| "lookup_ci ((j, v) # m) k = (if lower j = lower k then Some v else lookup_ci m k)"

lemma find_rendered:
  assumes "good_key k" and "\<forall>j \<in> fst ` set m. good_key j"
  shows "find_param k (map render_param m) = map_option encode_uri (lookup_ci m k)"
  using assms(2)
proof (induction m)
  case Nil
  then show ?case by simp
next
  case (Cons p m)
  obtain j v where p: "p = (j, v)" by (cases p)
  have noeq: "CHR ''='' \<notin> set (lower k)" "CHR ''='' \<notin> set (lower j)"
    using assms(1) Cons.prems p by (auto simp: lower_no_eq good_key_def query_seps_def)
  have low: "lower (render_param p) = lower j @ ''='' @ lower (encode_uri v)"
    by (simp only: p render_param_def lower_append lower_eq_sign fst_conv snd_conv)
  have match: "starts_with (lower k @ ''='') (lower (render_param p)) \<longleftrightarrow> lower j = lower k"
    unfolding low key_match [OF noeq] by (rule eq_commute)
  show ?case
  proof (cases "lower j = lower k")
    case True
    then have "length j = length k" by (metis length_lower)
    with True match show ?thesis by (simp add: p) (simp add: render_param_def)
  next
    case False
    with match Cons show ?thesis by (simp add: p)
  qed
qed

lemma get_params_canonical:
  assumes can: "canonical path m w" and k: "good_key k"
  shows "get_params w k = Inr (lookup_ci m k)"
proof -
  have "\<forall>j \<in> fst ` set m. good_key j" using can by (simp add: canonical_def)
  note found = find_rendered [OF k this] and keys = this
  have arr: "split_on (CHR ''?'') (w_hash w) = [path, render_query m]" "w_hash w \<noteq> []"
    using canonical_hash_arr [OF can] canonical_hash [OF can] by (auto simp: hash_arr_def)
  show ?thesis
  proof (cases "m = []")
    case True
    with k show ?thesis
      by (simp add: get_params_def arr render_query_def good_key_def)
  next
    case False
    from render_query_split [OF keys False] found arr show ?thesis
      by (cases "lookup_ci m k") (simp_all add: get_params_def decode_encode)
  qed
qed

lemma remove_params_canonical:
  fixes k :: string
  assumes can: "canonical path m w"
  defines "m' \<equiv> AList.delete k m"
  shows "canonical path m' (remove_params w (Str k))"
    and "w_origin (remove_params w (Str k)) = w_origin w"
proof -
  have keys: "\<forall>j \<in> fst ` set m. good_key j" using can by (simp add: canonical_def)
  then have "filter (\<lambda>p. Str (slot_or (split_on (CHR ''='') p) 0 []) \<notin> {Str k}) (map render_param m)
      = map render_param m'"
    unfolding m'_def
    by (induction m) (auto simp: split_render_param slot_or_def AList.delete_eq)
  then have "remove_params w (Str k) = write_hash w (js_join ''?'' [path, render_query m'])"
    by (simp add: remove_params_def remove_list_def canonical_param_arr [OF can]
        canonical_hash_arr [OF can] render_query_def)
  then show "canonical path m' (remove_params w (Str k))"
    and "w_origin (remove_params w (Str k)) = w_origin w"
    using can distinct_delete [of m k] delete_keys [of k m]
    by (auto simp: canonical_def write_hash_def m'_def AList.delete_eq)
qed

section \<open>The parameter store the pages rely on\<close>

text \<open>
  The names the console reads and writes.  \<open>getParams\<close> ignores case, so two of them that agreed up
  to case would share a slot; none do.
\<close>

definition console_keys :: "string list" where
  "console_keys =
    [''appName'', ''configDetail'', ''configTags'', ''dataId'', ''edasAppId'', ''edasAppName'',
     ''group'', ''groupName'', ''groupNameParam'', ''historyDataId'', ''historyGroup'',
     ''historyServerId'', ''isAdvanceQuery'', ''listeningDataId'', ''listeningGroup'',
     ''listeningServerId'', ''name'', ''namespace'', ''namespaceShowName'', ''nid'', ''pageNo'',
     ''pageSize'', ''searchDataId'', ''searchGroup'', ''serverId'', ''serviceNameParam'',
     ''tagList'', ''username'']"

lemma console_keys_good: "\<forall>k \<in> set console_keys. good_key k"
  by code_simp

lemma console_keys_distinct_lower: "distinct (map lower console_keys)"
  by code_simp

lemma console_keys_lower:
  assumes "j \<in> set console_keys" and "k \<in> set console_keys" and "lower j = lower k"
  shows "j = k"
proof -
  have "inj_on lower (set console_keys)"
    using console_keys_distinct_lower by (simp add: distinct_map)
  with assms show ?thesis by (simp add: inj_on_eq_iff)
qed

lemma lookup_ci_map_of:
  assumes "fst ` set m \<subseteq> set console_keys" and "k \<in> set console_keys"
  shows "lookup_ci m k = map_of m k"
  using assms(1)
proof (induction m)
  case Nil
  then show ?case by simp
next
  case (Cons p m)
  obtain j v where p: "p = (j, v)" by (cases p)
  then have "j \<in> set console_keys" using Cons.prems by auto
  then have "lower j = lower k \<longleftrightarrow> j = k" using console_keys_lower assms(2) by blast
  with Cons p show ?case by auto
qed

locale param_store =
  fixes keys :: "'k set"
    and invar :: "'w \<Rightarrow> bool"
    and get :: "'w \<Rightarrow> 'k \<Rightarrow> string option"
    and put :: "'w \<Rightarrow> 'k \<Rightarrow> jsval \<Rightarrow> 'w"
    and del :: "'w \<Rightarrow> 'k \<Rightarrow> 'w"
  assumes put_invar: "invar w \<Longrightarrow> k \<in> keys \<Longrightarrow> invar (put w k v)"
    and del_invar: "invar w \<Longrightarrow> k \<in> keys \<Longrightarrow> invar (del w k)"
    and get_put: "invar w \<Longrightarrow> k \<in> keys \<Longrightarrow> j \<in> keys \<Longrightarrow>
      get (put w k v) j = (if j = k then Some (val_str v) else get w j)"
    and get_del: "invar w \<Longrightarrow> k \<in> keys \<Longrightarrow> j \<in> keys \<Longrightarrow>
      get (del w k) j = (if j = k then None else get w j)"
begin

fun put_all :: "'w \<Rightarrow> ('k \<times> jsval) list \<Rightarrow> 'w" where
  "put_all w [] = w"
| "put_all w ((k, v) # kvs) = put_all (put w k v) kvs"

lemma put_all_invar: "invar w \<Longrightarrow> fst ` set kvs \<subseteq> keys \<Longrightarrow> invar (put_all w kvs)"
  by (induction w kvs rule: put_all.induct) (auto simp: put_invar)

lemma get_put_all:
  "invar w \<Longrightarrow> fst ` set kvs \<subseteq> keys \<Longrightarrow> j \<in> keys \<Longrightarrow>
   get (put_all w kvs) j
     = (case map_of (rev kvs) j of None \<Rightarrow> get w j | Some v \<Rightarrow> Some (val_str v))"
  by (induction w kvs rule: put_all.induct)
    (auto simp: put_invar get_put map_add_def split: option.splits)

lemma put_twice:
  "invar w \<Longrightarrow> k \<in> keys \<Longrightarrow> j \<in> keys \<Longrightarrow> get (put (put w k u) k v) j = get (put w k v) j"
  by (simp add: get_put put_invar)

lemma put_commute:
  "invar w \<Longrightarrow> i \<in> keys \<Longrightarrow> k \<in> keys \<Longrightarrow> j \<in> keys \<Longrightarrow> i \<noteq> k \<Longrightarrow>
   get (put (put w i u) k v) j = get (put (put w k v) i u) j"
  by (simp add: get_put put_invar)

lemma put_del:
  "invar w \<Longrightarrow> k \<in> keys \<Longrightarrow> j \<in> keys \<Longrightarrow> get (del (put w k v) k) j = get (del w k) j"
  by (simp add: get_put get_del put_invar)

end

text \<open>The address as such a store; on a well-formed address neither operation can raise.\<close>

definition addr_ok :: "win \<Rightarrow> bool" where
  "addr_ok w \<longleftrightarrow> (\<exists>path m. canonical path m w \<and> fst ` set m \<subseteq> set console_keys)"

definition addr_get :: "win \<Rightarrow> string \<Rightarrow> string option" where
  "addr_get w k = (case get_params w k of Inl e \<Rightarrow> None | Inr v \<Rightarrow> v)"

definition addr_put :: "win \<Rightarrow> string \<Rightarrow> jsval \<Rightarrow> win" where
  "addr_put w k v = (case set_param w k v of Inl e \<Rightarrow> w | Inr w' \<Rightarrow> w')"

definition addr_del :: "win \<Rightarrow> string \<Rightarrow> win" where
  "addr_del w k = remove_params w (Str k)"

lemma addr_okE:
  assumes "addr_ok w"
  obtains path m where "canonical path m w" and "fst ` set m \<subseteq> set console_keys"
  using assms by (auto simp: addr_ok_def)

lemma get_params_console:
  assumes "canonical path m w" and "fst ` set m \<subseteq> set console_keys" and "k \<in> set console_keys"
  shows "get_params w k = Inr (map_of m k)"
  using get_params_canonical [OF assms(1)] lookup_ci_map_of [OF assms(2,3)]
    console_keys_good assms(3) by simp

lemma map_of_apsnd: "map_of (map (apsnd f) xs) j = map_option f (map_of xs j)"
  by (induction xs) auto

lemma set_params_console:
  assumes "addr_ok w" and obj: "fst ` set obj \<subseteq> set console_keys"
  shows "\<exists>w'. set_params w obj = Inr w' \<and> addr_ok w' \<and>
    (\<forall>j \<in> set console_keys. addr_get w' j
       = (case map_of (rev obj) j of None \<Rightarrow> addr_get w j | Some v \<Rightarrow> Some (val_str v)))"
proof -
  from assms(1) obtain path m where can: "canonical path m w"
    and keys: "fst ` set m \<subseteq> set console_keys" by (rule addr_okE)
  let ?m = "assign m (map (apsnd val_str) obj)"
  have "\<forall>k \<in> fst ` set obj. good_key k" using obj console_keys_good by blast
  from set_params_canonical [OF can this] obtain w' where
    w': "set_params w obj = Inr w'" "canonical path ?m w'" by blast
  have keys': "fst ` set ?m \<subseteq> set console_keys"
    using keys obj by (auto simp: fst_assign)
  have "map_of (rev (map (apsnd val_str) obj)) j = map_option val_str (map_of (rev obj) j)" for j
    by (simp add: rev_map map_of_apsnd)
  then have "\<forall>j \<in> set console_keys. addr_get w' j
       = (case map_of (rev obj) j of None \<Rightarrow> addr_get w j | Some v \<Rightarrow> Some (val_str v))"
    using get_params_console [OF can keys] get_params_console [OF w'(2) keys']
    by (auto simp: addr_get_def map_of_assign split: option.splits)
  with w' keys' show ?thesis unfolding addr_ok_def by blast
qed

interpretation addr: param_store "set console_keys" addr_ok addr_get addr_put addr_del
proof
  fix w k j and v :: jsval
  assume ok: "addr_ok w" and k: "k \<in> set console_keys"
  have ne: "k \<noteq> []" using k console_keys_good by (auto simp: good_key_def)
  from set_params_console [OF ok, of "[(k, v)]"] k obtain w' where
    w': "set_params w [(k, v)] = Inr w'" "addr_ok w'"
    and get: "\<forall>j \<in> set console_keys. addr_get w' j
      = (case map_of (rev [(k, v)]) j of None \<Rightarrow> addr_get w j | Some v \<Rightarrow> Some (val_str v))"
    by auto
  have put: "addr_put w k v = w'" using w' ne by (simp add: addr_put_def set_param_def)
  show "addr_ok (addr_put w k v)" using w' put by simp
  from ok obtain path m where can: "canonical path m w"
    and keys: "fst ` set m \<subseteq> set console_keys" by (rule addr_okE)
  have can': "canonical path (AList.delete k m) (addr_del w k)"
    unfolding addr_del_def by (rule remove_params_canonical [OF can])
  have keys': "fst ` set (AList.delete k m) \<subseteq> set console_keys"
    using keys delete_keys [of k m] by (auto simp: AList.delete_eq)
  show "addr_ok (addr_del w k)" using can' keys' unfolding addr_ok_def by blast
  assume j: "j \<in> set console_keys"
  show "addr_get (addr_put w k v) j = (if j = k then Some (val_str v) else addr_get w j)"
    using get j put by auto
  show "addr_get (addr_del w k) j = (if j = k then None else addr_get w j)"
    using get_params_console [OF can keys j] get_params_console [OF can' keys' j]
    by (simp add: addr_get_def delete_conv')
qed

lemma get_params_addr:
  assumes "addr_ok w" and "k \<in> set console_keys"
  shows "get_params w k = Inr (addr_get w k)"
  using assms get_params_console by (auto elim!: addr_okE simp: addr_get_def)

text \<open>An address whose hash has no query yet.\<close>

lemma set_params_plain:
  assumes "w_href w = w_origin w @ path" and "CHR ''#'' \<notin> set (w_origin w)" and "hash_path path"
    and "length path > 1" and "w_replace w" and good: "\<forall>k \<in> fst ` set obj. good_key k"
  shows "\<exists>w'. set_params w obj = Inr w' \<and> canonical path (assign [] (map (apsnd val_str) obj)) w'"
proof -
  let ?m = "assign [] (map (apsnd val_str) obj)"
  have hash: "w_hash w = path" "path \<noteq> []"
    using hash_of_origin [OF assms(2), of path] assms(1,3,4) by (auto simp: w_hash_def hash_path_def)
  have arr: "hash_arr w = [path]"
    using hash assms(3) by (simp add: hash_arr_def hash_path_def split_on_no_sep)
  then have parsed: "parse_params (param_arr w) [] = Some []" by (simp add: param_arr_def)
  have "map (apsnd val_str) (assign [] obj) = ?m"
    using assign_map_snd [of val_str "[]" obj] by simp
  then have "map show_param (assign [] obj) = map render_param ?m"
    unfolding show_param_render' map_map [symmetric] by simp
  then have "set_params w obj = Inr (write_hash w (js_join ''?'' [path, render_query ?m]))"
    by (simp add: set_params_def parsed arr render_query_def)
  moreover have "canonical path ?m (write_hash w (js_join ''?'' [path, render_query ?m]))"
    using assms distinct_assign [of "[]" "map (apsnd val_str) obj"]
      fst_assign [of "[]" "map (apsnd val_str) obj"]
    by (auto simp: canonical_def write_hash_def image_image)
  ultimately show ?thesis by blast
qed

section \<open>Properties\<close>

text \<open>C2. Writing parameters into a well-formed address never raises, keeps it well-formed, and every
  name the console uses reads back as the last value written for it, or as it was before when the
  call did not write it; \<open>null\<close> and other false values read back as the empty string.\<close>

theorem set_params_reads_back:
  assumes "addr_ok w" and "fst ` set obj \<subseteq> set console_keys"
  shows "\<exists>w'. set_params w obj = Inr w' \<and> addr_ok w' \<and>
    (\<forall>j \<in> set console_keys. get_params w' j
       = (case map_of (rev obj) j of None \<Rightarrow> get_params w j | Some v \<Rightarrow> Inr (Some (val_str v))))"
proof -
  from set_params_console [OF assms] obtain w' where w': "set_params w obj = Inr w'" "addr_ok w'"
    "\<forall>j \<in> set console_keys. addr_get w' j
       = (case map_of (rev obj) j of None \<Rightarrow> addr_get w j | Some v \<Rightarrow> Some (val_str v))"
    by blast
  then have "\<forall>j \<in> set console_keys. get_params w' j
       = (case map_of (rev obj) j of None \<Rightarrow> get_params w j | Some v \<Rightarrow> Inr (Some (val_str v)))"
    using get_params_addr assms(1) by (auto split: option.split)
  with w' show ?thesis by blast
qed

definition sample_win :: win where
  "sample_win = \<lparr>w_href = ''http://h/#/list?dataId=a%26b&pageNo=2'', w_origin = ''http://h/'',
     w_parent_hash = [], w_replace = True\<rparr>"

lemma sample_win_ok: "addr_ok sample_win"
proof -
  have "canonical ''#/list'' [(''dataId'', ''a&b''), (''pageNo'', ''2'')] sample_win"
    by code_simp
  then show ?thesis
    unfolding addr_ok_def by (intro exI conjI) (assumption, simp add: console_keys_def)
qed

theorem set_params_reads_back_witness:
  "\<exists>w'. set_params sample_win [(''pageNo'', Null), (''group'', Str ''g'')] = Inr w' \<and> addr_ok w' \<and>
    get_params w' ''group'' = Inr (Some ''g'') \<and> get_params w' ''pageNo'' = Inr (Some []) \<and>
    get_params w' ''dataId'' = get_params sample_win ''dataId''"
  using set_params_reads_back [OF sample_win_ok, of "[(''pageNo'', Null), (''group'', Str ''g'')]"]
  by (auto simp: console_keys_def val_str_def js_or_def)

text \<open>Removing a parameter from a well-formed address makes it absent and leaves every other
  name as it was.\<close>

theorem remove_params_reads_back:
  assumes "addr_ok w" and "k \<in> set console_keys" and "j \<in> set console_keys"
  shows "get_params (remove_params w (Str k)) j = (if j = k then Inr None else get_params w j)"
  using addr.get_del [OF assms] get_params_addr [OF assms(1,3)]
    get_params_addr [OF addr.del_invar [OF assms(1,2)] assms(3)]
  by (simp add: addr_del_def)

theorem remove_params_reads_back_witness:
  "get_params (remove_params sample_win (Str ''pageNo'')) ''pageNo'' = Inr None \<and>
   get_params (remove_params sample_win (Str ''pageNo'')) ''dataId'' = get_params sample_win ''dataId''"
  using remove_params_reads_back [OF sample_win_ok, of "''pageNo''" "''pageNo''"]
    remove_params_reads_back [OF sample_win_ok, of "''pageNo''" "''dataId''"]
  by (simp add: console_keys_def)

text \<open>A value that holds an equals sign of its own is cut there as soon as any parameter is set.\<close>

lemma set_params_cuts_value:
  "(let w = sample_win\<lparr>w_href := ''http://h/#/p?dataId=a=b''\<rparr> in
     get_params w ''dataId'' = Inr (Some ''a=b'') \<and>
     (case set_param w ''group'' (Str ''g'') of
        Inl e \<Rightarrow> False | Inr w' \<Rightarrow> get_params w' ''dataId'' = Inr (Some ''a'')))"
  by code_simp

end
