(* ===== verification/Nacos_Util.thy ===== *)
theory Nacos_Util
  imports Url_Params
begin

text \<open>
  The helpers of \<open>src/console-ui/src/utils/nacosutil.js\<close>: the delayed call \<open>throttle\<close>, link and
  query-string helpers, and the two type tests.
\<close>

section \<open>\<open>throttle\<close>\<close>

text \<open>
  The wrapper keeps one timer; every call clears it and starts it again, so a call runs only when
  no other call came within the delay.  \<open>pending\<close> is the running timer: its deadline and the
  arguments it will pass.  \<open>throttle_run\<close> replays a sequence of timed calls: a timer that is due
  before a call fires first, and the last timer fires at the end.
\<close>

record 'a throttle =
  delay :: nat
  pending :: "(nat \<times> 'a) option"

definition throttle_call :: "nat \<Rightarrow> 'a \<Rightarrow> 'a throttle \<Rightarrow> 'a throttle" where
  "throttle_call now args t = t\<lparr>pending := Some (now + delay t, args)\<rparr>"

definition throttle_fire :: "nat \<Rightarrow> 'a throttle \<Rightarrow> 'a throttle \<times> (nat \<times> 'a) list" where
  "throttle_fire now t =
     (case pending t of
        None \<Rightarrow> (t, [])
      | Some (d, args) \<Rightarrow> if d \<le> now then (t\<lparr>pending := None\<rparr>, [(d, args)]) else (t, []))"

fun throttle_run :: "'a throttle \<Rightarrow> (nat \<times> 'a) list \<Rightarrow> (nat \<times> 'a) list" where
  "throttle_run t [] = (case pending t of None \<Rightarrow> [] | Some p \<Rightarrow> [p])"
| "throttle_run t ((now, args) # calls) =
     (case throttle_fire now t of
        (t1, out) \<Rightarrow> out @ throttle_run (throttle_call now args t1) calls)"

text \<open>Consecutive calls closer than the delay.\<close>

fun burst :: "nat \<Rightarrow> (nat \<times> 'a) list \<Rightarrow> bool" where
  "burst d ((t, a) # (u, b) # calls) = (t \<le> u \<and> u < t + d \<and> burst d ((u, b) # calls))"
| "burst d calls = True"

lemma throttle_run_burst:
  assumes "burst (delay t) ((now, args) # calls)"
  shows "throttle_run (throttle_call now args t) calls
    = (case last ((now, args) # calls) of (u, b) \<Rightarrow> [(u + delay t, b)])"
  using assms
proof (induction calls arbitrary: now args t)
  case Nil
  then show ?case by (simp add: throttle_call_def)
next
  case (Cons c calls)
  obtain u b where c: "c = (u, b)" by (cases c)
  from Cons.prems c have "\<not> now + delay t \<le> u" "burst (delay t) ((u, b) # calls)" by auto
  then have "throttle_run (throttle_call now args t) (c # calls)
      = throttle_run (throttle_call u b (throttle_call now args t)) calls"
    by (simp add: c throttle_fire_def throttle_call_def)
  also have "\<dots> = throttle_run (throttle_call u b t) calls"
    by (simp add: throttle_call_def)
  finally show ?case using Cons.IH \<open>burst (delay t) ((u, b) # calls)\<close> c by simp
qed

section \<open>Links and query strings\<close>

text \<open>\<open>documentElement\<close> and \<open>body\<close> of the document, by their \<open>scrollTop\<close>.\<close>

definition getScrollTop :: "int option \<Rightarrow> int option \<Rightarrow> int" where
  "getScrollTop documentElement body =
     (case documentElement of
        Some t \<Rightarrow> if t \<noteq> 0 then t else (case body of Some b \<Rightarrow> b | None \<Rightarrow> 0)
      | None \<Rightarrow> (case body of Some b \<Rightarrow> b | None \<Rightarrow> 0))"

definition getLink :: "string \<Rightarrow> jsval \<Rightarrow> jsval" where
  "getLink rootPath link =
     (let s = to_str link in
      case s of
        c # d # _ \<Rightarrow> if c = CHR ''/'' \<and> d \<noteq> CHR ''/'' then Str (rootPath @ s) else link
      | _ \<Rightarrow> link)"

definition getParameter :: "string \<Rightarrow> string \<Rightarrow> string" where
  "getParameter search name =
     (let query = slot_or (split_on (CHR ''?'') search) 1 [];
          hit = slot_or (filter (\<lambda>item. name = slot_or (split_on (CHR ''='') item) 0 [])
                  (split_on (CHR ''&'') query)) 0 []
      in slot_or (split_on (CHR ''='') hit) 1 [])"

definition isJsonString :: "string \<Rightarrow> bool" where
  "isJsonString str =
     (case json_parse str of None \<Rightarrow> False | Some v \<Rightarrow> js_typeof v = ''object'')"

text \<open>\<open>[key, params[key]].join('=')\<close>\<close>

definition show_pair :: "string \<times> jsval \<Rightarrow> string" where
  "show_pair kv = js_join ''='' [fst kv, join_vals [snd kv]]"

definition generateUrl :: "string \<Rightarrow> (string \<times> jsval) list \<Rightarrow> string" where
  "generateUrl url params =
     js_join [] [url, ''?'',
       js_join ''&'' (map show_pair params)]"

definition isPlainObject :: "jsval \<Rightarrow> bool" where
  "isPlainObject v = (case v of Obj fs \<Rightarrow> True | _ \<Rightarrow> False)"

text \<open>A parameter that can be read back: its text has none of the separators.\<close>

definition plain_param :: "string \<times> jsval \<Rightarrow> bool" where
  "plain_param kv \<longleftrightarrow> set (fst kv) \<inter> set query_seps = {} \<and>
     set (join_vals [snd kv]) \<inter> set query_seps = {}"

lemma plain_piece:
  assumes "plain_param kv"
  shows "CHR ''&'' \<notin> set (show_pair kv)"
    and "CHR ''?'' \<notin> set (show_pair kv)"
    and "split_on (CHR ''='') (show_pair kv)
           = [fst kv, join_vals [snd kv]]"
  using assms
  by (auto simp: show_pair_def plain_param_def query_seps_def split_on_append split_on_no_sep
      simp del: join_vals.simps)

lemma generateUrl_query:
  assumes "CHR ''?'' \<notin> set url" and "\<forall>kv \<in> set params. plain_param kv"
  shows "split_on (CHR ''?'') (generateUrl url params)
    = [url, js_join ''&'' (map show_pair params)]"
proof -
  let ?q = "js_join ''&'' (map show_pair params)"
  have "CHR ''?'' \<notin> set ?q"
    using set_js_join [of "''&''" "map show_pair params"]
      plain_piece(2) assms(2) by fastforce
  with assms(1) show ?thesis
    by (simp add: generateUrl_def split_on_append split_on_no_sep)
qed

lemma getParameter_hit:
  assumes "\<forall>kv \<in> set params. plain_param kv"
  shows "filter (\<lambda>item. name = slot_or (split_on (CHR ''='') item) 0 [])
      (map show_pair params)
    = map show_pair (filter (\<lambda>kv. name = fst kv) params)"
  unfolding filter_map comp_def
  by (rule arg_cong [where f = "map show_pair"], rule filter_cong [OF refl])
    (use assms plain_piece(3) in \<open>simp add: slot_or_def\<close>)

text \<open>Reading a parameter out of an address that \<open>generateUrl\<close> built.\<close>

lemma getParameter_generateUrl:
  assumes "CHR ''?'' \<notin> set url" and "\<forall>kv \<in> set params. plain_param kv" and "params \<noteq> []"
  shows "getParameter (generateUrl url params) name
    = (case map_of params name of None \<Rightarrow> [] | Some v \<Rightarrow> join_vals [v])"
proof -
  have "split_on (CHR ''&'') (js_join ''&'' (map show_pair params)) = map show_pair params"
    by (rule split_join) (use assms(2,3) plain_piece(1) in auto)
  then have q: "getParameter (generateUrl url params) name
      = slot_or (split_on (CHR ''='') (slot_or (map show_pair (filter (\<lambda>kv. name = fst kv) params)) 0 [])) 1 []"
    using generateUrl_query [OF assms(1,2)] getParameter_hit [OF assms(2)]
    by (simp add: getParameter_def slot_or_def)
  show ?thesis
  proof (cases "filter (\<lambda>kv. name = fst kv) params")
    case Nil
    then have "map_of params name = None" by (auto simp: filter_empty_conv map_of_eq_None_iff)
    with q Nil show ?thesis by (simp add: slot_or_def)
  next
    case (Cons kv kvs)
    then have "kv \<in> set (filter (\<lambda>kv. name = fst kv) params)" by simp
    then have "kv \<in> set params" "name = fst kv" by simp_all
    moreover have "map_of params name = Some (snd kv)"
      using Cons by (induction params) (auto split: if_splits)
    ultimately show ?thesis
      using q Cons assms(2) plain_piece(3) [of kv] by (simp add: slot_or_def)
  qed
qed

section \<open>Properties\<close>

text \<open>The wrapped function is delayed, not throttled: of a burst of calls, each closer than the
  delay to the one before, only the last is executed, once, a full delay after it was made.\<close>

theorem throttle_burst:
  assumes "burst (delay t) calls" and "calls \<noteq> []" and "pending t = None"
  shows "throttle_run t calls = (case last calls of (u, b) \<Rightarrow> [(u + delay t, b)])"
proof (cases calls)
  case Nil
  with assms(2) show ?thesis by simp
next
  case (Cons c cs)
  obtain now args where "c = (now, args)" by (cases c)
  with Cons assms show ?thesis
    using throttle_run_burst [of t now args cs] by (simp add: throttle_fire_def)
qed

theorem throttle_burst_witness:
  "throttle_run \<lparr>delay = 10, pending = None\<rparr> [(0, ''a''), (5, ''b''), (12, ''c'')] = [(22, ''c'')]"
  using throttle_burst [of "\<lparr>delay = 10, pending = None\<rparr>" "[(0, ''a''), (5, ''b''), (12, ''c'')]"]
  by simp

text \<open>Reading a parameter out of an address that \<open>generateUrl\<close> built gives the value that was
  put in (the empty string for an absent name, \<open>undefined\<close> and \<open>null\<close>), provided neither the
  path nor the names and values contain a separator, which neither function escapes.\<close>

theorem getParameter_of_generateUrl:
  assumes "CHR ''?'' \<notin> set url" and "\<forall>kv \<in> set params. plain_param kv" and "params \<noteq> []"
  shows "getParameter (generateUrl url params) name
    = (case map_of params name of None \<Rightarrow> [] | Some v \<Rightarrow> join_vals [v])"
  by (rule getParameter_generateUrl [OF assms])

theorem getParameter_of_generateUrl_witness:
  "getParameter (generateUrl ''/serviceDetail'' [(''name'', Str ''svc''), (''groupName'', Null)]) ''name''
     = ''svc''"
  using getParameter_of_generateUrl [of "''/serviceDetail''"
      "[(''name'', Str ''svc''), (''groupName'', Null)]" "''name''"]
  by (simp add: plain_param_def query_seps_def)

end
