(* ===== verification/Session.thy ===== *)
theory Session
  imports Nacos_Util
begin

text \<open>
  What the console keeps in the browser and the login redirect every client shares:
  \<open>localStorage\<close>, the address bar, the cookies and the globals of \<open>window\<close> that the request
  middleware reads; \<open>goLogin\<close>, \<open>aliwareGetCookieByKeyName\<close> of
  \<open>src/console-ui/src/globalLib.js\<close>.
\<close>

record browser =
  storage :: "(string \<times> string) list"
  b_win :: win
  cookies :: string
  nownamespace :: jsval

definition get_item :: "browser \<Rightarrow> string \<Rightarrow> string option" where
  "get_item b k = map_of (storage b) k"

definition set_item :: "string \<Rightarrow> string \<Rightarrow> browser \<Rightarrow> browser" where
  "set_item k v b = b\<lparr>storage := AList.update k v (storage b)\<rparr>"

definition remove_item :: "string \<Rightarrow> browser \<Rightarrow> browser" where
  "remove_item k b = b\<lparr>storage := AList.delete k (storage b)\<rparr>"

lemma get_set_item [simp]: "get_item (set_item k v b) j = (if j = k then Some v else get_item b j)"
  by (simp add: get_item_def set_item_def AList.update_conv')

lemma get_remove_item [simp]: "get_item (remove_item k b) j = (if j = k then None else get_item b j)"
  by (simp add: get_item_def remove_item_def delete_conv')

lemma item_win [simp]: "b_win (set_item k v b) = b_win b" "b_win (remove_item k b) = b_win b"
  by (simp_all add: set_item_def remove_item_def)

definition goLogin :: "browser \<Rightarrow> browser" where
  "goLogin b =
     (let url = w_href (b_win b); base_url = slot_or (split_on (CHR ''#'') url) 0 []
      in (remove_item ''token'' b)\<lparr>b_win := (b_win b)\<lparr>w_href := base_url @ ''#/login''\<rparr>\<rparr>)"

definition logged_out :: "browser \<Rightarrow> bool" where
  "logged_out b \<longleftrightarrow> get_item b ''token'' = None \<and> w_hash (b_win b) = ''#/login''"

lemma split_on_hash_first: "slot_or (split_on c s) 0 [] = takeWhile (\<lambda>x. x \<noteq> c) s"
proof (induction s)
  case Nil
  then show ?case by (simp add: slot_or_def)
next
  case (Cons x xs)
  then show ?case by (cases "split_on c xs") (auto simp: slot_or_def)
qed

lemma hash_of_base: "hash_of (takeWhile (\<lambda>x. x \<noteq> CHR ''#'') s @ CHR ''#'' # c # t) = CHR ''#'' # c # t"
proof -
  have "CHR ''#'' \<notin> set (takeWhile (\<lambda>x. x \<noteq> CHR ''#'') s)" by (auto dest: set_takeWhileD)
  from hash_of_origin [OF this, of "CHR ''#'' # c # t"] show ?thesis by simp
qed

lemma goLogin_logged_out: "logged_out (goLogin b)"
  using hash_of_base [of "w_href (b_win b)" "CHR ''/''" "''login''"]
  by (simp add: logged_out_def goLogin_def Let_def split_on_hash_first w_hash_def get_item_def
      remove_item_def delete_conv')

lemma goLogin_frame:
  "k \<noteq> ''token'' \<Longrightarrow> get_item (goLogin b) k = get_item b k"
  "cookies (goLogin b) = cookies b" "nownamespace (goLogin b) = nownamespace b"
  by (simp_all add: goLogin_def Let_def get_item_def remove_item_def delete_conv')

text \<open>
  The cookie whose name contains the key; a later one replaces an earlier one.
\<close>

definition cookie_list :: "string \<Rightarrow> string list" where
  "cookie_list c = (if c = [] then [] else split_on (CHR '';'') c)"

fun cookie_scan :: "string \<Rightarrow> string list \<Rightarrow> string \<Rightarrow> string" where
  "cookie_scan k [] result = result"
| "cookie_scan k (s # ss) result =
     (let parts = split_on (CHR ''='') s; name = slot_or parts 0 []; val = slot_or parts 1 []
      in cookie_scan k ss (if str_includes k (js_trim name) then val else result))"

definition aliwareGetCookieByKeyName :: "browser \<Rightarrow> string \<Rightarrow> string" where
  "aliwareGetCookieByKeyName b k = js_trim (cookie_scan k (cookie_list (cookies b)) [])"

text \<open>The stored token, parsed; \<open>None\<close> when it is absent (\<open>JSON.parse(undefined)\<close>) or malformed.\<close>

definition parse_token :: "browser \<Rightarrow> jsval option" where
  "parse_token b = (case get_item b ''token'' of None \<Rightarrow> None | Some s \<Rightarrow> json_parse s)"

text \<open>\<open>const \{ accessToken = '' \} = token\<close>: destructuring \<open>null\<close> raises.\<close>

definition token_field :: "jsval \<Rightarrow> string \<Rightarrow> js_error + jsval" where
  "token_field t k = (if t = Null \<or> t = Undef then Inl TypeError
                      else Inr (with_default (field t k) (Str [])))"

end
