(* ===== verification/Request_Pipeline.thy ===== *)
theory Request_Pipeline
  imports Session
begin

text \<open>
  \<open>request\<close> of \<open>src/console-ui/src/globalLib.js\<close>, the wrapper of \<open>$.ajax\<close> most pages use, with the
  namespace middleware that \<open>src/console-ui/src/lib.js\<close> registers.

  The configuration object of a call is a record of the properties the wrapper reads or writes; its
  callbacks are statements of the page and stay there.  \<open>Request\<close> gives the browser after the call
  and what is sent, if anything is: the pages' \<open>Ajax\<close> effects are completed by it.
\<close>

record config =
  c_url :: jsval
  c_type :: jsval
  c_data :: jsval
  c_path_data :: jsval
  c_dataType :: jsval
  c_contentType :: jsval
  c_processData :: jsval
  c_has_success :: bool

datatype middleware = Fn "browser \<Rightarrow> config \<Rightarrow> js_error + config option" | NotFn

text \<open>\<open>handleMiddleWare\<close>: a middleware that returns nothing keeps the configuration.\<close>

fun handleMiddleWare :: "browser \<Rightarrow> middleware list \<Rightarrow> config \<Rightarrow> js_error + config" where
  "handleMiddleWare b [] c = Inr c"
| "handleMiddleWare b (NotFn # ms) c = handleMiddleWare b ms c"
| "handleMiddleWare b (Fn f # ms) c =
     (case f b c of
        Inl e \<Rightarrow> Inl e
      | Inr None \<Rightarrow> handleMiddleWare b ms c
      | Inr (Some c') \<Rightarrow> handleMiddleWare b ms c')"

record wrapper =
  middlewareList :: "middleware list"
  middlewareBackList :: "middleware list"
  serviceMap :: "(string \<times> (string \<times> jsval) list) list"
  methodList :: "(string \<times> jsval) list"
  is_preview :: bool

definition middleWare :: "middleware \<Rightarrow> bool \<Rightarrow> wrapper \<Rightarrow> wrapper" where
  "middleWare m isBack w =
     (if isBack then w\<lparr>middlewareBackList := middlewareBackList w @ [m]\<rparr>
      else w\<lparr>middlewareList := middlewareList w @ [m]\<rparr>)"

definition NacosRealUrlMapper :: "wrapper \<Rightarrow> string \<Rightarrow> jsval option" where
  "NacosRealUrlMapper w name =
     (case map_of (serviceMap w) name of
        None \<Rightarrow> None
      | Some so \<Rightarrow>
          Some (Obj (AList.update ''methodType''
            (field (Obj (methodList w)) (to_str (field (Obj so) ''method''))) so)))"

text \<open>\<open>url.replace(/\{([^\}]+)\}/g, ..)\<close>: every brace pair with at least one character between.\<close>

function fill_template :: "(string \<Rightarrow> string) \<Rightarrow> string \<Rightarrow> string" where
  "fill_template f [] = []"
| "fill_template f (c # s) =
     (let name = takeWhile (\<lambda>x. x \<noteq> CHR ''}'') s; rest = dropWhile (\<lambda>x. x \<noteq> CHR ''}'') s
      in if c = CHR ''{'' \<and> name \<noteq> [] \<and> rest \<noteq> [] then f name @ fill_template f (drop 1 rest)
         else c # fill_template f s)"
  by pat_completeness auto
termination
proof (relation "measure (\<lambda>(f, s). length s)")
  fix f :: "string \<Rightarrow> string" and c :: char and s x xa
  assume "xa = dropWhile (\<lambda>x. x \<noteq> CHR ''}'') s"
  then have "length xa \<le> length s" by (simp add: length_dropWhile_le)
  then show "((f, drop 1 xa), (f, c # s)) \<in> measure (\<lambda>(f, s). length s)" by simp
qed auto

function has_placeholder :: "string \<Rightarrow> bool" where
  "has_placeholder [] = False"
| "has_placeholder (c # s) =
     (let name = takeWhile (\<lambda>x. x \<noteq> CHR ''}'') s; rest = dropWhile (\<lambda>x. x \<noteq> CHR ''}'') s
      in (c = CHR ''{'' \<and> name \<noteq> [] \<and> rest \<noteq> []) \<or> has_placeholder s)"
  by pat_completeness auto
termination
  by (relation "measure length") auto

text \<open>
  The rewriting of a configuration for a registered service: the address with its placeholders
  filled from \<open>$data\<close>, the static parameters under the caller's, the registered method when the
  caller gave none, and the data as JSON text.  What \<open>JSON.parse\<close> raises for the static parameters
  is caught.
\<close>

definition is_object_type :: "jsval \<Rightarrow> bool" where
  "is_object_type v \<longleftrightarrow> js_typeof v = ''object''"

definition add_static_params :: "jsval \<Rightarrow> config \<Rightarrow> config" where
  "add_static_params so c =
     (if truthy (field so ''is_param'') \<and> is_object_type (c_data c) then
        (case json_parse (to_str (field so ''params'')) of
           None \<Rightarrow> c
         | Some p \<Rightarrow>
             c\<lparr>c_data := Obj (assign (assign [] (own_fields p)) (own_fields (c_data c)))\<rparr>)
      else c)"

definition to_json_body :: "jsval \<Rightarrow> config \<Rightarrow> config" where
  "to_json_body so c =
     (if truthy (field so ''isJsonData'') \<and> is_object_type (c_data c) then
        c\<lparr>c_data := json_stringify [] (c_data c), c_processData := Bool False,
          c_dataType := Str ''json'', c_contentType := Str ''application/json''\<rparr>
      else c)"

definition custom_config :: "jsval \<Rightarrow> config \<Rightarrow> js_error + config" where
  "custom_config so c =
     (let url = to_str (field so ''url'') in
      if has_placeholder url \<and> c_path_data c \<in> {Undef, Null} then Inl TypeError
      else
        (let c1 = c\<lparr>c_url := Str (fill_template (\<lambda>k. to_str (field (c_path_data c) k)) url)\<rparr>;
             c2 = add_static_params so c1;
             c3 = (if truthy (field so ''method'') \<and> \<not> truthy (c_type c2)
                   then c2\<lparr>c_type := field so ''methodType''\<rparr> else c2)
         in Inr (to_json_body so c3)))"

text \<open>
  \<open>handleCustomService\<close>.  \<open>Inr None\<close> is its bare \<open>return\<close>: the call was answered from mock data.  The
  wrapping of \<open>beforeSend\<close> and \<open>complete\<close> adds headers and closes the overlay and leaves the rest of
  the configuration as it is.
\<close>

definition handleCustomService :: "wrapper \<Rightarrow> config \<Rightarrow> js_error + config option" where
  "handleCustomService w c =
     (case c_url c of
        Str url \<Rightarrow>
          if starts_with ''com.alibaba.'' url then
            (case NacosRealUrlMapper w url of
               None \<Rightarrow> Inr (Some c)
             | Some so \<Rightarrow>
                 (case field so ''url'' of
                    Str u \<Rightarrow>
                      if u = [] then Inr (Some c)
                      else if is_preview w \<and> truthy (field so ''is_mock'') \<and> c_has_success c
                      then Inr None
                      else map_sum id Some (custom_config so c)
                  | _ \<Rightarrow> Inr (Some c)))
          else Inr (Some c)
      | _ \<Rightarrow> Inr (Some c))"

section \<open>The middleware of \<open>lib.js\<close>\<close>

text \<open>
  The namespace of the session is added to the data unless the address already names one, and the
  tenant is appended to an address whose query mentions a data id.
\<close>

definition add_namespace :: "browser \<Rightarrow> config \<Rightarrow> config" where
  "add_namespace b c =
     (let url = to_str (with_default (c_url c) (Str []));
          namespace = or_empty (get_item b ''namespace'')
      in if \<not> str_includes ''namespaceId='' url
         then c\<lparr>c_data := Obj (assign (assign [] (own_fields (c_data c))) [(''namespaceId'', Str namespace)])\<rparr>
         else c)"

definition current_tenant :: "browser \<Rightarrow> js_error + jsval" where
  "current_tenant b =
     (if truthy (nownamespace b) then
        Inr (if nownamespace b = Str ''global'' then Str [] else nownamespace b)
      else
        (case get_params (b_win b) ''namespace'' of
           Inl e \<Rightarrow> Inl e
         | Inr p \<Rightarrow>
             (let t = or_empty p in Inr (if t = ''global'' then Str [] else Str t))))"

definition lib_middleware :: "browser \<Rightarrow> config \<Rightarrow> js_error + config option" where
  "lib_middleware b c =
     (let url = to_str (with_default (c_url c) (Str [])); c1 = add_namespace b c in
      case current_tenant b of
        Inl e \<Rightarrow> Inl e
      | Inr tenant \<Rightarrow>
          (case slot (split_on (CHR ''?'') url) 1 of
             None \<Rightarrow> Inr (Some c1)
           | Some params \<Rightarrow>
               if str_includes ''dataId'' params
               then Inr (Some (c1\<lparr>c_url := Str (url @ ''&tenant='' @ to_str tenant)\<rparr>))
               else Inr (Some c1)))"

text \<open>The wrapper as the console runs it: no registered services, one middleware behind.\<close>

definition console_wrapper :: wrapper where
  "console_wrapper = middleWare (Fn lib_middleware) True
     \<lparr>middlewareList = [], middlewareBackList = [], serviceMap = [], methodList = [], is_preview = False\<rparr>"

section \<open>The request\<close>

text \<open>What leaves: the type, the address, the data, the data type and the \<open>Authorization\<close> header.\<close>

record sent =
  s_type :: jsval
  s_url :: string
  s_data :: jsval
  s_dataType :: jsval
  s_authorization :: "string option"

definition add_sec_token :: "browser \<Rightarrow> config \<Rightarrow> config" where
  "add_sec_token b c =
     (case c_data c of
        Obj fs \<Rightarrow>
          if truthy (c_type c) \<and> lower (to_str (c_type c)) = ''post''
             \<and> \<not> truthy (field (Obj fs) ''sec_token'')
          then
            (let t = aliwareGetCookieByKeyName b ''XSRF-TOKEN'' in
             if t = [] then c else c\<lparr>c_data := Obj (AList.update ''sec_token'' (Str t) fs)\<rparr>)
          else c
      | _ \<Rightarrow> c)"

text \<open>
  The access token, when the login page is enabled: a token that does not parse sends the user to the
  login page, and the request goes on without it.
\<close>

definition token_param :: "browser \<Rightarrow> browser \<times> (js_error + string list)" where
  "token_param b =
     (if get_item b ''docsite_loginpage'' = Some ''false'' then (b, Inr [])
      else
        (let (b1, token) = (case parse_token b of None \<Rightarrow> (goLogin b, Obj []) | Some t \<Rightarrow> (b, t)) in
         (b1, (case token_field token ''accessToken'' of
                 Inl e \<Rightarrow> Inl e
               | Inr v \<Rightarrow> Inr [''accessToken='' @ to_str v]))))"

definition send_request :: "browser \<Rightarrow> config \<Rightarrow> browser \<times> (js_error + sent)" where
  "send_request b c =
     (case c_url c of
        Str full \<Rightarrow>
          (let parts = split_on (CHR ''?'') full; url = slot_or parts 0 [];
               params = (case slot parts 1 of None \<Rightarrow> [] | Some q \<Rightarrow>
                           if q = [] then [] else split_on (CHR ''&'') q)
           in case token_param b of
                (b1, Inl e) \<Rightarrow> (b1, Inl e)
              | (b1, Inr tok) \<Rightarrow>
                  (b1, Inr \<lparr>s_type = c_type c,
                     s_url = js_join ''?'' [url, js_join ''&'' (params @ tok)],
                     s_data = js_or (c_data c) (Str []),
                     s_dataType = js_or (c_dataType c) (Str ''json''),
                     s_authorization = get_item b1 ''token''\<rparr>))
      | _ \<Rightarrow> (b, Inl TypeError))"

definition Request :: "wrapper \<Rightarrow> browser \<Rightarrow> config \<Rightarrow> browser \<times> (js_error + sent option)" where
  "Request w b c =
     (case handleMiddleWare b (middlewareList w) c of
        Inl e \<Rightarrow> (b, Inl e)
      | Inr c1 \<Rightarrow>
          (case handleCustomService w c1 of
             Inl e \<Rightarrow> (b, Inl e)
           | Inr None \<Rightarrow> (b, Inr None)
           | Inr (Some c2) \<Rightarrow>
               (case handleMiddleWare b (middlewareBackList w) (add_sec_token b c2) of
                  Inl e \<Rightarrow> (b, Inl e)
                | Inr c3 \<Rightarrow> (case send_request b c3 of (b1, r) \<Rightarrow> (b1, map_sum id Some r)))))"

text \<open>
  The rejection handler: the server's message is shown, and a session the server no longer accepts
  ends.
\<close>

definition ended_messages :: "string list" where
  "ended_messages = [''unknown user!'', ''token invalid!'', ''token expired!'']"

definition on_request_error :: "jsval \<Rightarrow> jsval \<Rightarrow> browser stmt" where
  "on_request_error status responseJSON =
     (let json = with_default responseJSON (Obj []); message = field json ''message'' in
      if json = Null then throw TypeError
      else block
        [cond (\<lambda>_. truthy message) (emit (\<lambda>_. MsgError (to_str message))) skip,
         cond (\<lambda>_. status \<in> {Num 401, Num 403} \<and> message \<in> Str ` set ended_messages)
           (modify goLogin) skip])"

section \<open>Lemmas\<close>

lemma console_wrapper_simps [simp]:
  "middlewareList console_wrapper = []" "middlewareBackList console_wrapper = [Fn lib_middleware]"
  "serviceMap console_wrapper = []"
  by (simp_all add: console_wrapper_def middleWare_def)

lemma handleCustomService_console: "handleCustomService console_wrapper c = Inr (Some c)"
  by (auto simp: handleCustomService_def NacosRealUrlMapper_def split: jsval.split)

lemma Request_console:
  "Request console_wrapper b c =
     (case lib_middleware b (add_sec_token b c) of
        Inl e \<Rightarrow> (b, Inl e)
      | Inr r \<Rightarrow>
          (case send_request b (case r of None \<Rightarrow> add_sec_token b c | Some c' \<Rightarrow> c') of
             (b1, s) \<Rightarrow> (b1, map_sum id Some s)))"
  by (auto simp: Request_def handleCustomService_console split: sum.split option.split)

lemma add_sec_token_frame [simp]:
  "c_url (add_sec_token b c) = c_url c" "c_type (add_sec_token b c) = c_type c"
  "c_dataType (add_sec_token b c) = c_dataType c"
  by (auto simp: add_sec_token_def Let_def split: jsval.split)

lemma add_namespace_frame [simp]:
  "c_url (add_namespace b c) = c_url c" "c_type (add_namespace b c) = c_type c"
  by (simp_all add: add_namespace_def Let_def)

lemma tenant_ok:
  assumes "truthy (nownamespace b) \<or> addr_ok (b_win b)"
  shows "\<exists>t. current_tenant b = Inr t"
proof -
  have "''namespace'' \<in> set console_keys" by (simp add: console_keys_def)
  then show ?thesis
    using assms get_params_addr [of "b_win b" "''namespace''"]
    by (auto simp: current_tenant_def Let_def)
qed

lemma lib_middleware_plain:
  assumes "current_tenant b = Inr t" and "c_url c = Str url" and "CHR ''?'' \<notin> set url"
  shows "lib_middleware b c = Inr (Some (add_namespace b c))"
  using assms by (simp add: lib_middleware_def with_default_def split_on_no_sep)

lemma send_plain:
  assumes "c_url c = Str url" and "CHR ''?'' \<notin> set url"
  shows "send_request b c =
    (case token_param b of
       (b1, Inl e) \<Rightarrow> (b1, Inl e)
     | (b1, Inr tok) \<Rightarrow>
         (b1, Inr \<lparr>s_type = c_type c, s_url = url @ ''?'' @ js_join ''&'' tok,
            s_data = js_or (c_data c) (Str []), s_dataType = js_or (c_dataType c) (Str ''json''),
            s_authorization = get_item b1 ''token''\<rparr>))"
  using assms by (simp add: send_request_def split_on_no_sep slot_or_def split: prod.split sum.split)

lemma add_namespace_data:
  assumes "c_url c = Str url" and "\<not> str_includes ''namespaceId='' url"
  shows "field (c_data (add_namespace b c)) ''namespaceId'' = Str (or_empty (get_item b ''namespace''))"
    and "k \<noteq> ''namespaceId'' \<Longrightarrow> c_data c = Obj fs \<Longrightarrow> distinct (map fst fs) \<Longrightarrow>
      field (c_data (add_namespace b c)) k = field (c_data c) k"
  using assms
  by (simp_all add: add_namespace_def with_default_def Let_def AList.update_conv' own_fields_def
      assign_Nil_distinct)

section \<open>Properties\<close>

text \<open>A request of a logged-in session to an address without a query is sent with the session's
  access token as its only query parameter, carries the stored token text as its authorization and
  the session's namespace in its data, replacing whatever namespace the caller put there, and leaves
  the browser as it was.\<close>

theorem Request_logged_in:
  assumes "c_url c = Str url" and "CHR ''?'' \<notin> set url" and "\<not> str_includes ''namespaceId='' url"
    and "truthy (nownamespace b) \<or> addr_ok (b_win b)"
    and "get_item b ''docsite_loginpage'' \<noteq> Some ''false''"
    and "get_item b ''token'' = Some raw" and "json_parse raw = Some (Obj fs)"
    and "map_of fs ''accessToken'' = Some (Str t)"
  shows "\<exists>s. Request console_wrapper b c = (b, Inr (Some s)) \<and>
    s_url s = url @ ''?accessToken='' @ t \<and> s_authorization s = Some raw \<and> s_type s = c_type c \<and>
    field (s_data s) ''namespaceId'' = Str (or_empty (get_item b ''namespace''))"
proof -
  let ?c = "add_namespace b (add_sec_token b c)"
  obtain te where "current_tenant b = Inr te" using tenant_ok [OF assms(4)] by blast
  then have lib: "lib_middleware b (add_sec_token b c) = Inr (Some ?c)"
    by (rule lib_middleware_plain [where url = url]) (simp_all add: assms(1,2))
  have tok: "token_param b = (b, Inr [''accessToken='' @ t])"
    using assms(5-8) by (simp add: token_param_def parse_token_def token_field_def with_default_def)
  have data: "field (c_data ?c) ''namespaceId'' = Str (or_empty (get_item b ''namespace''))"
    using add_namespace_data(1) [of "add_sec_token b c" url b] assms(1,3) by simp
  moreover have "js_or (c_data ?c) (Str []) = c_data ?c"
    using assms(1,3) by (simp add: add_namespace_def js_or_def with_default_def Let_def)
  ultimately show ?thesis
    using send_plain [of ?c url b] assms(1,2,6) by (simp add: Request_console lib tok)
qed

definition sample_token :: string where
  "sample_token = ''{'' @ [CHR 0x22] @ ''accessToken'' @ [CHR 0x22] @ '':'' @ [CHR 0x22] @ ''abc'' @ [CHR 0x22] @ ''}''"

definition sample_config :: config where
  "sample_config = \<lparr>c_url = Str ''v1/ns/instance'', c_type = Str ''PUT'',
     c_data = Obj [(''ip'', Str ''1.1.1.1''), (''namespaceId'', Str ''mine'')], c_path_data = Undef,
     c_dataType = Str ''text'', c_contentType = Undef, c_processData = Undef, c_has_success = True\<rparr>"

definition sample_browser :: browser where
  "sample_browser = \<lparr>storage = [(''token'', sample_token), (''namespace'', ''dev'')],
     b_win = sample_win, cookies = [], nownamespace = Undef\<rparr>"

lemma sample_token_parses: "json_parse sample_token = Some (Obj [(''accessToken'', Str ''abc'')])"
  by code_simp

theorem Request_logged_in_witness:
  "\<exists>s. Request console_wrapper sample_browser sample_config = (sample_browser, Inr (Some s)) \<and>
    s_url s = ''v1/ns/instance?accessToken=abc'' \<and>
    field (s_data s) ''namespaceId'' = Str ''dev''"
proof -
  have "c_url sample_config = Str ''v1/ns/instance''" by (simp add: sample_config_def)
  moreover have "get_item sample_browser ''docsite_loginpage'' \<noteq> Some ''false''"
    "get_item sample_browser ''token'' = Some sample_token"
    "get_item sample_browser ''namespace'' = Some ''dev''" "b_win sample_browser = sample_win"
    by (simp_all add: get_item_def sample_browser_def)
  ultimately show ?thesis
    using Request_logged_in [of sample_config "''v1/ns/instance''" sample_browser sample_token
        "[(''accessToken'', Str ''abc'')]" "''abc''"] sample_win_ok sample_token_parses by auto
qed

text \<open>C40. A session whose stored token is missing or malformed is ended and sent to the login page, but
  the request still leaves: with an empty access token and without authorization.\<close>

theorem Request_bad_token:
  assumes "c_url c = Str url" and "CHR ''?'' \<notin> set url"
    and "truthy (nownamespace b) \<or> addr_ok (b_win b)"
    and "get_item b ''docsite_loginpage'' \<noteq> Some ''false''" and "parse_token b = None"
  shows "\<exists>b' s. Request console_wrapper b c = (b', Inr (Some s)) \<and> logged_out b' \<and>
    s_url s = url @ ''?accessToken='' \<and> s_authorization s = None"
proof -
  let ?c = "add_namespace b (add_sec_token b c)"
  obtain te where "current_tenant b = Inr te" using tenant_ok [OF assms(3)] by blast
  then have lib: "lib_middleware b (add_sec_token b c) = Inr (Some ?c)"
    by (rule lib_middleware_plain [where url = url]) (simp_all add: assms(1,2))
  have "token_param b = (goLogin b, Inr [''accessToken=''])"
    using assms(4,5) by (simp add: token_param_def token_field_def with_default_def)
  then show ?thesis
    using send_plain [of ?c url b] assms(1,2) goLogin_logged_out [of b]
    by (simp add: Request_console lib logged_out_def)
qed

theorem Request_bad_token_witness:
  "\<exists>b' s. Request console_wrapper (sample_browser\<lparr>storage := [(''token'', ''{'')]\<rparr>) sample_config
      = (b', Inr (Some s)) \<and> logged_out b' \<and> s_url s = ''v1/ns/instance?accessToken=''
      \<and> s_authorization s = None"
proof -
  let ?b = "sample_browser\<lparr>storage := [(''token'', ''{'')]\<rparr>"
  have "parse_token ?b = None" by code_simp
  then show ?thesis
    using Request_bad_token [of sample_config "''v1/ns/instance''" ?b] sample_win_ok
    by (simp add: sample_config_def sample_browser_def get_item_def)
qed

text \<open>An address that already names a namespace keeps the data of the call untouched.\<close>

theorem namespace_in_url_wins:
  assumes "c_url c = Str url" and "str_includes ''namespaceId='' url"
  shows "add_namespace b c = c"
  using assms by (simp add: add_namespace_def with_default_def)

theorem namespace_in_url_wins_witness:
  "add_namespace sample_browser (sample_config\<lparr>c_url := Str ''v1/console/namespaces?namespaceId=''\<rparr>)
     = sample_config\<lparr>c_url := Str ''v1/console/namespaces?namespaceId=''\<rparr>"
  by (rule namespace_in_url_wins [of _ "''v1/console/namespaces?namespaceId=''"]) (simp, code_simp)

text \<open>A failed response ends the session exactly when its status is 401 or 403 and its message is
  one of the three the server uses for a dead session; every other failure leaves the browser
  unchanged, and a message is shown whenever there is one.\<close>

theorem request_error_session:
  "on_request_error status (Obj fs) b =
     (let ended = status \<in> {Num 401, Num 403} \<and> field (Obj fs) ''message'' \<in> Str ` set ended_messages
      in (if ended then goLogin b else b,
          if truthy (field (Obj fs) ''message'') then [MsgError (to_str (field (Obj fs) ''message''))] else [],
          None))"
  unfolding on_request_error_def Let_def with_default_def by (simp add: stmt_defs)

end
