(* ===== verification/Axios_Client.thy ===== *)
theory Axios_Client
  imports Request_Pipeline
begin

text \<open>
  The second http client of the console, \<open>src/console-ui/src/utils/request.js\<close>: the interceptors it
  installs on an axios instance.  axios itself is not modelled: it runs the request interceptor on the
  configuration before it sends and the response interceptors on what comes back.  \<open>qs.stringify\<close> is
  the parameter \<open>stringify\<close>.
\<close>

record aconfig =
  a_url :: string
  a_method :: string
  a_params :: "(string \<times> jsval) list option"
  a_data :: jsval
  a_headers :: "(string \<times> jsval) list option"

definition or_nil :: "'a list option \<Rightarrow> 'a list" where
  "or_nil m = (case m of None \<Rightarrow> [] | Some xs \<Rightarrow> xs)"

lemma or_nil_simps [simp]: "or_nil None = []" "or_nil (Some xs) = xs"
  by (simp_all add: or_nil_def)

text \<open>The session's token for a call, if the call takes one: the parsed token, or the empty object
  after the redirect to the login page when it does not parse.\<close>

definition session_token :: "browser \<Rightarrow> string \<Rightarrow> browser \<times> jsval option" where
  "session_token b url =
     (if \<not> str_includes ''auth/users/login'' url \<and> or_empty (get_item b ''token'') \<noteq> [] then
        (case json_parse (or_empty (get_item b ''token'')) of
           None \<Rightarrow> (goLogin b, Some (Obj []))
         | Some t \<Rightarrow> (b, Some t))
      else (b, None))"

definition with_token :: "jsval \<Rightarrow> jsval \<Rightarrow> aconfig \<Rightarrow> aconfig" where
  "with_token accessToken username c =
     (let p1 = AList.update ''accessToken'' accessToken (or_nil (a_params c));
          p2 = (if \<not> str_includes ''auth'' (a_url c) then AList.update ''username'' username p1 else p1)
      in c\<lparr>a_params := Some p2,
           a_headers := Some (assign (assign [] (or_nil (a_headers c))) [(''accessToken'', accessToken)])\<rparr>)"

definition form_type :: jsval where
  "form_type = Str ''application/x-www-form-urlencoded''"

text \<open>The form encoding of a plain object; \<open>headers\<close> are those the configuration came with.\<close>

definition form_body :: "(jsval \<Rightarrow> string) \<Rightarrow> (string \<times> jsval) list option \<Rightarrow> aconfig \<Rightarrow> aconfig" where
  "form_body stringify headers c =
     (if truthy (a_data c) \<and> isPlainObject (a_data c) \<and> a_method c \<in> {''post'', ''put''} then
        (let h = (if headers = None then [] else or_nil (a_headers c))
         in c\<lparr>a_data := Str (stringify (a_data c)),
              a_headers := Some (AList.update ''Content-Type'' form_type h)\<rparr>)
      else c)"

definition request_interceptor ::
  "(jsval \<Rightarrow> string) \<Rightarrow> browser \<Rightarrow> aconfig \<Rightarrow> browser \<times> (js_error + aconfig)" where
  "request_interceptor stringify b c =
     (let c1 = c\<lparr>a_params := Some (or_nil (a_params c))\<rparr> in
      case session_token b (a_url c) of
        (b1, None) \<Rightarrow> (b1, Inr (form_body stringify (a_headers c) c1))
      | (b1, Some token) \<Rightarrow>
          (case (token_field token ''accessToken'', token_field token ''username'') of
             (Inr t, Inr u) \<Rightarrow> (b1, Inr (form_body stringify (a_headers c) (with_token t u c1)))
           | _ \<Rightarrow> (b1, Inl TypeError)))"

text \<open>The response: its data, whatever they say of their success.  \<open>None\<close> stands for the data
  \<open>null\<close> or \<open>undefined\<close>, whose destructuring raises.\<close>

definition response_ok :: "jsval \<Rightarrow> js_error + jsval" where
  "response_ok data = (if data \<in> {Undef, Null} then Inl TypeError else Inr data)"

definition axios_ended_messages :: "string list" where
  "axios_ended_messages = [''unknown user!'', ''token invalid!'', ''token expired!'', ''session expired!'']"

definition API_GENERAL_ERROR_MESSAGE :: string where
  "API_GENERAL_ERROR_MESSAGE = ''Request error, please try again later!''"

definition failure_message :: "jsval \<Rightarrow> jsval \<Rightarrow> jsval" where
  "failure_message status data =
     (case data of
        Str s \<Rightarrow> Str s
      | Arr xs \<Rightarrow> Undef
      | Obj fs \<Rightarrow> field (Obj fs) ''message''
      | _ \<Rightarrow> Str (''HTTP ERROR: '' @ to_str status))"

text \<open>The rejection handler; \<open>response\<close> is the status and the data of an answer, \<open>None\<close> when there was
  none.\<close>

definition on_axios_error :: "(jsval \<times> jsval) option \<Rightarrow> browser stmt" where
  "on_axios_error response =
     (case response of
        None \<Rightarrow> emit (\<lambda>_. MsgError API_GENERAL_ERROR_MESSAGE)
      | Some (status, d) \<Rightarrow>
          (let data = with_default d (Obj []); message = failure_message status data in
           if data = Null then throw TypeError
           else block
             [emit (\<lambda>_. Call ''Message.error'' [message]),
              cond (\<lambda>_. status \<in> {Num 401, Num 403} \<and> message \<in> Str ` set axios_ended_messages)
                (modify goLogin) skip]))"

section \<open>Properties\<close>

lemma map_of_update: "map_of (AList.update k v xs) j = (if j = k then Some v else map_of xs j)"
  by (simp add: AList.update_conv')

lemma form_body_params [simp]: "a_params (form_body f h c) = a_params c"
  by (simp add: form_body_def Let_def)

lemma axios_ended_more: "axios_ended_messages = ended_messages @ [''session expired!'']"
  by (simp add: axios_ended_messages_def ended_messages_def)

lemma on_request_error_state:
  "state_of (on_request_error status (Obj fs) b) =
     (if status \<in> {Num 401, Num 403} \<and> field (Obj fs) ''message'' \<in> Str ` set ended_messages
      then goLogin b else b)"
  unfolding on_request_error_def Let_def with_default_def by (simp add: stmt_defs)

lemma on_axios_error_state:
  "state_of (on_axios_error (Some (status, Obj fs)) b) =
     (if status \<in> {Num 401, Num 403} \<and> field (Obj fs) ''message'' \<in> Str ` set axios_ended_messages
      then goLogin b else b)"
  unfolding on_axios_error_def Let_def with_default_def failure_message_def by (simp add: stmt_defs)

lemma Str_image: "Str m \<in> Str ` S \<longleftrightarrow> m \<in> S"
  by auto

text \<open>A call other than the login, made in a session whose stored token is an object, is sent with
  that object's access token as a query parameter, with the session's user unless the address is one
  of the authority's own, with every other query parameter as the caller gave it; the browser is left
  alone.\<close>

theorem interceptor_authenticates:
  assumes "\<not> str_includes ''auth/users/login'' (a_url c)"
    and "get_item b ''token'' = Some raw" and "raw \<noteq> []" and "json_parse raw = Some (Obj fs)"
  shows "\<exists>c' p. request_interceptor stringify b c = (b, Inr c') \<and> a_params c' = Some p \<and>
    map_of p ''accessToken'' = Some (with_default (field (Obj fs) ''accessToken'') (Str [])) \<and>
    map_of p ''username'' = (if str_includes ''auth'' (a_url c) then map_of (or_nil (a_params c)) ''username''
      else Some (with_default (field (Obj fs) ''username'') (Str []))) \<and>
    (\<forall>k. k \<notin> {''accessToken'', ''username''} \<longrightarrow> map_of p k = map_of (or_nil (a_params c)) k)"
proof -
  have "session_token b (a_url c) = (b, Some (Obj fs))"
    using assms by (simp add: session_token_def)
  then show ?thesis
    by (auto simp: request_interceptor_def token_field_def with_token_def Let_def map_of_update
        simp del: field_Obj)
qed

definition sample_acall :: aconfig where
  "sample_acall = \<lparr>a_url = ''v1/cs/configs'', a_method = ''get'',
     a_params = Some [(''dataId'', Str ''d''), (''username'', Str ''other'')], a_data = Undef,
     a_headers = None\<rparr>"

theorem interceptor_authenticates_witness:
  "\<exists>c' p. request_interceptor (\<lambda>_. []) sample_browser sample_acall = (sample_browser, Inr c') \<and>
    a_params c' = Some p \<and> map_of p ''accessToken'' = Some (Str ''abc'') \<and>
    map_of p ''username'' = Some (Str []) \<and> map_of p ''dataId'' = Some (Str ''d'')"
proof -
  have url: "a_url sample_acall = ''v1/cs/configs''"
    and params: "a_params sample_acall = Some [(''dataId'', Str ''d''), (''username'', Str ''other'')]"
    by (simp_all add: sample_acall_def)
  have 1: "\<not> str_includes ''auth/users/login'' (a_url sample_acall)"
    and 2: "\<not> str_includes ''auth'' (a_url sample_acall)" unfolding url by code_simp+
  have 3: "get_item sample_browser ''token'' = Some sample_token" "sample_token \<noteq> []"
    by (simp_all add: get_item_def sample_browser_def sample_token_def)
  obtain c' p where r: "request_interceptor (\<lambda>_. []) sample_browser sample_acall = (sample_browser, Inr c')"
      "a_params c' = Some p" "map_of p ''accessToken'' = Some (Str ''abc'')"
      "map_of p ''username'' = Some (Str [])"
    and k: "\<forall>k. k \<notin> {''accessToken'', ''username''} \<longrightarrow>
      map_of p k = map_of (or_nil (a_params sample_acall)) k"
    using interceptor_authenticates [OF 1 3 sample_token_parses, of "\<lambda>_. []"] 2
    by (force simp: with_default_def)
  from spec [OF k, of "''dataId''"] r params show ?thesis by simp
qed

text \<open>A failed answer with status 401 or 403 ends the session for the four messages of the server
  that this client knows; the other client knows three of them and keeps the session after
  \<open>session expired!\<close>.\<close>

theorem clients_disagree_on_dead_sessions:
  assumes "status \<in> {Num 401, Num 403}" and "map_of fs ''message'' = Some (Str m)"
  shows "state_of (on_request_error status (Obj fs) b) =
      (if m \<in> set ended_messages then goLogin b else b) \<and>
    state_of (on_axios_error (Some (status, Obj fs)) b) =
      (if m \<in> set ended_messages \<or> m = ''session expired!'' then goLogin b else b)"
proof -
  have "field (Obj fs) ''message'' = Str m" using assms(2) by simp
  then show ?thesis
    using assms(1) unfolding on_request_error_state on_axios_error_state axios_ended_more
    by (simp add: Str_image del: field_Obj)
qed

theorem clients_disagree_on_dead_sessions_witness:
  "state_of (on_request_error (Num 403) (Obj [(''message'', Str ''session expired!'')]) sample_browser)
     = sample_browser \<and>
   state_of (on_axios_error (Some (Num 403, Obj [(''message'', Str ''session expired!'')])) sample_browser)
     = goLogin sample_browser"
  using clients_disagree_on_dead_sessions [of "Num 403" "[(''message'', Str ''session expired!'')]"
      "''session expired!''" sample_browser]
  by (simp add: ended_messages_def)

end
