(* ===== verification/Store.thy ===== *)
theory Store
  imports Axios_Client
begin

text \<open>
  The redux store of the console: the slices of \<open>src/console-ui/src/reducers/\<close>, the asynchronous
  actions that load them, the theme of \<open>src/console-ui/src/theme/index.js\<close>, and the start of the
  application in \<open>src/console-ui/src/index.js\<close>.

  A slice is an object, an association list; an action is its type and its other fields.  Every
  reducer is the \<open>switch\<close> of its file.  The locale \<open>slice_reducer\<close> states what redux asks of a
  reducer; it is interpreted for the six of them.
\<close>

type_synonym slice = "(string \<times> jsval) list"

record action =
  act_type :: string
  act_fields :: slice

definition act_data :: "action \<Rightarrow> jsval" where
  "act_data a = field (Obj (act_fields a)) ''data''"

text \<open>\<open>{ ...x }\<close>, a copy.\<close>

definition spread :: "jsval \<Rightarrow> jsval" where
  "spread v = Obj (assign [] (own_fields v))"

definition LANGUAGE_KEY :: string where "LANGUAGE_KEY = ''docsite_language''"
definition LOGINPAGE_ENABLED :: string where "LOGINPAGE_ENABLED = ''docsite_loginpage''"
definition THEME :: string where "THEME = ''setting_theme''"
definition GLOBAL_PAGE_SIZE_LIST :: "nat list" where "GLOBAL_PAGE_SIZE_LIST = [10, 20, 30, 50, 100]"

section \<open>The reducers\<close>

definition locale_initial :: "jsval \<Rightarrow> slice" where
  "locale_initial enUS = [(''language'', Str ''en-us''), (''locale'', enUS)]"

definition locale_reducer :: "slice \<Rightarrow> action \<Rightarrow> slice" where
  "locale_reducer s a =
     (if act_type a = ''LANGUAGE_SWITCH''
      then assign (assign s [(''type'', Str (act_type a))]) (act_fields a) else s)"

definition base_initial :: slice where
  "base_initial =
     [(''version'', Null), (''standaloneMode'', Str []), (''functionMode'', Str []),
      (''loginPageEnabled'', Str []), (''authEnabled'', Str []), (''notice'', Str []),
      (''consoleUiEnable'', Str []), (''guideMsg'', Str [])]"

definition base_reducer :: "slice \<Rightarrow> action \<Rightarrow> slice" where
  "base_reducer s a =
     (if act_type a = ''GET_STATE'' then assign s (own_fields (act_data a))
      else if act_type a = ''GET_NOTICE'' then assign s (own_fields (act_data a))
      else if act_type a = ''SERVER_GUIDE'' then assign s (own_fields (act_data a))
      else s)"

definition empty_page :: jsval where
  "empty_page = Obj [(''totalCount'', Num 0), (''pageNumber'', Num 1), (''pagesAvailable'', Num 1),
     (''pageItems'', Arr [])]"

definition authority_initial :: slice where
  "authority_initial = [(''users'', empty_page), (''roles'', empty_page), (''permissions'', empty_page)]"

definition authority_reducer :: "slice \<Rightarrow> action \<Rightarrow> slice" where
  "authority_reducer s a =
     (if act_type a = ''USER_LIST'' then assign s [(''users'', spread (act_data a))]
      else if act_type a = ''ROLE_LIST'' then assign s [(''roles'', spread (act_data a))]
      else if act_type a = ''PERMISSIONS_LIST'' then assign s [(''permissions'', spread (act_data a))]
      else s)"

definition namespace_initial :: slice where
  "namespace_initial = [(''namespaces'', Arr [])]"

definition namespace_reducer :: "slice \<Rightarrow> action \<Rightarrow> slice" where
  "namespace_reducer s a =
     (if act_type a = ''GET_NAMESPACES'' then assign s [(''namespaces'', act_data a)] else s)"

definition configuration_initial :: slice where
  "configuration_initial = [(''configurations'', Arr [])]"

definition configuration_reducer :: "slice \<Rightarrow> action \<Rightarrow> slice" where
  "configuration_reducer s a =
     (if act_type a = ''GET_CONFIGURATION'' then assign s [(''configurations'', act_data a)] else s)"

definition subscribers_initial :: slice where
  "subscribers_initial = [(''subscribers'', Obj [])]"

definition subscribers_reducer :: "slice \<Rightarrow> action \<Rightarrow> slice" where
  "subscribers_reducer s a =
     (if act_type a = ''GET_SUBSCRIBERS'' then assign s (own_fields (act_data a))
      else if act_type a = ''REMOVE_SUBSCRIBERS'' then assign s [(''subscribers'', Obj [])]
      else s)"

text \<open>What a reducer promises: actions it does not handle leave its slice as it is, a slice stays an
  object, and keys never disappear.\<close>

locale slice_reducer =
  fixes reduce :: "slice \<Rightarrow> action \<Rightarrow> slice" and handled :: "string list"
  assumes ignores: "act_type a \<notin> set handled \<Longrightarrow> reduce s a = s"
    and keeps_object: "distinct (map fst s) \<Longrightarrow> distinct (map fst (reduce s a))"
    and keeps_keys: "fst ` set s \<subseteq> fst ` set (reduce s a)"
begin

lemma only_handled: "foldl reduce s as = foldl reduce s (filter (\<lambda>a. act_type a \<in> set handled) as)"
  by (induction as arbitrary: s) (auto simp: ignores)

lemma object_throughout: "distinct (map fst s) \<Longrightarrow> distinct (map fst (foldl reduce s as))"
  by (induction as arbitrary: s) (auto simp: keeps_object)

lemma keys_throughout: "fst ` set s \<subseteq> fst ` set (foldl reduce s as)"
proof (induction as arbitrary: s)
  case Nil
  then show ?case by simp
next
  case (Cons a as)
  show ?case using keeps_keys [of s a] Cons.IH [of "reduce s a"] by auto
qed

end

lemma assign_keys: "fst ` set s \<subseteq> fst ` set (assign s xs)"
  by (simp add: fst_assign)

interpretation locale_slice: slice_reducer locale_reducer "[''LANGUAGE_SWITCH'']"
  by unfold_locales (simp_all add: locale_reducer_def distinct_update distinct_assign dom_update fst_assign subset_iff)

interpretation base_slice: slice_reducer base_reducer "[''GET_STATE'', ''GET_NOTICE'', ''SERVER_GUIDE'']"
  by unfold_locales (simp_all add: base_reducer_def distinct_assign assign_keys)

interpretation authority_slice: slice_reducer authority_reducer "[''USER_LIST'', ''ROLE_LIST'', ''PERMISSIONS_LIST'']"
  by unfold_locales (simp_all add: authority_reducer_def distinct_update dom_update subset_iff)

interpretation namespace_slice: slice_reducer namespace_reducer "[''GET_NAMESPACES'']"
  by unfold_locales (simp_all add: namespace_reducer_def distinct_update dom_update subset_iff)

interpretation configuration_slice: slice_reducer configuration_reducer "[''GET_CONFIGURATION'']"
  by unfold_locales (simp_all add: configuration_reducer_def distinct_update dom_update subset_iff)

interpretation subscribers_slice: slice_reducer subscribers_reducer "[''GET_SUBSCRIBERS'', ''REMOVE_SUBSCRIBERS'']"
  by unfold_locales (simp_all add: subscribers_reducer_def distinct_update distinct_assign fst_assign dom_update subset_iff)

section \<open>The store\<close>

record store =
  sl_locale :: slice
  sl_base :: slice
  sl_subscribers :: slice
  sl_authority :: slice
  sl_namespace :: slice
  sl_configuration :: slice

definition initial_store :: "jsval \<Rightarrow> store" where
  "initial_store enUS = \<lparr>sl_locale = locale_initial enUS, sl_base = base_initial,
     sl_subscribers = subscribers_initial, sl_authority = authority_initial,
     sl_namespace = namespace_initial, sl_configuration = configuration_initial\<rparr>"

text \<open>\<open>combineReducers\<close>: every reducer sees every action.\<close>

definition root_reducer :: "store \<Rightarrow> action \<Rightarrow> store" where
  "root_reducer st a = \<lparr>sl_locale = locale_reducer (sl_locale st) a, sl_base = base_reducer (sl_base st) a,
     sl_subscribers = subscribers_reducer (sl_subscribers st) a,
     sl_authority = authority_reducer (sl_authority st) a,
     sl_namespace = namespace_reducer (sl_namespace st) a,
     sl_configuration = configuration_reducer (sl_configuration st) a\<rparr>"

text \<open>The application: the browser, the store, and whether the body has the class \<open>dark\<close>.\<close>

record app =
  app_browser :: browser
  app_store :: store
  app_dark :: bool

definition dispatch :: "action \<Rightarrow> app stmt" where
  "dispatch a = modify (\<lambda>s. s\<lparr>app_store := root_reducer (app_store s) a\<rparr>)"

definition data_action :: "string \<Rightarrow> jsval \<Rightarrow> action" where
  "data_action t d = \<lparr>act_type = t, act_fields = [(''data'', d)]\<rparr>"

definition store_item :: "string \<Rightarrow> string \<Rightarrow> app stmt" where
  "store_item k v = modify (\<lambda>s. s\<lparr>app_browser := set_item k v (app_browser s)\<rparr>)"

text \<open>Reading a property of \<open>undefined\<close> or \<open>null\<close> raises.\<close>

definition need_object :: "jsval \<Rightarrow> 's stmt \<Rightarrow> 's stmt" where
  "need_object v a = (if v \<in> {Undef, Null} then throw TypeError else a)"

lemma preserves_need_object [preserves_intros]: "preserves P a \<Longrightarrow> preserves P (need_object v a)"
  by (simp add: need_object_def preserves_throw)

definition changeLanguage :: "jsval \<Rightarrow> jsval \<Rightarrow> jsval \<Rightarrow> app stmt" where
  "changeLanguage enUS zhCN lang =
     (let language = (if lang = Str ''zh-CN'' then ''zh-CN'' else ''en-US'') in
      block [store_item LANGUAGE_KEY language,
        dispatch \<lparr>act_type = ''LANGUAGE_SWITCH'', act_fields =
          [(''language'', Str language), (''locale'', if language = ''zh-CN'' then zhCN else enUS)]\<rparr>])"

definition changeTheme :: "jsval \<Rightarrow> app stmt" where
  "changeTheme theme =
     block [modify (\<lambda>s. s\<lparr>app_dark := (theme = Str ''dark'')\<rparr>), store_item THEME (to_str theme)]"

definition getState_then :: "jsval \<Rightarrow> app stmt" where
  "getState_then res = need_object res (block
     [store_item LOGINPAGE_ENABLED (to_str (field res ''login_page_enabled'')),
      dispatch (data_action ''GET_STATE'' (Obj
        [(''version'', field res ''version''), (''standaloneMode'', field res ''standalone_mode''),
         (''functionMode'', field res ''function_mode''),
         (''loginPageEnabled'', field res ''login_page_enabled''),
         (''authEnabled'', field res ''auth_enabled''),
         (''consoleUiEnable'', field res ''console_ui_enabled''),
         (''startupMode'', field res ''startup_mode'')]))])"

definition getState_catch :: "app stmt" where
  "getState_catch = block
     [store_item LOGINPAGE_ENABLED ''null'',
      dispatch (data_action ''GET_STATE'' (Obj
        [(''version'', Null), (''functionMode'', Null), (''loginPageEnabled'', Null),
         (''authEnabled'', Null), (''consoleUiEnable'', Null)]))]"

definition getState :: "jsval option \<Rightarrow> app stmt" where
  "getState = then_catch getState_then getState_catch"

definition getNotice :: "jsval option \<Rightarrow> app stmt" where
  "getNotice = then_catch
     (\<lambda>res. need_object res (dispatch (data_action ''GET_NOTICE'' (Obj [(''notice'', field res ''data'')]))))
     (dispatch (data_action ''GET_NOTICE'' (Obj [(''notice'', Str [])])))"

definition getNotice_url :: "browser \<Rightarrow> string" where
  "getNotice_url b = ''v1/console/server/announcement?language='' @ null_str (get_item b LANGUAGE_KEY)"

definition getGuide :: "jsval option \<Rightarrow> app stmt" where
  "getGuide = then_catch
     (\<lambda>res. need_object res (dispatch (data_action ''SERVER_GUIDE'' (Obj [(''guideMsg'', field res ''data'')]))))
     (dispatch (data_action ''SERVER_GUIDE'' (Obj [(''guideMsg'', Str [])])))"

definition getNamespaces :: "jsval option \<Rightarrow> app stmt" where
  "getNamespaces = then_only (\<lambda>response. need_object response
     (dispatch (data_action ''GET_NAMESPACES''
        (if field response ''code'' = Num 200 then field response ''data'' else Arr []))))"

text \<open>The lists of the authority pages, the configurations and the subscribers: what arrives is
  dispatched as it is.\<close>

definition loaded :: "string \<Rightarrow> jsval option \<Rightarrow> app stmt" where
  "loaded t = then_only (\<lambda>data. dispatch (data_action t data))"

definition getUsers :: "jsval option \<Rightarrow> app stmt" where "getUsers = loaded ''USER_LIST''"
definition getRoles :: "jsval option \<Rightarrow> app stmt" where "getRoles = loaded ''ROLE_LIST''"
definition getPermissions :: "jsval option \<Rightarrow> app stmt" where "getPermissions = loaded ''PERMISSIONS_LIST''"
definition getConfigs :: "jsval option \<Rightarrow> app stmt" where "getConfigs = loaded ''GET_CONFIGURATION''"
definition getConfigsV2 :: "jsval option \<Rightarrow> app stmt" where "getConfigsV2 = loaded ''GET_CONFIGURATION''"
definition getSubscribers :: "jsval option \<Rightarrow> app stmt" where "getSubscribers = loaded ''GET_SUBSCRIBERS''"
definition removeSubscribers :: "app stmt" where
  "removeSubscribers = dispatch \<lparr>act_type = ''REMOVE_SUBSCRIBERS'', act_fields = []\<rparr>"

section \<open>Calls of the authority's interface\<close>

definition get_call :: "string \<Rightarrow> jsval \<Rightarrow> aconfig" where
  "get_call url params = \<lparr>a_url = url, a_method = ''get'',
     a_params = (case params of Obj fs \<Rightarrow> Some fs | _ \<Rightarrow> None), a_data = Undef, a_headers = None\<rparr>"

definition delete_call :: "string \<Rightarrow> jsval \<Rightarrow> aconfig" where
  "delete_call url params = (get_call url params)\<lparr>a_method := ''delete''\<rparr>"

definition body_call :: "string \<Rightarrow> string \<Rightarrow> jsval \<Rightarrow> aconfig" where
  "body_call m url data =
     \<lparr>a_url = url, a_method = m, a_params = None, a_data = data, a_headers = None\<rparr>"

definition login_call :: "jsval \<Rightarrow> aconfig" where
  "login_call user = body_call ''post'' ''v1/auth/users/login'' user"

definition createUser :: "jsval \<Rightarrow> jsval \<Rightarrow> aconfig" where
  "createUser username password =
     body_call ''post'' ''v1/auth/users'' (Obj [(''username'', username), (''password'', password)])"

definition searchUsers :: "jsval \<Rightarrow> aconfig" where
  "searchUsers username = get_call ''v1/auth/users/search'' (Obj [(''username'', username)])"

definition deleteUser :: "jsval \<Rightarrow> aconfig" where
  "deleteUser username = delete_call ''v1/auth/users'' (Obj [(''username'', username)])"

definition passwordReset :: "jsval \<Rightarrow> jsval \<Rightarrow> aconfig" where
  "passwordReset username newPassword =
     body_call ''put'' ''v1/auth/users'' (Obj [(''username'', username), (''newPassword'', newPassword)])"

definition searchRoles :: "jsval \<Rightarrow> aconfig" where
  "searchRoles role = get_call ''v1/auth/roles/search'' (Obj [(''role'', role)])"

definition createRole :: "jsval \<Rightarrow> jsval \<Rightarrow> aconfig" where
  "createRole role username =
     body_call ''post'' ''v1/auth/roles'' (Obj [(''role'', role), (''username'', username)])"

definition deleteRole :: "jsval \<Rightarrow> aconfig" where
  "deleteRole role = delete_call ''v1/auth/roles'' role"

definition createPermission :: "jsval \<Rightarrow> jsval \<Rightarrow> jsval \<Rightarrow> aconfig" where
  "createPermission role resource act = body_call ''post'' ''v1/auth/permissions''
     (Obj [(''role'', role), (''resource'', resource), (''action'', act)])"

definition deletePermission :: "jsval \<Rightarrow> aconfig" where
  "deletePermission permission = delete_call ''v1/auth/permissions'' permission"

text \<open>What these calls do with the answer before their callers see it.\<close>

definition successMsg :: "jsval \<Rightarrow> 's stmt" where
  "successMsg res = need_object res
     (if field res ''code'' = Num 200 then emit (\<lambda>_. Call ''Message.success'' [field res ''message'']) else skip)"

section \<open>The start of the application\<close>

definition init_language :: "string \<Rightarrow> browser \<Rightarrow> browser" where
  "init_language navigator_language b =
     (if or_empty (get_item b LANGUAGE_KEY) = []
      then set_item LANGUAGE_KEY (if navigator_language = ''zh-CN'' then ''zh-CN'' else ''en-US'') b else b)"

definition item_val :: "string option \<Rightarrow> jsval" where
  "item_val m = (case m of None \<Rightarrow> Null | Some s \<Rightarrow> Str s)"

text \<open>\<open>componentDidMount\<close> of \<open>App\<close>: the request for the state is still on its way when the two other
  actions run.\<close>

definition App_componentDidMount :: "jsval \<Rightarrow> jsval \<Rightarrow> app stmt" where
  "App_componentDidMount enUS zhCN = block
     [emit (\<lambda>_. Ajax ''get'' ''v1/console/server/state'' []),
      with_state (\<lambda>s. changeLanguage enUS zhCN (item_val (get_item (app_browser s) LANGUAGE_KEY))),
      with_state (\<lambda>s. changeTheme (item_val (get_item (app_browser s) THEME)))]"

section \<open>Properties\<close>

lemma root_reducer_sel [simp]:
  "sl_locale (root_reducer st a) = locale_reducer (sl_locale st) a"
  "sl_base (root_reducer st a) = base_reducer (sl_base st) a"
  "sl_subscribers (root_reducer st a) = subscribers_reducer (sl_subscribers st) a"
  "sl_authority (root_reducer st a) = authority_reducer (sl_authority st) a"
  "sl_namespace (root_reducer st a) = namespace_reducer (sl_namespace st) a"
  "sl_configuration (root_reducer st a) = configuration_reducer (sl_configuration st) a"
  by (simp_all add: root_reducer_def)

text \<open>The keys under which \<open>reducers/index.js\<close> registers the slices, and the slice whose \<open>switch\<close> names
  an action type.\<close>

datatype slice_key = LocaleS | BaseS | SubscribersS | AuthorityS | NamespaceS | ConfigurationS

definition owner :: "string \<Rightarrow> slice_key option" where
  "owner t =
     (if t \<in> set [''LANGUAGE_SWITCH''] then Some LocaleS
      else if t \<in> set [''GET_STATE'', ''GET_NOTICE'', ''SERVER_GUIDE''] then Some BaseS
      else if t \<in> set [''USER_LIST'', ''ROLE_LIST'', ''PERMISSIONS_LIST''] then Some AuthorityS
      else if t \<in> set [''GET_NAMESPACES''] then Some NamespaceS
      else if t \<in> set [''GET_CONFIGURATION''] then Some ConfigurationS
      else if t \<in> set [''GET_SUBSCRIBERS'', ''REMOVE_SUBSCRIBERS''] then Some SubscribersS else None)"

fun slice_of :: "slice_key \<Rightarrow> store \<Rightarrow> slice" where
  "slice_of LocaleS st = sl_locale st"
| "slice_of BaseS st = sl_base st"
| "slice_of SubscribersS st = sl_subscribers st"
| "slice_of AuthorityS st = sl_authority st"
| "slice_of NamespaceS st = sl_namespace st"
| "slice_of ConfigurationS st = sl_configuration st"

lemma owner_types:
  "owner t = Some LocaleS \<longleftrightarrow> t \<in> set [''LANGUAGE_SWITCH'']"
  "owner t = Some BaseS \<longleftrightarrow> t \<in> set [''GET_STATE'', ''GET_NOTICE'', ''SERVER_GUIDE'']"
  "owner t = Some AuthorityS \<longleftrightarrow> t \<in> set [''USER_LIST'', ''ROLE_LIST'', ''PERMISSIONS_LIST'']"
  "owner t = Some NamespaceS \<longleftrightarrow> t \<in> set [''GET_NAMESPACES'']"
  "owner t = Some ConfigurationS \<longleftrightarrow> t \<in> set [''GET_CONFIGURATION'']"
  "owner t = Some SubscribersS \<longleftrightarrow> t \<in> set [''GET_SUBSCRIBERS'', ''REMOVE_SUBSCRIBERS'']"
  by (auto simp: owner_def)

lemma owner_slice: "owner (act_type a) \<noteq> Some n \<Longrightarrow> slice_of n (root_reducer st a) = slice_of n st"
  by (cases n) (simp_all only: owner_types slice_of.simps root_reducer_sel locale_slice.ignores
      base_slice.ignores authority_slice.ignores namespace_slice.ignores configuration_slice.ignores
      subscribers_slice.ignores not_False_eq_True)

lemma slice_step: "slice_of n st1 = slice_of n st2 \<Longrightarrow>
  slice_of n (root_reducer st1 a) = slice_of n (root_reducer st2 a)"
  by (cases n) simp_all

lemma slice_of_foldl:
  "slice_of n st1 = slice_of n st2 \<Longrightarrow>
   slice_of n (foldl root_reducer st1 as) =
   slice_of n (foldl root_reducer st2 (filter (\<lambda>a. owner (act_type a) = Some n) as))"
proof (induction as arbitrary: st1 st2)
  case Nil
  then show ?case by simp
next
  case (Cons a as)
  show ?case
  proof (cases "owner (act_type a) = Some n")
    case True
    then show ?thesis using Cons.IH [OF slice_step [OF Cons.prems]] by simp
  next
    case False
    then have "slice_of n (root_reducer st1 a) = slice_of n st2"
      using Cons.prems owner_slice by simp
    with False show ?thesis using Cons.IH by simp
  qed
qed

text \<open>Every slice of the store is the result of its own actions alone, in their order: actions of
  the other slices, wherever they are interleaved, do not show.\<close>

theorem slices_independent:
  "slice_of n (foldl root_reducer st as) =
   slice_of n (foldl root_reducer st (filter (\<lambda>a. owner (act_type a) = Some n) as))"
  by (rule slice_of_foldl) (rule refl)

lemma app_stmt_simps [simp]:
  "app_browser (state_of (dispatch a s)) = app_browser s"
  "app_store (state_of (store_item k v s)) = app_store s"
  by (simp_all add: dispatch_def store_item_def modify_def)

lemma field_assign:
  "field (Obj (assign s xs)) k = (case map_of (rev xs) k of None \<Rightarrow> field (Obj s) k | Some v \<Rightarrow> v)"
  by (simp add: map_of_assign split: option.split)

lemma base_data_action:
  "t \<in> {''GET_STATE'', ''GET_NOTICE'', ''SERVER_GUIDE''} \<Longrightarrow>
   base_reducer s (data_action t (Obj fs)) = assign s fs"
  by (auto simp: base_reducer_def data_action_def act_data_def own_fields_def)

lemma block_two: "error_of (a s) = None \<Longrightarrow> error_of (b (state_of (a s))) = None \<Longrightarrow>
  state_of (block [a, b] s) = state_of (b (state_of (a s))) \<and> error_of (block [a, b] s) = None"
  by (cases "a s"; cases "b (state_of (a s))") simp

lemma app_stmt_errors [simp]:
  "error_of (dispatch a s) = None" "error_of (store_item k v s) = None"
  by (simp_all add: dispatch_def store_item_def modify_def)

lemma app_stmt_states:
  "app_store (state_of (dispatch a s)) = root_reducer (app_store s) a"
  "app_browser (state_of (store_item k v s)) = set_item k v (app_browser s)"
  by (simp_all add: dispatch_def store_item_def modify_def)

definition switch_agrees :: "jsval \<Rightarrow> app \<Rightarrow> bool" where
  "switch_agrees v s' \<longleftrightarrow> get_item (app_browser s') ''docsite_loginpage'' = Some (to_str v) \<and>
     field (Obj (sl_base (app_store s'))) ''loginPageEnabled'' = v"

lemma getState_then_spec:
  assumes "res \<notin> {Undef, Null}"
  shows "error_of (getState_then res s) = None"
    and "switch_agrees (field res ''login_page_enabled'') (state_of (getState_then res s))"
  using assms unfolding getState_then_def need_object_def switch_agrees_def
  by (simp_all add: block_two app_stmt_states base_data_action field_assign LOGINPAGE_ENABLED_def
      del: block.simps field_Obj assign_Cons)

lemma getState_catch_spec:
  "error_of (getState_catch s) = None"
  "switch_agrees Null (state_of (getState_catch s))"
  "k \<in> {''standaloneMode'', ''startupMode'', ''notice'', ''guideMsg''} \<Longrightarrow>
     field (Obj (sl_base (app_store (state_of (getState_catch s))))) k = field (Obj (sl_base (app_store s))) k"
  unfolding getState_catch_def switch_agrees_def
  by (simp_all add: block_two app_stmt_states base_data_action field_assign LOGINPAGE_ENABLED_def
      del: block.simps field_Obj assign_Cons) auto

lemma getState_cases:
  "getState r s = (if r \<in> {None, Some Undef, Some Null} then getState_catch s else getState_then (the r) s)"
proof (cases "r \<in> {None, Some Undef, Some Null}")
  case True
  then show ?thesis
    by (auto simp: getState_def then_catch_def getState_then_def need_object_def throw_def split: prod.split)
next
  case False
  then obtain x where x: "r = Some x" "x \<notin> {Undef, Null}" by (cases r) auto
  obtain s1 e1 where "getState_then x s = (s1, e1, None)"
    using getState_then_spec(1) [OF x(2), of s] by (cases "getState_then x s") simp
  with x False show ?thesis by (simp add: getState_def then_catch_ok)
qed

text \<open>After the server's state has arrived, the browser's copy of the login switch, which the
  request client reads, and the store's copy, which the router reads, are the same value; after a
  failure both are null, and the other fields the failure does not name keep what they had.\<close>

theorem getState_login_switch:
  "let s' = state_of (getState r s); lost = r \<in> {None, Some Undef, Some Null} in
   error_of (getState r s) = None \<and>
   switch_agrees (if lost then Null else field (the r) ''login_page_enabled'') s' \<and>
   (lost \<longrightarrow> (\<forall>k \<in> {''standaloneMode'', ''startupMode'', ''notice'', ''guideMsg''}.
      field (Obj (sl_base (app_store s'))) k = field (Obj (sl_base (app_store s))) k))"
proof (cases "r \<in> {None, Some Undef, Some Null}")
  case True
  then show ?thesis
    unfolding getState_cases Let_def using getState_catch_spec [where s = s] by (simp del: field_Obj)
next
  case False
  then obtain x where x: "r = Some x" "x \<notin> {Undef, Null}" by (cases r) auto
  have n: "(Some x \<in> {None, Some Undef, Some Null}) = False" using x(2) by simp
  show ?thesis
    unfolding getState_cases Let_def x(1) n if_False option.sel
    using getState_then_spec [OF x(2), of s] by (simp del: field_Obj)
qed

definition sample_app :: app where
  "sample_app = \<lparr>app_browser = sample_browser, app_store = initial_store Undef, app_dark = False\<rparr>"

theorem getState_login_switch_witness:
  "switch_agrees (Str ''false'')
     (state_of (getState (Some (Obj [(''login_page_enabled'', Str ''false'')])) sample_app))"
  using getState_login_switch [of "Some (Obj [(''login_page_enabled'', Str ''false'')])" sample_app]
  by (simp add: Let_def)

lemma changeLanguage_spec:
  "error_of (changeLanguage enUS zhCN lang s) = None"
  "app_browser (state_of (changeLanguage enUS zhCN lang s)) =
     set_item LANGUAGE_KEY (if lang = Str ''zh-CN'' then ''zh-CN'' else ''en-US'') (app_browser s)"
  "sl_locale (app_store (state_of (changeLanguage enUS zhCN lang s))) =
     assign (sl_locale (app_store s)) [(''type'', Str ''LANGUAGE_SWITCH''),
       (''language'', Str (if lang = Str ''zh-CN'' then ''zh-CN'' else ''en-US'')),
       (''locale'', if lang = Str ''zh-CN'' then zhCN else enUS)]"
  unfolding changeLanguage_def Let_def
  by (simp_all add: block_two app_stmt_states locale_reducer_def del: block.simps)

lemma changeTheme_spec:
  "error_of (changeTheme theme s) = None"
  "app_browser (state_of (changeTheme theme s)) = set_item THEME (to_str theme) (app_browser s)"
  "app_store (state_of (changeTheme theme s)) = app_store s"
  "app_dark (state_of (changeTheme theme s)) = (theme = Str ''dark'')"
  by (simp_all add: changeTheme_def store_item_def modify_def)

lemma keys_differ [simp]: "LANGUAGE_KEY \<noteq> THEME" "THEME \<noteq> LANGUAGE_KEY"
  by (simp_all add: LANGUAGE_KEY_def THEME_def)

lemma App_state:
  "state_of (App_componentDidMount enUS zhCN s) =
     (let s1 = state_of (changeLanguage enUS zhCN (item_val (get_item (app_browser s) LANGUAGE_KEY)) s)
      in state_of (changeTheme (item_val (get_item (app_browser s1) THEME)) s1))"
proof -
  let ?l = "changeLanguage enUS zhCN (item_val (get_item (app_browser s) LANGUAGE_KEY))"
  obtain s1 e1 where l: "?l s = (s1, e1, None)"
    using changeLanguage_spec(1) by (cases "?l s") (metis outcome_simps(3))
  obtain s2 e2 where t: "changeTheme (item_val (get_item (app_browser s1) THEME)) s1 = (s2, e2, None)"
    using changeTheme_spec(1) by (cases "changeTheme (item_val (get_item (app_browser s1) THEME)) s1")
      (metis outcome_simps(3))
  show ?thesis using l t by (simp add: App_componentDidMount_def emit_def with_state_def)
qed

text \<open>Whatever the browser had stored, the start of the application leaves a known language both in
  the browser and in the store, with the dictionary that belongs to it; a stored language that is
  already known survives, and an absent one is taken from the navigator.\<close>

theorem App_start_language:
  "let s1 = state_of (App_componentDidMount enUS zhCN (s\<lparr>app_browser := init_language nav (app_browser s)\<rparr>));
       old = or_empty (get_item (app_browser s) LANGUAGE_KEY);
       l = (if old = ''zh-CN'' \<or> old = [] \<and> nav = ''zh-CN'' then ''zh-CN'' else ''en-US'')
   in get_item (app_browser s1) LANGUAGE_KEY = Some l \<and>
      field (Obj (sl_locale (app_store s1))) ''language'' = Str l \<and>
      field (Obj (sl_locale (app_store s1))) ''locale'' = (if l = ''zh-CN'' then zhCN else enUS)"
proof -
  let ?b = "init_language nav (app_browser s)"
  let ?old = "or_empty (get_item (app_browser s) LANGUAGE_KEY)"
  let ?l = "if ?old = ''zh-CN'' \<or> ?old = [] \<and> nav = ''zh-CN'' then ''zh-CN'' else ''en-US''"
  have "(item_val (get_item ?b LANGUAGE_KEY) = Str ''zh-CN'') = (?l = ''zh-CN'')"
    by (auto simp: init_language_def item_val_def or_empty_def split: option.splits)
  then have "(if item_val (get_item ?b LANGUAGE_KEY) = Str ''zh-CN'' then ''zh-CN'' else ''en-US'') = ?l"
    "(if item_val (get_item ?b LANGUAGE_KEY) = Str ''zh-CN'' then zhCN else enUS)
      = (if ?l = ''zh-CN'' then zhCN else enUS)"
    by simp_all
  then show ?thesis
    unfolding App_state Let_def
    by (simp add: changeLanguage_spec changeTheme_spec field_assign del: field_Obj assign_Cons)
qed

end
