(* ===== verification/Layout.thy ===== *)
theory Layout
  imports Store
begin

text \<open>
  The frame around the pages: the menu (\<open>src/console-ui/src/layouts/menu.js\<close>), the side bar
  (\<open>layouts/MainLayout.js\<close>), the head line with the user's name and the language switch
  (\<open>layouts/Header.js\<close>), the router (\<open>index.js\<close>), and the pages that only read and write the session:
  \<open>pages/Login\<close>, \<open>pages/SettingCenter\<close> and \<open>pages/Welcome\<close>.

  \<open>atob\<close>, \<open>escape\<close> and \<open>URLSearchParams\<close> are the browser's, written out for code units below 256.
\<close>

section \<open>The menu\<close>

record menu_item =
  m_key :: string
  m_url :: "string option"
  m_children :: "(string \<times> string) list option"

definition leaf :: "string \<Rightarrow> string \<Rightarrow> menu_item" where
  "leaf k u = \<lparr>m_key = k, m_url = Some u, m_children = None\<rparr>"

definition group :: "string \<Rightarrow> (string \<times> string) list \<Rightarrow> menu_item" where
  "group k cs = \<lparr>m_key = k, m_url = None, m_children = Some cs\<rparr>"

definition serviceDiscoveryMenu :: menu_item where
  "serviceDiscoveryMenu = group ''serviceManagementVirtual''
     [(''serviceManagement'', ''/serviceManagement''), (''subscriberList'', ''/subscriberList'')]"

definition configurationMenu :: menu_item where
  "configurationMenu = group ''configurationManagementVirtual''
     [(''configurationManagement'', ''/configurationManagement''),
      (''historyRollback'', ''/historyRollback''), (''listeningToQuery'', ''/listeningToQuery'')]"

definition authorityControlMenu :: menu_item where
  "authorityControlMenu = group ''authorityControl''
     [(''userList'', ''/userManagement''), (''roleManagement'', ''/rolesManagement''),
      (''privilegeManagement'', ''/permissionsManagement'')]"

definition namespaceMenu :: menu_item where
  "namespaceMenu = leaf ''namespace'' ''/namespace''"

definition clusterMenu :: menu_item where
  "clusterMenu = group ''clusterManagementVirtual'' [(''clusterManagement'', ''/clusterManagement'')]"

definition settingMenu :: menu_item where
  "settingMenu = leaf ''settingCenter'' ''/settingCenter''"

definition stored_global_admin :: "browser \<Rightarrow> jsval" where
  "stored_global_admin b =
     (let token = (case get_item b ''token'' of None \<Rightarrow> ''{}'' | Some t \<Rightarrow> t)
      in if isJsonString token
         then field (js_or (case json_parse token of None \<Rightarrow> Undef | Some v \<Rightarrow> v) (Obj [])) ''globalAdmin''
         else Undef)"

definition getMenuData :: "browser \<Rightarrow> jsval \<Rightarrow> menu_item list" where
  "getMenuData b model =
     (if model = Str ''naming'' then [serviceDiscoveryMenu]
      else if model = Str ''config'' then [configurationMenu]
      else [configurationMenu, serviceDiscoveryMenu])
     @ (if truthy (stored_global_admin b) then [authorityControlMenu] else [])
     @ [namespaceMenu, clusterMenu, settingMenu]"

section \<open>The side bar\<close>

definition child_urls :: "menu_item \<Rightarrow> string list" where
  "child_urls m = (case m_children m of None \<Rightarrow> [] | Some cs \<Rightarrow> map snd cs)"

definition item_urls :: "menu_item \<Rightarrow> string list" where
  "item_urls m = (case m_url m of None \<Rightarrow> [] | Some u \<Rightarrow> if u = [] then [] else [u]) @ child_urls m"

definition isCurrentPath :: "string \<Rightarrow> string \<Rightarrow> string option" where
  "isCurrentPath pathname url = (if url = pathname then Some ''current-path next-selected'' else None)"

fun first_open :: "string \<Rightarrow> nat \<Rightarrow> menu_item list \<Rightarrow> string option" where
  "first_open pathname i [] = None"
| "first_open pathname i (m # ms) =
     (if filter (\<lambda>u. u = pathname) (child_urls m) \<noteq> [] then Some (nat_str i)
      else first_open pathname (Suc i) ms)"

definition defaultOpenKeys :: "browser \<Rightarrow> jsval \<Rightarrow> string \<Rightarrow> string option" where
  "defaultOpenKeys b functionMode pathname = first_open pathname 0 (getMenuData b functionMode)"

definition isShowGoBack :: "browser \<Rightarrow> jsval \<Rightarrow> string \<Rightarrow> bool" where
  "isShowGoBack b functionMode pathname =
     (pathname \<notin> set (concat (map item_urls (getMenuData b functionMode))))"

text \<open>\<open>URLSearchParams\<close>.  A percent sign that starts no encoded code point stands for itself.\<close>

definition pct_char :: "char \<Rightarrow> string" where
  "pct_char c = (let n = of_char c :: nat in
     if n < 128 then pct n else pct (192 + n div 64) @ pct (128 + n mod 64))"

definition form_char :: "char \<Rightarrow> string" where
  "form_char c = (if c = CHR '' '' then ''+''
     else if uri_unreserved c \<and> c \<notin> set [CHR ''!'', CHR ''~'', CHR 0x27, CHR ''('', CHR '')''] then [c]
     else pct_char c)"

definition form_encode :: "string \<Rightarrow> string" where
  "form_encode s = concat (map form_char s)"

function form_decode :: "string \<Rightarrow> string" where
  "form_decode [] = []"
| "form_decode (c # s) =
     (if c = CHR ''+'' then CHR '' '' # form_decode s
      else (case p_code_point (c # s) of
              None \<Rightarrow> c # form_decode s
            | Some (u, r) \<Rightarrow> u @ form_decode r))"
  by pat_completeness auto
termination
  by (relation "measure length") (auto dest: p_code_point_shorter)

definition usp_pair :: "string \<Rightarrow> string \<times> string" where
  "usp_pair p = (form_decode (takeWhile (\<lambda>c. c \<noteq> CHR ''='') p),
     form_decode (drop 1 (dropWhile (\<lambda>c. c \<noteq> CHR ''='') p)))"

definition usp_parse :: "string \<Rightarrow> (string \<times> string) list" where
  "usp_parse s = map usp_pair (filter (\<lambda>p. p \<noteq> [])
     (split_on (CHR ''&'') (if starts_with ''?'' s then drop 1 s else s)))"

definition usp_string :: "(string \<times> string) list \<Rightarrow> string" where
  "usp_string ps = js_join ''&'' (map (\<lambda>(k, v). form_encode k @ ''='' @ form_encode v) ps)"

fun usp_replace :: "string \<Rightarrow> string \<Rightarrow> (string \<times> string) list \<Rightarrow> (string \<times> string) list" where
  "usp_replace k v [] = [(k, v)]"
| "usp_replace k v (p # ps) =
     (if fst p = k then (k, v) # filter (\<lambda>q. fst q \<noteq> k) ps else p # usp_replace k v ps)"

text \<open>The parameters a menu entry is opened with, and the address pushed; \<open>now\<close> and \<open>show\<close> are
  \<open>window.nownamespace\<close> and \<open>window.namespaceShowName\<close>.\<close>

definition nav_params :: "jsval \<Rightarrow> jsval \<Rightarrow> string \<Rightarrow> (string \<times> string) list" where
  "nav_params now show search =
     usp_replace ''namespaceShowName'' (to_str show) (usp_replace ''namespace'' (to_str now) (usp_parse search))"

definition layout_navTo :: "jsval \<Rightarrow> jsval \<Rightarrow> string \<Rightarrow> string \<Rightarrow> 's stmt" where
  "layout_navTo now show search url =
     emit (\<lambda>_. Push (url @ ''?'' @ usp_string (nav_params now show search)))"

definition layout_goBack :: "'s stmt" where
  "layout_goBack = emit (\<lambda>_. GoBack)"

definition MainLayout_componentDidMount :: "app stmt" where
  "MainLayout_componentDidMount = block
     [emit (\<lambda>_. Ajax ''get'' ''v1/console/server/state'' []),
      emit (\<lambda>s. Ajax ''get'' (getNotice_url (app_browser s)) []),
      emit (\<lambda>_. Ajax ''get'' ''v1/console/server/guide'' [])]"

section \<open>The router\<close>

definition MENU :: "string list" where
  "MENU = [''/'', ''/welcome'', ''/namespace'', ''/newconfig'', ''/configsync'', ''/configdetail'',
     ''/configeditor'', ''/historyDetail'', ''/configRollback'', ''/historyRollback'',
     ''/listeningToQuery'', ''/configurationManagement'', ''/serviceManagement'', ''/serviceDetail'',
     ''/subscriberList'', ''/clusterManagement'', ''/userManagement'', ''/rolesManagement'',
     ''/permissionsManagement'', ''/settingCenter'']"

definition router_paths :: "jsval \<Rightarrow> jsval \<Rightarrow> string list" where
  "router_paths loginPageEnabled consoleUiEnable =
     (if truthy loginPageEnabled \<and> loginPageEnabled = Str ''false'' then [] else [''/login''])
     @ (if truthy consoleUiEnable \<and> consoleUiEnable = Str ''true'' then MENU else [])"

definition Welcome_redirect :: "jsval \<Rightarrow> string option" where
  "Welcome_redirect functionMode =
     (let path = (if functionMode = Str ''naming'' then ''serviceManagement'' else ''configurationManagement'')
      in if functionMode \<noteq> Str [] then Some (CHR ''/'' # path) else None)"

section \<open>The head line\<close>

definition switchLang :: "jsval \<Rightarrow> jsval \<Rightarrow> app stmt" where
  "switchLang enUS zhCN = with_state (\<lambda>s.
     let language = with_default (field (Obj (sl_locale (app_store s))) ''language'') (Str ''en-US'');
         currentLanguage = (if language = Str ''en-US'' then ''zh-CN'' else ''en-US'')
     in changeLanguage enUS zhCN (Str currentLanguage))"

definition logout :: "browser stmt" where
  "logout = block [modify (\<lambda>b. b\<lparr>storage := []\<rparr>), emit (\<lambda>_. Push ''/login'')]"

definition indexAction :: "'s stmt" where
  "indexAction = emit (\<lambda>_. Push ''/'')"

definition b64_val :: "char \<Rightarrow> nat option" where
  "b64_val c = (let n = of_char c :: nat in
     if 65 \<le> n \<and> n \<le> 90 then Some (n - 65)
     else if 97 \<le> n \<and> n \<le> 122 then Some (n - 71)
     else if 48 \<le> n \<and> n \<le> 57 then Some (n + 4)
     else if n = 43 then Some 62 else if n = 47 then Some 63 else None)"

fun b64_bytes :: "nat list \<Rightarrow> nat list" where
  "b64_bytes (a # b # c # d # r) =
     (a * 4 + b div 16) # (b mod 16 * 16 + c div 4) # (c mod 4 * 64 + d) # b64_bytes r"
| "b64_bytes [a, b, c] = [a * 4 + b div 16, b mod 16 * 16 + c div 4]"
| "b64_bytes [a, b] = [a * 4 + b div 16]"
| "b64_bytes _ = []"

definition strip_padding :: "string \<Rightarrow> string" where
  "strip_padding s =
     (if length s mod 4 = 0 \<and> s \<noteq> [] \<and> last s = CHR ''='' then
        (let t = butlast s in if t \<noteq> [] \<and> last t = CHR ''='' then butlast t else t)
      else s)"

definition atob :: "string \<Rightarrow> string option" where
  "atob s =
     (let t = strip_padding (filter (\<lambda>c. c \<notin> set [CHR '' '', CHR 0x09, CHR 0x0A, CHR 0x0C, CHR 0x0D]) s);
          vs = map b64_val t
      in if length t mod 4 = 1 \<or> None \<in> set vs then None
         else Some (map char_of (b64_bytes (map the vs))))"

definition js_escape :: "string \<Rightarrow> string" where
  "js_escape s = concat (map (\<lambda>c. let n = of_char c :: nat in
     if (48 \<le> n \<and> n \<le> 57) \<or> (65 \<le> n \<and> n \<le> 90) \<or> (97 \<le> n \<and> n \<le> 122)
        \<or> c \<in> set [CHR ''@'', CHR ''*'', CHR ''_'', CHR ''+'', CHR ''-'', CHR ''.'', CHR ''/'']
     then [c] else pct n) s)"

text \<open>\<open>JSON.parse(decodeURIComponent(escape(window.atob(base64)))).sub\<close>, \<open>None\<close> when it raises.\<close>

definition read_subject :: "string \<Rightarrow> jsval option" where
  "read_subject base64 =
     (case atob base64 of
        None \<Rightarrow> None
      | Some bytes \<Rightarrow>
          (case decode_uri (js_escape bytes) of
             None \<Rightarrow> None
           | Some text \<Rightarrow>
               (case json_parse text of
                  None \<Rightarrow> None
                | Some v \<Rightarrow> if v = Null then None else Some (field v ''sub''))))"

definition token_payload :: "string \<Rightarrow> string" where
  "token_payload token = slot_or (split_on (CHR ''.'') token) 1 []"

definition getUsername :: "browser \<Rightarrow> browser \<times> effect list \<times> jsval" where
  "getUsername b =
     (let token = or_empty (get_item b ''token'') in
      if token = [] then (b, [], Str [])
      else
        (let base64 = replace_first ''_'' ''/'' (replace_first ''-'' ''+'' (token_payload token)) in
         case read_subject base64 of
           Some v \<Rightarrow> (b, [], v)
         | None \<Rightarrow> (remove_item ''token'' b, [Call ''location.reload'' []], Str [])))"

record header_state =
  passwordResetUser :: jsval
  passwordResetUserVisible :: bool

definition changePassword :: "browser \<Rightarrow> header_state \<Rightarrow> browser \<times> effect list \<times> header_state" where
  "changePassword b h =
     (case getUsername b of (b1, e, u) \<Rightarrow>
        (b1, e, h\<lparr>passwordResetUser := u, passwordResetUserVisible := True\<rparr>))"

definition cancelPasswordReset :: "header_state \<Rightarrow> header_state" where
  "cancelPasswordReset h = h\<lparr>passwordResetUser := Undef, passwordResetUserVisible := False\<rparr>"

definition nav_links :: "string \<Rightarrow> string list" where
  "nav_links language =
     (let BASE_URL = ''https://nacos.io/'' @ lower language @ ''/''
      in [BASE_URL, BASE_URL @ ''docs/v2/what-is-nacos.html'', BASE_URL @ ''blog/index.html'',
          BASE_URL @ ''community/index.html'',
          ''https://cn.aliyun.com/product/aliware/mse?spm=nacos-website.topbar.0.0.0''])"

section \<open>Login\<close>

record login_page =
  lp_browser :: browser
  lp_closed :: bool
  lp_guideMsg :: jsval

text \<open>\<open>lp_closed\<close> is the state's \<open>consoleUiEnable\<close>, which is true when the console is \<^emph>\<open>not\<close> enabled.\<close>

definition Login_componentDidMount :: "login_page stmt" where
  "Login_componentDidMount = block
     [modify (\<lambda>s. let b = lp_browser s; baseUrl = slot_or (split_on (CHR ''#'') (w_href (b_win b))) 0 [] in
        if or_empty (get_item b ''token'') \<noteq> []
        then s\<lparr>lp_browser := b\<lparr>b_win := (b_win b)\<lparr>w_href := baseUrl @ ''#/''\<rparr>\<rparr>\<rparr> else s),
      emit (\<lambda>_. Ajax ''get'' ''v1/console/server/state'' [])]"

definition Login_on_state :: "jsval \<Rightarrow> login_page stmt" where
  "Login_on_state res =
     (if field res ''console_ui_enabled'' = Str ''false'' then
        block [modify (\<lambda>s. s\<lparr>lp_closed := True\<rparr>), emit (\<lambda>_. Ajax ''get'' ''v1/console/server/guide'' [])]
      else modify (\<lambda>s. s\<lparr>lp_closed := False\<rparr>))"

definition Login_on_guide :: "jsval \<Rightarrow> login_page stmt" where
  "Login_on_guide res = modify (\<lambda>s. s\<lparr>lp_guideMsg := field res ''data''\<rparr>)"

definition Login_submit :: "bool \<Rightarrow> (string \<times> jsval) list \<Rightarrow> login_page stmt" where
  "Login_submit errors values =
     (if errors then skip else emit (\<lambda>_. Ajax ''post'' ''v1/auth/users/login'' values))"

definition Login_done :: "string \<Rightarrow> jsval option \<Rightarrow> login_page stmt" where
  "Login_done invalid_text = then_catch
     (\<lambda>res. block
        [modify (\<lambda>s. s\<lparr>lp_browser := set_item ''token'' (to_str (json_stringify [] res)) (lp_browser s)\<rparr>),
         emit (\<lambda>_. Push ''/'')])
     (emit (\<lambda>_. MsgError invalid_text))"

definition Login_onKeyDown :: "string \<Rightarrow> bool \<Rightarrow> (string \<times> jsval) list \<Rightarrow> login_page stmt" where
  "Login_onKeyDown key errors values = (if key = ''Enter'' then Login_submit errors values else skip)"

section \<open>Settings\<close>

record settings =
  set_theme :: jsval
  set_language :: jsval

definition SettingCenter_init :: "browser \<Rightarrow> settings" where
  "SettingCenter_init b =
     \<lparr>set_theme = (if get_item b THEME = Some ''dark'' then Str ''dark'' else Str ''light''),
      set_language = item_val (get_item b LANGUAGE_KEY)\<rparr>"

definition newTheme :: "jsval \<Rightarrow> settings \<Rightarrow> settings" where
  "newTheme v s = s\<lparr>set_theme := v\<rparr>"

definition newLanguage :: "jsval \<Rightarrow> settings \<Rightarrow> settings" where
  "newLanguage v s = s\<lparr>set_language := v\<rparr>"

definition themeList :: "string list" where "themeList = [''light'', ''dark'']"
definition languageList :: "string list" where "languageList = [''en-US'', ''zh-CN'']"

definition SettingCenter_submit :: "jsval \<Rightarrow> jsval \<Rightarrow> settings \<Rightarrow> app stmt" where
  "SettingCenter_submit enUS zhCN st =
     block [changeLanguage enUS zhCN (set_language st), changeTheme (set_theme st)]"

section \<open>Lemmas\<close>

lemma pct_char_read: "p_code_point (pct_char c @ s) = Some ([c], s)"
proof -
  define n where "n = (of_char c :: nat)"
  have n: "n < 256" and c: "char_of n = c" by (simp_all add: n_def char_nat_lt)
  show ?thesis
  proof (cases "n < 128")
    case True
    then show ?thesis
      using p_pct_pct [of n s] c
      by (simp add: pct_char_def p_code_point_def code_unit_def n_def [symmetric] Let_def)
  next
    case False
    then have "n div 64 < 4" "2 \<le> n div 64" using n by auto
    with False show ?thesis
      using p_pct_pct [of "192 + n div 64" "pct (128 + n mod 64) @ s"]
        p_pct_pct [of "128 + n mod 64" s] n c
      by (simp add: pct_char_def p_code_point_def code_unit_def n_def [symmetric] Let_def)
  qed
qed

lemma pct_char_head: "\<exists>r. pct_char c = CHR ''%'' # r"
  by (simp add: pct_char_def pct_def Let_def)

lemma pct_char_no_sep: "set (pct_char c) \<inter> set query_seps = {}"
proof -
  define n where "n = (of_char c :: nat)"
  have n: "n < 256" by (simp add: n_def char_nat_lt)
  then have "n div 64 < 4" "n mod 64 < 64" by (simp_all add: less_mult_imp_div_less)
  then have "set (pct n) \<inter> set query_seps = {}" "set (pct (192 + n div 64)) \<inter> set query_seps = {}"
    "set (pct (128 + n mod 64)) \<inter> set query_seps = {}"
    using n by (simp_all add: pct_not_sep)
  then show ?thesis
    unfolding pct_char_def Let_def n_def [symmetric] by (auto simp del: of_char_mod_256)
qed

lemma form_char_no_sep: "set (form_char c) \<inter> set query_seps = {}"
proof -
  have "c \<notin> set query_seps" if "uri_unreserved c"
    using that by (auto simp: uri_unreserved_def query_seps_def)
  moreover have "CHR ''+'' \<notin> set query_seps" by (simp add: query_seps_def)
  ultimately show ?thesis using pct_char_no_sep by (auto simp: form_char_def)
qed

lemma form_encode_no_sep: "set (form_encode s) \<inter> set query_seps = {}"
  using form_char_no_sep by (auto simp: form_encode_def)

lemma form_decode_char: "form_decode (form_char c @ s) = c # form_decode s"
proof -
  let ?plain = "uri_unreserved c \<and> c \<notin> set [CHR ''!'', CHR ''~'', CHR 0x27, CHR ''('', CHR '')'']"
  consider "c = CHR '' ''" | "c \<noteq> CHR '' ''" ?plain | "c \<noteq> CHR '' ''" "\<not> ?plain" by blast
  then show ?thesis
  proof cases
    case 1
    then show ?thesis by (simp add: form_char_def)
  next
    case 2
    then have f: "form_char c = [c]" unfolding form_char_def by presburger
    have ne: "c \<noteq> CHR ''%''" "c \<noteq> CHR ''+''" using 2 by (auto simp: uri_unreserved_def)
    then have "p_code_point (c # s) = None"
      by (simp add: p_code_point_def p_pct_def split: list.split)
    with f ne show ?thesis by simp
  next
    case 3
    obtain r where r: "pct_char c = CHR ''%'' # r" using pct_char_head by blast
    have "form_char c = pct_char c" using 3 unfolding form_char_def by presburger
    then show ?thesis using pct_char_read [of c s] r by simp
  qed
qed

lemma form_decode_encode: "form_decode (form_encode s) = s"
  by (induction s) (simp_all add: form_encode_def form_decode_char)

lemma usp_pair_render: "usp_pair (form_encode k @ CHR ''='' # form_encode v) = (k, v)"
proof -
  have "CHR ''='' \<notin> set (form_encode k)" using form_encode_no_sep [of k] by (auto simp: query_seps_def)
  then have "takeWhile (\<lambda>c. c \<noteq> CHR ''='') (form_encode k @ CHR ''='' # form_encode v) = form_encode k"
    "dropWhile (\<lambda>c. c \<noteq> CHR ''='') (form_encode k @ CHR ''='' # form_encode v) = CHR ''='' # form_encode v"
    by (simp_all add: takeWhile_append dropWhile_append)
  then show ?thesis by (simp add: usp_pair_def form_decode_encode)
qed

lemma usp_parse_string:
  assumes "ps \<noteq> []"
  shows "usp_parse (CHR ''?'' # usp_string ps) = ps"
proof -
  let ?r = "\<lambda>(k, v). form_encode k @ ''='' @ form_encode v"
  have "CHR ''&'' \<notin> set x" if "x \<in> set (map ?r ps)" for x
    using that form_encode_no_sep by (auto simp: query_seps_def)
  then have "split_on (CHR ''&'') (js_join ''&'' (map ?r ps)) = map ?r ps"
    using assms by (intro split_join) auto
  moreover have "filter (\<lambda>p. p \<noteq> []) (map ?r ps) = map ?r ps"
    by (auto simp: filter_id_conv)
  moreover have "map usp_pair (map ?r ps) = ps"
    by (induction ps) (auto simp: usp_pair_render)
  ultimately show ?thesis by (simp add: usp_parse_def usp_string_def)
qed

lemma map_of_filter_other: "j \<noteq> k \<Longrightarrow> map_of (filter (\<lambda>q. fst q \<noteq> k) ps) j = map_of ps j"
  by (induction ps) auto

lemma map_of_usp_replace: "map_of (usp_replace k v ps) j = (if j = k then Some v else map_of ps j)"
  by (induction k v ps rule: usp_replace.induct) (auto simp: map_of_filter_other)

lemma usp_replace_nonempty [simp]: "usp_replace k v ps \<noteq> []"
  by (cases ps) auto

lemma usp_replace_single: "length (filter (\<lambda>q. fst q = k) (usp_replace k v ps)) = 1"
  by (induction k v ps rule: usp_replace.induct) (auto simp: filter_empty_conv)

lemma usp_replace_others: "j \<noteq> k \<Longrightarrow> filter (\<lambda>q. fst q = j) (usp_replace k v ps) = filter (\<lambda>q. fst q = j) ps"
  by (induction k v ps rule: usp_replace.induct) (auto intro!: filter_cong)

lemma first_open_unique:
  assumes "distinct (concat (map child_urls ms))" and "i < length ms" and "path \<in> set (child_urls (ms ! i))"
  shows "first_open path n ms = Some (nat_str (n + i))"
  using assms
proof (induction ms arbitrary: i n)
  case Nil
  then show ?case by simp
next
  case (Cons m ms)
  show ?case
  proof (cases i)
    case 0
    with Cons.prems have "filter (\<lambda>u. u = path) (child_urls m) \<noteq> []" by (auto simp: filter_empty_conv)
    with 0 show ?thesis by simp
  next
    case (Suc j)
    then have "path \<in> set (concat (map child_urls ms))" using Cons.prems by auto
    then have "filter (\<lambda>u. u = path) (child_urls m) = []"
      using Cons.prems(1) by (auto simp: filter_empty_conv)
    then show ?thesis using Suc Cons.IH [of j "Suc n"] Cons.prems by simp
  qed
qed

lemmas menu_defs = serviceDiscoveryMenu_def configurationMenu_def authorityControlMenu_def
  namespaceMenu_def clusterMenu_def settingMenu_def leaf_def group_def

lemma menu_distinct: "distinct (concat (map child_urls (getMenuData b m)))"
  by (simp add: getMenuData_def menu_defs child_urls_def)

lemma menu_routed: "u \<in> set (concat (map item_urls (getMenuData b m))) \<Longrightarrow> u \<in> set MENU"
  by (auto simp: getMenuData_def menu_defs child_urls_def item_urls_def MENU_def split: if_splits)

section \<open>Properties\<close>

text \<open>On a page opened by a menu entry, whatever the mode of the server and the rights of the user:
  the router has a route for it, the side bar shows the menu and not the back arrow, and the group
  that is unfolded is the one the entry is in.\<close>

theorem menu_entry_open:
  assumes "i < length (getMenuData b m)" and "path \<in> set (child_urls (getMenuData b m ! i))"
  shows "path \<in> set (router_paths l (Str ''true'')) \<and> \<not> isShowGoBack b m path \<and>
    defaultOpenKeys b m path = Some (nat_str i)"
proof -
  have "path \<in> set (item_urls (getMenuData b m ! i))" using assms(2) by (simp add: item_urls_def)
  then have "path \<in> set (concat (map item_urls (getMenuData b m)))"
    using nth_mem [OF assms(1)] by auto
  then show ?thesis
    using menu_routed first_open_unique [OF menu_distinct assms, of 0]
    by (auto simp: router_paths_def isShowGoBack_def defaultOpenKeys_def)
qed

theorem menu_entry_open_witness:
  "defaultOpenKeys sample_browser (Str ''naming'') ''/clusterManagement'' = Some ''2''"
proof -
  have "stored_global_admin sample_browser = Undef" by code_simp
  then have "2 < length (getMenuData sample_browser (Str ''naming''))"
    "''/clusterManagement'' \<in> set (child_urls (getMenuData sample_browser (Str ''naming'') ! 2))"
    by (simp_all add: getMenuData_def menu_defs child_urls_def)
  moreover have "nat_str 2 = ''2''" by code_simp
  ultimately show ?thesis using menu_entry_open by metis
qed

text \<open>A menu entry opens its page with the query of the current page in which the namespace and its
  name are the current ones, each once, and every other parameter is as it was, with all its values:
  read back from the address that is pushed.\<close>

theorem navTo_keeps_query:
  "effects_of (layout_navTo now show search url s) = [Push (url @ ''?'' @ usp_string (nav_params now show search))]
   \<and> (let ps = usp_parse (CHR ''?'' # usp_string (nav_params now show search))
      in filter (\<lambda>q. fst q = ''namespace'') ps = [(''namespace'', to_str now)]
       \<and> filter (\<lambda>q. fst q = ''namespaceShowName'') ps = [(''namespaceShowName'', to_str show)]
       \<and> (\<forall>k. k \<in> {''namespace'', ''namespaceShowName''} \<or>
            filter (\<lambda>q. fst q = k) ps = filter (\<lambda>q. fst q = k) (usp_parse search)))"
proof -
  have one: "filter (\<lambda>q. fst q = k) (usp_replace k v ps) = [(k, v)]" for k v ps
    by (induction k v ps rule: usp_replace.induct) (auto simp: filter_empty_conv)
  have "filter (\<lambda>q. fst q = k) (nav_params now show search) = filter (\<lambda>q. fst q = k) (usp_parse search)"
    if "k \<noteq> ''namespace''" "k \<noteq> ''namespaceShowName''" for k
    using that by (simp add: nav_params_def usp_replace_others)
  then have "\<forall>k. k \<in> {''namespace'', ''namespaceShowName''} \<or>
      filter (\<lambda>q. fst q = k) (nav_params now show search) = filter (\<lambda>q. fst q = k) (usp_parse search)"
    by blast
  moreover have "filter (\<lambda>q. fst q = ''namespace'') (nav_params now show search) = [(''namespace'', to_str now)]"
    "filter (\<lambda>q. fst q = ''namespaceShowName'') (nav_params now show search) = [(''namespaceShowName'', to_str show)]"
    by (simp_all add: nav_params_def one usp_replace_others)
  moreover have "nav_params now show search \<noteq> []" by (simp add: nav_params_def)
  ultimately show ?thesis
    by (simp add: layout_navTo_def emit_def usp_parse_string Let_def)
qed

text \<open>The reading of a token's payload that RFC 7515 asks for: every \<open>-\<close> and every \<open>_\<close> translated.\<close>

definition url_safe_std :: "string \<Rightarrow> string" where
  "url_safe_std s = map (\<lambda>c. if c = CHR ''-'' then CHR ''+'' else if c = CHR ''_'' then CHR ''/'' else c) s"

definition at_most_one :: "char \<Rightarrow> string \<Rightarrow> bool" where
  "at_most_one c s \<longleftrightarrow> length (filter (\<lambda>x. x = c) s) \<le> 1"

lemma replace_first_char_absent: "c \<notin> set s \<Longrightarrow> replace_first [c] r s = s"
  by (induction s) auto

lemma replace_first_char:
  "at_most_one c s \<Longrightarrow> replace_first [c] [d] s = map (\<lambda>x. if x = c then d else x) s"
proof (induction s)
  case Nil
  then show ?case by simp
next
  case (Cons x s)
  show ?case
  proof (cases "x = c")
    case True
    with Cons.prems have "c \<notin> set s" by (auto simp: at_most_one_def filter_empty_conv)
    then have "map (\<lambda>x. if x = c then d else x) s = s" by (induction s) auto
    with True show ?thesis by simp
  next
    case False
    with Cons show ?thesis by (simp add: at_most_one_def)
  qed
qed

lemma replace_first_leaves: "\<not> at_most_one c s \<Longrightarrow> c \<in> set (replace_first [c] [d] s)"
proof (induction s)
  case Nil
  then show ?case by (simp add: at_most_one_def)
next
  case (Cons x s)
  show ?case
  proof (cases "x = c")
    case True
    then have "filter (\<lambda>x. x = c) s \<noteq> []" using Cons.prems by (auto simp: at_most_one_def)
    with True show ?thesis by (auto simp: filter_empty_conv)
  next
    case False
    with Cons show ?thesis by (simp add: at_most_one_def)
  qed
qed

lemma replace_first_keeps: "x \<in> set s \<Longrightarrow> x \<noteq> c \<Longrightarrow> x \<in> set (replace_first [c] [d] s)"
  by (induction s) auto

lemma replace_first_count: "x \<noteq> c \<Longrightarrow> x \<noteq> d \<Longrightarrow> at_most_one x (replace_first [c] [d] s) = at_most_one x s"
proof -
  assume "x \<noteq> c" "x \<noteq> d"
  then have "filter (\<lambda>y. y = x) (replace_first [c] [d] s) = filter (\<lambda>y. y = x) s"
    by (induction s) auto
  then show ?thesis by (simp add: at_most_one_def)
qed

lemma in_strip_padding: "x \<in> set s \<Longrightarrow> x \<noteq> CHR ''='' \<Longrightarrow> x \<in> set (strip_padding s)"
proof -
  have cut: "x \<in> set (butlast t)" if "x \<in> set t" "last t = CHR ''=''" "x \<noteq> CHR ''=''" for t
    using that by (cases t rule: rev_cases) auto
  assume "x \<in> set s" "x \<noteq> CHR ''=''"
  then show ?thesis using cut [of s] cut [of "butlast s"] by (auto simp: strip_padding_def Let_def)
qed

lemma atob_rejects: "x \<in> set s \<Longrightarrow> x \<in> {CHR ''-'', CHR ''_''} \<Longrightarrow> atob s = None"
proof -
  assume x: "x \<in> set s" "x \<in> {CHR ''-'', CHR ''_''}"
  let ?t = "strip_padding (filter (\<lambda>c. c \<notin> set [CHR '' '', CHR 0x09, CHR 0x0A, CHR 0x0C, CHR 0x0D]) s)"
  have "x \<in> set ?t" using x by (intro in_strip_padding) auto
  moreover have "b64_val x = None" using x by (auto simp: b64_val_def)
  ultimately have "None \<in> set (map b64_val ?t)" by (metis image_eqI set_map)
  then show ?thesis unfolding atob_def Let_def by simp
qed

text \<open>The user's name is read from the token as the standard asks when its payload has at most one
  \<open>-\<close> and one \<open>_\<close>; a payload with two of either is always unreadable, and the session is dropped with
  a reload: only the first occurrence is translated.\<close>

theorem getUsername_payload:
  assumes "get_item b ''token'' = Some token" and "token \<noteq> []"
  shows "getUsername b =
    (let p = token_payload token; dropped = (remove_item ''token'' b, [Call ''location.reload'' []], Str []) in
     if at_most_one CHR ''-'' p \<and> at_most_one CHR ''_'' p
     then (case read_subject (url_safe_std p) of Some v \<Rightarrow> (b, [], v) | None \<Rightarrow> dropped)
     else dropped)"
proof -
  let ?p = "token_payload token"
  let ?q = "replace_first ''-'' ''+'' ?p"
  have g: "getUsername b = (case read_subject (replace_first ''_'' ''/'' ?q) of Some v \<Rightarrow> (b, [], v)
      | None \<Rightarrow> (remove_item ''token'' b, [Call ''location.reload'' []], Str []))"
    using assms by (simp add: getUsername_def Let_def)
  show ?thesis
  proof (cases "at_most_one CHR ''-'' ?p \<and> at_most_one CHR ''_'' ?p")
    case True
    then have "at_most_one CHR ''_'' ?q" by (simp add: replace_first_count)
    with True have "replace_first ''_'' ''/'' ?q = url_safe_std ?p"
      by (simp add: replace_first_char url_safe_std_def)
    with g True show ?thesis by simp
  next
    case False
    have "\<exists>x \<in> {CHR ''-'', CHR ''_''}. x \<in> set (replace_first ''_'' ''/'' ?q)"
    proof (cases "at_most_one CHR ''-'' ?p")
      case True
      with False have "\<not> at_most_one CHR ''_'' ?q" by (simp add: replace_first_count)
      then show ?thesis using replace_first_leaves by blast
    next
      case False
      then have "CHR ''-'' \<in> set ?q" by (rule replace_first_leaves)
      then show ?thesis using replace_first_keeps [of "CHR ''-''" ?q "CHR ''_''"] by auto
    qed
    then have "read_subject (replace_first ''_'' ''/'' ?q) = None"
      using atob_rejects by (auto simp: read_subject_def)
    with g False show ?thesis by (auto simp: Let_def)
  qed
qed

text \<open>The payload of a token for the user \<open>????\<close>, whose encoding has two underscores.\<close>

definition sample_jwt :: string where
  "sample_jwt = ''h.eyJzdWIiOiI_Pz8_In0.s''"

theorem getUsername_payload_witness:
  "getUsername (sample_browser\<lparr>storage := [(''token'', sample_jwt)]\<rparr>)
     = (sample_browser\<lparr>storage := []\<rparr>, [Call ''location.reload'' []], Str []) \<and>
   read_subject (url_safe_std (token_payload sample_jwt)) = Some (Str ''????'')"
proof
  let ?b = "sample_browser\<lparr>storage := [(''token'', sample_jwt)]\<rparr>"
  have "get_item ?b ''token'' = Some sample_jwt" "sample_jwt \<noteq> []"
    by (simp_all add: get_item_def sample_jwt_def)
  moreover have "\<not> at_most_one CHR ''_'' (token_payload sample_jwt)" by code_simp
  moreover have "remove_item ''token'' ?b = sample_browser\<lparr>storage := []\<rparr>"
    by (simp add: remove_item_def)
  ultimately show "getUsername ?b
     = (sample_browser\<lparr>storage := []\<rparr>, [Call ''location.reload'' []], Str [])"
    using getUsername_payload [of ?b sample_jwt] by simp
  show "read_subject (url_safe_std (token_payload sample_jwt)) = Some (Str ''????'')"
    by code_simp
qed

definition store_language :: "app \<Rightarrow> jsval" where
  "store_language s = field (Obj (sl_locale (app_store s))) ''language''"

lemma changeLanguage_language:
  "store_language (state_of (changeLanguage enUS zhCN lang s)) =
     Str (if lang = Str ''zh-CN'' then ''zh-CN'' else ''en-US'')"
  unfolding store_language_def changeLanguage_spec(3) by (simp add: field_assign del: field_Obj assign_Cons)

lemma changeTheme_language: "store_language (state_of (changeTheme t s)) = store_language s"
  by (simp add: store_language_def changeTheme_spec)

lemma switchLang_language:
  "store_language (state_of (switchLang enUS zhCN s)) =
     (if store_language s \<in> {Undef, Str ''en-US''} then Str ''zh-CN'' else Str ''en-US'')"
  unfolding switchLang_def with_state_def Let_def changeLanguage_language
  by (simp add: store_language_def with_default_def del: field_Obj)

text \<open>Once the application has started, the language switch goes back and forth between the two
  languages: after an odd number of clicks the other one is shown, after an even number the one of the
  start; before the start has set a language the first click only spells out English.\<close>

theorem switchLang_alternates:
  "let s0 = state_of (App_componentDidMount enUS zhCN s);
       other = (if store_language s0 = Str ''en-US'' then Str ''zh-CN'' else Str ''en-US'')
   in store_language s0 \<in> {Str ''en-US'', Str ''zh-CN''} \<and>
      store_language (run (replicate n (switchLang enUS zhCN)) s0) =
        (if even n then store_language s0 else other) \<and>
      store_language (state_of (switchLang enUS zhCN (s\<lparr>app_store := initial_store enUS\<rparr>))) = Str ''en-US''"
proof -
  let ?s0 = "state_of (App_componentDidMount enUS zhCN s)"
  have start: "store_language ?s0 \<in> {Str ''en-US'', Str ''zh-CN''}"
    unfolding App_state Let_def changeTheme_language changeLanguage_language by simp
  have "store_language t \<in> {Str ''en-US'', Str ''zh-CN''} \<Longrightarrow>
      store_language (run (replicate n (switchLang enUS zhCN)) t) =
        (if even n then store_language t
         else if store_language t = Str ''en-US'' then Str ''zh-CN'' else Str ''en-US'')" for t
  proof (induction n arbitrary: t)
    case 0
    then show ?case by simp
  next
    case (Suc n)
    then show ?case using Suc.IH [of "state_of (switchLang enUS zhCN t)"]
      by (auto simp: switchLang_language)
  qed
  from this [OF start] start show ?thesis
    by (simp add: Let_def switchLang_language)
      (simp add: store_language_def initial_store_def locale_initial_def)
qed

text \<open>What the settings page applies is what it shows after a reload: submitting one of the offered
  choices and opening the page again gives the same choices, the page is dark exactly for the dark
  theme, and the store speaks the language that was chosen.\<close>

theorem settings_survive_reload:
  assumes "t \<in> set themeList" and "l \<in> set languageList"
  shows "let st = newLanguage (Str l) (newTheme (Str t) (SettingCenter_init b0));
             s1 = state_of (SettingCenter_submit enUS zhCN st s)
         in SettingCenter_init (app_browser s1) = st \<and> app_dark s1 = (t = ''dark'') \<and>
            store_language s1 = Str l"
proof -
  have st: "newLanguage (Str l) (newTheme (Str t) (SettingCenter_init b0)) = \<lparr>set_theme = Str t, set_language = Str l\<rparr>"
    by (simp add: newLanguage_def newTheme_def SettingCenter_init_def)
  have sub: "state_of (SettingCenter_submit enUS zhCN \<lparr>set_theme = Str t, set_language = Str l\<rparr> s)
      = state_of (changeTheme (Str t) (state_of (changeLanguage enUS zhCN (Str l) s)))"
    by (simp add: SettingCenter_submit_def block_two changeLanguage_spec changeTheme_spec del: block.simps)
  have l: "(if Str l = Str ''zh-CN'' then ''zh-CN'' else ''en-US'') = l" using assms(2) by (auto simp: languageList_def)
  have "store_language (state_of (SettingCenter_submit enUS zhCN \<lparr>set_theme = Str t, set_language = Str l\<rparr> s)) = Str l"
    using changeLanguage_language [of enUS zhCN "Str l" s] l
    by (simp add: sub store_language_def changeTheme_spec)
  with st sub l assms(1) show ?thesis
    by (auto simp: SettingCenter_init_def changeTheme_spec changeLanguage_spec item_val_def themeList_def)
qed

theorem settings_survive_reload_witness:
  "app_dark (state_of (SettingCenter_submit Undef Null
     (newLanguage (Str ''zh-CN'') (newTheme (Str ''dark'') (SettingCenter_init sample_browser))) sample_app))"
  using settings_survive_reload [of "''dark''" "''zh-CN''" sample_browser Undef Null sample_app]
  by (simp add: Let_def themeList_def languageList_def)

text \<open>After a login that the server accepted, the next call of the axios client carries the token
  object of the answer, the redirect to the start page is made, and the menu has the authority group
  exactly when the answer says that the user is a global administrator.\<close>

theorem login_opens_session:
  assumes "json_stringify [] (Obj fs) = Str text" and "text \<noteq> []" and "json_parse text = Some (Obj fs)"
    and "\<not> str_includes ''auth/users/login'' url"
  shows "let (s1, e, x) = Login_done bad (Some (Obj fs)) s; b = lp_browser s1 in
    e = [Push ''/''] \<and> x = None \<and> session_token b url = (b, Some (Obj fs)) \<and>
    (authorityControlMenu \<in> set (getMenuData b m) \<longleftrightarrow> truthy (field (Obj fs) ''globalAdmin''))"
proof -
  let ?b = "set_item ''token'' text (lp_browser s)"
  have "stored_global_admin ?b = field (Obj fs) ''globalAdmin''"
    using assms(3) by (simp add: stored_global_admin_def isJsonString_def js_or_def)
  then have "(authorityControlMenu \<in> set (getMenuData ?b m)) = truthy (field (Obj fs) ''globalAdmin'')"
    by (simp add: getMenuData_def menu_defs del: field_Obj)
  moreover have "session_token ?b url = (?b, Some (Obj fs))"
    using assms(2-4) by (simp add: session_token_def)
  ultimately show ?thesis
    using assms(1) by (simp add: Login_done_def then_catch_def modify_def emit_def del: field_Obj)
qed

theorem login_opens_session_witness:
  "let (s1, e, x) = Login_done [] (Some (Obj [(''accessToken'', Str ''abc''), (''globalAdmin'', Bool True)]))
        \<lparr>lp_browser = sample_browser, lp_closed = False, lp_guideMsg = Undef\<rparr>
   in authorityControlMenu \<in> set (getMenuData (lp_browser s1) (Str ''config''))"
proof -
  let ?fs = "[(''accessToken'', Str ''abc''), (''globalAdmin'', Bool True)]"
  let ?t = "to_str (json_stringify [] (Obj ?fs))"
  have "json_stringify [] (Obj ?fs) = Str ?t" "?t \<noteq> []" "json_parse ?t = Some (Obj ?fs)"
    "\<not> str_includes ''auth/users/login'' ''v1/cs/configs''"
    by code_simp+
  from login_opens_session [OF this, of "[]" "\<lparr>lp_browser = sample_browser, lp_closed = False, lp_guideMsg = Undef\<rparr>" "Str ''config''"]
  show ?thesis by (simp add: Let_def split: prod.splits)
qed

end
