(* ===== verification/Service_Detail.thy ===== *)
theory Service_Detail
  imports Store
begin

text \<open>
  The page of one service, \<open>src/console-ui/src/pages/ServiceManagement/ServiceDetail/\<close>: the page
  itself, the filter and the table of the instances of a cluster, and the three edit dialogs.

  A component's state is a record, an operation a statement.  A request is the statement the page runs
  (\<open>beforeSend\<close> first, then the \<open>Ajax\<close> effect) and its continuations.  A call of a function received
  through \<open>props\<close> is the effect \<open>Call\<close> with its name.
\<close>

section \<open>Shared by the dialogs\<close>

definition call :: "string \<Rightarrow> 's stmt" where
  "call f = emit (\<lambda>_. Call f [])"

definition message_error :: "jsval \<Rightarrow> 's stmt" where
  "message_error v = emit (\<lambda>_. Call ''Message.error'' [v])"

definition tab :: string where "tab = [CHR 0x09]"

text \<open>\<open>const \{ metadata = \{\} \} = obj; if (Object.keys(metadata).length) obj.metadataText = ..\<close>\<close>

definition add_metadata_text :: "jsval \<Rightarrow> js_error + jsval" where
  "add_metadata_text obj =
     (if obj \<in> {Undef, Null} then Inl TypeError
      else
        (let metadata = with_default (field obj ''metadata'') (Obj []) in
         if metadata = Null then Inl TypeError
         else if own_fields metadata = [] then Inr obj
         else Inr (case obj of
                Obj fs \<Rightarrow> Obj (AList.update ''metadataText'' (json_stringify tab metadata) fs)
              | _ \<Rightarrow> obj)))"

definition assign_val :: "jsval \<Rightarrow> slice \<Rightarrow> jsval" where
  "assign_val obj ch = Obj (assign (assign [] (own_fields obj)) ch)"

text \<open>The continuation of the text requests: anything but \<open>ok\<close> is an error message.\<close>

definition unless_ok :: "jsval \<Rightarrow> 's stmt \<Rightarrow> 's stmt" where
  "unless_ok res a = (if res \<noteq> Str ''ok'' then message_error res else a)"

definition response_text :: "jsval \<Rightarrow> jsval" where
  "response_text e = js_or (field e ''responseText'') (Str ''error'')"

section \<open>Comparison of filters\<close>

text \<open>A \<open>Map\<close> is an association list with distinct keys, in insertion order.\<close>

fun diff_loop :: "(string \<times> 'v) list \<Rightarrow> (string \<times> 'v) list \<Rightarrow> bool \<Rightarrow> bool" where
  "diff_loop prev [] d = d"
| "diff_loop prev ((k, v) # next) d = diff_loop prev next (Some v \<noteq> map_of prev k)"

definition isDiff :: "(string \<times> 'v) list \<Rightarrow> (string \<times> 'v) list \<Rightarrow> bool" where
  "isDiff prev next = (if length prev \<noteq> length next then True else diff_loop prev next False)"

section \<open>The filter\<close>

record instance_filter =
  f_key :: string
  f_value :: string
  f_keyState :: string
  f_valueState :: string
  f_filters :: "(string \<times> string) list"

definition filter_initial :: instance_filter where
  "filter_initial = \<lparr>f_key = [], f_value = [], f_keyState = [], f_valueState = [], f_filters = []\<rparr>"

text \<open>The effect of a new map: it is handed to the page.\<close>

definition share_filters :: "instance_filter stmt" where
  "share_filters = emit (\<lambda>s. Call ''setFilters'' [Obj (map (apsnd Str) (f_filters s))])"

definition updateInput :: "instance_filter \<Rightarrow> instance_filter" where
  "updateInput s = s\<lparr>f_keyState := (if f_key s = [] then ''error'' else []),
     f_valueState := (if f_value s = [] then ''error'' else [])\<rparr>"

definition clearInput :: "instance_filter \<Rightarrow> instance_filter" where
  "clearInput s = s\<lparr>f_key := [], f_value := []\<rparr>"

definition addFilter :: "instance_filter stmt" where
  "addFilter = block
     [modify updateInput,
      cond (\<lambda>s. f_key s \<noteq> [] \<and> f_value s \<noteq> [])
        (block
           [modify (\<lambda>s. clearInput (s\<lparr>f_filters := AList.update (f_key s) (f_value s) (f_filters s),
               f_keyState := [], f_valueState := []\<rparr>)),
            share_filters])
        skip]"

definition removeFilter :: "string \<Rightarrow> instance_filter stmt" where
  "removeFilter key = block [modify (\<lambda>s. s\<lparr>f_filters := AList.delete key (f_filters s)\<rparr>), share_filters]"

definition clearFilters :: "instance_filter stmt" where
  "clearFilters = block [modify (\<lambda>s. s\<lparr>f_filters := []\<rparr>), share_filters]"

definition setKey :: "string \<Rightarrow> instance_filter stmt" where
  "setKey k = modify (\<lambda>s. s\<lparr>f_key := k\<rparr>)"

definition setValue :: "string \<Rightarrow> instance_filter stmt" where
  "setValue v = modify (\<lambda>s. s\<lparr>f_value := v\<rparr>)"

section \<open>The instance dialog\<close>

record instance_dialog =
  editInstance :: jsval
  editInstanceDialogVisible :: bool

definition instance_show :: "jsval \<Rightarrow> instance_dialog stmt" where
  "instance_show i =
     (case add_metadata_text i of
        Inl e \<Rightarrow> throw e
      | Inr i' \<Rightarrow> modify (\<lambda>s. s\<lparr>editInstance := i', editInstanceDialogVisible := True\<rparr>))"

definition instance_hide :: "instance_dialog stmt" where
  "instance_hide = modify (\<lambda>s. s\<lparr>editInstanceDialogVisible := False\<rparr>)"

definition instance_change :: "slice \<Rightarrow> instance_dialog stmt" where
  "instance_change ch = modify (\<lambda>s. s\<lparr>editInstance := assign_val (editInstance s) ch\<rparr>)"

definition pick :: "jsval \<Rightarrow> string list \<Rightarrow> slice" where
  "pick obj ks = map (\<lambda>k. (k, field obj k)) ks"

definition instance_confirm :: "jsval \<Rightarrow> jsval \<Rightarrow> jsval \<Rightarrow> instance_dialog stmt" where
  "instance_confirm serviceName clusterName groupName = block
     [call ''openLoading'',
      emit (\<lambda>s. Ajax ''PUT'' ''v1/ns/instance''
        ([(''serviceName'', serviceName), (''clusterName'', clusterName), (''groupName'', groupName)]
         @ pick (editInstance s) [''ip'', ''port'', ''ephemeral'', ''weight'', ''enabled'']
         @ [(''metadata'', field (editInstance s) ''metadataText'')]))]"

definition instance_success :: "jsval \<Rightarrow> instance_dialog stmt" where
  "instance_success res = unless_ok res (block [instance_hide, call ''getInstanceList''])"

definition instance_error :: "jsval \<Rightarrow> instance_dialog stmt" where
  "instance_error e = message_error (response_text e)"

section \<open>The cluster dialog\<close>

record cluster_dialog =
  editCluster :: jsval
  editClusterDialogVisible :: bool

definition cluster_show :: "jsval \<Rightarrow> cluster_dialog stmt" where
  "cluster_show c =
     (case add_metadata_text c of
        Inl e \<Rightarrow> throw e
      | Inr c' \<Rightarrow> modify (\<lambda>s. s\<lparr>editCluster := c', editClusterDialogVisible := True\<rparr>))"

definition cluster_hide :: "cluster_dialog stmt" where
  "cluster_hide = modify (\<lambda>s. s\<lparr>editClusterDialogVisible := False\<rparr>)"

definition cluster_change :: "slice \<Rightarrow> cluster_dialog stmt" where
  "cluster_change ch = modify (\<lambda>s. s\<lparr>editCluster := assign_val (editCluster s) ch\<rparr>)"

definition healthCheckerChange :: "slice \<Rightarrow> cluster_dialog stmt" where
  "healthCheckerChange ch = with_state (\<lambda>s.
     let healthChecker = with_default (field (editCluster s) ''healthChecker'') (Obj [])
     in cluster_change [(''healthChecker'', assign_val healthChecker ch)])"

definition cluster_confirm :: "cluster_dialog stmt" where
  "cluster_confirm = block
     [call ''openLoading'',
      emit (\<lambda>s. let c = editCluster s in Ajax ''PUT'' ''v1/ns/cluster''
        [(''serviceName'', field c ''serviceName''), (''clusterName'', field c ''name''),
         (''metadata'', field c ''metadataText''), (''checkPort'', field c ''defaultCheckPort''),
         (''useInstancePort4Check'', field c ''useIPPort4Check''),
         (''healthChecker'', json_stringify [] (field c ''healthChecker''))])]"

definition cluster_success :: "jsval \<Rightarrow> cluster_dialog stmt" where
  "cluster_success res = unless_ok res (block [cluster_hide, call ''getServiceDetail''])"

section \<open>The service dialog\<close>

record service_dialog =
  isCreate :: bool
  editService :: jsval
  editServiceDialogVisible :: bool
  sd_errors :: slice
  selectorTypes :: jsval
  sd_loading :: bool

definition service_dialog_initial :: service_dialog where
  "service_dialog_initial = \<lparr>isCreate = False, editService = Obj [], editServiceDialogVisible = False,
     sd_errors = [(''name'', Obj []), (''protectThreshold'', Obj [])], selectorTypes = Arr [],
     sd_loading = False\<rparr>"

definition getSelectorTypes :: "service_dialog stmt" where
  "getSelectorTypes = emit (\<lambda>_. Ajax ''GET'' ''v1/ns/service/selector/types'' [])"

definition selector_success :: "jsval \<Rightarrow> service_dialog stmt" where
  "selector_success response = need_object response
     (if field response ''code'' \<noteq> Num 200 then message_error (field response ''message'')
      else modify (\<lambda>s. s\<lparr>selectorTypes := field response ''data''\<rparr>))"

definition service_show :: "jsval \<Rightarrow> service_dialog stmt" where
  "service_show service =
     (case add_metadata_text (with_default service (Obj [])) of
        Inl e \<Rightarrow> throw e
      | Inr s' \<Rightarrow> block
          [modify (\<lambda>s. s\<lparr>editService := s', editServiceDialogVisible := True,
              isCreate := \<not> truthy (field s' ''name'')\<rparr>),
           getSelectorTypes])"

definition service_hide :: "service_dialog stmt" where
  "service_hide = modify (\<lambda>s. s\<lparr>editServiceDialogVisible := False\<rparr>)"

text \<open>The first empty field of the two is marked; \<open>help\<close> is the table of messages.\<close>

fun first_empty :: "slice \<Rightarrow> string option" where
  "first_empty [] = None"
| "first_empty ((k, v) # fs) = (if truthy v then first_empty fs else Some k)"

definition validator :: "(string \<Rightarrow> jsval) \<Rightarrow> jsval \<Rightarrow> jsval \<Rightarrow> service_dialog \<Rightarrow> service_dialog \<times> bool" where
  "validator help name protectThreshold s =
     (let p = (if protectThreshold = Num 0 then Str ''0'' else protectThreshold) in
      case first_empty [(''name'', name), (''protectThreshold'', p)] of
        None \<Rightarrow> (s, True)
      | Some k \<Rightarrow> (s\<lparr>sd_errors := AList.update k (Obj [(''validateState'', Str ''error''), (''help'', help k)])
                    (sd_errors s)\<rparr>, False))"

definition service_confirm :: "(string \<Rightarrow> jsval) \<Rightarrow> service_dialog stmt" where
  "service_confirm help s =
     (let e = editService s in
      case validator help (field e ''name'') (field e ''protectThreshold'') s of
        (s1, False) \<Rightarrow> (s1, [], None)
      | (s1, True) \<Rightarrow>
          block
            [modify (\<lambda>t. t\<lparr>sd_loading := True\<rparr>),
             emit (\<lambda>_. Ajax (if isCreate s then ''POST'' else ''PUT'') ''v1/ns/service''
               [(''serviceName'', field e ''name''),
                (''groupName'', js_or (field e ''groupName'') (Str ''DEFAULT_GROUP'')),
                (''protectThreshold'', field e ''protectThreshold''),
                (''metadata'', with_default (field e ''metadataText'') (Str [])),
                (''selector'', json_stringify [] (field e ''selector''))]),
             service_hide] s1)"




definition reset_errors :: "slice \<Rightarrow> slice \<Rightarrow> slice" where
  "reset_errors ch errs = fold (\<lambda>k es. if truthy (field (Obj ch) k) then AList.update k (Obj []) es else es)
     [''name'', ''protectThreshold''] errs"

definition service_change :: "slice \<Rightarrow> service_dialog stmt" where
  "service_change ch = modify (\<lambda>s. s\<lparr>sd_errors := reset_errors ch (sd_errors s),
     editService := assign_val (editService s) ch\<rparr>)"

section \<open>The table of instances\<close>

record instance_table =
  it_loading :: bool
  it_instance :: jsval
  it_pageNum :: nat
  it_pageSize :: nat

definition instance_table_initial :: instance_table where
  "instance_table_initial = \<lparr>it_loading = False, it_instance = Obj [(''count'', Num 0), (''list'', Arr [])],
     it_pageNum = 1, it_pageSize = 10\<rparr>"

text \<open>The properties of the table: its cluster, service and group.\<close>

type_synonym table_props = "jsval \<times> jsval \<times> jsval"

definition it_open :: "instance_table stmt" where
  "it_open = modify (\<lambda>s. s\<lparr>it_loading := True\<rparr>)"

definition it_close :: "instance_table stmt" where
  "it_close = modify (\<lambda>s. s\<lparr>it_loading := False\<rparr>)"

definition getInstanceList :: "table_props \<Rightarrow> instance_table stmt" where
  "getInstanceList p =
     (case p of (clusterName, serviceName, groupName) \<Rightarrow>
        if \<not> truthy clusterName then skip
        else block
          [it_open,
           emit (\<lambda>s. Ajax ''GET'' ''v1/ns/catalog/instances''
             [(''serviceName'', serviceName), (''clusterName'', clusterName), (''groupName'', groupName),
              (''pageSize'', Num (int (it_pageSize s))), (''pageNo'', Num (int (it_pageNum s)))])])"


definition switchState :: "table_props \<Rightarrow> jsval \<Rightarrow> instance_table stmt" where
  "switchState p record =
     (case p of (clusterName, serviceName, groupName) \<Rightarrow> need_object record (block
        [it_open,
         emit (\<lambda>_. Ajax ''PUT'' ''v1/ns/instance''
           ([(''serviceName'', serviceName), (''clusterName'', clusterName), (''groupName'', groupName)]
            @ pick record [''ip'', ''port'', ''ephemeral'', ''weight'']
            @ [(''enabled'', Bool (\<not> truthy (field record ''enabled''))),
               (''metadata'', json_stringify [] (field record ''metadata''))]))]))"

definition set_field :: "string \<Rightarrow> jsval \<Rightarrow> jsval \<Rightarrow> js_error + jsval" where
  "set_field k v obj = (case obj of Obj fs \<Rightarrow> Inr (Obj (AList.update k v fs)) | _ \<Rightarrow> Inl TypeError)"

text \<open>The success of \<open>switchState(index, record)\<close>; \<open>inst\<close> is the state's \<open>instance\<close> at the call.  The entry
  is changed in place, and that \<open>instance\<close> becomes the state again.\<close>

definition switched :: "nat \<Rightarrow> jsval \<Rightarrow> jsval \<Rightarrow> js_error + jsval" where
  "switched index record inst =
     (case field inst ''list'' of
        Arr xs \<Rightarrow>
          if length xs \<le> index then Inl TypeError
          else
            (case set_field ''enabled'' (Bool (\<not> truthy (field record ''enabled''))) (xs ! index) of
               Inl e \<Rightarrow> Inl e
             | Inr x \<Rightarrow> Inr (assign_val inst [(''list'', Arr (xs[index := x]))]))
      | _ \<Rightarrow> Inl TypeError)"

definition switch_success :: "nat \<Rightarrow> jsval \<Rightarrow> jsval \<Rightarrow> instance_table stmt" where
  "switch_success index record inst =
     (case switched index record inst of
        Inl e \<Rightarrow> throw e
      | Inr v \<Rightarrow> modify (\<lambda>s. s\<lparr>it_instance := v\<rparr>))"

definition switch_error :: "jsval \<Rightarrow> instance_table stmt" where
  "switch_error e = message_error (response_text e)"

definition it_handlePageSizeChange :: "table_props \<Rightarrow> nat \<Rightarrow> instance_table stmt" where
  "it_handlePageSizeChange p n = block [modify (\<lambda>s. s\<lparr>it_pageSize := n\<rparr>), getInstanceList p]"

definition it_onChangePage :: "table_props \<Rightarrow> nat \<Rightarrow> instance_table stmt" where
  "it_onChangePage p n = block [modify (\<lambda>s. s\<lparr>it_pageNum := n\<rparr>), getInstanceList p]"

text \<open>The rows: an instance without metadata raises as soon as there is a filter.\<close>

definition matches :: "(string \<times> string) list \<Rightarrow> jsval \<Rightarrow> bool" where
  "matches filters item = fold (\<lambda>(k, v) ok. if Str v \<noteq> field (field item ''metadata'') k then False else ok) filters True"

fun instanceFilter :: "jsval list \<Rightarrow> (string \<times> string) list \<Rightarrow> js_error + jsval list" where
  "instanceFilter [] filters = Inr []"
| "instanceFilter (item # xs) filters =
     (if item \<in> {Undef, Null} \<or> filters \<noteq> [] \<and> field item ''metadata'' \<in> {Undef, Null} then Inl TypeError
      else map_sum id (\<lambda>r. if matches filters item then item # r else r) (instanceFilter xs filters))"

definition rowColor :: "jsval \<Rightarrow> string" where
  "rowColor item =
     (let c = (case map_of [(''true'', ''green''), (''false'', ''red'')] (to_str (field item ''healthy'')) of
                 None \<Rightarrow> ''undefined'' | Some c \<Rightarrow> c)
      in ''row-bg-'' @ c)"

section \<open>The page\<close>

record service_page =
  sp_serviceName :: string
  sp_groupName :: string
  sp_loading :: bool
  sp_clusters :: jsval
  sp_service :: jsval
  sp_filters :: "(string \<times> (string \<times> string) list) list"

definition service_page_init :: "string \<Rightarrow> service_page" where
  "service_page_init search = \<lparr>sp_serviceName = getParameter search ''name'',
     sp_groupName = getParameter search ''groupName'', sp_loading = False, sp_clusters = Arr [],
     sp_service = Obj [], sp_filters = []\<rparr>"

definition sp_open :: "service_page stmt" where
  "sp_open = modify (\<lambda>s. s\<lparr>sp_loading := True\<rparr>)"


definition getServiceDetail :: "service_page stmt" where
  "getServiceDetail = block
     [sp_open,
      emit (\<lambda>s. Ajax ''GET'' (''v1/ns/catalog/service?serviceName='' @ sp_serviceName s @
        ''&groupName='' @ sp_groupName s) [])]"



definition service_componentDidMount :: "service_page stmt" where
  "service_componentDidMount =
     cond (\<lambda>s. sp_serviceName s = []) (emit (\<lambda>_. GoBack)) getServiceDetail"

definition setFilters :: "string \<Rightarrow> (string \<times> string) list \<Rightarrow> service_page stmt" where
  "setFilters clusterName filters =
     modify (\<lambda>s. s\<lparr>sp_filters := AList.update clusterName filters (sp_filters s)\<rparr>)"

text \<open>The filters a cluster's table receives: the map the page holds for it, or the empty default.\<close>

definition table_filters :: "service_page \<Rightarrow> string \<Rightarrow> (string \<times> string) list" where
  "table_filters s clusterName = (case map_of (sp_filters s) clusterName of None \<Rightarrow> [] | Some f \<Rightarrow> f)"

definition shown_metadata :: "service_page \<Rightarrow> jsval" where
  "shown_metadata s =
     (let metadata = with_default (field (sp_service s) ''metadata'') (Obj []) in
      if own_fields metadata = [] then Str [] else json_stringify tab metadata)"

section \<open>The loading overlays\<close>

lemma message_error_simps [simp]:
  "state_of (message_error v s) = s" "error_of (message_error v s) = None"
  by (simp_all add: message_error_def emit_def)

lemma switch_success_error: "error_of (switch_success i r inst s) = None \<longleftrightarrow> (\<exists>v. switched i r inst = Inr v)"
  by (cases "switched i r inst") (simp_all add: switch_success_def throw_def modify_def)



interpretation switching: ajax_call it_loading it_open "\<lambda>_ :: jsval. switch_success i r inst" switch_error it_close
  for i r inst
  by unfold_locales (simp_all add: it_open_def it_close_def modify_def)



section \<open>The switch of an instance\<close>

definition row_switched :: "jsval \<Rightarrow> jsval \<Rightarrow> jsval" where
  "row_switched record x =
     (case x of Obj fs \<Rightarrow> Obj (AList.update ''enabled'' (Bool (\<not> truthy (field record ''enabled''))) fs) | _ \<Rightarrow> x)"

lemma field_assign_val:
  "field (assign_val obj ch) k = (case map_of (rev ch) k of None \<Rightarrow> field (Obj (assign [] (own_fields obj))) k | Some v \<Rightarrow> v)"
  unfolding assign_val_def by (rule field_assign)

lemma switched_spec:
  assumes "field inst ''list'' = Arr xs" and "i < length xs" and "xs ! i = Obj fs"
  shows "\<exists>v. switched i record inst = Inr v \<and> field v ''list'' = Arr (xs[i := row_switched record (xs ! i)])"
  using assms by (simp add: switched_def set_field_def row_switched_def field_assign_val del: field_Obj)

lemma nth_filter_take: "j < length xs \<Longrightarrow> p (xs ! j) \<Longrightarrow> filter p xs ! length (filter p (take j xs)) = xs ! j"
proof -
  assume j: "j < length xs" "p (xs ! j)"
  have "filter p xs = filter p (take j xs) @ filter p (drop j xs)"
    by (metis append_take_drop_id filter_append)
  moreover have "drop j xs = xs ! j # drop (Suc j) xs" using j(1) by (rule Cons_nth_drop_Suc [symmetric])
  ultimately show ?thesis using j(2) by (simp add: nth_append)
qed

text \<open>C35. The table hands the switch the position of a row among the rows it shows, and the handler uses it
  as a position in the unfiltered list: the row that changes is the one that was clicked exactly when
  no earlier row is hidden by a filter.\<close>

theorem switch_hits_shown_row:
  assumes "field inst ''list'' = Arr xs" and "\<forall>x \<in> set xs. \<exists>fs. x = Obj fs"
    and "j < length xs" and "keep (xs ! j)" and "i = length (filter keep (take j xs))"
  shows "filter keep xs ! i = xs ! j \<and>
    (\<exists>v. switched i (xs ! j) inst = Inr v \<and>
       field v ''list'' = Arr (xs[i := row_switched (xs ! j) (xs ! i)])) \<and>
    (i = j \<longleftrightarrow> (\<forall>x \<in> set (take j xs). keep x))"
proof -
  have "i \<le> j" using assms(3,5) by (metis length_filter_le length_take min.absorb4)
  then have i: "i < length xs" using assms(3) by simp
  then obtain fs where "xs ! i = Obj fs" using assms(2) nth_mem by blast
  from switched_spec [OF assms(1) i this]
  have "\<exists>v. switched i (xs ! j) inst = Inr v \<and>
      field v ''list'' = Arr (xs[i := row_switched (xs ! j) (xs ! i)])" by blast
  moreover have "i = j \<longleftrightarrow> (\<forall>x \<in> set (take j xs). keep x)"
    using assms(3,5) length_filter_less [of _ "take j xs" keep]
    by (metis filter_True length_take less_irrefl min.absorb4)
  moreover have "filter keep xs ! i = xs ! j"
    using nth_filter_take [of j xs keep] assms(3-5) by simp
  ultimately show ?thesis by blast
qed

definition sample_row :: "string \<Rightarrow> string \<Rightarrow> jsval" where
  "sample_row ip zone = Obj [(''ip'', Str ip), (''enabled'', Bool True), (''metadata'', Obj [(''zone'', Str zone)])]"

theorem switch_hits_shown_row_witness:
  "\<exists>v. switched 0 (sample_row ''b'' ''z2'') (Obj [(''list'', Arr [sample_row ''a'' ''z1'', sample_row ''b'' ''z2''])])
     = Inr v \<and> field v ''list'' = Arr [row_switched (sample_row ''b'' ''z2'') (sample_row ''a'' ''z1''), sample_row ''b'' ''z2'']"
proof -
  let ?xs = "[sample_row ''a'' ''z1'', sample_row ''b'' ''z2'']"
  let ?keep = "matches [(''zone'', ''z2'')]"
  have "\<not> ?keep (sample_row ''a'' ''z1'')" "?keep (sample_row ''b'' ''z2'')"
    by (simp_all add: matches_def sample_row_def)
  then show ?thesis
    using switch_hits_shown_row [of "Obj [(''list'', Arr ?xs)]" ?xs 1 ?keep 0]
    by (auto simp: sample_row_def)
qed

section \<open>Filters\<close>

lemma matches_fold:
  "fold (\<lambda>(k, v) ok. if Str v \<noteq> field m k then False else ok) fs b \<longleftrightarrow> b \<and> (\<forall>(k, v) \<in> set fs. field m k = Str v)"
proof (induction fs arbitrary: b)
  case Nil
  then show ?case by simp
next
  case (Cons kv fs)
  obtain k v where kv: "kv = (k, v)" by (cases kv)
  show ?case unfolding kv fold_simps(2) prod.case comp_apply Cons.IH by auto
qed

lemma matches_iff: "matches fs item \<longleftrightarrow> (\<forall>(k, v) \<in> set fs. field (field item ''metadata'') k = Str v)"
  unfolding matches_def matches_fold by simp

lemma matches_eq: "matches fs = (\<lambda>item. \<forall>(k, v) \<in> set fs. field (field item ''metadata'') k = Str v)"
  by (rule ext) (rule matches_iff)

lemma instanceFilter_filter:
  "\<forall>x \<in> set xs. x \<notin> {Undef, Null} \<and> field x ''metadata'' \<notin> {Undef, Null} \<Longrightarrow>
   instanceFilter xs fs = Inr (filter (matches fs) xs)"
  by (induction xs) auto

text \<open>The life of a filter: what the user does with it, and the map it hands to the page.\<close>

datatype filter_op = TypeKey string | TypeValue string | Add | Remove string | Clear

fun filter_stmt :: "filter_op \<Rightarrow> instance_filter stmt" where
  "filter_stmt (TypeKey k) = setKey k"
| "filter_stmt (TypeValue v) = setValue v"
| "filter_stmt Add = addFilter"
| "filter_stmt (Remove k) = removeFilter k"
| "filter_stmt Clear = clearFilters"

definition filter_step :: "string \<Rightarrow> instance_filter \<times> service_page \<Rightarrow> filter_op \<Rightarrow> instance_filter \<times> service_page" where
  "filter_step cluster sp f =
     (let (s1, e, x) = filter_stmt f (fst sp) in
      (s1, if e = [] then snd sp else state_of (setFilters cluster (f_filters s1) (snd sp))))"

definition filter_in_sync :: "string \<Rightarrow> instance_filter \<times> service_page \<Rightarrow> bool" where
  "filter_in_sync cluster sp \<longleftrightarrow> table_filters (snd sp) cluster = f_filters (fst sp) \<and>
     distinct (map fst (f_filters (fst sp))) \<and> (\<forall>(k, v) \<in> set (f_filters (fst sp)). k \<noteq> [] \<and> v \<noteq> [])"

lemma addFilter_run:
  "addFilter s =
     (let s1 = updateInput s in
      if f_key s \<noteq> [] \<and> f_value s \<noteq> []
      then (let s2 = clearInput (s1\<lparr>f_filters := AList.update (f_key s) (f_value s) (f_filters s)\<rparr>)
            in (s2, [Call ''setFilters'' [Obj (map (apsnd Str) (f_filters s2))]], None))
      else (s1, [], None))"
  by (simp add: addFilter_def stmt_defs updateInput_def clearInput_def share_filters_def Let_def)

lemma set_update_pairs: "p \<in> set (AList.update k v xs) \<Longrightarrow> p = (k, v) \<or> p \<in> set xs"
  by (induction xs) (auto split: if_splits)

lemma table_filters_set: "table_filters (state_of (setFilters c f p)) c = f"
  by (simp add: table_filters_def setFilters_def modify_def AList.update_conv')

lemma filter_step_sync: "filter_in_sync c sp \<Longrightarrow> filter_in_sync c (filter_step c sp f)"
proof -
  assume sync: "filter_in_sync c sp"
  show ?thesis
  proof (cases f)
    case Add
    with sync show ?thesis
      by (auto simp: filter_step_def addFilter_run filter_in_sync_def Let_def table_filters_set
          updateInput_def clearInput_def distinct_update dest!: set_update_pairs)
  next
    case (Remove k)
    with sync show ?thesis
      by (auto simp: filter_step_def removeFilter_def filter_in_sync_def stmt_defs share_filters_def
          table_filters_set AList.delete_eq distinct_map_filter)
  qed (use sync in \<open>auto simp: filter_step_def filter_in_sync_def setKey_def setValue_def clearFilters_def
      stmt_defs share_filters_def table_filters_set\<close>)
qed

lemma filter_steps_sync: "filter_in_sync c sp \<Longrightarrow> filter_in_sync c (foldl (filter_step c) sp fs)"
  by (induction fs arbitrary: sp) (auto simp: filter_step_sync)

text \<open>C7. Whatever the user does with a cluster's filter, the table of that cluster shows the instances
  whose metadata have every key and value of the filter as it is now, and the filter has every key once
  and neither an empty key nor an empty value.\<close>

theorem filter_decides_rows:
  assumes "\<forall>x \<in> set xs. x \<notin> {Undef, Null} \<and> field x ''metadata'' \<notin> {Undef, Null}"
    and "table_filters p cluster = []"
  shows "let (s1, p1) = foldl (filter_step cluster) (filter_initial, p) ops in
    instanceFilter xs (table_filters p1 cluster) =
      Inr (filter (\<lambda>x. \<forall>(k, v) \<in> set (f_filters s1). field (field x ''metadata'') k = Str v) xs) \<and>
    distinct (map fst (f_filters s1)) \<and> (\<forall>(k, v) \<in> set (f_filters s1). k \<noteq> [] \<and> v \<noteq> [])"
proof -
  have "filter_in_sync cluster (filter_initial, p)"
    using assms(2) by (simp add: filter_in_sync_def filter_initial_def)
  from filter_steps_sync [OF this, of ops] show ?thesis
    by (cases "foldl (filter_step cluster) (filter_initial, p) ops")
      (simp add: filter_in_sync_def Let_def instanceFilter_filter [OF assms(1)] matches_eq)
qed

theorem filter_decides_rows_witness:
  "instanceFilter [sample_row ''a'' ''z1'', sample_row ''b'' ''z2'']
     (table_filters (snd (foldl (filter_step ''c'') (filter_initial, service_page_init [])
        [TypeKey ''zone'', Add, TypeValue ''z2'', Add])) ''c'')
   = Inr [sample_row ''b'' ''z2'']"
proof -
  let ?ops = "[TypeKey ''zone'', Add, TypeValue ''z2'', Add]"
  obtain s1 p1 where r: "foldl (filter_step ''c'') (filter_initial, service_page_init []) ?ops = (s1, p1)"
    by (cases "foldl (filter_step ''c'') (filter_initial, service_page_init []) ?ops")
  then have "f_filters s1 = [(''zone'', ''z2'')]"
    by (auto simp: filter_step_def addFilter_run setKey_def setValue_def modify_def Let_def
        updateInput_def clearInput_def filter_initial_def)
  then show ?thesis
    using filter_decides_rows [of "[sample_row ''a'' ''z1'', sample_row ''b'' ''z2'']"
        "service_page_init []" "''c''" ?ops] r
    by (simp add: service_page_init_def table_filters_def sample_row_def)
qed

section \<open>Saving a service\<close>

text \<open>The service dialog sends a request, one and complete, exactly when the service has a name and a
  threshold (zero counts, as a number); it closes at once, before the answer; otherwise it stays open
  and the first missing field is marked.\<close>

theorem service_confirm_guard:
  "let e = editService s; (s1, eff, x) = service_confirm help s;
       missing = (if \<not> truthy (field e ''name'') then Some ''name''
         else if field e ''protectThreshold'' \<noteq> Num 0 \<and> \<not> truthy (field e ''protectThreshold'')
         then Some ''protectThreshold'' else None)
   in x = None \<and>
     (case missing of
        Some k \<Rightarrow> eff = [] \<and> editServiceDialogVisible s1 = editServiceDialogVisible s \<and>
          field (field (Obj (sd_errors s1)) k) ''validateState'' = Str ''error''
      | None \<Rightarrow> \<not> editServiceDialogVisible s1 \<and> sd_loading s1 \<and>
          (\<exists>data. eff = [Ajax (if isCreate s then ''POST'' else ''PUT'') ''v1/ns/service'' data] \<and>
             map_of data ''serviceName'' = Some (field e ''name'') \<and>
             map_of data ''protectThreshold'' = Some (field e ''protectThreshold'')))"
proof -
  have marked: "field (field (Obj (AList.update k (Obj [(''validateState'', Str ''error''), (''help'', h)]) es)) k)
      ''validateState'' = Str ''error''" for k h es
    by (simp add: AList.update_conv')
  show ?thesis
    by (auto simp: service_confirm_def validator_def Let_def stmt_defs service_hide_def marked
        simp del: field_Obj split: if_splits)
qed

text \<open>Only the last entry counts in the comparison of two maps of the same size.\<close>

lemma isDiff_last:
  "isDiff p n \<longleftrightarrow> length p \<noteq> length n \<or> n \<noteq> [] \<and> map_of p (fst (last n)) \<noteq> Some (snd (last n))"
proof -
  have "diff_loop p n d = (if n = [] then d else Some (snd (last n)) \<noteq> map_of p (fst (last n)))" for d
    by (induction p n d rule: diff_loop.induct) auto
  then show ?thesis by (auto simp: isDiff_def)
qed

lemma isDiff_misses: "\<not> isDiff [(''a'', 1::int), (''b'', 2)] [(''a'', 9), (''b'', 2)]"
  by (simp add: isDiff_def)

end
