(* ===== verification/Name_Spaces.thy ===== *)
theory Name_Spaces
  imports Service_Detail
begin

text \<open>
  The bar that selects the current namespace, \<open>src/console-ui/src/components/NameSpaceList\<close>, and the
  region bar around it, \<open>components/RegionGroup\<close>.

  The current namespace has four copies: the parameter of the address, the item of \<open>localStorage\<close> that
  the request middleware sends, the global \<open>window.nownamespace\<close> it appends as the tenant, and the
  state of the bar.  The bar is where they are made equal.
\<close>

record ns_bar =
  nb_browser :: browser
  nb_list :: jsval
  nb_showName :: jsval
  nb_desc :: jsval
  nb_now :: jsval
  nb_items :: jsval

text \<open>\<open>nb_list\<close>, \<open>nb_showName\<close> and \<open>nb_desc\<close> are \<open>window.namespaceList\<close>, \<open>window.namespaceShowName\<close>
  and \<open>window.namespaceDesc\<close>; \<open>nb_now\<close> and \<open>nb_items\<close> are the state.\<close>

definition ns_init :: "ns_bar \<Rightarrow> js_error + ns_bar" where
  "ns_init s =
     (case get_params (b_win (nb_browser s)) ''namespace'' of
        Inl e \<Rightarrow> Inl e
      | Inr p \<Rightarrow> Inr (s\<lparr>nb_now := js_or (js_or (nownamespace (nb_browser s)) (Str (or_empty p))) (Str []),
          nb_items := js_or (nb_list s) (Arr [])\<rparr>))"

definition on_browser :: "(browser \<Rightarrow> browser) \<Rightarrow> ns_bar stmt" where
  "on_browser f = modify (\<lambda>s. s\<lparr>nb_browser := f (nb_browser s)\<rparr>)"

text \<open>\<open>setParams\<close> on the page's address.\<close>

definition write_params :: "(string \<times> jsval) list \<Rightarrow> ns_bar stmt" where
  "write_params kvs s =
     (case set_params (b_win (nb_browser s)) kvs of
        Inl e \<Rightarrow> (s, [], Some e)
      | Inr w \<Rightarrow> (s\<lparr>nb_browser := (nb_browser s)\<lparr>b_win := w\<rparr>\<rparr>, [], None))"

definition calleeParent :: "bool \<Rightarrow> ns_bar stmt" where
  "calleeParent needclean = emit (\<lambda>_. Call ''namespaceCallBack'' [Bool needclean])"

text \<open>\<open>listening\<close>: the page passed \<open>setNowNameSpace\<close>.\<close>

definition tell_parent :: "bool \<Rightarrow> jsval list \<Rightarrow> ns_bar stmt" where
  "tell_parent listening vs = (if listening then emit (\<lambda>_. Call ''setNowNameSpace'' vs) else skip)"

definition setnamespace :: "jsval \<Rightarrow> ns_bar stmt" where
  "setnamespace v = modify (\<lambda>s. s\<lparr>nb_now := v\<rparr>)"

definition changeNameSpace :: "bool \<Rightarrow> jsval \<Rightarrow> jsval \<Rightarrow> jsval \<Rightarrow> ns_bar stmt" where
  "changeNameSpace listening ns nsName nsDesc = block
     [on_browser (set_item ''namespace'' (to_str ns)),
      setnamespace (js_or ns (Str [])),
      write_params [(''namespace'', js_or ns (Str [])), (''namespaceShowName'', nsName)],
      modify (\<lambda>s. s\<lparr>nb_browser := (nb_browser s)\<lparr>nownamespace := ns\<rparr>, nb_showName := nsName, nb_desc := nsDesc\<rparr>),
      calleeParent True,
      tell_parent listening [nsName, ns, nsDesc]]"

text \<open>The name and the description of the first entry with the namespace; an entry that is no object
  raises when it is reached.\<close>

fun find_namespace :: "string \<Rightarrow> jsval list \<Rightarrow> js_error + jsval \<times> jsval" where
  "find_namespace now [] = Inr (Str [], Str [])"
| "find_namespace now (x # xs) =
     (if x \<in> {Undef, Null} then Inl TypeError
      else if field x ''namespace'' = Str now then Inr (field x ''namespaceShowName'', field x ''namespaceDesc'')
      else find_namespace now xs)"

definition elements :: "jsval \<Rightarrow> jsval list" where
  "elements v = (case v of Arr xs \<Rightarrow> xs | _ \<Rightarrow> [])"

definition handleNameSpaces :: "bool \<Rightarrow> jsval \<Rightarrow> ns_bar stmt" where
  "handleNameSpaces listening data = with_state (\<lambda>s.
     case get_params (b_win (nb_browser s)) ''namespace'' of
       Inl e \<Rightarrow> throw e
     | Inr p \<Rightarrow>
         (let now = or_empty p in block
            [modify (\<lambda>s. s\<lparr>nb_list := data, nb_browser := (nb_browser s)\<lparr>nownamespace := Str now\<rparr>\<rparr>),
             need_object data
               (case find_namespace now (elements data) of
                  Inl e \<Rightarrow> throw e
                | Inr (showName, desc) \<Rightarrow> block
                    [modify (\<lambda>s. s\<lparr>nb_showName := showName, nb_desc := desc\<rparr>),
                     write_params [(''namespace'', Str now)],
                     on_browser (set_item ''namespace'' now),
                     tell_parent listening [showName, Str now, desc],
                     modify (\<lambda>s. s\<lparr>nb_now := Str now, nb_items := data\<rparr>),
                     calleeParent False])]))"

definition getNameSpaces :: "bool \<Rightarrow> ns_bar stmt" where
  "getNameSpaces listening = with_state (\<lambda>s.
     if elements (nb_list s) \<noteq> [] then handleNameSpaces listening (nb_list s)
     else emit (\<lambda>_. Ajax ''get'' ''v1/console/namespaces'' []))"

definition namespaces_success :: "bool \<Rightarrow> string \<Rightarrow> jsval \<Rightarrow> ns_bar stmt" where
  "namespaces_success listening notice res = need_object res
     (if field res ''code'' = Num 200 then handleNameSpaces listening (field res ''data'')
      else emit (\<lambda>_. Alert notice (to_str (field res ''message''))))"

definition namespaces_error :: "bool \<Rightarrow> ns_bar stmt" where
  "namespaces_error listening = block
     [modify (\<lambda>s. s\<lparr>nb_list := Arr []\<rparr>), handleNameSpaces listening (Arr [])]"

text \<open>The entries as they are drawn: the current one is marked.\<close>

definition rendernamespace :: "ns_bar \<Rightarrow> (jsval \<times> string) list" where
  "rendernamespace s = map (\<lambda>x. (field x ''namespaceShowName'',
     if field x ''namespace'' = nb_now s then ''naming-focus'' else ''naming-simple'')) (elements (nb_items s))"

section \<open>The region bar\<close>

record region_bar =
  rg_browser :: browser
  rg_currRegionId :: jsval
  rg_stateRegion :: jsval
  rg_instanceData :: jsval

fun active_env :: "jsval list \<Rightarrow> jsval \<Rightarrow> jsval" where
  "active_env [] v = v"
| "active_env (e # es) v = active_env es (if truthy (field e ''active'') then field e ''serverId'' else v)"

text \<open>The active environment of all groups and the environments of the last group.\<close>

fun scan_groups :: "jsval list \<Rightarrow> jsval \<Rightarrow> jsval list \<Rightarrow> jsval \<times> jsval list" where
  "scan_groups [] v inst = (v, inst)"
| "scan_groups (g # gs) v inst =
     (let obj = elements (js_or (field g ''envs'') (Arr [])) in scan_groups gs (active_env obj v) obj)"

definition current_region :: "jsval \<Rightarrow> jsval list \<Rightarrow> jsval" where
  "current_region envcontent inst =
     js_or envcontent (case inst of [] \<Rightarrow> Undef | x # _ \<Rightarrow> field x ''serverId'')"

definition region_params :: "(string \<times> jsval) list \<Rightarrow> region_bar stmt" where
  "region_params kvs s =
     (case set_params (b_win (rg_browser s)) kvs of
        Inl e \<Rightarrow> (s, [], Some e)
      | Inr w \<Rightarrow> (s\<lparr>rg_browser := (rg_browser s)\<lparr>b_win := w\<rparr>\<rparr>, [], None))"

definition changeRegionBarRegionId :: "jsval \<Rightarrow> region_bar stmt" where
  "changeRegionBarRegionId r = emit (\<lambda>_. Call ''postMessage'' [Str ''SET_ACTIVE_REGION_ID'', r])"

definition setRegionBarRegionList :: "jsval list \<Rightarrow> jsval \<Rightarrow> region_bar stmt" where
  "setRegionBarRegionList rs r = emit (\<lambda>_. Call ''postMessage'' [Str ''TOGGLE_REGIONBAR_STATUS'', Arr rs, r])"

text \<open>\<open>nested\<close>: the bar shows the list of namespaces.  The repeated message after a second is not
  modelled.\<close>

definition handleRegionList :: "bool \<Rightarrow> jsval \<Rightarrow> region_bar stmt" where
  "handleRegionList nested data =
     (let d = with_default data (Obj []) in
      if d = Null \<or> field d ''envGroups'' \<in> {Undef, Null} then throw TypeError
      else
        (let (envcontent, inst) = scan_groups (elements (field d ''envGroups'')) (Str []) [];
             r = current_region envcontent inst
         in block
           [modify (\<lambda>s. s\<lparr>rg_currRegionId := r\<rparr>),
            region_params [(''serverId'', r)],
            setRegionBarRegionList inst r,
            changeRegionBarRegionId r,
            (if nested then call ''getNameSpaces'' else skip),
            modify (\<lambda>s. s\<lparr>rg_stateRegion := envcontent, rg_instanceData := Arr inst\<rparr>)]))"

section \<open>Properties\<close>

text \<open>The four copies, and what the request middleware makes of them.\<close>

definition namespace_is :: "string \<Rightarrow> ns_bar \<Rightarrow> bool" where
  "namespace_is n s \<longleftrightarrow>
     addr_ok (b_win (nb_browser s)) \<and> get_params (b_win (nb_browser s)) ''namespace'' = Inr (Some n) \<and>
     get_item (nb_browser s) ''namespace'' = Some n \<and> nownamespace (nb_browser s) = Str n \<and> nb_now s = Str n"

lemma namespace_key: "''namespace'' \<in> set console_keys" "''namespaceShowName'' \<in> set console_keys"
  by (simp_all add: console_keys_def)

lemma val_str_or: "val_str (js_or (Str n) (Str [])) = n"
  by (simp add: val_str_def js_or_def)

lemma set_namespace:
  assumes "addr_ok w" and "fst ` set rest \<subseteq> {''namespaceShowName''}"
  shows "\<exists>w'. set_params w ((''namespace'', Str n) # rest) = Inr w' \<and> addr_ok w' \<and>
    get_params w' ''namespace'' = Inr (Some n)"
proof -
  let ?kvs = "(''namespace'', Str n) # rest"
  have keys: "fst ` set ?kvs \<subseteq> set console_keys" using assms(2) namespace_key by auto
  have "map_of (rev rest) ''namespace'' = None"
    using assms(2) by (auto simp: map_of_eq_None_iff)
  then have "map_of (rev ?kvs) ''namespace'' = Some (Str n)" by (simp add: map_add_def)
  with set_params_console [OF assms(1) keys] namespace_key(1) obtain w' where
    w': "set_params w ?kvs = Inr w'" "addr_ok w'" "addr_get w' ''namespace'' = Some n"
    by fastforce
  then show ?thesis using get_params_addr [OF w'(2) namespace_key(1)] by simp
qed

lemma middleware_of_namespace:
  assumes "namespace_is n s"
  shows "current_tenant (nb_browser s) = Inr (Str (if n = ''global'' then [] else n))"
    and "CHR ''?'' \<notin> set url \<Longrightarrow> \<not> str_includes ''namespaceId='' url \<Longrightarrow> c_url c = Str url \<Longrightarrow>
      \<exists>c'. lib_middleware (nb_browser s) c = Inr (Some c') \<and> field (c_data c') ''namespaceId'' = Str n"
proof -
  have t: "current_tenant (nb_browser s) = Inr (Str (if n = ''global'' then [] else n))"
    using assms by (auto simp: namespace_is_def current_tenant_def)
  show "current_tenant (nb_browser s) = Inr (Str (if n = ''global'' then [] else n))" by (rule t)
  assume url: "CHR ''?'' \<notin> set url" "\<not> str_includes ''namespaceId='' url" "c_url c = Str url"
  have "field (c_data (add_namespace (nb_browser s) c)) ''namespaceId'' = Str n"
    using add_namespace_data(1) [OF url(3,2), of "nb_browser s"] assms by (simp add: namespace_is_def)
  with lib_middleware_plain [OF t url(3,1)]
  show "\<exists>c'. lib_middleware (nb_browser s) c = Inr (Some c') \<and> field (c_data c') ''namespaceId'' = Str n"
    by blast
qed

lemma changeNameSpace_run:
  assumes "addr_ok (b_win (nb_browser s))"
  shows "\<exists>w'. addr_ok w' \<and> get_params w' ''namespace'' = Inr (Some n) \<and>
    changeNameSpace listening (Str n) nm d s =
      (s\<lparr>nb_browser := (set_item ''namespace'' n (nb_browser s))\<lparr>b_win := w', nownamespace := Str n\<rparr>,
         nb_now := Str n, nb_showName := nm, nb_desc := d\<rparr>,
       Call ''namespaceCallBack'' [Bool True] # (if listening then [Call ''setNowNameSpace'' [nm, Str n, d]] else []),
       None)"
proof -
  have now: "js_or (Str n) (Str []) = Str n" by (simp add: js_or_def)
  obtain w' where w': "set_params (b_win (nb_browser s)) [(''namespace'', Str n), (''namespaceShowName'', nm)] = Inr w'"
      "addr_ok w'" "get_params w' ''namespace'' = Inr (Some n)"
    using set_namespace [OF assms, of "[(''namespaceShowName'', nm)]" n] by auto
  show ?thesis
    by (intro exI [of _ w'])
      (use w' in \<open>simp add: changeNameSpace_def on_browser_def setnamespace_def write_params_def now
        calleeParent_def tell_parent_def stmt_defs\<close>)
qed

lemma handleNameSpaces_run:
  assumes "addr_ok (b_win (nb_browser s))" and "find_namespace now xs = Inr (nm, d)"
    and "now = or_empty (addr_get (b_win (nb_browser s)) ''namespace'')"
  shows "\<exists>w'. addr_ok w' \<and> get_params w' ''namespace'' = Inr (Some now) \<and>
    handleNameSpaces listening (Arr xs) s =
      (s\<lparr>nb_browser := (set_item ''namespace'' now (nb_browser s))\<lparr>b_win := w', nownamespace := Str now\<rparr>,
         nb_list := Arr xs, nb_now := Str now, nb_showName := nm, nb_desc := d, nb_items := Arr xs\<rparr>,
       (if listening then [Call ''setNowNameSpace'' [nm, Str now, d]] else []) @ [Call ''namespaceCallBack'' [Bool False]],
       None)"
proof -
  have g: "get_params (b_win (nb_browser s)) ''namespace'' = Inr (addr_get (b_win (nb_browser s)) ''namespace'')"
    using get_params_addr [OF assms(1) namespace_key(1)] .
  obtain w' where w': "set_params (b_win (nb_browser s)) [(''namespace'', Str now)] = Inr w'"
      "addr_ok w'" "get_params w' ''namespace'' = Inr (Some now)"
    using set_namespace [OF assms(1), of "[]" now] by auto
  show ?thesis
    by (intro exI [of _ w'])
      (use w' g assms(2) in \<open>simp add: handleNameSpaces_def elements_def need_object_def on_browser_def
        write_params_def calleeParent_def tell_parent_def stmt_defs set_item_def assms(3) [symmetric]\<close>)
qed

lemma find_namespace_ok: "\<forall>x \<in> set xs. x \<notin> {Undef, Null} \<Longrightarrow> \<exists>nm d. find_namespace now xs = Inr (nm, d)"
  by (induction xs) auto

text \<open>C6. After the list of namespaces has arrived, and after the user has picked one, the address, the
  browser's storage, the global and the bar name the same namespace, the one of the address before or
  the one picked; and that is what the request middleware sends, as the namespace of the data and as
  the tenant (the word \<open>global\<close> standing for the empty one).\<close>

theorem namespace_everywhere:
  assumes "addr_ok (b_win (nb_browser s))" and "\<forall>x \<in> set xs. x \<notin> {Undef, Null}"
    and "s' = state_of (handleNameSpaces listening (Arr xs) s) \<and>
           n = or_empty (addr_get (b_win (nb_browser s)) ''namespace'')
         \<or> s' = state_of (changeNameSpace listening (Str n) nm d s)"
    and "CHR ''?'' \<notin> set url" and "\<not> str_includes ''namespaceId='' url" and "c_url c = Str url"
  shows "namespace_is n s' \<and>
    current_tenant (nb_browser s') = Inr (Str (if n = ''global'' then [] else n)) \<and>
    (\<exists>c'. lib_middleware (nb_browser s') c = Inr (Some c') \<and> field (c_data c') ''namespaceId'' = Str n)"
proof -
  have "namespace_is n s'"
    using assms(3)
  proof
    assume h: "s' = state_of (handleNameSpaces listening (Arr xs) s) \<and>
      n = or_empty (addr_get (b_win (nb_browser s)) ''namespace'')"
    obtain m e where "find_namespace n xs = Inr (m, e)" using find_namespace_ok [OF assms(2)] by blast
    from handleNameSpaces_run [OF assms(1) this, of listening] h
    show ?thesis by (auto simp: namespace_is_def get_item_def set_item_def AList.update_conv')
  next
    assume "s' = state_of (changeNameSpace listening (Str n) nm d s)"
    with changeNameSpace_run [OF assms(1), of n listening nm d]
    show ?thesis by (auto simp: namespace_is_def get_item_def set_item_def AList.update_conv')
  qed
  with middleware_of_namespace [OF this] assms(4-6) show ?thesis by blast
qed

definition sample_bar :: ns_bar where
  "sample_bar = \<lparr>nb_browser = sample_browser, nb_list = Undef, nb_showName = Undef, nb_desc = Undef,
     nb_now = Str [], nb_items = Arr []\<rparr>"

theorem namespace_everywhere_witness:
  "namespace_is ''global'' (state_of (changeNameSpace True (Str ''global'') (Str ''G'') Undef sample_bar)) \<and>
   current_tenant (nb_browser (state_of (changeNameSpace True (Str ''global'') (Str ''G'') Undef sample_bar)))
     = Inr (Str [])"
proof -
  have "addr_ok (b_win (nb_browser sample_bar))"
    by (simp add: sample_bar_def sample_browser_def sample_win_ok)
  moreover have "\<not> str_includes ''namespaceId='' ''v1/ns/instance''" "CHR ''?'' \<notin> set ''v1/ns/instance''"
    by code_simp+
  moreover have "c_url sample_config = Str ''v1/ns/instance''" by (simp add: sample_config_def)
  ultimately show ?thesis
    using namespace_everywhere [of sample_bar "[]" _ True "''global''" "Str ''G''" Undef "''v1/ns/instance''" sample_config]
    by simp
qed

end
