(* ===== verification/Service_List.thy ===== *)
theory Service_List
  imports Name_Spaces
begin

text \<open>
  The list of services, \<open>src/console-ui/src/pages/ServiceManagement/ServiceList\<close>, and the list of
  subscribers, \<open>SubscriberList\<close>.
\<close>

section \<open>Services\<close>

record service_list =
  sl_win :: win
  sl_storage :: "(string \<times> string) list"
  sl_loading :: bool
  sl_total :: jsval
  sl_pageSize :: nat
  sl_currentPage :: nat
  sl_dataSource :: jsval
  sl_serviceName :: string
  sl_groupName :: string
  sl_hasIpCount :: bool
  sl_namespace :: "jsval \<times> jsval \<times> jsval"

definition service_list_init :: "win \<Rightarrow> (string \<times> string) list \<Rightarrow> js_error + service_list" where
  "service_list_init w st =
     (case (get_params w ''serviceNameParam'', get_params w ''groupNameParam'') of
        (Inr n, Inr g) \<Rightarrow> Inr \<lparr>sl_win = w, sl_storage = st, sl_loading = False, sl_total = Num 0,
          sl_pageSize = 10, sl_currentPage = 1, sl_dataSource = Arr [], sl_serviceName = or_empty n,
          sl_groupName = or_empty g, sl_hasIpCount = (map_of st ''hasIpCount'' \<noteq> Some ''false''),
          sl_namespace = (Undef, Undef, Undef)\<rparr>
      | (Inl e, _) \<Rightarrow> Inl e
      | (_, Inl e) \<Rightarrow> Inl e)"

definition sl_open :: "service_list stmt" where
  "sl_open = modify (\<lambda>s. s\<lparr>sl_loading := True\<rparr>)"

definition sl_close :: "service_list stmt" where
  "sl_close = modify (\<lambda>s. s\<lparr>sl_loading := False\<rparr>)"

definition openEditServiceDialog :: "service_list stmt" where
  "openEditServiceDialog = emit (\<lambda>_. Call ''editServiceDialog.show'' [Undef])"

definition list_write_params :: "(service_list \<Rightarrow> (string \<times> jsval) list) \<Rightarrow> service_list stmt" where
  "list_write_params f s =
     (case set_params (sl_win s) (f s) of
        Inl e \<Rightarrow> (s, [], Some e)
      | Inr w \<Rightarrow> (s\<lparr>sl_win := w\<rparr>, [], None))"

definition service_query :: "service_list \<Rightarrow> string" where
  "service_query s = js_join ''&''
     [''hasIpCount='' @ to_str (Bool (sl_hasIpCount s)), ''withInstances=false'',
      ''pageNo='' @ nat_str (sl_currentPage s), ''pageSize='' @ nat_str (sl_pageSize s),
      ''serviceNameParam='' @ sl_serviceName s, ''groupNameParam='' @ sl_groupName s]"

definition queryServiceList :: "service_list stmt" where
  "queryServiceList = block
     [list_write_params (\<lambda>s. [(''serviceNameParam'', Str (sl_serviceName s)), (''groupNameParam'', Str (sl_groupName s))]),
      sl_open,
      emit (\<lambda>s. Ajax ''GET'' (''v1/ns/catalog/services?'' @ service_query s) [])]"

definition list_success :: "jsval \<Rightarrow> service_list stmt" where
  "list_success res =
     (let r = with_default res (Obj []) in
      if r = Null then throw TypeError
      else modify (\<lambda>s. s\<lparr>sl_dataSource := with_default (field r ''serviceList'') (Arr []),
        sl_total := with_default (field r ''count'') (Num 0), sl_loading := False\<rparr>))"

definition list_error :: "jsval \<Rightarrow> service_list stmt" where
  "list_error e = modify (\<lambda>s. s\<lparr>sl_dataSource := Arr [], sl_total := Num 0, sl_currentPage := 0,
     sl_loading := False\<rparr>)"

definition search_first :: "service_list stmt" where
  "search_first = block [modify (\<lambda>s. s\<lparr>sl_currentPage := 1\<rparr>), queryServiceList]"

definition sl_setServiceName :: "string \<Rightarrow> service_list stmt" where
  "sl_setServiceName n = modify (\<lambda>s. s\<lparr>sl_serviceName := n\<rparr>)"

definition sl_setGroupName :: "string \<Rightarrow> service_list stmt" where
  "sl_setGroupName g = modify (\<lambda>s. s\<lparr>sl_groupName := g\<rparr>)"

definition toggle_hasIpCount :: "bool \<Rightarrow> service_list stmt" where
  "toggle_hasIpCount b = block
     [modify (\<lambda>s. s\<lparr>sl_hasIpCount := b, sl_currentPage := 1\<rparr>),
      modify (\<lambda>s. s\<lparr>sl_storage := AList.update ''hasIpCount'' (to_str (Bool b)) (sl_storage s)\<rparr>),
      queryServiceList]"

definition sl_handlePageSizeChange :: "nat \<Rightarrow> service_list stmt" where
  "sl_handlePageSizeChange n = block [modify (\<lambda>s. s\<lparr>sl_pageSize := n\<rparr>), queryServiceList]"

definition sl_changePage :: "nat \<Rightarrow> service_list stmt" where
  "sl_changePage n = block [modify (\<lambda>s. s\<lparr>sl_currentPage := n\<rparr>), queryServiceList]"

definition querySubscriber :: "jsval \<Rightarrow> service_list stmt" where
  "querySubscriber rec = need_object rec (emit (\<lambda>s. Push (generateUrl ''/subscriberList''
     [(''namespace'', fst (snd (sl_namespace s))), (''name'', field rec ''name''), (''groupName'', field rec ''groupName'')])))"

definition openServiceDetail :: "jsval \<Rightarrow> service_list stmt" where
  "openServiceDetail rec = need_object rec (emit (\<lambda>_. Push (generateUrl ''/serviceDetail''
     [(''name'', field rec ''name''), (''groupName'', field rec ''groupName'')])))"

definition deleteService :: "string \<Rightarrow> service_list stmt" where
  "deleteService promptDelete = emit (\<lambda>_. Confirm promptDelete)"

definition delete_confirmed :: "jsval \<Rightarrow> service_list stmt" where
  "delete_confirmed service = need_object service (block
     [sl_open,
      emit (\<lambda>_. Ajax ''DELETE'' (''v1/ns/service?serviceName='' @ to_str (field service ''name'') @
        ''&groupName='' @ to_str (field service ''groupName'')) [])])"

definition delete_success :: "jsval \<Rightarrow> service_list stmt" where
  "delete_success res = unless_ok res queryServiceList"

definition delete_error :: "jsval \<Rightarrow> service_list stmt" where
  "delete_error res = message_error (js_or (field res ''responseText'') (field res ''statusText''))"

definition sl_setNowNameSpace :: "jsval \<Rightarrow> jsval \<Rightarrow> jsval \<Rightarrow> service_list stmt" where
  "sl_setNowNameSpace n i d = modify (\<lambda>s. s\<lparr>sl_namespace := (n, i, d)\<rparr>)"

definition sl_rowColor :: "jsval \<Rightarrow> string" where
  "sl_rowColor row = (if \<not> truthy (field row ''healthyInstanceCount'') then ''row-bg-red'' else [])"

section \<open>Subscribers\<close>

record subscriber_list =
  su_pageSize :: nat
  su_pageNo :: nat
  su_serviceName :: string
  su_groupName :: string
  su_nowNamespaceId :: jsval
  su_namespace :: "jsval \<times> jsval"

definition subscriber_init :: "win \<Rightarrow> js_error + subscriber_list" where
  "subscriber_init w =
     (case (get_params w ''name'', get_params w ''groupName'', get_params w ''namespace'') of
        (Inr n, Inr g, Inr i) \<Rightarrow> Inr \<lparr>su_pageSize = 10, su_pageNo = 1, su_serviceName = or_empty n,
          su_groupName = or_empty g, su_nowNamespaceId = Str (or_empty i), su_namespace = (Undef, Undef)\<rparr>
      | (Inl e, _, _) \<Rightarrow> Inl e
      | (_, Inl e, _) \<Rightarrow> Inl e
      | (_, _, Inl e) \<Rightarrow> Inl e)"

definition querySubscriberList :: "string \<Rightarrow> subscriber_list stmt" where
  "querySubscriberList prompt =
     cond (\<lambda>s. su_serviceName s = []) (emit (\<lambda>_. MsgError prompt))
       (emit (\<lambda>s. Ajax ''get'' ''v1/ns/service/subscribers''
          [(''serviceName'', Str (su_serviceName s)), (''groupName'', Str (su_groupName s)),
           (''pageSize'', Num (int (su_pageSize s))), (''pageNo'', Num (int (su_pageNo s))),
           (''namespaceId'', with_default (su_nowNamespaceId s) (Str []))]))"

definition subscriber_componentDidMount :: "string \<Rightarrow> subscriber_list stmt" where
  "subscriber_componentDidMount prompt = cond (\<lambda>s. su_serviceName s \<noteq> []) (querySubscriberList prompt) skip"

definition switchNamespace :: "subscriber_list stmt" where
  "switchNamespace = call ''removeSubscribers''"

definition su_setNowNameSpace :: "jsval \<Rightarrow> jsval \<Rightarrow> jsval \<Rightarrow> subscriber_list stmt" where
  "su_setNowNameSpace n i d = modify (\<lambda>s. s\<lparr>su_nowNamespaceId := i, su_namespace := (n, d)\<rparr>)"

definition su_setServiceName :: "string \<Rightarrow> subscriber_list stmt" where
  "su_setServiceName n = modify (\<lambda>s. s\<lparr>su_serviceName := n\<rparr>)"

definition su_setGroupName :: "string \<Rightarrow> subscriber_list stmt" where
  "su_setGroupName g = modify (\<lambda>s. s\<lparr>su_groupName := g\<rparr>)"

definition su_search :: "string \<Rightarrow> subscriber_list stmt" where
  "su_search prompt = block [modify (\<lambda>s. s\<lparr>su_pageNo := 1\<rparr>), querySubscriberList prompt]"

definition su_changePage :: "string \<Rightarrow> nat \<Rightarrow> subscriber_list stmt" where
  "su_changePage prompt n = block [modify (\<lambda>s. s\<lparr>su_pageNo := n\<rparr>), querySubscriberList prompt]"

text \<open>The rows come from the store: whatever is not an array shows none.\<close>

definition subscribers_shown :: "slice \<Rightarrow> jsval list" where
  "subscribers_shown sl = elements (with_default (field (Obj sl) ''subscribers'') (Arr []))"

section \<open>Properties\<close>

interpretation deleting: ajax_call sl_loading sl_open delete_success delete_error sl_close
  by unfold_locales (simp_all add: sl_open_def sl_close_def modify_def)

lemma service_keys: "''serviceNameParam'' \<in> set console_keys" "''groupNameParam'' \<in> set console_keys"
  by (simp_all add: console_keys_def)

lemma val_str_Str_or: "val_str (Str n) = n"
  by (simp add: val_str_def js_or_def)

lemma queryServiceList_run:
  assumes "addr_ok (sl_win s)"
  shows "\<exists>w'. queryServiceList s = (s\<lparr>sl_win := w', sl_loading := True\<rparr>,
      [Ajax ''GET'' (''v1/ns/catalog/services?'' @ service_query s) []], None) \<and> addr_ok w' \<and>
    get_params w' ''serviceNameParam'' = Inr (Some (sl_serviceName s)) \<and>
    get_params w' ''groupNameParam'' = Inr (Some (sl_groupName s))"
proof -
  let ?kvs = "[(''serviceNameParam'', Str (sl_serviceName s)), (''groupNameParam'', Str (sl_groupName s))]"
  have "fst ` set ?kvs \<subseteq> set console_keys" using service_keys by simp
  from set_params_console [OF assms this] service_keys obtain w' where
    w': "set_params (sl_win s) ?kvs = Inr w'" "addr_ok w'"
      "addr_get w' ''serviceNameParam'' = Some (sl_serviceName s)"
      "addr_get w' ''groupNameParam'' = Some (sl_groupName s)"
    by (fastforce simp: val_str_Str_or)
  have "queryServiceList s = (s\<lparr>sl_win := w', sl_loading := True\<rparr>,
      [Ajax ''GET'' (''v1/ns/catalog/services?'' @ service_query s) []], None)"
    using w'(1) by (simp add: queryServiceList_def list_write_params_def sl_open_def stmt_defs service_query_def)
  with w' get_params_addr [OF w'(2)] service_keys show ?thesis by auto
qed

text \<open>A search leaves its terms in the address, so that opening the page again at that address starts
  with the same terms, the first page, and the switch for empty services as it was last set.\<close>

theorem search_survives_reload:
  assumes "addr_ok (sl_win s)"
  shows "let (s1, e, x) = toggle_hasIpCount b s in
    x = None \<and> e = [Ajax ''GET'' (''v1/ns/catalog/services?'' @ service_query s1) []] \<and> sl_loading s1 \<and>
    (\<exists>s2. service_list_init (sl_win s1) (sl_storage s1) = Inr s2 \<and>
      sl_serviceName s2 = sl_serviceName s \<and> sl_groupName s2 = sl_groupName s \<and>
      sl_hasIpCount s2 = b \<and> sl_currentPage s2 = sl_currentPage s1)"
proof -
  let ?t = "s\<lparr>sl_hasIpCount := b, sl_currentPage := 1,
      sl_storage := AList.update ''hasIpCount'' (to_str (Bool b)) (sl_storage s)\<rparr>"
  have ok: "addr_ok (sl_win ?t)" using assms by simp
  obtain w' where q: "queryServiceList ?t = (?t\<lparr>sl_win := w', sl_loading := True\<rparr>,
      [Ajax ''GET'' (''v1/ns/catalog/services?'' @ service_query ?t) []], None)"
    "get_params w' ''serviceNameParam'' = Inr (Some (sl_serviceName s))"
    "get_params w' ''groupNameParam'' = Inr (Some (sl_groupName s))"
    using queryServiceList_run [OF ok] by auto
  have "map_of (AList.update ''hasIpCount'' (to_str (Bool b)) (sl_storage s)) ''hasIpCount'' = Some (to_str (Bool b))"
    by (simp add: AList.update_conv')
  with q show ?thesis
    by (simp add: toggle_hasIpCount_def modify_def service_list_init_def service_query_def)
qed

definition sample_list :: service_list where
  "sample_list = \<lparr>sl_win = sample_win, sl_storage = [], sl_loading = False, sl_total = Num 0, sl_pageSize = 10,
     sl_currentPage = 3, sl_dataSource = Arr [], sl_serviceName = ''svc'', sl_groupName = [],
     sl_hasIpCount = True, sl_namespace = (Undef, Undef, Undef)\<rparr>"

theorem search_survives_reload_witness:
  "\<exists>s2. service_list_init (sl_win (state_of (toggle_hasIpCount False sample_list)))
      (sl_storage (state_of (toggle_hasIpCount False sample_list))) = Inr s2 \<and>
    sl_serviceName s2 = ''svc'' \<and> \<not> sl_hasIpCount s2"
proof -
  have "addr_ok (sl_win sample_list)" by (simp add: sample_list_def sample_win_ok)
  from search_survives_reload [OF this, of False] show ?thesis
    by (cases "toggle_hasIpCount False sample_list") (auto simp: sample_list_def)
qed

text \<open>Deleting a service covers the page until the answer has been handled, but after a deletion that
  succeeds the overlay is gone before the list that was asked for again has arrived: the request for the
  list raises it and the end of the deletion lowers it.\<close>

theorem delete_uncovers_early:
  assumes "addr_ok (sl_win s)"
  shows "let (s1, e, x) = settle delete_success delete_error sl_close (Success (Str ''ok'')) s in
    x = None \<and> \<not> sl_loading s1 \<and> e = [Ajax ''GET'' (''v1/ns/catalog/services?'' @ service_query s) []]"
proof -
  obtain w' where "queryServiceList s = (s\<lparr>sl_win := w', sl_loading := True\<rparr>,
      [Ajax ''GET'' (''v1/ns/catalog/services?'' @ service_query s) []], None)"
    using queryServiceList_run [OF assms] by blast
  then show ?thesis by (simp add: settle_def delete_success_def unless_ok_def sl_close_def modify_def)
qed

theorem delete_uncovers_early_witness:
  "\<not> sl_loading (state_of (settle delete_success delete_error sl_close (Success (Str ''ok'')) sample_list))"
proof -
  have "addr_ok (sl_win sample_list)" by (simp add: sample_list_def sample_win_ok)
  from delete_uncovers_early [OF this] show ?thesis
    by (cases "settle delete_success delete_error sl_close (Success (Str ''ok'')) sample_list") auto
qed

text \<open>The page of a service opened from the list asks for the service of that row: what the list puts
  into the address the page reads back, as long as the name and the group contain no separator.\<close>

theorem detail_of_row:
  assumes "field rec ''name'' = Str n" and "field rec ''groupName'' = Str g" and "n \<noteq> []"
    and "set n \<inter> set query_seps = {}" and "set g \<inter> set query_seps = {}" and "rec \<notin> {Undef, Null}"
  shows "\<exists>url. effects_of (openServiceDetail rec s) = [Push url] \<and>
    effects_of (service_componentDidMount (service_page_init url)) =
      [Ajax ''GET'' (''v1/ns/catalog/service?serviceName='' @ n @ ''&groupName='' @ g) []]"
proof -
  let ?ps = "[(''name'', Str n), (''groupName'', Str g)]"
  let ?url = "generateUrl ''/serviceDetail'' ?ps"
  have plain: "\<forall>kv \<in> set ?ps. plain_param kv"
    using assms(4,5) by (auto simp: plain_param_def query_seps_def)
  have "CHR ''?'' \<notin> set ''/serviceDetail''" by simp
  from getParameter_generateUrl [OF this plain]
  have "getParameter ?url ''name'' = n" "getParameter ?url ''groupName'' = g" by simp_all
  then have "effects_of (service_componentDidMount (service_page_init ?url)) =
      [Ajax ''GET'' (''v1/ns/catalog/service?serviceName='' @ n @ ''&groupName='' @ g) []]"
    using assms(3) by (simp add: service_componentDidMount_def service_page_init_def getServiceDetail_def
        sp_open_def stmt_defs)
  moreover have "effects_of (openServiceDetail rec s) = [Push ?url]"
    using assms(1,2,6) by (simp add: openServiceDetail_def need_object_def emit_def)
  ultimately show ?thesis by blast
qed

theorem detail_of_row_witness:
  "\<exists>url. effects_of (openServiceDetail (Obj [(''name'', Str ''svc''), (''groupName'', Str ''G'')]) sample_list) = [Push url] \<and>
    effects_of (service_componentDidMount (service_page_init url)) =
      [Ajax ''GET'' ''v1/ns/catalog/service?serviceName=svc&groupName=G'' []]"
  using detail_of_row [of "Obj [(''name'', Str ''svc''), (''groupName'', Str ''G'')]" "''svc''" "''G''" sample_list]
  by (simp add: query_seps_def)

end
