(* ===== verification/Start_Up.thy ===== *)
theory Start_Up
  imports Js_Effects
begin

text \<open>
  The start of the console, \<open>src/console-ui/src/lib.js\<close>, but for its middleware (\<open>Request_Pipeline\<close>) and the
  set-up of the monaco editor: the console it is embedded in, the table of links and the handler of a
  change of size.
\<close>

text \<open>\<open>parent\<close> is the host of the surrounding window, when there is one.\<close>

definition edasprefix :: string where
  "edasprefix = ''acm''"

definition isParentEdas :: "string option \<Rightarrow> bool" where
  "isParentEdas parent = (case parent of None \<Rightarrow> False | Some host \<Rightarrow> str_includes ''edas'' host)"

definition gateway :: "string option \<Rightarrow> string option" where
  "gateway parent = (if isParentEdas parent then Some edasprefix else None)"

definition links :: "(string \<times> string) list" where
  "links = []"

definition window_getLink :: "string \<Rightarrow> string" where
  "window_getLink name = or_empty (map_of links name)"

definition isIntel :: "string \<Rightarrow> bool" where
  "isIntel host = str_includes ''alibabacloud.com'' host"

text \<open>An empty handler of exceptions.\<close>

definition quietly :: "'s stmt \<Rightarrow> 's stmt" where
  "quietly a s = (case a s of (t, e, x) \<Rightarrow> (t, e, None))"

text \<open>The handler keeps its timer in a field of \<open>this\<close>; half a second later the timer tells the surrounding
  window the height.\<close>

definition on_resize :: "jsval \<Rightarrow> bool stmt" where
  "on_resize this = quietly (if this \<in> {Undef, Null} then throw TypeError else modify (\<lambda>_. True))"

definition resized :: "nat \<Rightarrow> bool stmt" where
  "resized height = emit (\<lambda>_. Call ''parent.adjustHeight'' [Num (int (if height > 800 then height else 800))])"

text \<open>In a module \<open>this\<close> is undefined: no change of the size ever sets the timer.\<close>

lemma resize_does_nothing: "on_resize Undef s = (s, [], None)"
  by (simp add: on_resize_def quietly_def stmt_defs)

lemma no_links: "window_getLink name = []"
  by (simp add: window_getLink_def links_def)

end
