(* ===== verification/Config_List.thy ===== *)
theory Config_List
  imports Service_List Start_Up
begin

text \<open>
  The list of configurations,
  \<open>src/console-ui/src/pages/ConfigurationManagement/ConfigurationManagement/ConfigurationManagement.js\<close>.

  The record holds the properties of the instance (\<open>this.dataId\<close>, ..), its state, the form field's two
  values, and the module's map of selected rows.  A field of the instance and its copy in the state are
  two fields here as they are there.  \<open>tx\<close> is the dictionary of the current language.  A dialog with a
  table is the effect \<open>Call\<close> with what it shows.
\<close>

record config_list =
  cl_browser :: browser
  cl_appName :: string
  cl_group :: string
  cl_dataId :: string
  cl_serverId :: string
  cl_tenant :: string
  cl_edasAppId :: string
  cl_edasAppName :: string
  cl_pageNo :: jsval
  cl_pageSizeSent :: jsval
  st_pageSize :: jsval
  st_currentPage :: jsval
  st_pageEnter :: bool
  st_dataId :: string
  st_group :: string
  st_appName :: string
  st_config_detail :: string
  st_config_tags :: "string list"
  st_tagLst :: "string list option"
  st_loading :: bool
  st_isCn :: bool
  st_namespace :: "jsval \<times> jsval \<times> jsval"
  st_isAdvancedQuery :: jsval
  st_fuzzy :: bool
  st_selectedRowKeys :: "jsval list"
  configsTableSelected :: "(jsval \<times> jsval) list"
  sameConfigPolicy :: jsval
  cloneTargetSpace :: jsval
  clone_rows :: "(jsval \<times> jsval) list"

abbreviation cl_win :: "config_list \<Rightarrow> win" where
  "cl_win s \<equiv> b_win (cl_browser s)"

section \<open>The address\<close>

definition read_param :: "string \<Rightarrow> (string option \<Rightarrow> config_list stmt) \<Rightarrow> config_list stmt" where
  "read_param k f = with_state (\<lambda>s.
     case get_params (cl_win s) k of Inl e \<Rightarrow> throw e | Inr v \<Rightarrow> f v)"

definition put_params :: "(config_list \<Rightarrow> (string \<times> jsval) list) \<Rightarrow> config_list stmt" where
  "put_params f s =
     (case set_params (cl_win s) (f s) of
        Inl e \<Rightarrow> (s, [], Some e)
      | Inr w \<Rightarrow> (s\<lparr>cl_browser := (cl_browser s)\<lparr>b_win := w\<rparr>\<rparr>, [], None))"

definition put_param :: "string \<Rightarrow> jsval \<Rightarrow> config_list stmt" where
  "put_param k v = put_params (\<lambda>_. [(k, v)])"

definition comma_list :: "string option \<Rightarrow> string list" where
  "comma_list p = (if or_empty p = [] then [] else split_on (CHR '','') (or_empty p))"

definition str_or :: "string option \<Rightarrow> string \<Rightarrow> string" where
  "str_or p d = (if or_empty p = [] then d else or_empty p)"

text \<open>The constructor; a parameter that cannot be decoded ends it, here where the address is written
  again, since that decodes all of them.  \<open>show\<close> and \<open>desc\<close> are the globals
  the namespace bar writes.  The module's selection outlives the page.\<close>

definition config_list_init ::
  "browser \<Rightarrow> jsval \<Rightarrow> jsval \<Rightarrow> (jsval \<times> jsval) list \<Rightarrow> js_error + config_list" where
  "config_list_init b show desc selected =
     (let g = (\<lambda>k. case get_params (b_win b) k of Inl e \<Rightarrow> None | Inr v \<Rightarrow> v);
          s = \<lparr>cl_browser = b, cl_appName = or_empty (g ''appName''), cl_group = or_empty (g ''group''),
            cl_dataId = or_empty (g ''dataId''), cl_serverId = str_or (g ''serverId'') ''center'', cl_tenant = [],
            cl_edasAppId = or_empty (g ''edasAppId''), cl_edasAppName = or_empty (g ''edasAppName''),
            cl_pageNo = Undef, cl_pageSizeSent = Undef,
            st_pageSize = (if or_empty (g ''pageSize'') = [] then Num 10 else Str (or_empty (g ''pageSize''))),
            st_currentPage = Num 1, st_pageEnter = False, st_dataId = or_empty (g ''dataId''),
            st_group = or_empty (g ''group''), st_appName = or_empty (g ''appName''),
            st_config_detail = or_empty (g ''configDetail''), st_config_tags = comma_list (g ''configTags''),
            st_tagLst = Some (comma_list (g ''tagList'')), st_loading = False, st_isCn = True,
            st_namespace = (js_or show (Str []), js_or (nownamespace b) (Str []), js_or desc (Str [])),
            st_isAdvancedQuery = (if or_empty (g ''isAdvanceQuery'') = [] then Bool False
              else Str (or_empty (g ''isAdvanceQuery''))),
            st_fuzzy = True, st_selectedRowKeys = [], configsTableSelected = selected,
            sameConfigPolicy = Undef, cloneTargetSpace = Undef, clone_rows = []\<rparr>
      in case put_params (\<lambda>s. [(''dataId'', Str (cl_dataId s)), (''group'', Str (cl_group s)),
              (''appName'', Str (cl_appName s))]) s of
           (s1, _, None) \<Rightarrow> Inr s1
         | (_, _, Some e) \<Rightarrow> Inl e)"

section \<open>Loading\<close>

definition cl_open :: "config_list stmt" where
  "cl_open = modify (\<lambda>s. s\<lparr>st_loading := True\<rparr>)"

definition cl_close :: "config_list stmt" where
  "cl_close = modify (\<lambda>s. s\<lparr>st_loading := False\<rparr>)"

definition setIsCn :: "config_list stmt" where
  "setIsCn = modify (\<lambda>s. s\<lparr>st_isCn := (get_item (cl_browser s) LANGUAGE_KEY = Some ''zh-CN'')\<rparr>)"

definition toggleShowQuestionnaire :: "bool \<Rightarrow> config_list stmt" where
  "toggleShowQuestionnaire v = modify (\<lambda>s. s\<lparr>cl_browser :=
     (if v then set_item ''acm_questionnaire'' ''1'' (cl_browser s)
      else remove_item ''acm_questionnaire'' (cl_browser s))\<rparr>)"

definition checkQuestionnaire :: "config_list \<Rightarrow> bool" where
  "checkQuestionnaire s = (or_empty (get_item (cl_browser s) ''acm_questionnaire'') \<noteq> [])"

text \<open>What the page does when it has been drawn; \<open>host\<close> is the host of the address.  The link \<open>isCn\<close> is not in
  the table of links, so that nobody is asked.\<close>

definition cl_componentDidMount :: "(string \<Rightarrow> string) \<Rightarrow> string \<Rightarrow> config_list stmt" where
  "cl_componentDidMount tx host = block
     [setIsCn,
      with_state (\<lambda>s. if window_getLink ''isCn'' = ''true'' \<and> \<not> checkQuestionnaire s \<and> host = ''acm.console.aliyun.com''
        then emit (\<lambda>_. Call ''Dialog.alert'' (map (Str \<circ> tx) [''questionnaire2'', ''ad'', ''questionnaire2'', ''noLongerDisplay4'']))
        else skip)]"

lemma no_questionnaire: "effects_of (cl_componentDidMount tx host s) = []"
  by (simp add: cl_componentDidMount_def setIsCn_def no_links stmt_defs)

text \<open>A search term between asterisks, in the fuzzy mode.\<close>

definition star :: "bool \<Rightarrow> string \<Rightarrow> string" where
  "star fuzzy v = (if fuzzy \<and> v \<noteq> [] then ''*'' @ v @ ''*'' else v)"

definition changeParamsBySearchType :: "bool \<Rightarrow> (string \<times> jsval) list \<Rightarrow> (string \<times> jsval) list" where
  "changeParamsBySearchType fuzzy ps =
     map (\<lambda>(k, v). if fuzzy \<and> k \<in> {''dataId'', ''group''} \<and> truthy v then (k, Str (''*'' @ to_str v @ ''*'')) else (k, v)) ps
     @ [(''search'', Str (if fuzzy then ''blur'' else ''accurate''))]"

definition query_params :: "jsval \<Rightarrow> jsval \<Rightarrow> config_list \<Rightarrow> (string \<times> jsval) list" where
  "query_params pageNo pageSize s = changeParamsBySearchType (st_fuzzy s)
     [(''dataId'', Str (cl_dataId s)), (''group'', Str (cl_group s)), (''appName'', Str (cl_appName s)),
      (''config_tags'', Str (js_join '','' (st_config_tags s))), (''pageNo'', pageNo),
      (''pageSize'', pageSize), (''tenant'', Str (cl_tenant s))]"

definition list_request :: "jsval \<Rightarrow> jsval \<Rightarrow> config_list \<Rightarrow> effect" where
  "list_request pageNo pageSize s =
     (let ps = query_params pageNo pageSize s in
      if st_config_detail s \<noteq> [] then Ajax ''get'' ''v2/cs/config/searchDetail''
        (ps @ [(''config_detail'', Str (star (st_fuzzy s) (st_config_detail s)))])
      else Ajax ''get'' ''v1/cs/configs'' ps)"

text \<open>A parameter of the address, or the value given when it is absent or empty.\<close>

definition param_or :: "string option \<Rightarrow> jsval \<Rightarrow> jsval" where
  "param_or p d = (if or_empty p = [] then d else Str (or_empty p))"

definition getData :: "jsval \<Rightarrow> config_list stmt" where
  "getData pageNo = cond st_loading skip
     (read_param ''namespace'' (\<lambda>ns. block
       [modify (\<lambda>s. s\<lparr>cl_tenant := or_empty ns\<rparr>),
        read_param ''serverId'' (\<lambda>sv. block
          [modify (\<lambda>s. s\<lparr>cl_serverId := or_empty sv\<rparr>),
           read_param ''pageNo'' (\<lambda>pn. read_param ''pageSize'' (\<lambda>pz. with_state (\<lambda>s.
             block
               [modify (\<lambda>t. t\<lparr>cl_pageNo := param_or pn pageNo, cl_pageSizeSent := param_or pz (st_pageSize s)\<rparr>),
                put_param ''pageSize'' Null,
                put_param ''pageNo'' Null,
                cl_open,
                emit (\<lambda>_. list_request (param_or pn pageNo) (param_or pz (st_pageSize s)) s)])))])]))"

definition data_arrived :: "config_list stmt" where
  "data_arrived = cl_close"

definition data_failed :: "(string \<Rightarrow> string) \<Rightarrow> jsval \<Rightarrow> config_list stmt" where
  "data_failed tx res = block
     [call ''configurations.clear'',
      cl_close,
      cond (\<lambda>_. truthy res \<and> field res ''status'' \<in> {Num 401, Num 403})
        (emit (\<lambda>s. Alert (tx ''authFail'')
          (replace_first ''${namespaceName}'' (to_str (fst (st_namespace s))) (tx ''getNamespace403''))))
        skip]"

definition cleanAndGetData :: "bool \<Rightarrow> config_list stmt" where
  "cleanAndGetData needclean = block
     [(if needclean then block
         [modify (\<lambda>s. s\<lparr>cl_dataId := [], cl_group := [], st_group := [], st_dataId := []\<rparr>),
          put_params (\<lambda>_. [(''group'', Str []), (''dataId'', Str [])])]
       else skip),
      getData (Num 1),
      modify (\<lambda>s. s\<lparr>configsTableSelected := [], st_selectedRowKeys := []\<rparr>)]"

definition selectAll :: "config_list stmt" where
  "selectAll = getData (Num 1)"

definition changePage :: "jsval \<Rightarrow> bool \<Rightarrow> config_list stmt" where
  "changePage value enter = block
     [modify (\<lambda>s. s\<lparr>st_pageEnter := enter, st_currentPage := value\<rparr>), getData value]"

definition handlePageSizeChange :: "jsval \<Rightarrow> config_list stmt" where
  "handlePageSizeChange n = block [modify (\<lambda>s. s\<lparr>st_pageSize := n\<rparr>), changePage (Num 1) False]"

text \<open>\<open>le\<close> is the order of \<open>localeCompare\<close>; \<open>sort\<close> is stable.\<close>

fun insert_by :: "('a \<Rightarrow> 'a \<Rightarrow> bool) \<Rightarrow> 'a \<Rightarrow> 'a list \<Rightarrow> 'a list" where
  "insert_by le x [] = [x]"
| "insert_by le x (y # ys) = (if le x y then x # y # ys else y # insert_by le x ys)"

definition sort_by :: "('a \<Rightarrow> 'a \<Rightarrow> bool) \<Rightarrow> 'a list \<Rightarrow> 'a list" where
  "sort_by le xs = foldr (insert_by le) xs []"

definition onChangeSort :: "(string \<Rightarrow> string \<Rightarrow> bool) \<Rightarrow> string \<Rightarrow> string \<Rightarrow> jsval list \<Rightarrow> jsval list" where
  "onChangeSort le dataIndex order items =
     sort_by (\<lambda>a b. if order = ''asc'' then le (to_str (field a dataIndex)) (to_str (field b dataIndex))
              else le (to_str (field b dataIndex)) (to_str (field a dataIndex))) items"

section \<open>Navigation\<close>

definition rec_str :: "jsval \<Rightarrow> string \<Rightarrow> string" where
  "rec_str rec k = to_str (field rec k)"

definition with_place :: "string \<Rightarrow> config_list stmt \<Rightarrow> config_list stmt" where
  "with_place dflt a = read_param ''serverId'' (\<lambda>sv. block
     [modify (\<lambda>s. s\<lparr>cl_serverId := str_or sv dflt\<rparr>),
      read_param ''namespace'' (\<lambda>ns. block [modify (\<lambda>s. s\<lparr>cl_tenant := or_empty ns\<rparr>), a])])"

definition navTo_url :: "string \<Rightarrow> jsval \<Rightarrow> config_list \<Rightarrow> string" where
  "navTo_url url rec s =
     (if url = ''/historyRollback'' then url @ ''?historyServerId='' @ cl_serverId s @ ''&historyDataId='' @
        rec_str rec ''dataId'' @ ''&historyGroup='' @ rec_str rec ''group'' @ ''&namespace='' @ cl_tenant s
      else if url = ''/listeningToQuery'' then url @ ''?listeningServerId='' @ cl_serverId s @
        ''&listeningDataId='' @ rec_str rec ''dataId'' @ ''&listeningGroup='' @ rec_str rec ''group'' @
        ''&namespace='' @ cl_tenant s
      else if url = ''/pushTrajectory'' then url @ ''?serverId='' @ cl_serverId s @ ''&dataId='' @
        rec_str rec ''dataId'' @ ''&group='' @ rec_str rec ''group'' @ ''&namespace='' @ cl_tenant s
      else url)"

definition navTo :: "string \<Rightarrow> jsval \<Rightarrow> config_list stmt" where
  "navTo url rec = with_place [] (need_object rec (emit (\<lambda>s. Push (navTo_url url rec s))))"

definition chooseNav :: "jsval \<Rightarrow> string \<Rightarrow> config_list stmt" where
  "chooseNav rec key =
     (if key = ''nav1'' then navTo ''/historyRollback'' rec
      else if key = ''nav2'' then navTo ''/pushTrajectory'' rec
      else navTo ''/listeningToQuery'' rec)"

definition showCode :: "jsval \<Rightarrow> config_list stmt" where
  "showCode rec = emit (\<lambda>_. Call ''showcode.openDialog'' [rec])"

definition chooseEnv :: "config_list stmt" where
  "chooseEnv = with_place ''center'' (emit (\<lambda>s. Push (''/newconfig?serverId='' @ cl_serverId s @
     ''&namespace='' @ cl_tenant s @ ''&edasAppName='' @ cl_edasAppName s @ ''&edasAppId='' @ cl_edasAppId s @
     ''&searchDataId='' @ cl_dataId s @ ''&searchGroup='' @ cl_group s)))"

definition detail_url :: "jsval \<Rightarrow> config_list \<Rightarrow> string" where
  "detail_url rec s = ''/configdetail?serverId='' @ cl_serverId s @ ''&dataId='' @ rec_str rec ''dataId'' @
     ''&group='' @ rec_str rec ''group'' @ ''&namespace='' @ cl_tenant s @ ''&edasAppName='' @ cl_edasAppName s @
     ''&searchDataId='' @ cl_dataId s @ ''&searchGroup='' @ cl_group s @ ''&pageSize='' @
     to_str (cl_pageSizeSent s) @ ''&pageNo='' @ to_str (cl_pageNo s)"

definition goDetail :: "jsval \<Rightarrow> config_list stmt" where
  "goDetail rec = with_place ''center'' (need_object rec (emit (\<lambda>s. Push (detail_url rec s))))"

definition editor_url :: "jsval \<Rightarrow> config_list \<Rightarrow> string" where
  "editor_url rec s = ''/configeditor?serverId='' @ cl_serverId s @ ''&dataId='' @ rec_str rec ''dataId'' @
     ''&group='' @ rec_str rec ''group'' @ ''&namespace='' @ cl_tenant s @ ''&edasAppName='' @ cl_edasAppName s @
     ''&edasAppId='' @ cl_edasAppId s @ ''&searchDataId='' @ cl_dataId s @ ''&searchGroup='' @ cl_group s @
     ''&pageSize='' @ to_str (cl_pageSizeSent s) @ ''&pageNo='' @ to_str (cl_pageNo s)"

definition goEditor :: "jsval \<Rightarrow> config_list stmt" where
  "goEditor rec = with_place ''center'' (need_object rec (emit (\<lambda>s. Push (editor_url rec s))))"

section \<open>Search terms\<close>

definition cl_setDataId :: "string \<Rightarrow> config_list stmt" where
  "cl_setDataId v = block [modify (\<lambda>s. s\<lparr>cl_dataId := v, st_dataId := v\<rparr>), put_param ''dataId'' (Str v)]"

definition setConfigDetail :: "string \<Rightarrow> config_list stmt" where
  "setConfigDetail v = block [modify (\<lambda>s. s\<lparr>st_config_detail := v\<rparr>), put_param ''configDetail'' (Str v)]"

definition setAppName :: "string \<Rightarrow> config_list stmt" where
  "setAppName v = block [modify (\<lambda>s. s\<lparr>cl_appName := v, st_appName := v\<rparr>), put_param ''appName'' (Str v)]"

definition setConfigTags :: "string list option \<Rightarrow> config_list stmt" where
  "setConfigTags v = block
     [modify (\<lambda>s. s\<lparr>st_config_tags := (case v of None \<Rightarrow> [] | Some ts \<Rightarrow> ts), st_tagLst := v\<rparr>),
      put_param ''tagList'' (Str (case v of None \<Rightarrow> [] | Some ts \<Rightarrow> js_join '','' ts)),
      put_param ''configTags'' (Str (case v of None \<Rightarrow> [] | Some ts \<Rightarrow> js_join '','' ts))]"

definition setGroup :: "string option \<Rightarrow> config_list stmt" where
  "setGroup v = block
     [modify (\<lambda>s. s\<lparr>cl_group := or_empty v, st_group := or_empty v\<rparr>),
      put_param ''group'' (case v of None \<Rightarrow> Undef | Some g \<Rightarrow> Str g)]"

definition handleDefaultFuzzySwitchChange :: "config_list stmt" where
  "handleDefaultFuzzySwitchChange = modify (\<lambda>s. s\<lparr>st_fuzzy := \<not> st_fuzzy s\<rparr>)"

definition cl_setNowNameSpace :: "jsval \<Rightarrow> jsval \<Rightarrow> jsval \<Rightarrow> config_list stmt" where
  "cl_setNowNameSpace n i d = modify (\<lambda>s. s\<lparr>st_namespace := (n, i, d)\<rparr>)"

definition clear :: "config_list stmt" where
  "clear = block [setAppName [], setConfigTags (Some []), setConfigDetail []]"

definition changeAdvancedQuery :: "config_list stmt" where
  "changeAdvancedQuery = with_state (\<lambda>s.
     let adv = truthy (st_isAdvancedQuery s) in block
       [put_param ''isAdvanceQuery'' (Bool (\<not> adv)),
        (if adv then clear else skip),
        modify (\<lambda>t. t\<lparr>st_isAdvancedQuery := Bool (\<not> adv)\<rparr>)])"

section \<open>Removal, export, selection\<close>

definition removeConfig :: "(string \<Rightarrow> string) \<Rightarrow> jsval \<Rightarrow> config_list stmt" where
  "removeConfig tx rec = need_object rec (emit (\<lambda>s. Call ''Dialog.confirm''
     [Str (tx ''removeConfiguration''), field rec ''dataId'', field rec ''group'', Str (cl_serverId s)]))"

definition remove_confirmed :: "jsval \<Rightarrow> config_list stmt" where
  "remove_confirmed rec = emit (\<lambda>_. Ajax ''delete''
     (''v1/cs/configs?dataId='' @ rec_str rec ''dataId'' @ ''&group='' @ rec_str rec ''group'') [])"

definition remove_success :: "(string \<Rightarrow> string) \<Rightarrow> jsval \<Rightarrow> jsval \<Rightarrow> config_list stmt" where
  "remove_success tx rec res =
     (if res \<in> {Undef, Null} then throw TypeError
      else block
        [emit (\<lambda>_. Call ''deleteDialog.openDialog''
           [Obj ([(''title'', Str (tx ''configurationManagement'')), (''content'', Str []),
                  (''dataId'', field rec ''dataId''), (''group'', field rec ''group''),
                  (''isok'', Bool (res = Bool True))]
                 @ (if res = Bool True then [] else [(''message'', field res ''message'')]))]),
         getData (Num 1)])"

definition configDataTableOnChange :: "jsval list \<Rightarrow> jsval list \<Rightarrow> config_list stmt" where
  "configDataTableOnChange ids records = modify (\<lambda>s. s\<lparr>st_selectedRowKeys := ids,
     configsTableSelected := fold (\<lambda>r m. AList.update (field r ''id'') r m) records []\<rparr>)"

definition openUri :: "string \<Rightarrow> (string \<times> jsval) list \<Rightarrow> config_list stmt" where
  "openUri url params =
     emit (\<lambda>_. OpenWindow (url @ ''?'' @ js_join ''&'' (map (\<lambda>(k, v). k @ ''='' @ to_str v) params)))"

text \<open>\<open>JSON.parse(localStorage.token || '\{\}')\<close> and the two fields of it.\<close>

definition with_identity :: "(jsval \<Rightarrow> jsval \<Rightarrow> config_list stmt) \<Rightarrow> config_list stmt" where
  "with_identity f = with_state (\<lambda>s.
     let t = or_empty (get_item (cl_browser s) ''token'') in
     case json_parse (if t = [] then ''{}'' else t) of
       None \<Rightarrow> throw SyntaxError
     | Some token \<Rightarrow>
         (case (token_field token ''accessToken'', token_field token ''username'') of
            (Inr a, Inr u) \<Rightarrow> f a u
          | _ \<Rightarrow> throw TypeError))"

definition nullable :: "string option \<Rightarrow> jsval" where
  "nullable m = (case m of None \<Rightarrow> Null | Some v \<Rightarrow> Str v)"

definition export_all :: "string \<Rightarrow> config_list stmt" where
  "export_all version = with_identity (\<lambda>a u. read_param ''namespace'' (\<lambda>ns. with_state (\<lambda>s.
     openUri ''v1/cs/configs''
       [(version, Str ''true''), (''tenant'', nullable ns), (''group'', Str (cl_group s)),
        (''appName'', Str (cl_appName s)), (''dataId'', Str (cl_dataId s)), (''ids'', Str []),
        (''accessToken'', a), (''username'', u)])))"

definition exportData :: "config_list stmt" where "exportData = export_all ''export''"
definition exportDataNew :: "config_list stmt" where "exportDataNew = export_all ''exportV2''"

definition selected_ids :: "config_list \<Rightarrow> string" where
  "selected_ids s = to_str (Arr (map fst (configsTableSelected s)))"

definition exportSelectedData :: "(string \<Rightarrow> string) \<Rightarrow> bool \<Rightarrow> config_list stmt" where
  "exportSelectedData tx newVersion = with_identity (\<lambda>a u.
     cond (\<lambda>s. configsTableSelected s = [])
       (emit (\<lambda>_. Alert (tx ''exportSelectedAlertTitle'') (tx ''exportSelectedAlertContent'')))
       (read_param ''namespace'' (\<lambda>ns. with_state (\<lambda>s. openUri ''v1/cs/configs''
          [(if newVersion then ''exportV2'' else ''export'', Str ''true''), (''tenant'', nullable ns),
           (''group'', Str []), (''appName'', Str []), (''ids'', Str (selected_ids s)),
           (''accessToken'', a), (''username'', u)]))))"

definition multipleSelectionDeletion :: "(string \<Rightarrow> string) \<Rightarrow> config_list stmt" where
  "multipleSelectionDeletion tx =
     cond (\<lambda>s. configsTableSelected s = [])
       (emit (\<lambda>_. Alert (tx ''delSelectedAlertTitle'') (tx ''delSelectedAlertContent'')))
       (emit (\<lambda>s. Call ''Dialog.confirm'' [Str (tx ''removeConfiguration''),
          Arr (map (\<lambda>(i, r). Obj [(''dataId'', field r ''dataId''), (''group'', field r ''group'')])
            (configsTableSelected s))]))"

definition deletion_confirmed :: "config_list stmt" where
  "deletion_confirmed = emit (\<lambda>s. Ajax ''delete'' (''v1/cs/configs?delType=ids&ids='' @ selected_ids s @
     ''&tenant='' @ to_str (fst (snd (st_namespace s)))) [])"

definition deletion_success :: "(string \<Rightarrow> string) \<Rightarrow> config_list stmt" where
  "deletion_success tx = block [emit (\<lambda>_. MsgSuccess (tx ''delSuccessMsg'')), getData (Num 1)]"

section \<open>Cloning and importing\<close>

definition cloneSelectedDataConfirm :: "(string \<Rightarrow> string) \<Rightarrow> config_list stmt" where
  "cloneSelectedDataConfirm tx = block
     [modify (\<lambda>s. s\<lparr>sameConfigPolicy := Str ''ABORT'', cloneTargetSpace := Undef\<rparr>),
      cond (\<lambda>s. configsTableSelected s = [])
        (emit (\<lambda>_. Alert (tx ''cloneSelectedAlertTitle'') (tx ''cloneSelectedAlertContent'')))
        (block [cl_open, emit (\<lambda>_. Ajax ''GET'' ''v1/console/namespaces?namespaceId='' [])])]"

text \<open>An entry of the list of target namespaces.\<close>

definition target_item :: "jsval \<Rightarrow> jsval \<Rightarrow> jsval" where
  "target_item now item =
     (if field item ''namespaceShowName'' = Str ''public''
      then Obj [(''isCurrent'', Bool (now = field item ''namespace'')), (''label'', Str ''public | public''),
                (''value'', Str ''public'')]
      else Obj [(''isCurrent'', Bool (now = field item ''namespace'')),
                (''label'', Str (to_str (field item ''namespaceShowName'') @ '' | '' @ to_str (field item ''namespace''))),
                (''value'', field item ''namespace'')])"

definition json_copy :: "jsval \<Rightarrow> jsval" where
  "json_copy v = (case json_parse (to_str (json_stringify [] v)) of None \<Rightarrow> Undef | Some w \<Rightarrow> w)"

definition clone_success :: "(string \<Rightarrow> string) \<Rightarrow> jsval \<Rightarrow> config_list stmt" where
  "clone_success tx data = block
     [cl_close,
      cond (\<lambda>_. \<not> truthy data \<or> field data ''code'' \<noteq> Num 200 \<or> \<not> truthy (field data ''data''))
        (emit (\<lambda>_. Alert (tx ''getNamespaceFailed'') (tx ''getNamespaceFailed''))) skip,
      need_object data
        (case field data ''data'' of
           Arr namespaces \<Rightarrow>
             if set namespaces \<inter> {Undef, Null} \<noteq> {} then throw TypeError
             else block
               [modify (\<lambda>s. s\<lparr>clone_rows := map (apsnd json_copy) (configsTableSelected s)\<rparr>),
                emit (\<lambda>s. Call ''Dialog.confirm'' [Str (tx ''cloningConfiguration''),
                  Arr (map (target_item (fst (snd (st_namespace s)))) namespaces)])]
         | _ \<Rightarrow> throw TypeError)]"

definition reset_table :: "config_list stmt" where
  "reset_table = modify (\<lambda>s. s\<lparr>st_currentPage := Num 0\<rparr>)"

definition clone_error :: "jsval \<Rightarrow> config_list stmt" where
  "clone_error e = block [cl_close, reset_table]"

definition pick_target :: "jsval \<Rightarrow> config_list stmt" where
  "pick_target v = modify (\<lambda>s. if truthy v then s\<lparr>cloneTargetSpace := v\<rparr> else s)"

definition pick_policy :: "jsval \<Rightarrow> config_list stmt" where
  "pick_policy v = modify (\<lambda>s. if truthy v then s\<lparr>sameConfigPolicy := v\<rparr> else s)"

text \<open>Leaving a cell of the table of copies; \<open>k\<close> is \<open>dataId\<close> or \<open>group\<close>.\<close>

definition editableTableOnBlur :: "jsval \<Rightarrow> string \<Rightarrow> string \<Rightarrow> config_list stmt" where
  "editableTableOnBlur i k v = modify (\<lambda>s. s\<lparr>clone_rows :=
     map (\<lambda>(j, r). if j = i then (j, assign_val r [(k, Str v)]) else (j, r)) (clone_rows s)\<rparr>)"

definition clone_body :: "(jsval \<times> jsval) list \<Rightarrow> jsval" where
  "clone_body rows = Arr (map (\<lambda>(i, r).
     Obj [(''cfgId'', i), (''dataId'', field r ''dataId''), (''group'', field r ''group'')]) rows)"

text \<open>The request has its JSON text as the body.\<close>

definition clone_start :: "config_list stmt" where
  "clone_start =
     cond (\<lambda>s. \<not> truthy (cloneTargetSpace s)) (call ''cloneTargetSpaceSelectErr'')
       (block [cl_open,
          emit (\<lambda>s. Ajax ''post'' (''v1/cs/configs?clone=true&tenant='' @ to_str (cloneTargetSpace s) @
            ''&policy='' @ to_str (sameConfigPolicy s) @ ''&namespaceId='')
            [(''body'', json_stringify [] (clone_body (clone_rows s)))])])"

definition count_of :: "jsval \<Rightarrow> nat" where
  "count_of v = (case v of Arr xs \<Rightarrow> length xs | Str s \<Rightarrow> length s | _ \<Rightarrow> 0)"

definition failure_text :: "(string \<Rightarrow> string) \<Rightarrow> bool \<Rightarrow> jsval \<Rightarrow> string" where
  "failure_text tx isImport code =
     (if code \<in> {Num 100003, Num 100004, Num 100005} then tx ''importDataValidationError''
      else if code = Num 100002 then tx ''metadataIllegal''
      else if code = Num 100001 then tx ''namespaceNotExist''
      else if isImport then tx ''importFailMsg'' else tx ''cloneFailMsg'')"

definition entries :: "nat \<Rightarrow> jsval" where
  "entries n = Num (int n)"

definition unrecognized :: "jsval \<Rightarrow> int" where
  "unrecognized d = (case field d ''unrecognizedCount'' of Num n \<Rightarrow> n | _ \<Rightarrow> 0)"

definition report_result :: "(string \<Rightarrow> string) \<Rightarrow> bool \<Rightarrow> jsval \<Rightarrow> config_list stmt" where
  "report_result tx isImport d =
     (let failCount = count_of (field d ''failData''); skipCount = count_of (field d ''skipData'');
          unrecognizedCount = unrecognized d
      in if failCount > 0 then
           emit (\<lambda>_. Call ''Dialog.alert'' [Str (tx (if isImport then ''importAbort'' else ''cloneAbort'')),
             entries failCount, entries skipCount, Num unrecognizedCount])
         else if skipCount > 0 \<or> unrecognizedCount > 0 then
           emit (\<lambda>_. Call ''Dialog.alert'' [Str (tx (if isImport then ''importSucc'' else ''cloneSucc'')),
             Str (tx (if isImport then ''importSuccEntries'' else ''cloneSuccEntries'') @ to_str (field d ''succCount'')),
             entries skipCount, Num unrecognizedCount])
         else
           emit (\<lambda>_. MsgSuccess (tx (if isImport then ''importSuccBegin'' else ''cloneSuccBegin'') @
             to_str (field d ''succCount'') @ tx (if isImport then ''importSuccEnd'' else ''cloneSuccEnd''))))"

definition processImportAndCloneResult :: "(string \<Rightarrow> string) \<Rightarrow> bool \<Rightarrow> jsval \<Rightarrow> config_list stmt" where
  "processImportAndCloneResult tx isImport ret = need_object ret
     (if field ret ''code'' = Num 200 then block
        [emit (\<lambda>_. HideDialog),
         need_object (field ret ''data'') (report_result tx isImport (field ret ''data'')),
         getData (Num 1)]
      else emit (\<lambda>_. Alert (tx (if isImport then ''importFail'' else ''cloneFail''))
        (failure_text tx isImport (field ret ''code''))))"

definition cloned :: "(string \<Rightarrow> string) \<Rightarrow> jsval \<Rightarrow> config_list stmt" where
  "cloned tx ret = block [cl_close, processImportAndCloneResult tx False ret]"

definition on_page :: "(browser \<Rightarrow> browser) \<Rightarrow> config_list stmt" where
  "on_page f = modify (\<lambda>s. s\<lparr>cl_browser := f (cl_browser s)\<rparr>)"

definition open_import :: "(string \<Rightarrow> string) \<Rightarrow> jsval \<Rightarrow> config_list stmt" where
  "open_import tx token =
     (case (token_field token ''accessToken'', token_field token ''username'') of
        (Inr a, Inr u) \<Rightarrow> read_param ''namespace'' (\<lambda>ns. emit (\<lambda>_. Call ''Upload''
          [Str (''v1/cs/configs?import=true&namespace='' @ null_str ns @ ''&accessToken='' @ to_str a @
             ''&username='' @ to_str u @ ''&tenant='' @ null_str ns)]))
      | _ \<Rightarrow> throw TypeError)"

definition importData :: "(string \<Rightarrow> string) \<Rightarrow> config_list stmt" where
  "importData tx = block
     [modify (\<lambda>s. s\<lparr>sameConfigPolicy := Str ''ABORT''\<rparr>),
      with_state (\<lambda>s.
        if get_item (cl_browser s) LOGINPAGE_ENABLED = Some ''false'' then open_import tx (Obj [])
        else
          (case parse_token (cl_browser s) of
             None \<Rightarrow> block [on_page goLogin, emit (\<lambda>_. Alert (tx ''importFail'') (tx ''authFail''))]
           | Some token \<Rightarrow> open_import tx token))]"

definition import_success :: "(string \<Rightarrow> string) \<Rightarrow> jsval \<Rightarrow> config_list stmt" where
  "import_success tx ret = processImportAndCloneResult tx True (field ret ''response'')"

definition import_error :: "(string \<Rightarrow> string) \<Rightarrow> jsval \<Rightarrow> config_list stmt" where
  "import_error tx err = need_object (field err ''response'')
     (emit (\<lambda>_. Alert (tx ''importFail'')
        (tx (if field (field err ''response'') ''status'' \<in> {Num 401, Num 403} then ''importFail403''
             else ''importDataValidationError''))))"

section \<open>Lemmas: the operations on a well-formed address\<close>

definition with_win :: "win \<Rightarrow> config_list \<Rightarrow> config_list" where
  "with_win w s = s\<lparr>cl_browser := (cl_browser s)\<lparr>b_win := w\<rparr>\<rparr>"

lemma with_win_simps [simp]:
  "cl_win (with_win w s) = w" "with_win w (with_win v s) = with_win w s"
  "cl_group (with_win w s) = cl_group s" "cl_dataId (with_win w s) = cl_dataId s"
  "cl_appName (with_win w s) = cl_appName s" "st_loading (with_win w s) = st_loading s"
  "st_pageSize (with_win w s) = st_pageSize s" "st_isAdvancedQuery (with_win w s) = st_isAdvancedQuery s"
  "configsTableSelected (with_win w s) = configsTableSelected s" "st_namespace (with_win w s) = st_namespace s"
  "st_config_detail (with_win w s) = st_config_detail s" "st_config_tags (with_win w s) = st_config_tags s"
  "cl_pageNo (with_win w s) = cl_pageNo s" "cl_pageSizeSent (with_win w s) = cl_pageSizeSent s"
  "cl_tenant (with_win w s) = cl_tenant s" "cl_serverId (with_win w s) = cl_serverId s"
  "cl_edasAppId (with_win w s) = cl_edasAppId s" "cl_edasAppName (with_win w s) = cl_edasAppName s"
  "st_fuzzy (with_win w s) = st_fuzzy s"
  by (simp_all add: with_win_def)

lemma read_param_ok:
  "addr_ok (cl_win s) \<Longrightarrow> k \<in> set console_keys \<Longrightarrow> read_param k f s = f (addr_get (cl_win s) k) s"
  by (simp add: read_param_def with_state_def get_params_addr)

lemma put_param_ok:
  assumes "addr_ok (cl_win s)" and "k \<in> set console_keys"
  shows "put_param k v s = (with_win (addr_put (cl_win s) k v) s, [], None)"
proof -
  have "fst ` set [(k, v)] \<subseteq> set console_keys" using assms(2) by simp
  from set_params_console [OF assms(1) this] obtain w' where w': "set_params (cl_win s) [(k, v)] = Inr w'"
    by blast
  moreover have "k \<noteq> []" using assms(2) console_keys_good by (auto simp: good_key_def)
  ultimately show ?thesis
    by (simp add: put_param_def put_params_def addr_put_def set_param_def with_win_def)
qed

lemma page_keys: "''pageNo'' \<in> set console_keys" "''pageSize'' \<in> set console_keys"
  "''serverId'' \<in> set console_keys" "''namespace'' \<in> set console_keys"
  "''appName'' \<in> set console_keys" "''tagList'' \<in> set console_keys" "''configTags'' \<in> set console_keys"
  "''configDetail'' \<in> set console_keys" "''isAdvanceQuery'' \<in> set console_keys"
  "''dataId'' \<in> set console_keys" "''group'' \<in> set console_keys"
  by (simp_all add: console_keys_def)

definition fresh_win :: "win \<Rightarrow> win" where
  "fresh_win w = addr_put (addr_put w ''pageSize'' Null) ''pageNo'' Null"

lemma fresh_win_ok: "addr_ok w \<Longrightarrow> addr_ok (fresh_win w)"
  unfolding fresh_win_def by (intro addr.put_invar page_keys)

lemma val_str_Null: "val_str Null = []"
  by (simp add: val_str_def js_or_def)

lemma fresh_win_get:
  "addr_ok w \<Longrightarrow> j \<in> set console_keys \<Longrightarrow>
   addr_get (fresh_win w) j = (if j \<in> {''pageNo'', ''pageSize''} then Some [] else addr_get w j)"
  using addr.put_invar [OF _ page_keys(2), of w Null]
  by (simp add: fresh_win_def addr.get_put page_keys val_str_Null)

text \<open>What a load that is let through does.\<close>

definition placed :: "config_list \<Rightarrow> config_list" where
  "placed s = s\<lparr>cl_tenant := or_empty (addr_get (cl_win s) ''namespace''),
     cl_serverId := or_empty (addr_get (cl_win s) ''serverId'')\<rparr>"

lemma placed_simps [simp]:
  "cl_win (placed s) = cl_win s" "st_pageSize (placed s) = st_pageSize s"
  "configsTableSelected (placed s) = configsTableSelected s" "st_namespace (placed s) = st_namespace s"
  "st_loading (placed s) = st_loading s"
  by (simp_all add: placed_def)

definition page_asked :: "jsval \<Rightarrow> config_list \<Rightarrow> jsval" where
  "page_asked n s = param_or (addr_get (cl_win s) ''pageNo'') n"

definition size_asked :: "config_list \<Rightarrow> jsval" where
  "size_asked s = param_or (addr_get (cl_win s) ''pageSize'') (st_pageSize s)"

definition loaded_state :: "jsval \<Rightarrow> config_list \<Rightarrow> config_list" where
  "loaded_state n s = (with_win (fresh_win (cl_win s))
     ((placed s)\<lparr>cl_pageNo := page_asked n s, cl_pageSizeSent := size_asked s\<rparr>))\<lparr>st_loading := True\<rparr>"

lemma getData_run:
  assumes "addr_ok (cl_win s)" and "\<not> st_loading s"
  shows "getData n s = (loaded_state n s, [list_request (page_asked n s) (size_asked s) (placed s)], None)"
proof -
  let ?u = "(placed s)\<lparr>cl_pageNo := page_asked n s, cl_pageSizeSent := size_asked s\<rparr>"
  have u: "addr_ok (cl_win ?u)" using assms(1) by simp
  have v: "addr_ok (cl_win (with_win (addr_put (cl_win s) ''pageSize'' Null) ?u))"
    using addr.put_invar [OF assms(1) page_keys(2)] by simp
  have p: "put_param ''pageSize'' Null ?u = (with_win (addr_put (cl_win s) ''pageSize'' Null) ?u, [], None)"
    using put_param_ok [OF u page_keys(2)] by simp
  have q: "put_param ''pageNo'' Null (with_win (addr_put (cl_win s) ''pageSize'' Null) ?u)
      = (with_win (fresh_win (cl_win s)) ?u, [], None)"
    using put_param_ok [OF v page_keys(1)] by (simp add: fresh_win_def)
  show ?thesis
    using assms p q
    by (simp add: getData_def cond_def read_param_ok page_keys with_state_def modify_def cl_open_def
        emit_def placed_def page_asked_def size_asked_def loaded_state_def)
qed

lemma getData_busy: "st_loading s \<Longrightarrow> getData n s = (s, [], None)"
  by (simp add: getData_def cond_def skip_def)

lemma loaded_state_simps [simp]:
  "st_loading (loaded_state n s)" "cl_win (loaded_state n s) = fresh_win (cl_win s)"
  "st_pageSize (loaded_state n s) = st_pageSize s"
  "configsTableSelected (loaded_state n s) = configsTableSelected s"
  "st_namespace (loaded_state n s) = st_namespace s"
  by (simp_all add: loaded_state_def with_win_def)

section \<open>Properties\<close>

lemma param_or_empty: "param_or (Some []) d = d"
  by (simp add: param_or_def)

text \<open>C25. A page number and a page size in the address (as the detail page leaves them on the way back)
  are used by the next load and by that one only: the load takes them out of the address, loads asked
  for while it is on its way are dropped, and the one after it uses the number it is asked for and the
  page size of the state.\<close>

theorem page_of_address_once:
  assumes "addr_ok (cl_win s)" and "\<not> st_loading s"
  shows "let (s1, e1, x1) = getData n s; s2 = state_of (data_arrived s1); (s3, e3, x3) = getData m s2 in
    x1 = None \<and> e1 = [list_request (page_asked n s) (size_asked s) (placed s)] \<and>
    getData m s1 = (s1, [], None) \<and>
    x3 = None \<and> e3 = [list_request m (st_pageSize s) (placed s2)]"
proof -
  let ?s1 = "loaded_state n s"
  let ?s2 = "state_of (data_arrived ?s1)"
  have s2: "addr_ok (cl_win ?s2)" "\<not> st_loading ?s2" "cl_win ?s2 = fresh_win (cl_win s)"
      "st_pageSize ?s2 = st_pageSize s"
    using fresh_win_ok [OF assms(1)] by (simp_all add: data_arrived_def cl_close_def modify_def)
  have "page_asked m ?s2 = m" "size_asked ?s2 = st_pageSize s"
    using s2(3,4) fresh_win_get [OF assms(1)] page_keys
    by (simp_all add: page_asked_def size_asked_def param_or_empty)
  then show ?thesis
    using getData_run [OF assms, of n] getData_run [OF s2(1,2), of m] getData_busy [of ?s1 m]
    by (simp add: Let_def)
qed

definition sample_cl :: config_list where
  "sample_cl = \<lparr>cl_browser = sample_browser, cl_appName = [], cl_group = [], cl_dataId = ''d'',
     cl_serverId = [], cl_tenant = [], cl_edasAppId = [], cl_edasAppName = [], cl_pageNo = Undef,
     cl_pageSizeSent = Undef, st_pageSize = Num 10, st_currentPage = Num 1, st_pageEnter = False,
     st_dataId = ''d'', st_group = [], st_appName = [], st_config_detail = [], st_config_tags = [],
     st_tagLst = None, st_loading = False, st_isCn = False, st_namespace = (Undef, Str ''dev'', Undef),
     st_isAdvancedQuery = Bool False, st_fuzzy = True, st_selectedRowKeys = [],
     configsTableSelected = [(Str ''7'', Obj [(''dataId'', Str ''d'')])], sameConfigPolicy = Undef,
     cloneTargetSpace = Undef, clone_rows = []\<rparr>"

lemma sample_cl_simps:
  "addr_ok (cl_win sample_cl)" "\<not> st_loading sample_cl" "st_pageSize sample_cl = Num 10"
  "configsTableSelected sample_cl = [(Str ''7'', Obj [(''dataId'', Str ''d'')])]"
  by (simp_all add: sample_cl_def sample_browser_def sample_win_ok)

theorem page_of_address_once_witness:
  "\<exists>s. effects_of (getData (Num 5) (state_of (data_arrived (state_of (getData (Num 1) sample_cl)))))
    = [list_request (Num 5) (Num 10) s]"
  using page_of_address_once [OF sample_cl_simps(1,2), of "Num 1" "Num 5"] sample_cl_simps(3)
  by (auto simp: Let_def effects_of_def state_of_def split: prod.splits)

text \<open>A removal of the selected rows leaves them selected: after it has succeeded and the list has been
  asked for again, confirming another removal sends the same ids.  Only a change of the namespace
  empties the selection, and then a removal is refused.\<close>

theorem selection_outlives_deletion:
  assumes "addr_ok (cl_win s)" and "\<not> st_loading s"
  shows "effects_of (deletion_confirmed (state_of (deletion_success tx s))) = effects_of (deletion_confirmed s) \<and>
    effects_of (multipleSelectionDeletion tx (state_of (cleanAndGetData False s))) =
      [Alert (tx ''delSelectedAlertTitle'') (tx ''delSelectedAlertContent'')]"
proof -
  have "deletion_success tx s = (loaded_state (Num 1) s,
      [MsgSuccess (tx ''delSuccessMsg''), list_request (page_asked (Num 1) s) (size_asked s) (placed s)], None)"
    using getData_run [OF assms] by (simp add: deletion_success_def emit_def)
  moreover have "configsTableSelected (state_of (cleanAndGetData False s)) = []"
    using getData_run [OF assms] by (simp add: cleanAndGetData_def skip_def modify_def)
  ultimately show ?thesis
    by (simp add: deletion_confirmed_def emit_def selected_ids_def multipleSelectionDeletion_def cond_def)
qed

theorem selection_outlives_deletion_witness:
  "effects_of (deletion_confirmed (state_of (deletion_success (\<lambda>_. []) sample_cl))) =
     [Ajax ''delete'' ''v1/cs/configs?delType=ids&ids=7&tenant=dev'' []]"
  using selection_outlives_deletion [OF sample_cl_simps(1,2), of "\<lambda>_. []"]
  by (simp add: deletion_confirmed_def emit_def selected_ids_def sample_cl_simps)
    (simp add: sample_cl_def)





interpretation cloning: ajax_call st_loading cl_open "clone_success tx" clone_error cl_close for tx
  by unfold_locales (simp_all add: cl_open_def cl_close_def modify_def)

text \<open>Asking for the target namespaces of a clone uncovers the page whatever arrives, although an answer
  without a list of namespaces makes the handler raise: it shows an alert and goes on to read the
  missing list.\<close>

theorem clone_uncovers_but_raises:
  assumes "\<not> truthy data \<or> field data ''code'' \<noteq> Num 200 \<or> \<not> truthy (field data ''data'')"
    and "\<forall>xs. field data ''data'' \<noteq> Arr xs"
  shows "\<not> st_loading (state_of (settle (clone_success tx) clone_error cl_close r s)) \<and>
    effects_of (settle (clone_success tx) clone_error cl_close (Success data) s) =
      [Alert (tx ''getNamespaceFailed'') (tx ''getNamespaceFailed'')] \<and>
    error_of (settle (clone_success tx) clone_error cl_close (Success data) s) = Some TypeError"
proof -
  have run: "clone_success tx data s =
      (s\<lparr>st_loading := False\<rparr>, [Alert (tx ''getNamespaceFailed'') (tx ''getNamespaceFailed'')], Some TypeError)"
    using assms by (cases "field data ''data''")
      (auto simp: clone_success_def cl_close_def modify_def cond_def emit_def need_object_def throw_def)
  have "\<not> st_loading (state_of (settle (clone_success tx) clone_error cl_close r s))"
  proof (cases "error_of (settle (clone_success tx) clone_error cl_close r s)")
    case None
    then show ?thesis by (rule cloning.settle_lowers)
  next
    case (Some e)
    have low: "\<not> st_loading (state_of (clone_success tx v s))" for v
      by (auto simp: clone_success_def cl_close_def modify_def cond_def emit_def need_object_def throw_def
          skip_def split: jsval.split)
    show ?thesis
    proof (cases r)
      case (Success x)
      obtain a b c where "clone_success tx x s = (a, b, c)" by (cases "clone_success tx x s")
      with low [of x] Success show ?thesis
        by (cases c) (simp_all add: settle_def cl_close_def modify_def)
    next
      case (Failure x)
      then show ?thesis by (simp add: settle_def clone_error_def cl_close_def reset_table_def modify_def)
    qed
  qed
  with run show ?thesis by (simp add: settle_def)
qed

theorem clone_uncovers_but_raises_witness:
  "error_of (settle (clone_success (\<lambda>k. k)) clone_error cl_close (Success (Obj [(''code'', Num 500)])) sample_cl)
     = Some TypeError"
  using clone_uncovers_but_raises [of "Obj [(''code'', Num 500)]"] by simp

end
