(* ===== verification/Navigation.thy ===== *)
theory Navigation
  imports Config_List
begin

text \<open>
  Following a link: what a page finds in the address after another page has pushed it.  \<open>visit\<close> is the
  hash router's effect of \<open>history.push\<close> on the address bar; \<open>read_all\<close> the reading of several
  parameters, as the constructors of the pages do, which fails at the first that cannot be decoded.
\<close>

definition visit :: "win \<Rightarrow> string \<Rightarrow> win" where
  "visit w url = w\<lparr>w_href := w_origin w @ ''#'' @ url\<rparr>"

fun read_all :: "win \<Rightarrow> string list \<Rightarrow> js_error + (string \<times> string option) list" where
  "read_all w [] = Inr []"
| "read_all w (k # ks) =
     (case get_params w k of
        Inl e \<Rightarrow> Inl e
      | Inr v \<Rightarrow> map_sum id ((#) (k, v)) (read_all w ks))"

definition got :: "(string \<times> string option) list \<Rightarrow> string \<Rightarrow> string option" where
  "got r k = (case map_of r k of None \<Rightarrow> None | Some v \<Rightarrow> v)"

text \<open>\<open>getParams\<close> inside a handler of a page; \<open>w\<close> selects the page's address.\<close>

definition reading :: "('s \<Rightarrow> win) \<Rightarrow> string \<Rightarrow> (string option \<Rightarrow> 's stmt) \<Rightarrow> 's stmt" where
  "reading w k f = with_state (\<lambda>s. case get_params (w s) k of Inl e \<Rightarrow> throw e | Inr v \<Rightarrow> f v)"

lemma preserves_reading [preserves_intros]: "(\<And>v. preserves P (f v)) \<Longrightarrow> preserves P (reading w k f)"
  unfolding reading_def by (intro preserves_with_state) (auto simp: preserves_throw split: sum.split)

lemma reading_ok: "addr_ok (w s) \<Longrightarrow> k \<in> set console_keys \<Longrightarrow> reading w k f s = f (addr_get (w s) k) s"
  by (simp add: reading_def with_state_def get_params_addr)

lemma read_all_ok:
  "addr_ok w \<Longrightarrow> set ks \<subseteq> set console_keys \<Longrightarrow> read_all w ks = Inr (map (\<lambda>k. (k, addr_get w k)) ks)"
  by (induction ks) (auto simp: get_params_addr)

lemma got_map: "k \<in> set ks \<Longrightarrow> got (map (\<lambda>k. (k, f k)) ks) k = f k"
  by (induction ks) (auto simp: got_def)

text \<open>Values that need no escaping: the pages put them into addresses as they are.\<close>

definition plain_value :: "string \<Rightarrow> bool" where
  "plain_value v \<longleftrightarrow> (\<forall>c \<in> set v. uri_unreserved c)"

lemma plain_value_encode: "plain_value v \<Longrightarrow> encode_uri v = v"
  by (induction v) (simp_all add: plain_value_def encode_uri_def enc_char_def)

lemma plain_value_simps [simp]:
  "plain_value []" "plain_value (c # v) \<longleftrightarrow> uri_unreserved c \<and> plain_value v"
  "plain_value (u @ v) \<longleftrightarrow> plain_value u \<and> plain_value v"
  by (auto simp: plain_value_def)

definition pair_text :: "string \<times> string \<Rightarrow> string" where
  "pair_text kv = fst kv @ ''='' @ snd kv"

definition link :: "string \<Rightarrow> (string \<times> string) list \<Rightarrow> string" where
  "link path m = path @ ''?'' @ js_join ''&'' (map pair_text m)"

definition site_ok :: "win \<Rightarrow> bool" where
  "site_ok w \<longleftrightarrow> CHR ''#'' \<notin> set (w_origin w) \<and> w_replace w"

lemma addr_ok_site: "addr_ok w \<Longrightarrow> site_ok w"
  by (auto simp: addr_ok_def canonical_def site_ok_def)

lemma visit_simps [simp]: "w_origin (visit w u) = w_origin w" "visit (visit w u) v = visit w v"
  "site_ok (visit w u) = site_ok w"
  by (simp_all add: visit_def site_ok_def)

lemma visit_link:
  assumes "site_ok w" and "CHR ''?'' \<notin> set path" and "distinct (map fst m)"
    and "fst ` set m \<subseteq> set console_keys" and "\<forall>v \<in> snd ` set m. plain_value v"
  shows "addr_ok (visit w (link path m))"
    and "k \<in> set console_keys \<Longrightarrow> addr_get (visit w (link path m)) k = map_of m k"
proof -
  have "render_param kv = pair_text kv" if "kv \<in> set m" for kv
    using that assms(5) plain_value_encode by (auto simp: render_param_def pair_text_def)
  then have "map pair_text m = map render_param m" by simp
  then have jl: "link path m = path @ ''?'' @ render_query m"
    by (simp only: link_def render_query_def)
  have can: "canonical (CHR ''#'' # path) m (visit w (link path m))"
    using assms console_keys_good unfolding jl
    by (auto simp: canonical_def visit_def site_ok_def hash_path_def)
  then show "addr_ok (visit w (link path m))" using assms(4) unfolding addr_ok_def by blast
  show "addr_get (visit w (link path m)) k = map_of m k" if "k \<in> set console_keys"
    using get_params_console [OF can assms(4) that] by (simp add: addr_get_def)
qed

text \<open>The addresses \<open>generateUrl\<close> builds are such links.\<close>

lemma generateUrl_link:
  "generateUrl path ps = link path (map (\<lambda>(k, v). (k, join_vals [v])) ps)"
proof -
  have "map show_pair ps = map pair_text (map (\<lambda>(k, v). (k, join_vals [v])) ps)"
    by (auto simp: show_pair_def pair_text_def)
  then show ?thesis by (simp only: generateUrl_def link_def js_join.simps append_Nil)
qed

end
