(* ===== verification/Config_History.thy ===== *)
theory Config_History
  imports Navigation
begin

text \<open>
  The pages on the history of a configuration, under
  \<open>src/console-ui/src/pages/ConfigurationManagement/\<close>: the list of versions (\<open>HistoryRollback\<close>), one version
  (\<open>HistoryDetail\<close>) and the return to a version (\<open>ConfigRollback\<close>).

  React applies what a handler of a click sets with \<open>setState\<close> when the handler has ended: where a
  handler reads the state after it has set it, the model keeps the value from before.
\<close>

section \<open>The list of versions\<close>

record history_page =
  hr_win :: win
  hr_appName :: string
  hr_dataId :: string
  hr_group :: string
  hr_preDataId :: string
  hr_preGroup :: string
  hr_serverId :: string
  hr_tenant :: string
  hs_dataId :: string
  hs_group :: string
  hs_appName :: string
  hs_loading :: bool
  hs_pageSize :: nat
  hs_currentPage :: jsval
  hs_total :: jsval
  hs_dataSource :: jsval
  hs_dataIds :: "jsval list"
  hs_groups :: "jsval list"
  hs_namespace :: "jsval \<times> jsval \<times> jsval"

definition history_init :: "win \<Rightarrow> js_error + history_page" where
  "history_init w = map_sum id (\<lambda>r. \<lparr>hr_win = w, hr_appName = or_empty (got r ''appName''),
     hr_dataId = or_empty (got r ''historyDataId''), hr_group = or_empty (got r ''historyGroup''),
     hr_preDataId = or_empty (got r ''historyDataId''), hr_preGroup = or_empty (got r ''historyGroup''),
     hr_serverId = or_empty (got r ''historyServerId''), hr_tenant = [],
     hs_dataId = or_empty (got r ''historyDataId''), hs_group = or_empty (got r ''historyGroup''),
     hs_appName = or_empty (got r ''appName''), hs_loading = False, hs_pageSize = 10, hs_currentPage = Num 1,
     hs_total = Num 0, hs_dataSource = Arr [], hs_dataIds = [], hs_groups = [],
     hs_namespace = (Undef, Undef, Undef)\<rparr>)
     (read_all w [''appName'', ''historyGroup'', ''historyDataId'', ''historyServerId''])"

definition hs_open :: "history_page stmt" where
  "hs_open = modify (\<lambda>s. s\<lparr>hs_loading := True\<rparr>)"

definition hs_close :: "history_page stmt" where
  "hs_close = modify (\<lambda>s. s\<lparr>hs_loading := False\<rparr>)"

definition hr_put :: "(string \<times> jsval) list \<Rightarrow> history_page stmt" where
  "hr_put kvs s =
     (case set_params (hr_win s) kvs of
        Inl e \<Rightarrow> (s, [], Some e)
      | Inr w \<Rightarrow> (s\<lparr>hr_win := w\<rparr>, [], None))"

text \<open>\<open>getData(pageNo)\<close> for a state whose data id and group are \<open>d\<close> and \<open>g\<close>.\<close>

definition hr_load :: "string \<Rightarrow> string \<Rightarrow> jsval \<Rightarrow> history_page stmt" where
  "hr_load d g pageNo = reading hr_win ''serverId'' (\<lambda>sv. block
     [modify (\<lambda>s. s\<lparr>hr_serverId := or_empty sv\<rparr>),
      (if d = [] then skip
       else block
         [hs_open,
          emit (\<lambda>s. Ajax ''GET'' (''v1/cs/history?search=accurate&dataId='' @ d @ ''&group='' @ g @
            ''&&pageNo='' @ to_str pageNo @ ''&pageSize='' @ nat_str (hs_pageSize s)) [])])])"

definition hr_getData :: "jsval \<Rightarrow> history_page stmt" where
  "hr_getData pageNo = with_state (\<lambda>s. hr_load (hs_dataId s) (hs_group s) pageNo)"

definition hr_success :: "jsval \<Rightarrow> history_page stmt" where
  "hr_success data =
     (if data \<in> {Undef, Null} then skip
      else modify (\<lambda>s. s\<lparr>hs_dataSource := js_or (field data ''pageItems'') (Arr []),
        hs_total := field data ''totalCount'', hs_currentPage := field data ''pageNumber''\<rparr>))"

definition getConfigList :: "history_page stmt" where
  "getConfigList = reading hr_win ''namespace'' (\<lambda>ns. block
     [modify (\<lambda>s. s\<lparr>hr_tenant := or_empty ns\<rparr>),
      emit (\<lambda>_. Ajax ''GET'' (''v1/cs/history/configs?tenant='' @ or_empty ns) [])])"

definition option_item :: "jsval \<Rightarrow> jsval" where
  "option_item v = Obj [(''value'', v), (''label'', v)]"

definition configList_success :: "jsval \<Rightarrow> history_page stmt" where
  "configList_success result =
     (if result \<in> {Undef, Null} then skip
      else if set (elements result) \<inter> {Undef, Null} \<noteq> {} then throw TypeError
      else modify (\<lambda>s. s\<lparr>hs_dataIds := map (\<lambda>x. option_item (field x ''dataId'')) (elements result),
        hs_groups := map (\<lambda>x. option_item (field x ''group'')) (elements result)\<rparr>))"

definition hr_cleanAndGetData :: "bool \<Rightarrow> history_page stmt" where
  "hr_cleanAndGetData needclean = with_state (\<lambda>s0. block
     [(if needclean then block
         [modify (\<lambda>s. s\<lparr>hr_dataId := [], hr_group := []\<rparr>),
          hr_put [(''historyGroup'', Str [])], hr_put [(''historyDataId'', Str [])]]
       else skip),
      hr_load (hs_dataId s0) (hs_group s0) (Num 1),
      getConfigList,
      (if needclean then modify (\<lambda>s. s\<lparr>hs_group := [], hs_dataId := []\<rparr>) else skip)])"

definition hr_changePage :: "jsval \<Rightarrow> history_page stmt" where
  "hr_changePage v = block [hr_getData v, modify (\<lambda>s. s\<lparr>hs_currentPage := v\<rparr>)]"

definition hr_selectAll :: "(string \<Rightarrow> string) \<Rightarrow> history_page stmt" where
  "hr_selectAll tx =
     cond (\<lambda>s. hs_dataId s = []) (emit (\<lambda>_. MsgError (tx ''dataIdCanNotBeEmpty'')))
       (cond (\<lambda>s. hs_group s = []) (emit (\<lambda>_. MsgError (tx ''groupCanNotBeEmpty'')))
          (block [modify (\<lambda>s. s\<lparr>hr_preDataId := hs_dataId s, hr_preGroup := hs_group s\<rparr>), hr_getData (Num 1)]))"

definition resetAll :: "history_page stmt" where
  "resetAll = block
     [modify (\<lambda>s. s\<lparr>hr_dataId := [], hr_group := [], hs_dataId := [], hs_appName := [], hs_group := []\<rparr>),
      hr_put [(''group'', Str []), (''dataId'', Str [])]]"

definition hr_setDataId :: "string option \<Rightarrow> history_page stmt" where
  "hr_setDataId v = block
     [modify (\<lambda>s. s\<lparr>hs_dataId := or_empty v\<rparr>), hr_put [(''historyDataId'', Str (or_empty v))]]"

definition hr_setGroup :: "string option \<Rightarrow> history_page stmt" where
  "hr_setGroup v = block
     [modify (\<lambda>s. s\<lparr>hs_group := or_empty v\<rparr>), hr_put [(''historyGroup'', Str (or_empty v))]]"

definition hr_searchDataId :: "jsval \<Rightarrow> history_page stmt" where
  "hr_searchDataId v = modify (\<lambda>s. if v \<in> set (hs_dataIds s) then s else s\<lparr>hs_dataIds := hs_dataIds s @ [v]\<rparr>)"

definition hr_searchGroup :: "jsval \<Rightarrow> history_page stmt" where
  "hr_searchGroup v = modify (\<lambda>s. if v \<in> set (hs_groups s) then s else s\<lparr>hs_groups := hs_groups s @ [v]\<rparr>)"

definition hr_setNowNameSpace :: "jsval \<Rightarrow> jsval \<Rightarrow> jsval \<Rightarrow> history_page stmt" where
  "hr_setNowNameSpace n i d = modify (\<lambda>s. s\<lparr>hs_namespace := (n, i, d)\<rparr>)"

definition hr_place :: "history_page stmt \<Rightarrow> history_page stmt" where
  "hr_place a = reading hr_win ''serverId'' (\<lambda>sv. block
     [modify (\<lambda>s. s\<lparr>hr_serverId := str_or sv ''center''\<rparr>),
      reading hr_win ''namespace'' (\<lambda>ns. block [modify (\<lambda>s. s\<lparr>hr_tenant := or_empty ns\<rparr>), a])])"

definition version_query :: "jsval \<Rightarrow> history_page \<Rightarrow> string" where
  "version_query rec s = ''serverId='' @ hr_serverId s @ ''&dataId='' @ rec_str rec ''dataId'' @ ''&group='' @
     rec_str rec ''group'' @ ''&nid='' @ rec_str rec ''id'' @ ''&namespace='' @ hr_tenant s"

definition hr_goDetail :: "jsval \<Rightarrow> history_page stmt" where
  "hr_goDetail rec = hr_place (need_object rec (emit (\<lambda>s. Push (''/historyDetail?'' @ version_query rec s))))"

definition goRollBack :: "jsval \<Rightarrow> history_page stmt" where
  "goRollBack rec = hr_place (need_object rec
     (emit (\<lambda>s. Push (''/configRollback?'' @ version_query rec s @ ''&nid='' @ rec_str rec ''id''))))"

text \<open>The comparison: the newest version, then the one of the row, then the window.  \<open>getConfig\<close> stores
  the tenant as the server, too.\<close>

definition hr_getConfig :: "string \<Rightarrow> jsval \<Rightarrow> jsval \<Rightarrow> history_page stmt" where
  "hr_getConfig tenant dataId grp = block
     [modify (\<lambda>s. s\<lparr>hr_tenant := tenant, hr_serverId := tenant\<rparr>),
      hs_open,
      emit (\<lambda>_. Ajax ''GET'' (''v1/cs/configs?show=all&dataId='' @ to_str dataId @ ''&group='' @ to_str grp) [])]"

definition getHistoryConfig :: "jsval \<Rightarrow> history_page stmt" where
  "getHistoryConfig rec = emit (\<lambda>_. Ajax ''GET'' (''v1/cs/history?dataId='' @ rec_str rec ''dataId'' @ ''&group='' @
     rec_str rec ''group'' @ ''&nid='' @ rec_str rec ''id'') [])"

definition goCompare :: "jsval \<Rightarrow> history_page stmt" where
  "goCompare rec = reading hr_win ''namespace'' (\<lambda>ns. reading hr_win ''serverId'' (\<lambda>_.
     need_object rec (hr_getConfig (or_empty ns) (field rec ''dataId'') (field rec ''group''))))"

definition compare_newest :: "jsval \<Rightarrow> jsval \<Rightarrow> history_page stmt" where
  "compare_newest rec result = (if result \<in> {Undef, Null} then skip else getHistoryConfig rec)"

definition compare_selected :: "jsval \<Rightarrow> jsval \<Rightarrow> history_page stmt" where
  "compare_selected newest result =
     (if result \<in> {Undef, Null} then skip
      else emit (\<lambda>_. Call ''diffEditorDialog.openDialog'' [field result ''content'', field newest ''content'']))"

section \<open>One version\<close>

record version_page =
  vp_win :: win
  vp_edasAppName :: "string option"
  vp_dataId :: string
  vp_group :: string
  vp_serverId :: string
  vp_nid :: string
  vp_tenant :: string
  vp_showmore :: bool
  vp_field :: slice

definition version_init :: "win \<Rightarrow> js_error + version_page" where
  "version_init w = map_sum id (\<lambda>r. \<lparr>vp_win = w, vp_edasAppName = got r ''edasAppName'',
     vp_dataId = str_or (got r ''dataId'') ''yanlin'', vp_group = str_or (got r ''group'') ''DEFAULT_GROUP'',
     vp_serverId = str_or (got r ''serverId'') ''center'', vp_nid = str_or (got r ''nid'') ''123509854'',
     vp_tenant = or_empty (got r ''namespace''), vp_showmore = False, vp_field = []\<rparr>)
     (read_all w [''edasAppName'', ''edasAppId'', ''dataId'', ''group'', ''serverId'', ''nid'', ''namespace''])"

definition vp_toggleMore :: "version_page stmt" where
  "vp_toggleMore = modify (\<lambda>s. s\<lparr>vp_showmore := \<not> vp_showmore s\<rparr>)"

definition vp_getDataDetail :: "version_page stmt" where
  "vp_getDataDetail = emit (\<lambda>s. Ajax ''GET'' (''v1/cs/history?dataId='' @ vp_dataId s @ ''&group='' @ vp_group s @
     ''&nid='' @ vp_nid s) [])"

definition trimmed :: "jsval \<Rightarrow> string option" where
  "trimmed v = (case v of Str t \<Rightarrow> Some (js_trim t) | _ \<Rightarrow> None)"

definition vp_set :: "(version_page \<Rightarrow> slice) \<Rightarrow> version_page stmt" where
  "vp_set f = modify (\<lambda>s. s\<lparr>vp_field := assign (vp_field s) (f s)\<rparr>)"

definition vp_success :: "jsval \<Rightarrow> version_page stmt" where
  "vp_success data =
     (if data \<in> {Undef, Null} then skip
      else block
        [vp_set (\<lambda>s. [(''dataId'', field data ''dataId''), (''content'', field data ''content''),
           (''appName'', if or_empty (vp_edasAppName s) = [] then field data ''appName''
              else Str (or_empty (vp_edasAppName s))),
           (''envs'', Str (vp_serverId s)), (''srcUser'', field data ''srcUser''), (''srcIp'', field data ''srcIp'')]),
         (case trimmed (field data ''opType'') of
            None \<Rightarrow> throw TypeError
          | Some op \<Rightarrow> vp_set (\<lambda>_. [(''opType'', Str op), (''group'', field data ''group''), (''md5'', field data ''md5'')]))])"

definition vp_goList :: "version_page stmt" where
  "vp_goList = emit (\<lambda>s. Push (''/historyRollback?serverId='' @ vp_serverId s @ ''&historyGroup='' @ vp_group s @
     ''&historyDataId='' @ vp_dataId s @ ''&namespace='' @ vp_tenant s))"

definition getOpType :: "(string \<Rightarrow> string) \<Rightarrow> string \<Rightarrow> string option" where
  "getOpType tx t =
     (if t = [] then Some []
      else map_of [(''U'', tx ''update''), (''I'', tx ''insert''), (''D'', tx ''deleteAction'')] t)"

section \<open>The return to a version\<close>

record rollback_page =
  rb_win :: win
  rb_dataId :: string
  rb_group :: string
  rb_serverId :: string
  rb_nid :: string
  rb_tenant :: string
  rb_id :: jsval
  rb_opType :: jsval
  rb_envName :: string
  rb_showmore :: bool
  rb_field :: slice

definition rollback_init :: "win \<Rightarrow> js_error + rollback_page" where
  "rollback_init w = map_sum id (\<lambda>r. \<lparr>rb_win = w, rb_dataId = str_or (got r ''dataId'') ''yanlin'',
     rb_group = str_or (got r ''group'') ''DEFAULT_GROUP'', rb_serverId = str_or (got r ''serverId'') ''center'',
     rb_nid = or_empty (got r ''nid''), rb_tenant = [], rb_id = Undef, rb_opType = Undef, rb_envName = [],
     rb_showmore = False, rb_field = []\<rparr>)
     (read_all w [''dataId'', ''group'', ''serverId'', ''nid''])"

definition rb_toggleMore :: "rollback_page stmt" where
  "rb_toggleMore = modify (\<lambda>s. s\<lparr>rb_showmore := \<not> rb_showmore s\<rparr>)"

definition rb_place :: "rollback_page stmt \<Rightarrow> rollback_page stmt" where
  "rb_place a = reading rb_win ''namespace'' (\<lambda>ns. block
     [modify (\<lambda>s. s\<lparr>rb_tenant := or_empty ns\<rparr>),
      reading rb_win ''serverId'' (\<lambda>sv. block [modify (\<lambda>s. s\<lparr>rb_serverId := str_or sv ''center''\<rparr>), a])])"

definition rb_getDataDetail :: "rollback_page stmt" where
  "rb_getDataDetail = rb_place (emit (\<lambda>s. Ajax ''GET'' (''v1/cs/history?dataId='' @ rb_dataId s @ ''&group='' @
     rb_group s @ ''&nid='' @ rb_nid s) []))"

definition rb_set :: "(rollback_page \<Rightarrow> slice) \<Rightarrow> rollback_page stmt" where
  "rb_set f = modify (\<lambda>s. s\<lparr>rb_field := assign (rb_field s) (f s)\<rparr>)"

definition rb_success :: "jsval \<Rightarrow> rollback_page stmt" where
  "rb_success data =
     (if data \<in> {Undef, Null} then skip
      else block
        [modify (\<lambda>s. s\<lparr>rb_id := field data ''id''\<rparr>),
         rb_set (\<lambda>_. [(''dataId'', field data ''dataId''), (''content'', field data ''content''),
           (''appName'', field data ''appName'')]),
         (case trimmed (field data ''opType'') of
            None \<Rightarrow> throw TypeError
          | Some op \<Rightarrow> block
              [rb_set (\<lambda>s. [(''opType'', Str op), (''group'', field data ''group''), (''md5'', field data ''md5''),
                 (''envName'', Str (rb_serverId s))]),
               modify (\<lambda>s. s\<lparr>rb_opType := field data ''opType'', rb_envName := rb_serverId s\<rparr>)])])"

definition rb_goList :: "rollback_page stmt" where
  "rb_goList = reading rb_win ''namespace'' (\<lambda>ns. emit (\<lambda>s. Push (generateUrl ''/historyRollback''
     [(''serverId'', Str (rb_serverId s)), (''dataId'', Str (rb_dataId s)), (''group'', Str (rb_group s)),
      (''namespace'', nullable ns)])))"

text \<open>The question, with the method the answer will use; an operation type that has not arrived raises.\<close>

definition onOpenConfirm :: "(string \<Rightarrow> string) \<Rightarrow> rollback_page stmt" where
  "onOpenConfirm tx = with_state (\<lambda>s.
     case trimmed (rb_opType s) of
       None \<Rightarrow> throw TypeError
     | Some op \<Rightarrow> emit (\<lambda>_. Call ''Dialog.confirm''
         [Str (tx ''rollBack''), Str (tx ''determine'' @ '' '' @ tx ''followingConfiguration'' @ '' '' @
            (if op = ''I'' then tx ''additionalRollbackMessage'' else [])),
          field (Obj (rb_field s)) ''dataId'', field (Obj (rb_field s)) ''group'']))"

definition rollback_method :: "jsval \<Rightarrow> string" where
  "rollback_method opType = (if trimmed opType = Some ''I'' then ''delete'' else ''post'')"

text \<open>\<open>onOk\<close>; \<open>type\<close> is the method computed when the question was asked.\<close>

definition rollback_confirmed :: "string \<Rightarrow> rollback_page stmt" where
  "rollback_confirmed type = rb_place (with_state (\<lambda>s.
     let fs = Obj (rb_field s); d = field fs ''dataId''; g = field fs ''group'' in block
       [modify (\<lambda>t. t\<lparr>rb_dataId := to_str d, rb_group := to_str g\<rparr>),
        (case trimmed (rb_opType s) of
           None \<Rightarrow> throw TypeError
         | Some op \<Rightarrow>
             if op = ''I'' then emit (\<lambda>_. Ajax type (''v1/cs/configs?dataId='' @ to_str d @ ''&group='' @ to_str g) [])
             else emit (\<lambda>_. Ajax type ''v1/cs/configs''
               [(''appName'', field fs ''appName''), (''dataId'', d), (''group'', g),
                (''content'', field fs ''content''), (''tenant'', Str (rb_tenant s))]))]))"

definition rollback_success :: "(string \<Rightarrow> string) \<Rightarrow> jsval \<Rightarrow> rollback_page stmt" where
  "rollback_success tx data =
     (if data = Bool True then emit (\<lambda>_. Alert [] (tx ''rollbackSuccessful'')) else skip)"

section \<open>Properties\<close>

interpretation versions: safe_ajax_call hs_loading hs_open hr_success "\<lambda>e. skip" hs_close
  by unfold_locales (simp_all add: hs_open_def hs_close_def hr_success_def modify_def skip_def)

text \<open>C11. Returning to a version undoes what the version did: when the version inserted the configuration
  it is deleted, otherwise the content of the version is written back; the method, the address and the
  data belong together, and they are those of the version that was loaded.\<close>

theorem rollback_undoes:
  assumes "addr_ok (rb_win s)" and "field data ''opType'' = Str op" and "field data ''dataId'' = Str d"
    and "field data ''group'' = Str g" and "data \<notin> {Undef, Null}"
  shows "let s1 = state_of (rb_success data s) in
    effects_of (rollback_confirmed (rollback_method (rb_opType s1)) s1) =
      (if js_trim op = ''I'' then [Ajax ''delete'' (''v1/cs/configs?dataId='' @ d @ ''&group='' @ g) []]
       else [Ajax ''post'' ''v1/cs/configs''
         [(''appName'', field data ''appName''), (''dataId'', Str d), (''group'', Str g),
          (''content'', field data ''content''),
          (''tenant'', Str (or_empty (addr_get (rb_win s) ''namespace'')))]])"
proof -
  define fs where "fs = assign (assign (rb_field s) [(''dataId'', Str d), (''content'', field data ''content''),
      (''appName'', field data ''appName'')])
      [(''opType'', Str (js_trim op)), (''group'', Str g), (''md5'', field data ''md5''), (''envName'', Str (rb_serverId s))]"
  have s1: "state_of (rb_success data s)
      = s\<lparr>rb_id := field data ''id'', rb_field := fs, rb_opType := Str op, rb_envName := rb_serverId s\<rparr>"
    using assms(2-5) by (simp add: rb_success_def rb_set_def trimmed_def modify_def fs_def del: assign_Cons)
  have fs: "field (Obj fs) ''dataId'' = Str d" "field (Obj fs) ''group'' = Str g"
      "field (Obj fs) ''content'' = field data ''content''" "field (Obj fs) ''appName'' = field data ''appName''"
    unfolding fs_def by (simp_all add: field_assign del: field_Obj assign_Cons)
  show ?thesis
    unfolding s1 Let_def rollback_confirmed_def rb_place_def
    using fs assms(1)
    by (simp add: reading_ok page_keys modify_def with_state_def emit_def trimmed_def rollback_method_def
        del: field_Obj assign_Cons)
qed

definition sample_rollback :: rollback_page where
  "sample_rollback = \<lparr>rb_win = sample_win, rb_dataId = ''d'', rb_group = ''g'', rb_serverId = ''center'',
     rb_nid = ''3'', rb_tenant = [], rb_id = Undef, rb_opType = Undef, rb_envName = [], rb_showmore = False,
     rb_field = []\<rparr>"

theorem rollback_undoes_witness:
  "effects_of (rollback_confirmed ''delete'' (state_of (rb_success
      (Obj [(''opType'', Str ''I ''), (''dataId'', Str ''d''), (''group'', Str ''g'')]) sample_rollback)))
   = [Ajax ''delete'' ''v1/cs/configs?dataId=d&group=g'' []]"
proof -
  let ?data = "Obj [(''opType'', Str ''I ''), (''dataId'', Str ''d''), (''group'', Str ''g'')]"
  have "addr_ok (rb_win sample_rollback)" by (simp add: sample_rollback_def sample_win_ok)
  moreover have "js_trim ''I '' = ''I''" by code_simp
  moreover have "rollback_method (rb_opType (state_of (rb_success ?data sample_rollback))) = ''delete''"
    by code_simp
  ultimately show ?thesis
    using rollback_undoes [of sample_rollback ?data "''I ''" "''d''" "''g''"] by (simp add: Let_def)
qed

lemma history_keys: "set [''appName'', ''historyGroup'', ''historyDataId'', ''historyServerId''] \<subseteq> set console_keys"
  by (simp add: console_keys_def)

lemma history_init_ok:
  assumes "addr_ok w"
  shows "\<exists>s. history_init w = Inr s \<and> hs_dataId s = or_empty (addr_get w ''historyDataId'') \<and>
    hs_group s = or_empty (addr_get w ''historyGroup'')"
  unfolding history_init_def read_all_ok [OF assms history_keys]
  by (simp add: got_def)

text \<open>The way back to the list of versions: from the page of a version the list is opened with the data
  id and the group of the version; from the page that returns to a version it is opened empty, because
  that page passes them under the names \<open>dataId\<close> and \<open>group\<close>, which the list does not read.\<close>

theorem back_to_history:
  assumes "site_ok w" and "addr_ok (rb_win r)" and "addr_get (rb_win r) ''namespace'' = Some n"
    and "\<forall>x \<in> {vp_serverId v, vp_group v, vp_dataId v, vp_tenant v, rb_serverId r, rb_dataId r, rb_group r, n}. plain_value x"
  shows "(\<exists>url s. effects_of (vp_goList v) = [Push url] \<and> history_init (visit w url) = Inr s \<and>
      hs_dataId s = vp_dataId v \<and> hs_group s = vp_group v) \<and>
    (\<exists>url s. effects_of (rb_goList r) = [Push url] \<and> history_init (visit w url) = Inr s \<and>
      hs_dataId s = [] \<and> hs_group s = [])"
proof
  let ?m = "[(''serverId'', vp_serverId v), (''historyGroup'', vp_group v), (''historyDataId'', vp_dataId v),
      (''namespace'', vp_tenant v)]"
  let ?url = "link ''/historyRollback'' ?m"
  have k: "fst ` set ?m \<subseteq> set console_keys" "\<forall>x \<in> snd ` set ?m. plain_value x" "distinct (map fst ?m)"
    using assms(4) by (simp_all add: console_keys_def)
  have ok: "addr_ok (visit w ?url)"
      "\<And>k. k \<in> set console_keys \<Longrightarrow> addr_get (visit w ?url) k = map_of ?m k"
    using visit_link [OF assms(1) _ k(3,1,2), of "''/historyRollback''"] by simp_all
  have "addr_get (visit w ?url) ''historyDataId'' = Some (vp_dataId v)"
      "addr_get (visit w ?url) ''historyGroup'' = Some (vp_group v)"
    using ok(2) [of "''historyDataId''"] ok(2) [of "''historyGroup''"] by (simp_all add: console_keys_def)
  moreover have "effects_of (vp_goList v) = [Push ?url]"
    by (simp add: vp_goList_def emit_def link_def pair_text_def)
  ultimately show "\<exists>url s. effects_of (vp_goList v) = [Push url] \<and> history_init (visit w url) = Inr s \<and>
      hs_dataId s = vp_dataId v \<and> hs_group s = vp_group v"
    using history_init_ok [OF ok(1)] by fastforce
next
  let ?m = "[(''serverId'', rb_serverId r), (''dataId'', rb_dataId r), (''group'', rb_group r), (''namespace'', n)]"
  let ?url = "link ''/historyRollback'' ?m"
  have k: "fst ` set ?m \<subseteq> set console_keys" "\<forall>x \<in> snd ` set ?m. plain_value x" "distinct (map fst ?m)"
    using assms(4) by (simp_all add: console_keys_def)
  have ok: "addr_ok (visit w ?url)"
      "\<And>k. k \<in> set console_keys \<Longrightarrow> addr_get (visit w ?url) k = map_of ?m k"
    using visit_link [OF assms(1) _ k(3,1,2), of "''/historyRollback''"] by simp_all
  have "addr_get (visit w ?url) ''historyDataId'' = None" "addr_get (visit w ?url) ''historyGroup'' = None"
    using ok(2) [of "''historyDataId''"] ok(2) [of "''historyGroup''"] by (simp_all add: console_keys_def)
  moreover have "effects_of (rb_goList r) = [Push ?url]"
    using assms(2,3) by (simp add: rb_goList_def reading_ok page_keys emit_def generateUrl_link nullable_def)
  ultimately show "\<exists>url s. effects_of (rb_goList r) = [Push url] \<and> history_init (visit w url) = Inr s \<and>
      hs_dataId s = [] \<and> hs_group s = []"
    using history_init_ok [OF ok(1)] by fastforce
qed

definition sample_namespaced :: win where
  "sample_namespaced = addr_put sample_win ''namespace'' (Str ''dev'')"

lemma sample_namespaced_ok:
  "addr_ok sample_namespaced" "addr_get sample_namespaced ''namespace'' = Some ''dev''" "site_ok sample_win"
  using addr.put_invar [OF sample_win_ok page_keys(4)] addr.get_put [OF sample_win_ok page_keys(4) page_keys(4)]
    addr_ok_site [OF sample_win_ok]
  by (simp_all add: sample_namespaced_def)

theorem back_to_history_witness:
  "\<exists>url s. effects_of (rb_goList (sample_rollback\<lparr>rb_win := sample_namespaced\<rparr>)) = [Push url] \<and>
     history_init (visit sample_win url) = Inr s \<and> hs_dataId s = []"
proof -
  let ?r = "sample_rollback\<lparr>rb_win := sample_namespaced\<rparr>"
  let ?v = "\<lparr>vp_win = sample_win, vp_edasAppName = None, vp_dataId = ''d'', vp_group = ''g'', vp_serverId = ''center'',
      vp_nid = [], vp_tenant = ''dev'', vp_showmore = False, vp_field = []\<rparr>"
  have "\<forall>x \<in> {vp_serverId ?v, vp_group ?v, vp_dataId ?v, vp_tenant ?v, rb_serverId ?r, rb_dataId ?r, rb_group ?r, ''dev''}.
      plain_value x"
    by (simp add: sample_rollback_def uri_unreserved_def)
  with back_to_history [of sample_win ?r "''dev''" ?v] sample_namespaced_ok show ?thesis by fastforce
qed

text \<open>Picking another namespace on the list of versions clears the search and the address, but the
  versions asked for are still those of the data id and the group from before: the handler reads the
  state it has just asked React to clear.\<close>

theorem namespace_switch_asks_for_old_terms:
  assumes "addr_ok (hr_win s)" and "hs_dataId s \<noteq> []"
  shows "let (s1, e, x) = hr_cleanAndGetData True s in x = None \<and> hs_dataId s1 = [] \<and> hs_group s1 = [] \<and>
    addr_get (hr_win s1) ''historyDataId'' = Some [] \<and> addr_get (hr_win s1) ''historyGroup'' = Some [] \<and>
    e = [Ajax ''GET'' (''v1/cs/history?search=accurate&dataId='' @ hs_dataId s @ ''&group='' @ hs_group s @
           ''&&pageNo=1&pageSize='' @ nat_str (hs_pageSize s)) [],
         Ajax ''GET'' (''v1/cs/history/configs?tenant='' @ or_empty (addr_get (hr_win s) ''namespace'')) []]"
proof -
  have keys: "''historyGroup'' \<in> set console_keys" "''historyDataId'' \<in> set console_keys"
    by (simp_all add: console_keys_def)
  have put: "hr_put [(k, v)] t = (t\<lparr>hr_win := addr_put (hr_win t) k v\<rparr>, [], None)"
    if ok: "addr_ok (hr_win t)" and k: "k \<in> set console_keys" for k v t
  proof -
    obtain w' where "set_params (hr_win t) [(k, v)] = Inr w'"
      using set_params_console [OF ok, of "[(k, v)]"] k by auto
    moreover have "k \<noteq> []" using k console_keys_good by (auto simp: good_key_def)
    ultimately show ?thesis by (simp add: hr_put_def addr_put_def set_param_def)
  qed
  let ?w1 = "addr_put (hr_win s) ''historyGroup'' (Str [])"
  let ?w2 = "addr_put ?w1 ''historyDataId'' (Str [])"
  have w1: "addr_ok ?w1" by (rule addr.put_invar [OF assms(1) keys(1)])
  have w2: "addr_ok ?w2" by (rule addr.put_invar [OF w1 keys(2)])
  have g: "addr_get ?w2 ''historyDataId'' = Some []" "addr_get ?w2 ''historyGroup'' = Some []"
      "addr_get ?w2 ''namespace'' = addr_get (hr_win s) ''namespace''"
    using addr.get_put [OF w1 keys(2)] addr.get_put [OF assms(1) keys(1)] keys page_keys(4) by simp_all
  have one: "int_str 1 = ''1''" by code_simp
  show ?thesis
    using assms w1 w2 g keys
    by (simp add: hr_cleanAndGetData_def with_state_def put modify_def hr_load_def reading_ok page_keys
        hs_open_def emit_def getConfigList_def one)
qed

definition sample_history :: history_page where
  "sample_history = \<lparr>hr_win = sample_namespaced, hr_appName = [], hr_dataId = ''d'', hr_group = ''g'',
     hr_preDataId = ''d'', hr_preGroup = ''g'', hr_serverId = [], hr_tenant = [], hs_dataId = ''d'',
     hs_group = ''g'', hs_appName = [], hs_loading = False, hs_pageSize = 10, hs_currentPage = Num 1,
     hs_total = Num 0, hs_dataSource = Arr [], hs_dataIds = [], hs_groups = [],
     hs_namespace = (Undef, Undef, Undef)\<rparr>"

theorem namespace_switch_asks_for_old_terms_witness:
  "hs_dataId (state_of (hr_cleanAndGetData True sample_history)) = [] \<and>
   hd (effects_of (hr_cleanAndGetData True sample_history)) =
     Ajax ''GET'' (''v1/cs/history?search=accurate&dataId=d&group=g&&pageNo=1&pageSize='' @ nat_str 10) []"
proof -
  have "addr_ok (hr_win sample_history)" "hs_dataId sample_history \<noteq> []"
    by (simp_all add: sample_history_def sample_namespaced_ok)
  from namespace_switch_asks_for_old_terms [OF this] show ?thesis
    by (cases "hr_cleanAndGetData True sample_history") (simp add: sample_history_def)
qed

end
