(* ===== verification/Validate_Content.thy ===== *)
theory Validate_Content
  imports Js_Json
begin

text \<open>
  \<open>src/console-ui/src/utils/validateContent.js\<close>: the checks the editors run on a configuration
  before it is published.

  The properties checker is modelled as it is written: \<open>validateProperty\<close> with its two index loops,
  the escape scan, and the character machine of \<open>validateProperties\<close> with its eight variables.
  Three specifications stand beside it: \<open>split_kv\<close> and \<open>escapes_ok\<close> describe one property by
  recursion on its text, and \<open>spec_lines\<close> describes a file as a sequence of natural lines.  The YAML
  and TOML readers and the browser's XML parser are not part of the sources: they are arguments.
\<close>

definition is_sep :: "char \<Rightarrow> bool" where
  "is_sep c \<longleftrightarrow> c = CHR ''='' \<or> c = CHR '':''"

definition is_blank :: "char \<Rightarrow> bool" where
  "is_blank c \<longleftrightarrow> c = CHR '' '' \<or> c = CHR 0x09 \<or> c = CHR 0x0C"

abbreviation backslash :: char where "backslash \<equiv> CHR 0x5C"
abbreviation newline_char :: char where "newline_char \<equiv> CHR 0x0A"
abbreviation return_char :: char where "return_char \<equiv> CHR 0x0D"

section \<open>One property\<close>

text \<open>The loop over the key: the key's length, where the value starts, whether a separator was seen.\<close>

function parse_key :: "string \<Rightarrow> nat \<Rightarrow> bool \<Rightarrow> nat \<times> nat \<times> bool" where
  "parse_key p keyLen precedingBackslash =
     (if keyLen < length p then
        (let c = p ! keyLen in
         if is_sep c \<and> \<not> precedingBackslash then (keyLen, keyLen + 1, True)
         else if is_blank c \<and> \<not> precedingBackslash then (keyLen, keyLen + 1, False)
         else parse_key p (keyLen + 1)
                (if c = backslash then \<not> precedingBackslash else False))
      else (keyLen, length p, False))"
  by pat_completeness auto
termination
  by (relation "measure (\<lambda>(p, k, _). length p - k)") auto

text \<open>The loop over the blanks, and at most one separator, before the value.\<close>

function parse_value :: "string \<Rightarrow> nat \<Rightarrow> bool \<Rightarrow> nat" where
  "parse_value p valueStart hasSep =
     (if valueStart < length p then
        (let c = p ! valueStart in
         if \<not> is_blank c then
           (if \<not> hasSep \<and> is_sep c then parse_value p (valueStart + 1) True else valueStart)
         else parse_value p (valueStart + 1) hasSep)
      else valueStart)"
  by pat_completeness auto
termination
  by (relation "measure (\<lambda>(p, v, _). length p - v)") auto

text \<open>\<open>None\<close> is a read past the end, which the default of the parameter turns into the empty
  string, and every string includes that.\<close>

definition isPropertyEscape :: "char option \<Rightarrow> bool" where
  "isPropertyEscape c =
     (case c of
        None \<Rightarrow> True
      | Some x \<Rightarrow> x \<in> set (''abfnrt'' @ [backslash, CHR 0x22, CHR 0x27] @ ''0! #:=u''))"

definition unicode_ok :: "string \<Rightarrow> bool" where
  "unicode_ok s \<longleftrightarrow> length s = 4 \<and> list_all is_hex s"

function check_escapes :: "string \<Rightarrow> nat \<Rightarrow> bool" where
  "check_escapes p index =
     (if index < length p then
        (if p ! index \<noteq> backslash then check_escapes p (index + 1)
         else
           (let c = slot p (index + 1) in
            if \<not> isPropertyEscape c then False
            else if c = Some (CHR ''u'') then
              (if unicode_ok (take 4 (drop (index + 2) p)) then check_escapes p (index + 6)
               else False)
            else check_escapes p (index + 2)))
      else True)"
  by pat_completeness auto
termination
  by (relation "measure (\<lambda>(p, i). length p - i)") auto

declare parse_key.simps [simp del] parse_value.simps [simp del] check_escapes.simps [simp del]

definition validateKeyOrValueForProperty :: "string \<Rightarrow> nat \<Rightarrow> nat \<Rightarrow> bool" where
  "validateKeyOrValueForProperty p start stop =
     (if start \<ge> stop then False else check_escapes p 0)"

definition validateProperty :: "string \<Rightarrow> bool" where
  "validateProperty p =
     (case parse_key p 0 False of
        (keyLen, valueStart, hasSep) \<Rightarrow>
          (let valueStart = parse_value p valueStart hasSep in
           validateKeyOrValueForProperty p 0 keyLen
           \<and> validateKeyOrValueForProperty p valueStart (length p)))"

section \<open>The properties checker\<close>

record pstate =
  isNewLine :: bool
  isCommentLine :: bool
  isSkipWhiteSpace :: bool
  precedingBackslash :: bool
  appendedLineBegin :: bool
  skipLF :: bool
  hasProperty :: bool
  property :: string

definition pinit :: pstate where
  "pinit = \<lparr>isNewLine = True, isCommentLine = False, isSkipWhiteSpace = True,
     precedingBackslash = False, appendedLineBegin = False, skipLF = False,
     hasProperty = False, property = []\<rparr>"

definition is_newline :: "char \<Rightarrow> bool" where
  "is_newline c \<longleftrightarrow> c = newline_char \<or> c = return_char"

text \<open>
  The body of the loop, in three parts, each ended by a \<open>continue\<close> of the source.  \<open>None\<close> is
  \<open>return false\<close>.
\<close>

definition end_of_line :: "pstate \<Rightarrow> char \<Rightarrow> pstate option" where
  "end_of_line s c =
     (if isCommentLine s \<or> property s = [] then
        Some (s\<lparr>isNewLine := True, isCommentLine := False, isSkipWhiteSpace := True,
                property := []\<rparr>)
      else if precedingBackslash s then
        Some (s\<lparr>property := butlast (property s), precedingBackslash := False,
                isSkipWhiteSpace := True, appendedLineBegin := True,
                skipLF := (if c = return_char then True else skipLF s)\<rparr>)
      else if \<not> validateProperty (property s) then None
      else Some (s\<lparr>hasProperty := True, property := [], isNewLine := True,
                   isSkipWhiteSpace := True\<rparr>))"

definition in_line :: "pstate \<Rightarrow> char \<Rightarrow> pstate option" where
  "in_line s c =
     (if isNewLine s \<and> (c = CHR ''#'' \<or> c = CHR ''!'') then
        Some (s\<lparr>isNewLine := False, isCommentLine := True\<rparr>)
      else
        (let s = s\<lparr>isNewLine := False\<rparr> in
         if \<not> is_newline c then
           Some (s\<lparr>property := property s @ [c],
                   precedingBackslash := (if c = backslash then \<not> precedingBackslash s else False)\<rparr>)
         else end_of_line s c))"

definition pstep :: "pstate \<Rightarrow> char \<Rightarrow> pstate option" where
  "pstep s c =
     (if skipLF s \<and> c = newline_char then Some (s\<lparr>skipLF := False\<rparr>)
      else
        (let s = s\<lparr>skipLF := False\<rparr> in
         if isSkipWhiteSpace s \<and> is_blank c then Some s
         else if isSkipWhiteSpace s \<and> \<not> appendedLineBegin s \<and> is_newline c then Some s
         else if isSkipWhiteSpace s then
           in_line (s\<lparr>appendedLineBegin := False, isSkipWhiteSpace := False\<rparr>) c
         else in_line s c))"

fun ploop :: "pstate \<Rightarrow> string \<Rightarrow> pstate option" where
  "ploop s [] = Some s"
| "ploop s (c # cs) = (case pstep s c of None \<Rightarrow> None | Some s' \<Rightarrow> ploop s' cs)"

definition pfinish :: "pstate \<Rightarrow> bool" where
  "pfinish s = (if property s \<noteq> [] \<and> \<not> isCommentLine s then validateProperty (property s)
                else hasProperty s)"

definition validateProperties :: "string \<Rightarrow> bool" where
  "validateProperties str = (case ploop pinit str of None \<Rightarrow> False | Some s \<Rightarrow> pfinish s)"

section \<open>The other checkers and their dispatch\<close>

definition validateJson :: "string \<Rightarrow> jsval" where
  "validateJson str = (case json_parse str of None \<Rightarrow> Bool False | Some v \<Rightarrow> Bool (truthy v))"

text \<open>The browser's XML parser: the number of \<open>parsererror\<close> elements of the parsed document, or an
  exception; on an old browser only the ActiveX loader, whose document is returned.\<close>

datatype xml_env =
    DomParser "string \<Rightarrow> nat option"
  | ActiveX "string \<Rightarrow> jsval option"
  | NoXmlParser

definition validateXml :: "xml_env \<Rightarrow> string \<Rightarrow> jsval" where
  "validateXml env str =
     (case env of
        DomParser f \<Rightarrow> (case f str of None \<Rightarrow> Bool False | Some n \<Rightarrow> Bool (n = 0))
      | ActiveX f \<Rightarrow> (case f str of None \<Rightarrow> Bool False | Some x \<Rightarrow> x)
      | NoXmlParser \<Rightarrow> Undef)"

definition validateYaml :: "(string \<Rightarrow> jsval option) \<Rightarrow> string \<Rightarrow> jsval" where
  "validateYaml load str = (case load str of None \<Rightarrow> Bool False | Some v \<Rightarrow> v)"

fun crlf_to_lf :: "string \<Rightarrow> string" where
  "crlf_to_lf (c # d # s) =
     (if c = return_char \<and> d = newline_char then newline_char # crlf_to_lf s
      else c # crlf_to_lf (d # s))"
| "crlf_to_lf s = s"

definition validateToml :: "(string \<Rightarrow> jsval option) \<Rightarrow> string \<Rightarrow> jsval" where
  "validateToml parse str =
     (case parse (crlf_to_lf str) of None \<Rightarrow> Bool False | Some v \<Rightarrow> v)"

record checkers =
  ck_xml :: xml_env
  ck_yaml :: "string \<Rightarrow> jsval option"
  ck_toml :: "string \<Rightarrow> jsval option"

definition validate :: "checkers \<Rightarrow> string \<Rightarrow> string \<Rightarrow> jsval" where
  "validate ck type content =
     (case map_of
        [(''json'', validateJson), (''xml'', validateXml (ck_xml ck)),
         (''text/html'', validateXml (ck_xml ck)), (''html'', validateXml (ck_xml ck)),
         (''properties'', \<lambda>s. Bool (validateProperties s)),
         (''yaml'', validateYaml (ck_yaml ck)), (''toml'', validateToml (ck_toml ck))] type of
        None \<Rightarrow> Bool True
      | Some f \<Rightarrow> f content)"

section \<open>A property as a key and a value\<close>

text \<open>The split of a property's text, by recursion on the text.\<close>

fun split_key :: "bool \<Rightarrow> string \<Rightarrow> string \<times> string \<times> bool" where
  "split_key pb [] = ([], [], False)"
| "split_key pb (c # s) =
     (if is_sep c \<and> \<not> pb then ([], s, True)
      else if is_blank c \<and> \<not> pb then ([], s, False)
      else (case split_key (c = backslash \<and> \<not> pb) s of (k, r, b) \<Rightarrow> (c # k, r, b)))"

fun value_of :: "bool \<Rightarrow> string \<Rightarrow> string" where
  "value_of sep [] = []"
| "value_of sep (c # s) =
     (if is_blank c then value_of sep s
      else if \<not> sep \<and> is_sep c then value_of True s
      else c # s)"

definition split_kv :: "string \<Rightarrow> string \<times> string" where
  "split_kv p = (case split_key False p of (k, r, sep) \<Rightarrow> (k, value_of sep r))"

text \<open>Well-formed escapes: a backslash is followed by nothing, by one of the listed characters, or by
  a \<open>u\<close> and four hexadecimal digits.\<close>

fun escapes_ok :: "string \<Rightarrow> bool" where
  "escapes_ok [] = True"
| "escapes_ok [c] = True"
| "escapes_ok (c # d # s) =
     (if c \<noteq> backslash then escapes_ok (d # s)
      else isPropertyEscape (Some d) \<and>
           (if d = CHR ''u'' then unicode_ok (take 4 s) \<and> escapes_ok (drop 4 s)
            else escapes_ok s))"

lemma check_escapes_drop: "check_escapes p i = escapes_ok (drop i p)"
proof (induction p i rule: check_escapes.induct)
  case (1 p i)
  show ?case
  proof (cases "i < length p")
    case False
    then show ?thesis by (simp add: check_escapes.simps [of p i])
  next
    case True
    then have d: "drop i p = p ! i # drop (Suc i) p" by (simp add: Cons_nth_drop_Suc)
    show ?thesis
    proof (cases "Suc i < length p")
      case False
      then have "drop (Suc i) p = []" by simp
      with d True show ?thesis
        by (subst check_escapes.simps) (simp add: "1.IH" check_escapes.simps slot_nth isPropertyEscape_def)
    next
      case two: True
      then have d2: "drop (Suc i) p = p ! Suc i # drop (Suc (Suc i)) p"
        by (simp add: Cons_nth_drop_Suc)
      have sl: "slot p (Suc i) = Some (p ! Suc i)" using two by (simp add: slot_nth)
      have six: "drop (i + 6) p = drop 4 (drop (Suc (Suc i)) p)" by (simp add: add.commute)
      show ?thesis
        by (subst check_escapes.simps)
          (use True d d2 sl six "1.IH" in \<open>auto simp: Let_def\<close>)
    qed
  qed
qed

lemma parse_value_drop: "v \<le> length p \<Longrightarrow> parse_value p v sep \<le> length p \<and>
    drop (parse_value p v sep) p = value_of sep (drop v p)"
proof (induction p v sep rule: parse_value.induct)
  case (1 p v sep)
  show ?case
  proof (cases "v < length p")
    case False
    then show ?thesis using "1.prems" by (simp add: parse_value.simps)
  next
    case True
    then have d: "drop v p = p ! v # drop (Suc v) p" by (simp add: Cons_nth_drop_Suc)
    show ?thesis
      by (subst (1 2) parse_value.simps) (use True d "1.IH" in \<open>auto simp: Let_def\<close>)
  qed
qed

lemma parse_key_drop:
  "k \<le> length p \<Longrightarrow> parse_key p k pb = (n, v, sep) \<Longrightarrow>
   k \<le> n \<and> v \<le> length p \<and> n \<le> length p \<and>
   split_key pb (drop k p) = (take (n - k) (drop k p), drop v p, sep)"
proof (induction p k pb rule: parse_key.induct)
  case (1 p k pb)
  show ?case
  proof (cases "k < length p")
    case False
    then show ?thesis using "1.prems" by (simp add: parse_key.simps)
  next
    case True
    then have d: "drop k p = p ! k # drop (Suc k) p" by (simp add: Cons_nth_drop_Suc)
    consider (sep) "is_sep (p ! k)" "\<not> pb" | (blank) "\<not> is_sep (p ! k)" "is_blank (p ! k)" "\<not> pb"
      | (rest) "\<not> ((is_sep (p ! k) \<or> is_blank (p ! k)) \<and> \<not> pb)" by blast
    then show ?thesis
    proof cases
      case sep
      with True "1.prems" d show ?thesis by (auto simp: parse_key.simps [of p k])
    next
      case blank
      with True "1.prems" d show ?thesis by (auto simp: parse_key.simps [of p k])
    next
      case rest
      let ?pb = "if p ! k = backslash then \<not> pb else False"
      have eq: "parse_key p (k + 1) ?pb = (n, v, sep)"
        using True rest "1.prems"(2) by (subst (asm) parse_key.simps) (auto simp: Let_def)
      have IH: "k + 1 \<le> n \<and> v \<le> length p \<and> n \<le> length p \<and>
          split_key ?pb (drop (k + 1) p) = (take (n - (k + 1)) (drop (k + 1) p), drop v p, sep)"
        by (rule "1.IH" [OF True refl _ _ _ eq]) (use True rest in auto)
      have pb: "?pb = (p ! k = backslash \<and> \<not> pb)" by simp
      have "k + 1 \<le> n" using IH by blast
      then have "n - k = Suc (n - (k + 1))" by simp
      with IH rest show ?thesis unfolding pb by (auto simp: d)
    qed
  qed
qed

lemma validateProperty_eq:
  "validateProperty p \<longleftrightarrow> fst (split_kv p) \<noteq> [] \<and> snd (split_kv p) \<noteq> [] \<and> escapes_ok p"
proof -
  obtain n v sep where k: "parse_key p 0 False = (n, v, sep)" by (cases "parse_key p 0 False")
  have sk: "v \<le> length p" "n \<le> length p" "split_key False p = (take n p, drop v p, sep)"
    using parse_key_drop [OF _ k] by simp_all
  let ?w = "parse_value p v sep"
  have w: "?w \<le> length p" "drop ?w p = value_of sep (drop v p)"
    using parse_value_drop [OF sk(1)] by blast+
  have "length p \<le> ?w \<longleftrightarrow> value_of sep (drop v p) = []"
    using w(2) by (metis drop_eq_Nil)
  moreover have "n \<le> 0 \<longleftrightarrow> take n p = []" using sk(2) by auto
  ultimately show ?thesis
    by (auto simp: validateProperty_def validateKeyOrValueForProperty_def k split_kv_def sk(3)
        check_escapes_drop)
qed

section \<open>A file as a sequence of natural lines\<close>

text \<open>
  Between two natural lines the checker is either at the start of a logical line, or in the middle of
  one that earlier lines have begun.  The flag of the first state is what the backslash flag was left
  at by a comment: comments toggle it too and nothing resets it at their end.
\<close>

datatype lstate = Fresh bool | Cont string

definition after_backslashes :: "bool \<Rightarrow> string \<Rightarrow> bool" where
  "after_backslashes pb t = foldl (\<lambda>b c. if c = backslash then \<not> b else False) pb t"

definition line_text :: "string \<Rightarrow> string" where
  "line_text l = dropWhile is_blank l"

definition is_comment :: "string \<Rightarrow> bool" where
  "is_comment t \<longleftrightarrow> t \<noteq> [] \<and> (hd t = CHR ''#'' \<or> hd t = CHR ''!'')"

definition end_logical :: "string \<Rightarrow> (lstate \<times> bool) option" where
  "end_logical t = (if validateProperty t then Some (Fresh False, True) else None)"

fun line_step :: "lstate \<Rightarrow> bool \<Rightarrow> string \<Rightarrow> (lstate \<times> bool) option" where
  "line_step (Fresh pb) has l =
     (let t = line_text l in
      if t = [] then Some (Fresh pb, has)
      else if is_comment t then Some (Fresh (after_backslashes pb (tl t)), has)
      else if after_backslashes pb t then Some (Cont (butlast t), has)
      else end_logical t)"
| "line_step (Cont acc) has l =
     (let t = acc @ line_text l in
      if t = [] then Some (Fresh False, has)
      else if after_backslashes False (line_text l) then Some (Cont (butlast t), has)
      else end_logical t)"

fun last_line :: "lstate \<Rightarrow> bool \<Rightarrow> string \<Rightarrow> bool" where
  "last_line (Fresh pb) has l =
     (let t = line_text l in if t = [] \<or> is_comment t then has else validateProperty t)"
| "last_line (Cont acc) has l =
     (let t = acc @ line_text l in if t = [] then has else validateProperty t)"

fun spec_lines :: "lstate \<Rightarrow> bool \<Rightarrow> string list \<Rightarrow> bool" where
  "spec_lines st has [] = has"
| "spec_lines st has [l] = last_line st has l"
| "spec_lines st has (l # ls) =
     (case line_step st has l of None \<Rightarrow> False | Some (st', has') \<Rightarrow> spec_lines st' has' ls)"

fun concrete :: "lstate \<Rightarrow> bool \<Rightarrow> pstate" where
  "concrete (Fresh pb) has =
     \<lparr>isNewLine = True, isCommentLine = False, isSkipWhiteSpace = True, precedingBackslash = pb,
      appendedLineBegin = False, skipLF = False, hasProperty = has, property = []\<rparr>"
| "concrete (Cont acc) has =
     \<lparr>isNewLine = False, isCommentLine = False, isSkipWhiteSpace = True,
      precedingBackslash = False, appendedLineBegin = True, skipLF = False, hasProperty = has,
      property = acc\<rparr>"

definition one_line :: "string \<Rightarrow> bool" where
  "one_line l \<longleftrightarrow> newline_char \<notin> set l \<and> return_char \<notin> set l"

lemma ploop_append:
  "ploop s (a @ b) = (case ploop s a of None \<Rightarrow> None | Some s' \<Rightarrow> ploop s' b)"
  by (induction s a rule: ploop.induct) (auto split: option.splits)

lemma blank_not_newline: "is_blank c \<Longrightarrow> \<not> is_newline c"
  by (auto simp: is_blank_def is_newline_def)

lemma ploop_skip_blanks:
  assumes "isSkipWhiteSpace s" and "\<not> skipLF s"
  shows "ploop s l = ploop s (line_text l)"
proof (induction l)
  case Nil
  then show ?case by (simp add: line_text_def)
next
  case (Cons c l)
  have "s\<lparr>skipLF := False\<rparr> = s" using assms(2) by (cases s) simp
  then have "is_blank c \<Longrightarrow> pstep s c = Some s"
    using assms by (simp add: pstep_def)
  with Cons show ?case by (simp add: line_text_def)
qed

text \<open>Inside a line, past its leading blanks and its first character, text is only collected.\<close>

definition inside :: "pstate \<Rightarrow> bool" where
  "inside s \<longleftrightarrow> \<not> isSkipWhiteSpace s \<and> \<not> isNewLine s \<and> \<not> skipLF s"

lemma pstep_inside:
  assumes "inside s" and "\<not> is_newline c"
  shows "pstep s c = Some (s\<lparr>property := property s @ [c],
           precedingBackslash := after_backslashes (precedingBackslash s) [c]\<rparr>)"
proof -
  have "s\<lparr>skipLF := False, isNewLine := False\<rparr> = s"
    using assms(1) by (cases s) (simp add: inside_def)
  then show ?thesis
    using assms by (cases s) (simp add: inside_def pstep_def in_line_def after_backslashes_def)
qed

lemma ploop_inside:
  assumes "inside s" and "one_line t"
  shows "ploop s t = Some (s\<lparr>property := property s @ t,
           precedingBackslash := after_backslashes (precedingBackslash s) t\<rparr>)"
  using assms
proof (induction t arbitrary: s)
  case Nil
  then show ?case by (simp add: after_backslashes_def)
next
  case (Cons c t)
  let ?s = "s\<lparr>property := property s @ [c],
    precedingBackslash := after_backslashes (precedingBackslash s) [c]\<rparr>"
  from Cons.prems have "\<not> is_newline c" "one_line t" by (auto simp: one_line_def is_newline_def)
  moreover have "inside ?s" using Cons.prems(1) by (simp add: inside_def)
  ultimately show ?case
    using pstep_inside [OF Cons.prems(1)] Cons.IH [of ?s]
    by (simp add: after_backslashes_def)
qed

lemma pstep_newline_inside:
  assumes "inside s"
  shows "pstep s newline_char = end_of_line s newline_char"
proof -
  have "s\<lparr>skipLF := False, isNewLine := False\<rparr> = s"
    using assms by (cases s) (simp add: inside_def)
  then show ?thesis
    using assms by (cases s) (simp add: inside_def pstep_def in_line_def is_newline_def)
qed

lemma line_text_first: "line_text l = c # t \<Longrightarrow> \<not> is_blank c"
  unfolding line_text_def by (metis hd_dropWhile list.distinct(1) list.sel(1))

lemma one_line_text: "one_line l \<Longrightarrow> one_line (line_text l)"
  unfolding one_line_def line_text_def by (meson set_dropWhileD)

text \<open>The state after the first character of a non-empty line text, in each of the three cases.\<close>

lemma pstep_first_fresh:
  assumes "\<not> is_blank c" and "\<not> is_newline c"
  shows "pstep (concrete (Fresh pb) has) c =
    Some (if is_comment [c]
          then concrete (Fresh pb) has\<lparr>isNewLine := False, isCommentLine := True, isSkipWhiteSpace := False\<rparr>
          else concrete (Fresh pb) has\<lparr>isNewLine := False, isSkipWhiteSpace := False, property := [c],
                 precedingBackslash := after_backslashes pb [c]\<rparr>)"
  using assms by (auto simp: pstep_def in_line_def is_comment_def after_backslashes_def)

lemma pstep_first_cont:
  assumes "\<not> is_blank c" and "\<not> is_newline c"
  shows "pstep (concrete (Cont acc) has) c =
    Some (concrete (Cont acc) has\<lparr>isSkipWhiteSpace := False, appendedLineBegin := False,
            property := acc @ [c], precedingBackslash := after_backslashes False [c]\<rparr>)"
  using assms by (auto simp: pstep_def in_line_def after_backslashes_def)

definition mid :: "lstate \<Rightarrow> bool \<Rightarrow> string \<Rightarrow> pstate" where
  "mid st has t =
     (case st of
        Fresh pb \<Rightarrow>
          if is_comment t
          then concrete (Fresh pb) has\<lparr>isNewLine := False, isCommentLine := True,
                 isSkipWhiteSpace := False, property := tl t,
                 precedingBackslash := after_backslashes pb (tl t)\<rparr>
          else concrete (Fresh pb) has\<lparr>isNewLine := False, isSkipWhiteSpace := False,
                 property := t, precedingBackslash := after_backslashes pb t\<rparr>
      | Cont acc \<Rightarrow>
          concrete (Cont acc) has\<lparr>isSkipWhiteSpace := False, appendedLineBegin := False,
            property := acc @ t, precedingBackslash := after_backslashes False t\<rparr>)"

lemma ploop_line:
  assumes "one_line l" and "line_text l \<noteq> []"
  shows "ploop (concrete st has) l = Some (mid st has (line_text l))"
proof -
  obtain c t where t: "line_text l = c # t" using assms(2) by (cases "line_text l") auto
  have c: "\<not> is_blank c" by (rule line_text_first [OF t])
  have ol: "one_line (c # t)" using one_line_text [OF assms(1)] t by simp
  then have nl: "\<not> is_newline c" and ot: "one_line t"
    by (auto simp: one_line_def is_newline_def)
  have "isSkipWhiteSpace (concrete st has)" "\<not> skipLF (concrete st has)"
    by (cases st; simp)+
  then have skip: "ploop (concrete st has) l = ploop (concrete st has) (c # t)"
    using ploop_skip_blanks t by metis
  show ?thesis
  proof (cases st)
    case (Fresh pb)
    show ?thesis
      unfolding skip unfolding Fresh ploop.simps pstep_first_fresh [OF c nl] option.case t
      by (use ot in \<open>auto simp: ploop_inside inside_def mid_def is_comment_def after_backslashes_def\<close>)
  next
    case (Cont acc)
    show ?thesis
      unfolding skip unfolding Cont ploop.simps pstep_first_cont [OF c nl] option.case t
      by (use ot in \<open>simp add: ploop_inside inside_def mid_def after_backslashes_def\<close>)
  qed
qed

lemma ploop_blank_line:
  assumes "line_text l = []"
  shows "ploop (concrete st has) l = Some (concrete st has)"
proof -
  have "isSkipWhiteSpace (concrete st has)" "\<not> skipLF (concrete st has)"
    by (cases st; simp)+
  then show ?thesis using ploop_skip_blanks [of "concrete st has" l] assms by simp
qed

lemma ploop_natural_line:
  assumes "one_line l"
  shows "ploop (concrete st has) (l @ [newline_char])
    = (case line_step st has l of None \<Rightarrow> None | Some (st', has') \<Rightarrow> Some (concrete st' has'))"
proof (cases "line_text l = []")
  case True
  show ?thesis
    unfolding ploop_append ploop_blank_line [OF True] option.case
    by (cases st)
      (auto simp: True pstep_def in_line_def end_of_line_def is_newline_def is_blank_def
        end_logical_def after_backslashes_def)
next
  case False
  have ins: "inside (mid st has (line_text l))"
    by (cases st) (simp_all add: mid_def inside_def)
  have "ploop (concrete st has) (l @ [newline_char])
      = end_of_line (mid st has (line_text l)) newline_char"
    unfolding ploop_append ploop_line [OF assms False] option.case
    by (simp add: pstep_newline_inside [OF ins] split: option.split)
  then show ?thesis
    by (cases st) (use False in \<open>auto simp: end_of_line_def mid_def end_logical_def\<close>)
qed

lemma pfinish_line:
  assumes "one_line l"
  shows "\<exists>s. ploop (concrete st has) l = Some s \<and> pfinish s = last_line st has l"
proof (cases "line_text l = []")
  case True
  show ?thesis
    unfolding ploop_blank_line [OF True] by (cases st) (simp_all add: True pfinish_def)
next
  case False
  then show ?thesis
    unfolding ploop_line [OF assms False] by (cases st) (simp_all add: pfinish_def mid_def)
qed

lemma spec_lines_loop:
  assumes "\<forall>l \<in> set ls. one_line l" and "ls \<noteq> []"
  shows "(case ploop (concrete st has) (js_join [newline_char] ls) of
      None \<Rightarrow> False | Some s \<Rightarrow> pfinish s) = spec_lines st has ls"
  using assms
proof (induction st has ls rule: spec_lines.induct)
  case (1 st has)
  then show ?case by simp
next
  case (2 st has l)
  then show ?case using pfinish_line [of l st has] by auto
next
  case (3 st has l l2 ls)
  have "ploop (concrete st has) (js_join [newline_char] (l # l2 # ls))
      = ploop (concrete st has) ((l @ [newline_char]) @ js_join [newline_char] (l2 # ls))"
    by simp
  also have "\<dots> = (case line_step st has l of None \<Rightarrow> None
      | Some (st', has') \<Rightarrow> ploop (concrete st' has') (js_join [newline_char] (l2 # ls)))"
    using ploop_natural_line [of l st has] "3.prems"(1)
    unfolding ploop_append by (auto split: option.splits)
  finally show ?case using "3.IH" "3.prems"(1) by (auto split: option.splits)
qed

section \<open>Line ends\<close>

definition lf_to_crlf :: "string \<Rightarrow> string" where
  "lf_to_crlf s = concat (map (\<lambda>c. if c = newline_char then [return_char, newline_char] else [c]) s)"

definition pinv :: "pstate \<Rightarrow> bool" where
  "pinv s \<longleftrightarrow> \<not> skipLF s \<and> (appendedLineBegin s \<longrightarrow> isSkipWhiteSpace s)"

lemma pstep_pinv:
  assumes "pinv s" and "pstep s c = Some t" and "c \<noteq> return_char"
  shows "pinv t"
  using assms
  by (auto simp: pinv_def pstep_def in_line_def end_of_line_def Let_def split: if_splits)

lemma pstep_crlf:
  assumes "pinv s"
  shows "(case pstep s return_char of None \<Rightarrow> None | Some u \<Rightarrow> pstep u newline_char)
    = pstep s newline_char"
proof (cases s)
  case (fields nl cm sk pb ap lf has p)
  with assms show ?thesis
    by (cases sk; cases ap; cases cm; cases "p = []"; cases pb; cases nl)
      (auto simp: pinv_def pstep_def in_line_def end_of_line_def is_newline_def is_blank_def)
qed

lemma ploop_crlf:
  "pinv s \<Longrightarrow> return_char \<notin> set str \<Longrightarrow> ploop s (lf_to_crlf str) = ploop s str"
proof (induction str arbitrary: s)
  case Nil
  then show ?case by (simp add: lf_to_crlf_def)
next
  case (Cons c str)
  then have c: "c \<noteq> return_char" and str: "return_char \<notin> set str" by auto
  have tail: "ploop t (lf_to_crlf str) = ploop t str" if "pstep s c = Some t" for t
    using Cons.IH [OF pstep_pinv [OF Cons.prems(1) that c] str] .
  show ?case
  proof (cases "c = newline_char")
    case True
    have "ploop s (lf_to_crlf (c # str))
        = (case (case pstep s return_char of None \<Rightarrow> None | Some u \<Rightarrow> pstep u newline_char) of
             None \<Rightarrow> None | Some t \<Rightarrow> ploop t (lf_to_crlf str))"
      by (simp add: True lf_to_crlf_def split: option.split)
    also have "\<dots> = ploop s (c # str)"
      unfolding pstep_crlf [OF Cons.prems(1)] using tail True by (simp split: option.split)
    finally show ?thesis .
  next
    case False
    then have "lf_to_crlf (c # str) = c # lf_to_crlf str" by (simp add: lf_to_crlf_def)
    with tail show ?thesis by (simp split: option.split)
  qed
qed

lemma validateProperties_by_lines:
  assumes "return_char \<notin> set str"
  shows "validateProperties str = spec_lines (Fresh False) False (split_on newline_char str)"
proof -
  have "\<forall>l \<in> set (split_on newline_char str). one_line l"
  proof
    fix l assume l: "l \<in> set (split_on newline_char str)"
    show "one_line l"
      using assms split_on_pieces [OF l] split_on_subset [OF l] by (auto simp: one_line_def)
  qed
  from spec_lines_loop [OF this, of "Fresh False" False]
  show ?thesis by (simp add: validateProperties_def join_split pinit_def)
qed

section \<open>Properties\<close>

text \<open>The index loops of the per-property check, with their shared cursor variables, accept a
  property exactly when its text splits into a non-empty key and a non-empty value and every
  backslash in it starts a well-formed escape.\<close>

theorem validateProperty_spec:
  "validateProperty p \<longleftrightarrow> fst (split_kv p) \<noteq> [] \<and> snd (split_kv p) \<noteq> [] \<and> escapes_ok p"
  by (rule validateProperty_eq)

text \<open>C1. The eight-variable character machine of the properties checker is the line-wise reading of
  the file: blank lines and comments are skipped, a line that ends in an odd number of backslashes
  goes on in the next one, every other line must be a valid property, and the file must hold one.\<close>

theorem validateProperties_spec:
  assumes "return_char \<notin> set str"
  shows "validateProperties str = spec_lines (Fresh False) False (split_on newline_char str)"
  by (rule validateProperties_by_lines [OF assms])

theorem validateProperties_spec_witness:
  "validateProperties (''# c'' @ [newline_char] @ ''a = 1'' @ [backslash, newline_char] @ ''  2'')
   \<and> spec_lines (Fresh False) False [''# c'', ''a = 1'' @ [backslash], ''  2'']"
proof -
  let ?s = "''# c'' @ [newline_char] @ ''a = 1'' @ [backslash, newline_char] @ ''  2''"
  have "return_char \<notin> set ?s" by simp
  note eq = validateProperties_spec [OF this]
  have "split_on newline_char ?s = [''# c'', ''a = 1'' @ [backslash], ''  2'']" by code_simp
  moreover have "spec_lines (Fresh False) False [''# c'', ''a = 1'' @ [backslash], ''  2'']"
    by code_simp
  ultimately show ?thesis using eq by simp
qed

text \<open>C30. The verdict does not depend on the line ends of the file: writing every line feed as a
  carriage return and a line feed changes nothing.\<close>

theorem validateProperties_crlf:
  assumes "return_char \<notin> set str"
  shows "validateProperties (lf_to_crlf str) = validateProperties str"
  unfolding validateProperties_def
  using ploop_crlf [OF _ assms, of pinit] by (simp add: pinv_def pinit_def)

theorem validateProperties_crlf_witness:
  "return_char \<notin> set (''a=1'' @ [newline_char] @ ''b:2'')
   \<and> validateProperties (lf_to_crlf (''a=1'' @ [newline_char] @ ''b:2''))
   \<and> lf_to_crlf (''a=1'' @ [newline_char] @ ''b:2'') = ''a=1'' @ [return_char, newline_char] @ ''b:2''"
proof -
  let ?s = "''a=1'' @ [newline_char] @ ''b:2''"
  have r: "return_char \<notin> set ?s" by simp
  moreover have "validateProperties ?s" by code_simp
  ultimately show ?thesis
    using validateProperties_crlf [OF r] by (simp add: lf_to_crlf_def)
qed

text \<open>A comment line that does not end in an odd number of backslashes can be removed from the
  top of a file without changing the verdict.\<close>

theorem comment_line_neutral:
  assumes "one_line l" and "is_comment (line_text l)" and "\<not> after_backslashes False (tl (line_text l))"
  shows "validateProperties (l @ newline_char # str) = validateProperties str"
proof -
  have "line_step (Fresh False) False l = Some (Fresh False, False)"
    using assms(2,3) by (auto simp: Let_def is_comment_def)
  then have "ploop pinit (l @ [newline_char]) = Some pinit"
    using ploop_natural_line [OF assms(1), of "Fresh False" False] by (simp add: pinit_def)
  then have "ploop pinit ((l @ [newline_char]) @ str) = ploop pinit str"
    unfolding ploop_append by simp
  then show ?thesis by (simp add: validateProperties_def)
qed

theorem comment_line_neutral_witness:
  "validateProperties (''  # note'' @ newline_char # ''a=1'') = validateProperties ''a=1''
   \<and> validateProperties ''a=1''"
  using comment_line_neutral [of "''  # note''" "''a=1''"]
  by (simp add: one_line_def is_comment_def line_text_def is_blank_def after_backslashes_def)
    code_simp

text \<open>A comment that does end in a backslash changes the reading of a line of backslashes below it:
  the flag that comments toggle is not reset at their end.\<close>

lemma comment_backslash_leaks:
  "\<not> validateProperties (''#'' @ [backslash, newline_char, backslash, newline_char] @ ''a=1'')
   \<and> validateProperties (''#'' @ [newline_char, backslash, newline_char] @ ''a=1'')"
  by code_simp

text \<open>The JSON check tests the truth of the parsed value, not whether the text parses: a text is
  accepted exactly when it is JSON and its value is neither zero, false, null nor the empty string.\<close>

theorem validateJson_spec:
  "truthy (validateJson str) \<longleftrightarrow> (\<exists>v. json_parse str = Some v \<and> truthy v)"
  by (auto simp: validateJson_def split: option.splits)

lemma validateJson_falsy: "json_parse ''0'' = Some (Num 0) \<and> \<not> truthy (validateJson ''0'')"
  by code_simp

text \<open>The dispatch: the types without a checker (plain text among them) accept everything, both
  HTML names run the XML check, and the properties type runs the character machine.\<close>

theorem validate_dispatch:
  "truthy (validate ck type content) =
     (if type = ''json'' then \<exists>v. json_parse content = Some v \<and> truthy v
      else if type \<in> {''xml'', ''html'', ''text/html''} then truthy (validateXml (ck_xml ck) content)
      else if type = ''properties'' then validateProperties content
      else if type = ''yaml'' then truthy (validateYaml (ck_yaml ck) content)
      else if type = ''toml'' then truthy (validateToml (ck_toml ck) content)
      else True)"
  by (auto simp: validate_def validateJson_def split: option.splits)

end
