(* ===== verification/Config_Detail.thy ===== *)
theory Config_Detail
  imports Navigation Validate_Content
begin

text \<open>
  The page that shows one configuration,
  \<open>src/console-ui/src/pages/ConfigurationManagement/ConfigDetail/ConfigDetail.js\<close>, and the way from the list
  to it and back.  The record holds the properties of the instance, its state, the values of the form
  field and the text in the monaco editor (\<open>None\<close> before there is an editor).
\<close>

record detail_page =
  cd_win :: win
  cd_dataId :: string
  cd_group :: string
  cd_tenant :: string
  cd_searchDataId :: string
  cd_searchGroup :: string
  cd_pageSize :: "string option"
  cd_pageNo :: "string option"
  cd_serverId :: string
  cd_edasAppName :: string
  cd_valueMap :: slice
  cd_field :: slice
  cd_editor :: "string option"
  ds_loading :: bool
  ds_showmore :: bool
  ds_activeKey :: string
  ds_ips :: jsval
  ds_switchEncrypt :: bool
  ds_tag :: "jsval list"
  ds_editorClass :: string
  ds_configCompareVisible :: bool


definition cd_open :: "detail_page stmt" where
  "cd_open = modify (\<lambda>s. s\<lparr>ds_loading := True\<rparr>)"

definition cd_close :: "detail_page stmt" where
  "cd_close = modify (\<lambda>s. s\<lparr>ds_loading := False\<rparr>)"

definition initData :: "(string \<Rightarrow> string) \<Rightarrow> detail_page stmt" where
  "initData tx = block
     [modify (\<lambda>s. if starts_with ''cipher-'' (cd_dataId s) then s\<lparr>ds_switchEncrypt := True\<rparr> else s),
      modify (\<lambda>s. s\<lparr>ds_tag := [Obj [(''title'', Str (tx ''official'')), (''key'', Str ''normal'')]]\<rparr>)]"

text \<open>The listener for the keyboard: \<open>F1\<close> fills the screen with the editor, \<open>Escape\<close> takes it back.\<close>

definition screen_of_key :: "string \<Rightarrow> string \<Rightarrow> string" where
  "screen_of_key key cls =
     (if key = ''F1'' then ''editor-full-screen'' else if key = ''Escape'' then ''editor-normal'' else cls)"

definition cd_keydown :: "string \<Rightarrow> detail_page stmt" where
  "cd_keydown key = modify (\<lambda>s. s\<lparr>ds_editorClass := screen_of_key key (ds_editorClass s)\<rparr>)"

definition cd_set :: "slice \<Rightarrow> detail_page stmt" where
  "cd_set kvs = modify (\<lambda>s. s\<lparr>cd_field := assign (cd_field s) kvs\<rparr>)"

definition changeTab :: "string \<Rightarrow> detail_page stmt" where
  "changeTab value = with_state (\<lambda>s.
     let data = field (Obj (cd_valueMap s)) (hd (split_on (CHR ''-'') value)) in block
       [modify (\<lambda>t. t\<lparr>ds_activeKey := value\<rparr>),
        (if data \<in> {Undef, Null} then throw TypeError
         else block
           [cd_set [(''content'', field data ''content'')],
            modify (\<lambda>t. if truthy (field data ''betaIps'') then t\<lparr>ds_ips := field data ''betaIps''\<rparr> else t)])])"

definition cd_toggleMore :: "detail_page stmt" where
  "cd_toggleMore = modify (\<lambda>s. s\<lparr>ds_showmore := \<not> ds_showmore s\<rparr>)"

definition cd_getDataDetail :: "detail_page stmt" where
  "cd_getDataDetail = reading cd_win ''serverId'' (\<lambda>sv. block
     [modify (\<lambda>s. s\<lparr>cd_serverId := str_or sv ''center''\<rparr>),
      reading cd_win ''namespace'' (\<lambda>ns. block
        [modify (\<lambda>s. s\<lparr>cd_tenant := or_empty ns\<rparr>),
         reading cd_win ''edasAppName'' (\<lambda>app. block
           [modify (\<lambda>s. s\<lparr>cd_edasAppName := or_empty app\<rparr>),
            cd_open,
            emit (\<lambda>s. Ajax ''GET'' (''v1/cs/configs?show=all&dataId='' @ cd_dataId s @ ''&group='' @ cd_group s) [])])])])"

definition cd_componentDidMount :: "(string \<Rightarrow> string) \<Rightarrow> detail_page stmt" where
  "cd_componentDidMount tx = block [initData tx, cd_getDataDetail]"

text \<open>What the editor shows of a value: monaco takes a missing one for the empty text.\<close>

definition editor_text :: "jsval \<Rightarrow> string" where
  "editor_text v = (if v \<in> {Undef, Null} then [] else to_str v)"

definition cd_success :: "jsval \<Rightarrow> detail_page stmt" where
  "cd_success data =
     (if data \<in> {Undef, Null} then throw TypeError
      else with_state (\<lambda>s. block
        [modify (\<lambda>t. t\<lparr>cd_valueMap := assign (cd_valueMap t) [(''normal'', data)]\<rparr>),
         cd_set [(''dataId'', field data ''dataId''), (''content'', field data ''content''),
           (''appName'', if cd_edasAppName s \<noteq> [] then Str (cd_edasAppName s) else field data ''appName''),
           (''envs'', Str (cd_serverId s)), (''group'', field data ''group''),
           (''config_tags'', field data ''configTags''), (''desc'', field data ''desc''),
           (''md5'', field data ''md5''), (''type'', field data ''type'')],
         modify (\<lambda>t. t\<lparr>cd_editor := Some (editor_text (field data ''content''))\<rparr>)]))"


section \<open>Comparisons\<close>

text \<open>Both texts of a comparison get the same line ends before they are shown.\<close>

definition diff_text :: "string \<Rightarrow> string" where
  "diff_text s = lf_to_crlf (crlf_to_lf s)"

text \<open>The first half of \<open>openDiff\<close>; the text on the left is read when the button is pressed.\<close>

definition cd_openDiff :: "detail_page stmt" where
  "cd_openDiff = with_state (\<lambda>s.
     if cd_editor s = None then throw TypeError
     else need_object (field (Obj (cd_valueMap s)) ''normal'') (block
       [cd_open,
        emit (\<lambda>s. Ajax ''GET'' (''v1/cs/history/previous?id='' @
          to_str (field (field (Obj (cd_valueMap s)) ''normal'') ''id'') @ ''&dataId='' @ cd_dataId s @
          ''&group='' @ cd_group s) [])]))"

definition show_diff :: "string \<Rightarrow> string \<Rightarrow> jsval \<Rightarrow> detail_page stmt" where
  "show_diff dialog left v =
     (case v of
        Str right \<Rightarrow> emit (\<lambda>_. Call dialog [Str (diff_text left), Str (diff_text right)])
      | _ \<Rightarrow> throw TypeError)"

definition diff_success :: "string \<Rightarrow> jsval \<Rightarrow> detail_page stmt" where
  "diff_success left result =
     (if result \<in> {Undef, Null} then throw TypeError
      else show_diff ''diffEditorDialog.openDialog'' left (field result ''content''))"

definition openCompare :: "jsval \<Rightarrow> jsval \<Rightarrow> jsval \<Rightarrow> detail_page stmt" where
  "openCompare dataId grp tenant = with_state (\<lambda>s.
     if cd_editor s = None then throw TypeError
     else emit (\<lambda>_. Ajax ''get'' ''v1/cs/configs''
       [(''show'', Str ''all''), (''group'', grp), (''dataId'', dataId), (''tenant'', tenant)]))"

definition compare_arrived :: "(string \<Rightarrow> string) \<Rightarrow> string \<Rightarrow> jsval \<Rightarrow> detail_page stmt" where
  "compare_arrived tx left res =
     (if res \<in> {Undef, Null} \<or> res = Str [] then emit (\<lambda>_. Alert (tx ''error'') (tx ''configNotFind''))
      else show_diff ''compareEditorDialog.openDialog'' left (field res ''content''))"

definition onClickConfigCompare :: "detail_page stmt" where
  "onClickConfigCompare = modify (\<lambda>s. s\<lparr>ds_configCompareVisible := True\<rparr>)"

definition closeConfigCompare :: "detail_page stmt" where
  "closeConfigCompare = modify (\<lambda>s. s\<lparr>ds_configCompareVisible := False\<rparr>)"

interpretation showing: ajax_call ds_loading cd_open cd_success "\<lambda>e. skip" cd_close
  by unfold_locales (simp_all add: cd_open_def cd_close_def modify_def)

interpretation diffing: ajax_call ds_loading cd_open "diff_success left" "\<lambda>e. skip" cd_close for left
  by unfold_locales (simp_all add: cd_open_def cd_close_def modify_def)

section \<open>Properties\<close>

lemma lf_to_crlf_Cons:
  "lf_to_crlf (c # s) = (if c = newline_char then [return_char, newline_char] else [c]) @ lf_to_crlf s"
  by (simp add: lf_to_crlf_def)

lemma crlf_to_lf_Cons:
  "c \<noteq> return_char \<Longrightarrow> crlf_to_lf (c # s) = c # crlf_to_lf s"
  by (cases s) simp_all

lemma crlf_lf: "crlf_to_lf (lf_to_crlf s) = s"
proof (induction s)
  case Nil
  then show ?case by (simp add: lf_to_crlf_def)
next
  case (Cons c s)
  consider (nl) "c = newline_char" | (ret) "c = return_char" | (other) "c \<noteq> newline_char" "c \<noteq> return_char" by blast
  then show ?case
  proof cases
    case nl
    with Cons show ?thesis by (simp add: lf_to_crlf_Cons crlf_to_lf_Cons)
  next
    case ret
    have "crlf_to_lf (return_char # t) = return_char # crlf_to_lf t" if "\<forall>u. t \<noteq> newline_char # u" for t
      using that by (cases t) auto
    moreover have "\<forall>u. lf_to_crlf s \<noteq> newline_char # u"
      by (cases s) (auto simp: lf_to_crlf_def)
    ultimately show ?thesis using ret Cons by (simp add: lf_to_crlf_Cons)
  next
    case other
    with Cons show ?thesis by (simp add: lf_to_crlf_Cons crlf_to_lf_Cons)
  qed
qed

text \<open>The two sides of a comparison look the same exactly when the texts agree up to their line ends: a
  comparison of a configuration with itself never shows a difference that comes from the editor's line
  ends, and no other difference is lost.\<close>

theorem diff_ignores_line_ends:
  "(diff_text a = diff_text b \<longleftrightarrow> crlf_to_lf a = crlf_to_lf b) \<and>
   effects_of (compare_arrived tx a (Obj [(''content'', Str b)]) s) =
     [Call ''compareEditorDialog.openDialog'' [Str (diff_text a), Str (diff_text b)]] \<and>
   effects_of (diff_success a (Obj [(''content'', Str b)]) s) =
     [Call ''diffEditorDialog.openDialog'' [Str (diff_text a), Str (diff_text b)]]"
proof -
  have "crlf_to_lf a = crlf_to_lf b" if "diff_text a = diff_text b"
    using arg_cong [OF that, of crlf_to_lf] by (simp add: diff_text_def crlf_lf)
  moreover have "diff_text a = diff_text b" if "crlf_to_lf a = crlf_to_lf b"
    using that by (simp add: diff_text_def)
  ultimately show ?thesis
    by (auto simp: compare_arrived_def diff_success_def show_diff_def emit_def)
qed

section \<open>From the list to a configuration and back\<close>









end
