(* ===== verification/New_Config.thy ===== *)
theory New_Config
  imports Config_Detail
begin

text \<open>
  The page for a new configuration,
  \<open>src/console-ui/src/pages/ConfigurationManagement/NewConfig/NewConfig.js\<close>, and the treatment of tags it
  shares with the editor.

  \<open>publish\<close> is a chain: the form is validated, the content is checked for its syntax, the server is
  asked whether the configuration exists, and only then it is written.  Each link is a statement of its
  own, run when the answer to the one before has arrived.
\<close>

section \<open>Tags\<close>

text \<open>\<open>value.forEach((v, i) => .. value.splice(i, 1))\<close>: \<open>forEach\<close> visits the indices up to the length at the
  start, and what is spliced out moves the rest down under it.\<close>

definition bad_tag :: "string \<Rightarrow> bool" where
  "bad_tag t \<longleftrightarrow> CHR '','' \<in> set t \<or> CHR ''='' \<in> set t"

fun each_tag :: "nat \<Rightarrow> nat \<Rightarrow> string list \<Rightarrow> string list" where
  "each_tag 0 i ts = ts"
| "each_tag (Suc n) i ts = each_tag n (Suc i)
     (if i < length ts \<and> bad_tag (ts ! i) then take i ts @ drop (Suc i) ts else ts)"

definition remove_bad :: "string list \<Rightarrow> string list" where
  "remove_bad ts = each_tag (length ts) 0 ts"

definition at_most_five :: "string list \<Rightarrow> string list" where
  "at_most_five ts = (if length ts > 5 then butlast ts else ts)"

text \<open>What the loop computes, by recursion: a bad tag takes its successor out of the visit.\<close>

fun skim :: "string list \<Rightarrow> string list" where
  "skim [] = []"
| "skim [t] = (if bad_tag t then [] else [t])"
| "skim (t # u # ts) = (if bad_tag t then u # skim ts else t # skim (u # ts))"

lemma each_tag_past: "length ts \<le> i \<Longrightarrow> each_tag n i ts = ts"
  by (induction n arbitrary: i) simp_all

lemma each_tag_skim: "length ts \<le> n \<Longrightarrow> each_tag n (length p) (p @ ts) = p @ skim ts"
proof (induction ts arbitrary: n p rule: skim.induct)
  case 1
  then show ?case by (simp add: each_tag_past)
next
  case (2 t)
  then obtain m where n: "n = Suc m" by (cases n) auto
  show ?case by (simp add: n each_tag_past)
next
  case (3 t u ts)
  then obtain m where n: "n = Suc m" "length (u # ts) \<le> m" by (cases n) auto
  show ?case
  proof (cases "bad_tag t")
    case True
    with 3(1) [of m "p @ [u]"] n show ?thesis by simp
  next
    case False
    with 3(2) [of m "p @ [t]"] n show ?thesis by simp
  qed
qed

lemma remove_bad_skim: "remove_bad ts = skim ts"
  using each_tag_skim [of ts "length ts" "[]"] by (simp add: remove_bad_def)

lemma skim_keeps_good: "filter (\<lambda>t. \<not> bad_tag t) (skim ts) = filter (\<lambda>t. \<not> bad_tag t) ts"
  by (induction ts rule: skim.induct) auto

fun bad_pair :: "string list \<Rightarrow> bool" where
  "bad_pair (t # u # ts) = (bad_tag t \<and> bad_tag u \<or> bad_pair (u # ts))"
| "bad_pair ts = False"

lemma skim_clean: "(\<forall>t \<in> set (skim ts). \<not> bad_tag t) \<longleftrightarrow> \<not> bad_pair ts"
proof (induction ts rule: skim.induct)
  case (3 t u ts)
  show ?case
  proof (cases "bad_tag t")
    case True
    have "bad_pair (u # ts) \<longleftrightarrow> bad_pair ts" if "\<not> bad_tag u"
      using that by (cases ts) auto
    with True 3(1) [OF True] show ?thesis by auto
  next
    case False
    with 3(2) [OF False] show ?thesis by auto
  qed
qed simp_all

text \<open>Cleaning the tags keeps every good tag, in order, and removes every bad one unless two bad ones
  stand side by side: then the second of them stays.\<close>

theorem tags_cleaned:
  "filter (\<lambda>t. \<not> bad_tag t) (remove_bad ts) = filter (\<lambda>t. \<not> bad_tag t) ts \<and>
   ((\<forall>t \<in> set (remove_bad ts). \<not> bad_tag t) \<longleftrightarrow> \<not> bad_pair ts)"
  unfolding remove_bad_skim using skim_keeps_good skim_clean by blast

theorem tags_cleaned_witness:
  "remove_bad [''a'', ''x=y'', ''p,q'', ''b''] = [''a'', ''p,q'', ''b''] \<and>
   bad_pair [''a'', ''x=y'', ''p,q'', ''b'']"
proof -
  have "bad_pair [''a'', ''x=y'', ''p,q'', ''b'']" by code_simp
  moreover have "remove_bad [''a'', ''x=y'', ''p,q'', ''b''] = [''a'', ''p,q'', ''b'']" by code_simp
  ultimately show ?thesis
    using tags_cleaned [of "[''a'', ''x=y'', ''p,q'', ''b'']"] by blast
qed

section \<open>The page\<close>

record new_page =
  nc_win :: win
  nc_edasAppName :: string
  nc_edasAppId :: string
  nc_inEdas :: bool
  nc_dataId :: string
  nc_group :: string
  nc_tenant :: string
  nc_serverId :: string
  nc_searchDataId :: string
  nc_searchGroup :: string
  nc_codeValue :: string
  nc_field :: slice
  nc_editor :: "string option"
  nc_targetEnvs :: jsval
  nc_ips :: jsval
  nw_configType :: string
  nw_groupNames :: "string list"
  nw_tagLst :: "jsval list"
  nw_config_tags :: "string list"
  nw_showmore :: bool
  nw_loading :: bool
  nw_addonBefore :: string
  nw_showGroupWarning :: bool
  nw_editorClass :: string
  nw_codeValue :: jsval
  nw_envvalues :: jsval

text \<open>\<open>inEdas\<close> is the answer of \<open>window.globalConfig.isParentEdas()\<close>.\<close>

definition new_init :: "bool \<Rightarrow> win \<Rightarrow> js_error + new_page" where
  "new_init inEdas w = map_sum id (\<lambda>r. \<lparr>nc_win = w, nc_edasAppName = or_empty (got r ''edasAppName''),
     nc_edasAppId = or_empty (got r ''edasAppId''), nc_inEdas = inEdas, nc_dataId = or_empty (got r ''dataId''),
     nc_group = str_or (got r ''group'') ''DEFAULT_GROUP'', nc_tenant = [], nc_serverId = [],
     nc_searchDataId = or_empty (got r ''searchDataId''), nc_searchGroup = or_empty (got r ''searchGroup''),
     nc_codeValue = [], nc_field = [(''appName'', Str (or_empty (got r ''edasAppName'')))], nc_editor = None, nc_targetEnvs = Undef, nc_ips = Str [],
     nw_configType = ''text'', nw_groupNames = [], nw_tagLst = [], nw_config_tags = [], nw_showmore = False,
     nw_loading = False, nw_addonBefore = [], nw_showGroupWarning = False, nw_editorClass = ''editor-normal'',
     nw_codeValue = Str [], nw_envvalues = Arr []\<rparr>)
     (read_all w [''edasAppName'', ''edasAppId'', ''dataId'', ''group'', ''searchDataId'', ''searchGroup''])"

definition nc_set :: "(new_page \<Rightarrow> slice) \<Rightarrow> new_page stmt" where
  "nc_set f = modify (\<lambda>s. s\<lparr>nc_field := assign (nc_field s) (f s)\<rparr>)"

definition nc_componentDidMount :: "new_page stmt" where
  "nc_componentDidMount = reading nc_win ''namespace'' (\<lambda>ns. block
     [modify (\<lambda>s. s\<lparr>nc_tenant := or_empty ns\<rparr>),
      nc_set (\<lambda>s. [(''group'', Str (nc_group s))]),
      modify (\<lambda>s. s\<lparr>nc_editor := Some (nc_codeValue s)\<rparr>)])"

definition nc_keydown :: "string \<Rightarrow> new_page stmt" where
  "nc_keydown key = modify (\<lambda>s. s\<lparr>nw_editorClass := screen_of_key key (nw_editorClass s)\<rparr>)"

definition nc_setGroup :: "string option \<Rightarrow> new_page stmt" where
  "nc_setGroup value = block
     [modify (\<lambda>s. s\<lparr>nc_group := or_empty value\<rparr>),
      nc_set (\<lambda>s. [(''group'', Str (nc_group s))]),
      modify (\<lambda>s. if nc_inEdas s
        then s\<lparr>nw_showGroupWarning := (nc_group s \<noteq> [] \<and> value \<notin> Some ` set (nw_groupNames s))\<rparr> else s)]"

definition tagSearch :: "string \<Rightarrow> new_page stmt" where
  "tagSearch value = modify (\<lambda>s. if Str value \<in> set (nw_tagLst s) then s
     else s\<lparr>nw_tagLst := Str value # nw_tagLst s\<rparr>)"

definition nc_setConfigTags :: "string list \<Rightarrow> new_page stmt" where
  "nc_setConfigTags value = modify (\<lambda>s. s\<lparr>nw_tagLst := map Str (remove_bad (at_most_five value)),
     nw_config_tags := remove_bad (at_most_five value)\<rparr>)"

text \<open>What \<open>onInputUpdate\<close> does half a second after the last key: its entries are objects, the others of the list
  are texts, which have no \<open>value\<close>.\<close>

definition nc_onInputUpdate :: "string \<Rightarrow> new_page stmt" where
  "nc_onInputUpdate value = modify (\<lambda>s. if \<exists>v \<in> set (nw_tagLst s). field v ''value'' = Str value then s
     else s\<lparr>nw_tagLst := nw_tagLst s @ [Obj [(''value'', Str value), (''label'', Str value)]]\<rparr>)"

definition nc_toggleMore :: "new_page stmt" where
  "nc_toggleMore = modify (\<lambda>s. s\<lparr>nw_showmore := \<not> nw_showmore s\<rparr>)"


definition nc_close :: "new_page stmt" where
  "nc_close = modify (\<lambda>s. s\<lparr>nw_loading := False\<rparr>)"

definition nc_goList :: "new_page stmt" where
  "nc_goList = reading nc_win ''namespace'' (\<lambda>ns. block
     [modify (\<lambda>s. s\<lparr>nc_tenant := or_empty ns\<rparr>),
      reading nc_win ''serverId'' (\<lambda>sv. block
        [modify (\<lambda>s. s\<lparr>nc_serverId := or_empty sv\<rparr>),
         emit (\<lambda>s. Push (generateUrl ''/configurationManagement''
           [(''serverId'', Str (nc_serverId s)), (''group'', Str (nc_searchGroup s)),
            (''dataId'', Str (nc_searchDataId s)), (''namespace'', Str (nc_tenant s))]))])])"

text \<open>\<open>changeModel\<close> keeps the text: a page without an editor gets an empty one.\<close>

definition newChangeConfig :: "string \<Rightarrow> new_page stmt" where
  "newChangeConfig value = modify (\<lambda>s. s\<lparr>nw_configType := value,
     nc_editor := Some (case nc_editor s of None \<Rightarrow> [] | Some t \<Rightarrow> t)\<rparr>)"

definition nc_setCodeValue :: "jsval \<Rightarrow> new_page stmt" where
  "nc_setCodeValue v = modify (\<lambda>s. s\<lparr>nw_codeValue := v\<rparr>)"

definition nc_changeEnv :: "jsval \<Rightarrow> new_page stmt" where
  "nc_changeEnv v = modify (\<lambda>s. s\<lparr>nc_targetEnvs := v, nw_envvalues := v\<rparr>)"

text \<open>The ids that the markup gives out; the element of the addresses is not among them.\<close>

definition new_elements :: "string list" where
  "new_elements = [''container'']"

definition nc_changeBeta :: "bool \<Rightarrow> new_page stmt" where
  "nc_changeBeta selected = (if ''betaips'' \<in> set new_elements then skip else throw TypeError)"

definition nc_getIps :: "jsval \<Rightarrow> new_page stmt" where
  "nc_getIps v = modify (\<lambda>s. s\<lparr>nc_ips := v\<rparr>)"

definition forbidden_char :: "char \<Rightarrow> bool" where
  "forbidden_char c \<longleftrightarrow> c \<in> set ''@#$%^&*'' \<or> is_space c"

definition validateChart :: "(string \<Rightarrow> string) \<Rightarrow> string \<Rightarrow> string option" where
  "validateChart tx value = (if \<exists>c \<in> set value. forbidden_char c then Some (tx ''doNotEnter'') else None)"

section \<open>Publishing\<close>









text \<open>The answers to the request that writes; \<open>d\<close> and \<open>g\<close> are the data id and the group of its payload.\<close>

definition written_success :: "(string \<Rightarrow> string) \<Rightarrow> string \<Rightarrow> jsval \<Rightarrow> jsval \<Rightarrow> new_page stmt" where
  "written_success tx d g res = block
     [(if res = Bool True then block
         [modify (\<lambda>s. s\<lparr>nc_group := to_str g, nc_dataId := d\<rparr>),
          with_state (\<lambda>s. case set_params (nc_win s) [(''group'', g), (''dataId'', Str d)] of
             Inl e \<Rightarrow> throw e | Inr w \<Rightarrow> modify (\<lambda>t. t\<lparr>nc_win := w\<rparr>))]
       else need_object res skip),
      emit (\<lambda>_. Call ''successDialog.openDialog'' [Obj
        ([(''maintitle'', Str (tx ''newListingMain'')), (''title'', Str (tx ''newListing'')), (''content'', Str []),
          (''dataId'', Str d), (''group'', g), (''isok'', Bool (res = Bool True))]
         @ (if res = Bool True then [] else [(''message'', field res ''message'')]))])]"

definition written_error :: "(string \<Rightarrow> string) \<Rightarrow> jsval \<Rightarrow> new_page stmt" where
  "written_error tx res = block [nc_close, emit (\<lambda>_. Alert [] (tx ''publishFailed''))]"

definition written_complete :: "new_page stmt" where
  "written_complete = block [nc_close, nc_goList]"

section \<open>Properties\<close>



definition sample_new :: new_page where
  "sample_new = \<lparr>nc_win = sample_win, nc_edasAppName = [], nc_edasAppId = [], nc_inEdas = False, nc_dataId = [],
     nc_group = ''g'', nc_tenant = [], nc_serverId = [], nc_searchDataId = [], nc_searchGroup = [],
     nc_codeValue = [], nc_field = [(''dataId'', Str ''d''), (''group'', Str ''g'')], nc_editor = Some ''x'', nc_targetEnvs = Undef, nc_ips = Str [],
     nw_configType = ''text'', nw_groupNames = [], nw_tagLst = [], nw_config_tags = [], nw_showmore = False,
     nw_loading = False, nw_addonBefore = [], nw_showGroupWarning = False, nw_editorClass = [],
     nw_codeValue = Str [], nw_envvalues = Arr []\<rparr>"


lemma goList_run:
  assumes "addr_ok (nc_win s)"
  shows "\<exists>s' url. nc_goList s = (s', [Push url], None) \<and> nw_loading s' = nw_loading s \<and>
    starts_with ''/configurationManagement?'' url"
  using assms by (simp add: nc_goList_def reading_ok page_keys modify_def emit_def generateUrl_link link_def)

text \<open>The page leaves for the list once the request to write has been answered, whatever the answer
  is: the overlay is gone and the last effect is the way to the list, after the alert of a failure, too.
  Only an answer that makes the handler raise keeps the page.\<close>

theorem new_config_leaves:
  assumes "addr_ok (nc_win s)" and "r \<notin> {Success Undef, Success Null}"
  shows "let (s1, e, x) = settle (written_success tx d (Str g)) (written_error tx) written_complete r s in
    x = None \<and> \<not> nw_loading s1 \<and>
    (\<exists>shown url. e = [shown, Push url] \<and> starts_with ''/configurationManagement?'' url \<and>
      (\<forall>f. r = Failure f \<longrightarrow> shown = Alert [] (tx ''publishFailed'')))"
proof -
  have first: "\<exists>s1 a. (case r of Success x \<Rightarrow> written_success tx d (Str g) x | Failure f \<Rightarrow> written_error tx f) s
      = (s1, [a], None) \<and> addr_ok (nc_win s1) \<and> (\<forall>f. r = Failure f \<longrightarrow> a = Alert [] (tx ''publishFailed''))"
  proof (cases r)
    case (Failure f)
    with assms(1) show ?thesis by (simp add: written_error_def nc_close_def modify_def emit_def)
  next
    case (Success x)
    show ?thesis
    proof (cases "x = Bool True")
      case False
      moreover have "x \<notin> {Undef, Null}" using Success assms(2) by auto
      ultimately show ?thesis using Success assms(1)
        by (simp add: written_success_def need_object_def skip_def emit_def del: field_Obj)
    next
      case True
      obtain w where "set_params (nc_win s) [(''group'', Str g), (''dataId'', Str d)] = Inr w" "addr_ok w"
        using set_params_console [OF assms(1), of "[(''group'', Str g), (''dataId'', Str d)]"] page_keys by auto
      with True Success show ?thesis
        by (simp add: written_success_def modify_def with_state_def emit_def)
    qed
  qed
  then obtain s1 a where a: "(case r of Success x \<Rightarrow> written_success tx d (Str g) x | Failure f \<Rightarrow> written_error tx f) s
      = (s1, [a], None)" "addr_ok (nc_win s1)" "\<forall>f. r = Failure f \<longrightarrow> a = Alert [] (tx ''publishFailed'')"
    by blast
  have "addr_ok (nc_win (s1\<lparr>nw_loading := False\<rparr>))" using a(2) by simp
  from goList_run [OF this] a show ?thesis
    by (auto simp: settle_def written_complete_def nc_close_def modify_def)
qed

theorem new_config_leaves_witness:
  "\<exists>url. effects_of (settle (written_success (\<lambda>k. k) ''d'' (Str ''g'')) (written_error (\<lambda>k. k)) written_complete
     (Failure Undef) sample_new) = [Alert [] ''publishFailed'', Push url]"
proof -
  have "addr_ok (nc_win sample_new)" by (simp add: sample_new_def sample_win_ok)
  from new_config_leaves [OF this, of "Failure Undef" "\<lambda>k. k" "''d''" "''g''"] show ?thesis
    by (auto simp: Let_def split: prod.splits)
qed

end
