(* ===== verification/Config_Editor.thy ===== *)
theory Config_Editor
  imports New_Config
begin

text \<open>
  The page that edits a configuration and publishes it, to everybody or to some addresses first (a beta),
  \<open>src/console-ui/src/pages/ConfigurationManagement/ConfigEditor/NewConfigEditor.js\<close>.

  A promise is split where it waits: what runs before the request leaves, and what runs with the answer.
  A \<open>setState\<close> in a promise is applied at once (React 16), so the continuations see what they have set.
  The text in the monaco editor is a component of the state; typing is the statement \<open>type_text\<close>.
\<close>

record editor_page =
  ce_win :: win
  ce_tenant :: string
  ce_diffcb :: string
  ce_codeVal :: jsval
  ce_editor :: "string option"
  se_loading :: bool
  se_isBeta :: bool
  se_isNewConfig :: bool
  se_betaPublishSuccess :: bool
  se_betaIps :: jsval
  se_casMd5 :: jsval
  se_tabActiveKey :: string
  se_form :: slice
  se_group :: "string option"
  se_tagDataSource :: "string list"
  se_subscriberDataSource :: "string list"
  se_openAdvancedSettings :: bool
  se_editorClass :: string
  se_dataIdError :: "string option"
  se_groupError :: "string option"

definition empty_form :: slice where
  "empty_form = [(''dataId'', Str []), (''group'', Str []), (''content'', Str []), (''appName'', Str []),
     (''desc'', Str []), (''config_tags'', Arr []), (''type'', Str ''text'')]"

definition editor_init :: "win \<Rightarrow> editor_page" where
  "editor_init w = \<lparr>ce_win = w, ce_tenant = [], ce_diffcb = [], ce_codeVal = Undef, ce_editor = None,
     se_loading = False, se_isBeta = False, se_isNewConfig = True, se_betaPublishSuccess = False,
     se_betaIps = Str [], se_casMd5 = Str [], se_tabActiveKey = [], se_form = empty_form, se_group = None,
     se_tagDataSource = [], se_subscriberDataSource = [], se_openAdvancedSettings = False,
     se_editorClass = ''editor-normal'', se_dataIdError = None, se_groupError = None\<rparr>"

definition changeForm :: "slice \<Rightarrow> editor_page stmt" where
  "changeForm item = modify (\<lambda>s. s\<lparr>se_form := assign (se_form s) item\<rparr>)"

definition form_field :: "editor_page \<Rightarrow> string \<Rightarrow> jsval" where
  "form_field s k = field (Obj (se_form s)) k"

definition initMoacoEditor :: "jsval \<Rightarrow> editor_page stmt" where
  "initMoacoEditor v = modify (\<lambda>s. s\<lparr>ce_editor := Some (editor_text v)\<rparr>)"

definition type_text :: "string \<Rightarrow> editor_page stmt" where
  "type_text t = modify (\<lambda>s. s\<lparr>ce_editor := Some t\<rparr>)"

definition ce_keydown :: "string \<Rightarrow> editor_page stmt" where
  "ce_keydown key = modify (\<lambda>s. s\<lparr>se_editorClass := screen_of_key key (se_editorClass s)\<rparr>)"

section \<open>Loading a configuration\<close>

definition config_params :: "string option \<Rightarrow> editor_page \<Rightarrow> slice" where
  "config_params ns s = [(''dataId'', form_field s ''dataId''), (''group'', form_field s ''group''),
     (''namespaceId'', nullable ns), (''tenant'', nullable ns)]"

definition getConfig :: "bool \<Rightarrow> editor_page stmt" where
  "getConfig beta = reading ce_win ''namespace'' (\<lambda>ns. emit (\<lambda>s. Ajax ''get'' ''v1/cs/configs''
     (config_params ns s @ [if beta then (''beta'', Bool True) else (''show'', Str ''all'')])))"

text \<open>What the answer holds; for a beta it is one level down.\<close>

definition form_of :: "bool \<Rightarrow> jsval \<Rightarrow> jsval" where
  "form_of beta res = (if beta then field res ''data'' else res)"

text \<open>\<open>configTags ? configTags.split(',') : []\<close>; only strings have a \<open>split\<close>.\<close>

definition split_tags :: "jsval \<Rightarrow> string list option" where
  "split_tags v = (if \<not> truthy v then Some []
     else case v of Str t \<Rightarrow> Some (split_on (CHR '','') t) | _ \<Rightarrow> None)"

definition config_arrived :: "bool \<Rightarrow> jsval \<Rightarrow> editor_page stmt" where
  "config_arrived beta res =
     (if beta \<and> res \<in> {Undef, Null} then throw TypeError
      else if \<not> truthy (form_of beta res) then skip
      else let form = form_of beta res in block
        [modify (\<lambda>s. s\<lparr>se_betaIps := field form ''betaIps''\<rparr>),
         (case split_tags (field form ''configTags'') of
            None \<Rightarrow> throw TypeError
          | Some tags \<Rightarrow> block
              [changeForm (assign (own_fields form) [(''config_tags'', Arr (map Str tags))]),
               initMoacoEditor (field form ''content''),
               modify (\<lambda>s. s\<lparr>ce_codeVal := field form ''content'', se_tagDataSource := tags,
                 se_casMd5 := field form ''md5''\<rparr>)])])"

definition getSubscribesByNamespace :: "editor_page stmt" where
  "getSubscribesByNamespace = reading ce_win ''namespace'' (\<lambda>ns.
     emit (\<lambda>s. Ajax ''get'' ''v1/cs/configs/listener'' (config_params ns s)))"

definition subscribes_arrived :: "jsval \<Rightarrow> editor_page stmt" where
  "subscribes_arrived res = need_object res (modify (\<lambda>s.
     if truthy (field res ''lisentersGroupkeyStatus'')
     then s\<lparr>se_subscriberDataSource := se_subscriberDataSource s @
       map fst (own_fields (field res ''lisentersGroupkeyStatus''))\<rparr> else s))"

text \<open>The start; the page has to be opened with a group, an empty one at least.\<close>

definition ce_componentDidMount :: "editor_page stmt" where
  "ce_componentDidMount = reading ce_win ''dataId'' (\<lambda>d. reading ce_win ''group'' (\<lambda>g.
     case g of
       None \<Rightarrow> throw TypeError
     | Some g' \<Rightarrow> reading ce_win ''namespace'' (\<lambda>ns. block
         [modify (\<lambda>s. s\<lparr>ce_tenant := or_empty ns, se_isNewConfig := (or_empty d = [])\<rparr>),
          (if or_empty d \<noteq> [] then block
             [changeForm [(''dataId'', Str (js_trim (or_empty d))), (''group'', Str (js_trim g'))],
              getConfig True,
              getSubscribesByNamespace]
           else block
             [modify (\<lambda>s. if js_trim g' \<noteq> [] then s\<lparr>se_group := Some (js_trim g')\<rparr> else s),
              initMoacoEditor (Str [])])])))"

text \<open>The first answer, for the beta: without one the configuration itself is asked for.\<close>

definition first_arrived :: "jsval \<Rightarrow> editor_page stmt" where
  "first_arrived res = block
     [config_arrived True res,
      (if truthy (form_of True res)
       then modify (\<lambda>s. s\<lparr>se_isBeta := True, se_tabActiveKey := ''beta'', se_betaPublishSuccess := True\<rparr>)
       else getConfig False)]"

definition clickTab :: "string \<Rightarrow> editor_page stmt" where
  "clickTab key = block [modify (\<lambda>s. s\<lparr>se_tabActiveKey := key\<rparr>), getConfig (key = ''beta'')]"

section \<open>The form\<close>

definition ce_setConfigTags :: "string list \<Rightarrow> editor_page stmt" where
  "ce_setConfigTags tags = block
     [modify (\<lambda>s. if tags \<noteq> [] \<and> last tags \<notin> set (se_tagDataSource s)
        then s\<lparr>se_tagDataSource := se_tagDataSource s @ [last tags]\<rparr> else s),
      changeForm [(''config_tags'', Arr (map Str (if tags \<noteq> [] then remove_bad (at_most_five tags) else tags)))]]"

definition ce_change_type :: "string \<Rightarrow> editor_page stmt" where
  "ce_change_type type = block
     [with_state (\<lambda>s. initMoacoEditor (form_field s ''content'')), changeForm [(''type'', Str type)]]"

definition ce_change_dataId :: "jsval \<Rightarrow> editor_page stmt" where
  "ce_change_dataId v = block [changeForm [(''dataId'', v)], modify (\<lambda>s. s\<lparr>se_dataIdError := None\<rparr>)]"

definition ce_change_group :: "jsval \<Rightarrow> editor_page stmt" where
  "ce_change_group v = block [changeForm [(''group'', v)], modify (\<lambda>s. s\<lparr>se_groupError := None\<rparr>)]"

definition ce_set_betaIps :: "string list \<Rightarrow> editor_page stmt" where
  "ce_set_betaIps ips = modify (\<lambda>s. s\<lparr>se_betaIps := Str (js_join '','' ips)\<rparr>)"

definition validation :: "(string \<Rightarrow> string) \<Rightarrow> editor_page \<Rightarrow> editor_page \<times> bool" where
  "validation tx s =
     (if \<not> truthy (form_field s ''dataId'') then (s\<lparr>se_dataIdError := Some (tx ''recipientFrom'')\<rparr>, False)
      else if \<not> truthy (form_field s ''group'') then (s\<lparr>se_groupError := Some (tx ''homeApplication'')\<rparr>, False)
      else (s, True))"

definition ce_goBack :: "editor_page stmt" where
  "ce_goBack = reading ce_win ''serverId'' (\<lambda>sv. reading ce_win ''namespace'' (\<lambda>ns.
     reading ce_win ''searchGroup'' (\<lambda>g. reading ce_win ''searchDataId'' (\<lambda>d.
     reading ce_win ''pageSize'' (\<lambda>pz. reading ce_win ''pageNo'' (\<lambda>pn.
       emit (\<lambda>_. Push (generateUrl ''/configurationManagement''
         [(''serverId'', Str (or_empty sv)), (''group'', Str (or_empty g)), (''dataId'', Str (or_empty d)),
          (''namespace'', nullable ns), (''pageSize'', nullable pz), (''pageNo'', nullable pn)]))))))))"

definition ce_set_isBeta :: "bool \<Rightarrow> editor_page stmt" where
  "ce_set_isBeta b = modify (\<lambda>s. s\<lparr>se_isBeta := b\<rparr>)"

definition ce_toggle_advanced :: "editor_page stmt" where
  "ce_toggle_advanced = modify (\<lambda>s. s\<lparr>se_openAdvancedSettings := \<not> se_openAdvancedSettings s\<rparr>)"

section \<open>Publishing\<close>

definition code_val :: "editor_page \<Rightarrow> jsval" where
  "code_val s = (case ce_editor s of Some t \<Rightarrow> Str t | None \<Rightarrow> form_field s ''content'')"

definition getCodeVal :: "(string \<Rightarrow> string) \<Rightarrow> (jsval \<Rightarrow> editor_page stmt) \<Rightarrow> editor_page stmt" where
  "getCodeVal tx f = with_state (\<lambda>s.
     if truthy (code_val s) then f (code_val s)
     else block [emit (\<lambda>_. MsgError (tx ''submitFailed'')), f (Bool False)])"

definition setCodeVal :: "string \<Rightarrow> editor_page stmt" where
  "setCodeVal t = block
     [changeForm [(''content'', Str t)],
      modify (\<lambda>s. s\<lparr>ce_editor := map_option (\<lambda>_. t) (ce_editor s)\<rparr>)]"

definition ce_openDiff :: "string \<Rightarrow> editor_page stmt" where
  "ce_openDiff cbName = block
     [modify (\<lambda>s. s\<lparr>ce_diffcb := cbName\<rparr>),
      with_state (\<lambda>s. case (ce_editor s, js_or (ce_codeVal s) (Str [])) of
         (Some left, Str right) \<Rightarrow>
           emit (\<lambda>_. Call ''diffEditorDialog.openDialog'' [Str (diff_text left), Str (diff_text right)])
       | _ \<Rightarrow> throw TypeError)]"

definition publish_headers :: "bool \<Rightarrow> editor_page \<Rightarrow> slice" where
  "publish_headers beta s = (''Content-Type'', Str ''application/x-www-form-urlencoded'')
     # (if beta then [(''betaIps'', se_betaIps s)] else []) @ [(''casMd5'', se_casMd5 s)]"

definition publish_payload :: "jsval \<Rightarrow> editor_page \<Rightarrow> slice" where
  "publish_payload content s = assign (se_form s)
     ([(''content'', content), (''betaIps'', se_betaIps s)]
      @ (if count_of (form_field s ''config_tags'') > 0
         then [(''config_tags'', Str (to_str (form_field s ''config_tags'')))] else [])
      @ [(''encryptedDataKey'', Str [])])"

text \<open>\<open>qs\<close> is \<open>stringify\<close> of the library \<open>qs\<close>.\<close>

definition send_config :: "(string \<Rightarrow> string) \<Rightarrow> (jsval \<Rightarrow> string) \<Rightarrow> bool \<Rightarrow> editor_page stmt" where
  "send_config tx qs beta = getCodeVal tx (\<lambda>content. with_state (\<lambda>s. block
     [modify (\<lambda>t. t\<lparr>se_loading := True\<rparr>),
      emit (\<lambda>_. Ajax ''post'' ''v1/cs/configs''
        [(''headers'', Obj (publish_headers beta s)), (''data'', Str (qs (Obj (publish_payload content s))))])]))"

definition config_sent :: "bool \<Rightarrow> bool \<Rightarrow> jsval \<Rightarrow> editor_page stmt" where
  "config_sent beta wasNew res = block
     [(if truthy res then block
         [modify (\<lambda>s. if wasNew then s\<lparr>se_isNewConfig := False\<rparr> else s), getConfig beta]
       else skip),
      modify (\<lambda>s. s\<lparr>se_loading := False\<rparr>)]"

definition cas_failed :: "jsval \<Rightarrow> bool option" where
  "cas_failed v = (case v of
     Str t \<Rightarrow> Some (str_includes ''Cas publish fail'' t)
   | Arr xs \<Rightarrow> Some (Str ''Cas publish fail'' \<in> set xs)
   | _ \<Rightarrow> None)"

definition send_failed :: "(string \<Rightarrow> string) \<Rightarrow> jsval \<Rightarrow> editor_page stmt" where
  "send_failed tx err = block
     [modify (\<lambda>s. s\<lparr>se_loading := False\<rparr>),
      need_object err
        (if field err ''status'' = Num 403 then emit (\<lambda>_. Alert [] (tx ''publishFailed403''))
         else if field err ''status'' = Num 500 then
           (case cas_failed (field err ''data'') of
              None \<Rightarrow> throw TypeError
            | Some b \<Rightarrow> if b then emit (\<lambda>_. Alert [] (tx ''publishCasFailed'')) else skip)
         else skip)]"

text \<open>\<open>publish\<close>: without a text it returns nothing, otherwise a promise.  The text of a page with an editor
  is a string.\<close>

definition ce_publish :: "(string \<Rightarrow> string) \<Rightarrow> checkers \<Rightarrow> (jsval \<Rightarrow> string) \<Rightarrow> editor_page stmt" where
  "ce_publish tx ck qs = block
     [modify (\<lambda>s. if se_isNewConfig s then fst (validation tx s) else s),
      getCodeVal tx (\<lambda>content. with_state (\<lambda>s.
        if \<not> truthy content then skip
        else if truthy (validate ck (to_str (form_field s ''type'')) (to_str content)) then send_config tx qs False
        else emit (\<lambda>_. Confirm (tx ''codeValErrorPrompt''))))]"

definition beta_sent :: "bool \<Rightarrow> jsval \<Rightarrow> editor_page stmt" where
  "beta_sent wasNew res = block
     [config_sent True wasNew res,
      modify (\<lambda>s. if truthy res then s\<lparr>se_betaPublishSuccess := True, se_tabActiveKey := ''beta''\<rparr> else s)]"

definition stopBeta :: "editor_page stmt" where
  "stopBeta = reading ce_win ''namespace'' (\<lambda>ns. emit (\<lambda>s. Ajax ''delete'' ''v1/cs/configs''
     [(''beta'', Bool True), (''dataId'', form_field s ''dataId''), (''group'', form_field s ''group''),
      (''tenant'', nullable ns)]))"

definition beta_stopped :: "jsval \<Rightarrow> editor_page stmt" where
  "beta_stopped res = need_object res
     (if truthy (field res ''data'') then block
        [modify (\<lambda>s. s\<lparr>se_isBeta := False, se_betaPublishSuccess := False, se_tabActiveKey := []\<rparr>),
         getConfig False]
      else skip)"

text \<open>The comparison dialog hands back the text; what \<open>publish\<close> returns is used as a promise.\<close>

definition dialog_publish :: "(string \<Rightarrow> string) \<Rightarrow> checkers \<Rightarrow> (jsval \<Rightarrow> string) \<Rightarrow> string \<Rightarrow> editor_page stmt" where
  "dialog_publish tx ck qs t = block
     [setCodeVal t,
      cond (\<lambda>s. ce_diffcb s = ''publishBeta'') (send_config tx qs True)
        (block [ce_publish tx ck qs, cond (\<lambda>s. truthy (code_val s)) skip (throw TypeError)])]"

text \<open>After the promise; \<open>p\<close> is the page as it was rendered when the dialog was used.\<close>

definition dialog_done :: "(string \<Rightarrow> string) \<Rightarrow> editor_page \<Rightarrow> jsval \<Rightarrow> editor_page stmt" where
  "dialog_done tx p res =
     (if \<not> truthy res then skip
      else with_state (\<lambda>s.
        let stops = (ce_diffcb s = ''publish'' \<and> se_tabActiveKey p = ''beta'');
            title = (if stops then ''stopPublishBeta'' else if ce_diffcb s = ''publishBeta'' then ''betaPublish''
              else if se_isNewConfig p then ''newConfigEditor'' else ''toedit'')
        in block
          [(if stops then stopBeta else skip),
           emit (\<lambda>_. Call ''successDialog.openDialog''
             [Obj (assign [(''title'', Str (tx title)), (''isok'', Bool True)] (se_form p))])]))"

text \<open>The buttons of the page that are shown and can be pressed.\<close>

definition can_stop_beta :: "editor_page \<Rightarrow> bool" where
  "can_stop_beta s \<longleftrightarrow> se_isBeta s \<and> se_betaPublishSuccess s \<and> se_tabActiveKey s \<noteq> ''production''"

definition can_publish_beta :: "editor_page \<Rightarrow> bool" where
  "can_publish_beta s \<longleftrightarrow> se_isBeta s \<and> se_tabActiveKey s \<noteq> ''production'' \<and>
     truthy (se_betaIps s) \<and> \<not> se_betaPublishSuccess s"

definition can_publish :: "editor_page \<Rightarrow> bool" where
  "can_publish s \<longleftrightarrow> se_tabActiveKey s \<noteq> ''production''"

section \<open>Lemmas\<close>

lemma join_vals_Str: "join_vals (map Str xs) = js_join '','' xs"
  by (induction xs rule: induct_list012) simp_all

lemma map_of_rev: "distinct (map fst fs) \<Longrightarrow> map_of (rev fs) k = map_of fs k"
proof (induction fs)
  case (Cons p fs)
  have "map_of fs (fst p) = None" using Cons.prems by (simp add: map_of_eq_None_iff)
  with Cons show ?case by (auto simp: map_add_def split: option.split)
qed simp

lemma split_tags_Str:
  "split_tags (Str t) = Some (if t = [] then [] else split_on (CHR '','') t)"
  by (simp add: split_tags_def)

definition loaded_form :: "slice \<Rightarrow> string list \<Rightarrow> slice \<Rightarrow> slice" where
  "loaded_form fs tags form = assign form (assign fs [(''config_tags'', Arr (map Str tags))])"

lemma loaded_form_get:
  assumes "distinct (map fst fs)"
  shows "map_of (loaded_form fs tags form) k =
    (if k = ''config_tags'' then Some (Arr (map Str tags))
     else case map_of fs k of None \<Rightarrow> map_of form k | Some v \<Rightarrow> Some v)"
  unfolding loaded_form_def map_of_assign map_of_rev [OF distinct_assign [OF assms]]
  by (auto split: option.split)

text \<open>What loading, typing and the comparison leave behind.\<close>

lemma loaded_run:
  assumes "data = Obj fs" and "field data ''configTags'' = Str tags" and "field data ''content'' = Str c"
  shows "config_arrived False data s = (s\<lparr>se_betaIps := field data ''betaIps'',
      se_form := loaded_form fs (if tags = [] then [] else split_on (CHR '','') tags) (se_form s),
      ce_editor := Some c, ce_codeVal := Str c,
      se_tagDataSource := (if tags = [] then [] else split_on (CHR '','') tags),
      se_casMd5 := field data ''md5''\<rparr>, [], None)"
  using assms(2,3) unfolding assms(1)
  by (simp add: config_arrived_def form_of_def Let_def split_tags_Str changeForm_def initMoacoEditor_def
      modify_def own_fields_def loaded_form_def editor_text_def del: field_Obj assign_Cons)

lemma publish_run:
  assumes "ce_editor s = Some t" and "t \<noteq> []" and "truthy (validate ck (to_str (form_field s ''type'')) t)"
  shows "ce_publish tx ck qs s = ((if se_isNewConfig s then fst (validation tx s) else s)\<lparr>se_loading := True\<rparr>,
      [Ajax ''post'' ''v1/cs/configs'' [(''headers'', Obj (publish_headers False s)),
        (''data'', Str (qs (Obj (publish_payload (Str t) s))))]], None)"
proof -
  let ?s = "if se_isNewConfig s then fst (validation tx s) else s"
  have same: "ce_editor ?s = ce_editor s" "se_form ?s = se_form s" "se_betaIps ?s = se_betaIps s"
      "se_casMd5 ?s = se_casMd5 s"
    by (simp_all add: validation_def)
  define u where "u = ?s"
  have u: "code_val u = Str t" "form_field u k = form_field s k" "publish_headers False u = publish_headers False s"
      "publish_payload v u = publish_payload v s" for k v
    using same assms(1) unfolding u_def [symmetric]
    by (simp_all add: code_val_def form_field_def publish_headers_def publish_payload_def)
  have "send_config tx qs False u = (u\<lparr>se_loading := True\<rparr>,
      [Ajax ''post'' ''v1/cs/configs'' [(''headers'', Obj (publish_headers False s)),
        (''data'', Str (qs (Obj (publish_payload (Str t) s))))]], None)"
    using assms(2) u by (simp add: send_config_def getCodeVal_def with_state_def modify_def emit_def)
  moreover have "modify (\<lambda>s. if se_isNewConfig s then fst (validation tx s) else s) s = (u, [], None)"
    by (simp add: modify_def u_def)
  ultimately show ?thesis
    using assms(2,3) u unfolding u_def [symmetric]
    by (simp add: ce_publish_def getCodeVal_def with_state_def)
qed

lemma payload_get:
  "map_of (publish_payload v s) k =
    (if k = ''encryptedDataKey'' then Some (Str [])
     else if k = ''config_tags'' \<and> count_of (form_field s k) > 0 then Some (Str (to_str (form_field s k)))
     else if k = ''betaIps'' then Some (se_betaIps s)
     else if k = ''content'' then Some v else map_of (se_form s) k)"
  by (cases "k = ''config_tags''") (simp_all add: publish_payload_def map_of_assign del: assign_Cons)

lemma setCodeVal_run:
  "ce_editor s = Some u \<Longrightarrow> setCodeVal t s = (s\<lparr>se_form := assign (se_form s) [(''content'', Str t)], ce_editor := Some t\<rparr>, [], None)"
  by (simp add: setCodeVal_def changeForm_def modify_def del: assign_Cons)

section \<open>Properties\<close>

text \<open>C3. Publishing is conditional on what was loaded: after a configuration has been loaded and edited, the
  comparison shows the text of the editor beside the loaded one, and accepting it sends the accepted
  text for the loaded data id and group with the md5 of the loaded version, for the server to compare,
  and with the tags as they were loaded.\<close>

theorem publish_is_conditional:
  assumes "data = Obj fs" and "distinct (map fst fs)" and "field data ''configTags'' = Str tags"
    and "field data ''content'' = Str c" and "t \<noteq> []"
    and "truthy (validate ck (to_str (field data ''type'')) t)"
    and "\<forall>k \<in> {''dataId'', ''group'', ''type''}. map_of fs k \<noteq> None"
  shows "let s1 = state_of (type_text u (state_of (config_arrived False data s)));
      s2 = state_of (ce_openDiff ''publish'' s1) in
    effects_of (ce_openDiff ''publish'' s1) =
      [Call ''diffEditorDialog.openDialog'' [Str (diff_text u), Str (diff_text c)]] \<and>
    (\<exists>h p. effects_of (dialog_publish tx ck qs t s2) =
        [Ajax ''post'' ''v1/cs/configs'' [(''headers'', Obj h), (''data'', Str (qs (Obj p)))]] \<and>
      field (Obj h) ''casMd5'' = field data ''md5'' \<and> field (Obj p) ''content'' = Str t \<and>
      field (Obj p) ''dataId'' = field data ''dataId'' \<and> field (Obj p) ''group'' = field data ''group'' \<and>
      (tags \<noteq> [] \<longrightarrow> field (Obj p) ''config_tags'' = Str tags))"
proof -
  let ?ts = "if tags = [] then [] else split_on (CHR '','') tags"
  define form where "form = loaded_form fs ?ts (se_form s)"
  define s2 where "s2 = s\<lparr>se_betaIps := field data ''betaIps'', se_form := form, ce_editor := Some u,
      ce_codeVal := Str c, se_tagDataSource := ?ts, se_casMd5 := field data ''md5'', ce_diffcb := ''publish''\<rparr>"
  have s1: "state_of (type_text u (state_of (config_arrived False data s))) = s2\<lparr>ce_diffcb := ce_diffcb s\<rparr>"
    unfolding loaded_run [OF assms(1,3,4)] by (simp add: type_text_def modify_def s2_def form_def)
  have opened: "ce_openDiff ''publish'' (s2\<lparr>ce_diffcb := ce_diffcb s\<rparr>) =
      (s2, [Call ''diffEditorDialog.openDialog'' [Str (diff_text u), Str (diff_text c)]], None)"
    by (simp add: ce_openDiff_def modify_def with_state_def emit_def js_or_def s2_def)
  define s3 where "s3 = s2\<lparr>se_form := assign form [(''content'', Str t)], ce_editor := Some t\<rparr>"
  have form: "map_of form ''config_tags'' = Some (Arr (map Str ?ts))"
      "map_of form k = map_of fs k" if "k \<in> {''dataId'', ''group'', ''type''}" for k
    using assms(7) that by (auto simp: form_def loaded_form_get [OF assms(2)])
  have form3: "map_of (se_form s3) ''config_tags'' = Some (Arr (map Str ?ts))"
      "map_of (se_form s3) k = map_of fs k" if "k \<in> {''dataId'', ''group'', ''type''}" for k
    using form [OF that] that by (auto simp: s3_def map_of_assign simp del: assign_Cons)
  have type: "form_field s3 ''type'' = field data ''type''"
    using form3(2) [of "''type''"] assms(1) by (simp add: form_field_def)
  have set: "setCodeVal t s2 = (s3, [], None)"
    using setCodeVal_run [of s2 u t] by (simp add: s2_def s3_def del: assign_Cons)
  have ed: "ce_editor s3 = Some t" "ce_diffcb s3 = ''publish''" "se_casMd5 s3 = field data ''md5''"
    by (simp_all add: s3_def s2_def)
  have valid: "truthy (validate ck (to_str (form_field s3 ''type'')) t)" using assms(6) type by simp
  let ?h = "publish_headers False s3" and ?p = "publish_payload (Str t) s3"
  have "code_val (state_of (ce_publish tx ck qs s3)) = Str t"
    unfolding publish_run [OF ed(1) assms(5) valid] using ed(1) by (simp add: code_val_def validation_def)
  then have sent: "effects_of (dialog_publish tx ck qs t s2) =
      [Ajax ''post'' ''v1/cs/configs'' [(''headers'', Obj ?h), (''data'', Str (qs (Obj ?p)))]]"
    unfolding dialog_publish_def
    using set ed(2) publish_run [OF ed(1) assms(5) valid] assms(5)
    by (simp add: cond_def skip_def)
  have tags: "field (Obj ?p) ''config_tags'' = Str tags" if "tags \<noteq> []"
    using that form3(1) [of "''dataId''"]
    by (simp add: payload_get form_field_def count_of_def join_vals_Str join_split)
  have "field (Obj ?h) ''casMd5'' = field data ''md5''" using ed(3) by (simp add: publish_headers_def)
  moreover have "field (Obj ?p) ''content'' = Str t" by (simp add: payload_get)
  moreover have "field (Obj ?p) ''dataId'' = field data ''dataId''" "field (Obj ?p) ''group'' = field data ''group''"
    using form3(2) assms(1) by (simp_all add: payload_get)
  ultimately show ?thesis
    unfolding Let_def s1 opened using sent tags by (simp del: field_Obj) blast
qed

definition sample_data :: slice where
  "sample_data = [(''dataId'', Str ''d''), (''group'', Str ''g''), (''content'', Str ''x''), (''md5'', Str ''m''),
     (''configTags'', Str ''a,b''), (''type'', Str ''text'')]"

definition sample_editor :: editor_page where
  "sample_editor = (editor_init sample_win)\<lparr>se_isNewConfig := False\<rparr>"

definition no_checkers :: checkers where
  "no_checkers = \<lparr>ck_xml = NoXmlParser, ck_yaml = \<lambda>_. None, ck_toml = \<lambda>_. None\<rparr>"

theorem publish_is_conditional_witness:
  "\<exists>h p. effects_of (dialog_publish (\<lambda>k. k) no_checkers to_str ''y'' (state_of (ce_openDiff ''publish''
      (state_of (type_text ''y'' (state_of (config_arrived False (Obj sample_data) sample_editor))))))) =
      [Ajax ''post'' ''v1/cs/configs'' [(''headers'', Obj h), (''data'', p)]] \<and> field (Obj h) ''casMd5'' = Str ''m''"
proof -
  have "truthy (validate no_checkers (to_str (field (Obj sample_data) ''type'')) ''y'')" by code_simp
  then show ?thesis
    using publish_is_conditional [of "Obj sample_data" sample_data "''a,b''" "''x''" "''y''" no_checkers "''y''"
        sample_editor "\<lambda>k. k" to_str]
    by (fastforce simp: Let_def sample_data_def)
qed

text \<open>Accepting an empty text in the comparison sends nothing and ends in an exception: \<open>publish\<close> reports
  the missing text and returns nothing, and the caller goes on as if it had returned a promise.\<close>

theorem empty_publish_raises:
  assumes "ce_editor s = Some u" and "ce_diffcb s = ''publish''"
  shows "effects_of (dialog_publish tx ck qs [] s) = [MsgError (tx ''submitFailed'')] \<and>
    error_of (dialog_publish tx ck qs [] s) = Some TypeError"
proof -
  define s1 where "s1 = s\<lparr>se_form := assign (se_form s) [(''content'', Str [])], ce_editor := Some []\<rparr>"
  define s2 where "s2 = (if se_isNewConfig s1 then fst (validation tx s1) else s1)"
  have set: "setCodeVal [] s = (s1, [], None)" using setCodeVal_run [OF assms(1)] by (simp add: s1_def)
  have "ce_editor s2 = Some []" by (simp add: s2_def s1_def validation_def)
  then have empty: "\<not> truthy (code_val s2)" by (simp add: code_val_def)
  have "ce_publish tx ck qs s1 = (s2, [MsgError (tx ''submitFailed'')], None)"
    using empty by (simp add: ce_publish_def modify_def s2_def [symmetric] getCodeVal_def with_state_def emit_def skip_def)
  then show ?thesis
    using set empty assms(2) by (simp add: dialog_publish_def cond_def s1_def throw_def)
qed

theorem empty_publish_raises_witness:
  "error_of (dialog_publish (\<lambda>k. k) no_checkers to_str []
     (sample_editor\<lparr>ce_editor := Some ''x'', ce_diffcb := ''publish''\<rparr>)) = Some TypeError"
  using empty_publish_raises [of "sample_editor\<lparr>ce_editor := Some ''x'', ce_diffcb := ''publish''\<rparr>" "''x''"] by simp

text \<open>Choosing another format throws away what has been typed: the editor shows the text that was loaded,
  and the comparison and the publication go on with that text.\<close>

theorem type_change_discards:
  assumes "data = Obj fs" and "distinct (map fst fs)" and "field data ''configTags'' = Str tags"
    and "field data ''content'' = Str c"
  shows "let s1 = state_of (ce_change_type ty (state_of (type_text u (state_of (config_arrived False data s))))) in
    code_val s1 = Str c \<and> form_field s1 ''type'' = Str ty \<and>
    effects_of (ce_openDiff ''publish'' s1) =
      [Call ''diffEditorDialog.openDialog'' [Str (diff_text c), Str (diff_text c)]]"
proof -
  let ?ts = "if tags = [] then [] else split_on (CHR '','') tags"
  define form where "form = loaded_form fs ?ts (se_form s)"
  have "map_of fs ''content'' = Some (Str c)"
    using assms(4) unfolding assms(1) by (simp split: option.splits)
  then have content: "map_of form ''content'' = Some (Str c)"
    by (simp add: form_def loaded_form_get [OF assms(2)])
  define s0 where "s0 = s\<lparr>se_betaIps := field data ''betaIps'', se_form := form, ce_editor := Some u,
      ce_codeVal := Str c, se_tagDataSource := ?ts, se_casMd5 := field data ''md5''\<rparr>"
  have s0: "state_of (type_text u (state_of (config_arrived False data s))) = s0"
    unfolding loaded_run [OF assms(1,3,4)] by (simp add: type_text_def modify_def s0_def form_def)
  have "form_field s0 ''content'' = Str c" using content by (simp add: form_field_def s0_def)
  then have change: "ce_change_type ty s0 =
      (s0\<lparr>ce_editor := Some c, se_form := assign form [(''type'', Str ty)]\<rparr>, [], None)"
    by (simp add: ce_change_type_def with_state_def initMoacoEditor_def changeForm_def modify_def editor_text_def
        s0_def del: assign_Cons)
  show ?thesis
    unfolding s0 change Let_def
    by (simp add: code_val_def form_field_def map_of_assign ce_openDiff_def modify_def with_state_def emit_def
        js_or_def s0_def del: assign_Cons)
qed

theorem type_change_discards_witness:
  "code_val (state_of (ce_change_type ''json'' (state_of (type_text ''long work''
     (state_of (config_arrived False (Obj sample_data) sample_editor)))))) = Str ''x''"
  using type_change_discards [of "Obj sample_data" sample_data "''a,b''" "''x''" "''json''" "''long work''" sample_editor]
  by (simp add: sample_data_def Let_def)

text \<open>C12. The life of a beta: where a beta may be published its acceptance by the server shows the beta's tab,
  offers to stop it and no longer to publish it, and asks for the beta; stopping it takes the page back
  to the ordinary configuration, where a beta can neither be stopped nor published until it is switched
  on again.\<close>

theorem beta_cycle:
  assumes "addr_ok (ce_win s)" and "can_publish_beta s" and "truthy res" and "truthy (field stopped ''data'')"
  shows "let (s1, e1, x1) = beta_sent wasNew res s; (s2, e2, x2) = beta_stopped stopped s1;
      ns = addr_get (ce_win s) ''namespace'' in
    x1 = None \<and> can_stop_beta s1 \<and> \<not> can_publish_beta s1 \<and> se_tabActiveKey s1 = ''beta'' \<and>
    e1 = [Ajax ''get'' ''v1/cs/configs'' (config_params ns s @ [(''beta'', Bool True)])] \<and>
    x2 = None \<and> \<not> can_stop_beta s2 \<and> \<not> can_publish_beta s2 \<and> can_publish s2 \<and>
    e2 = [Ajax ''get'' ''v1/cs/configs'' (config_params ns s @ [(''show'', Str ''all'')])]"
proof -
  have params: "config_params ns t = config_params ns s" if "se_form t = se_form s" for ns t
    using that by (simp add: config_params_def form_field_def)
  have ask: "getConfig b t = (t, [Ajax ''get'' ''v1/cs/configs''
      (config_params (addr_get (ce_win t) ''namespace'') t @ [if b then (''beta'', Bool True) else (''show'', Str ''all'')])], None)"
    if "addr_ok (ce_win t)" for b t
    using that by (simp add: getConfig_def reading_ok page_keys emit_def)
  define s0 where "s0 = (if wasNew then s\<lparr>se_isNewConfig := False\<rparr> else s)"
  have s0: "ce_win s0 = ce_win s" "se_form s0 = se_form s" "se_isBeta s0 = se_isBeta s"
    by (simp_all add: s0_def)
  define s1 where "s1 = s0\<lparr>se_loading := False, se_betaPublishSuccess := True, se_tabActiveKey := ''beta''\<rparr>"
  have sent: "beta_sent wasNew res s = (s1, [Ajax ''get'' ''v1/cs/configs''
      (config_params (addr_get (ce_win s) ''namespace'') s @ [(''beta'', Bool True)])], None)"
    using assms(1,3) ask [of s0 True] s0
    by (simp add: beta_sent_def config_sent_def modify_def s0_def [symmetric] s1_def params [of s0])
  have fin: "stopped \<notin> {Undef, Null}" using assms(4) by (auto simp: field_def)
  define s2 where "s2 = s1\<lparr>se_isBeta := False, se_betaPublishSuccess := False, se_tabActiveKey := []\<rparr>"
  have w: "ce_win s2 = ce_win s" "se_form s2 = se_form s" by (simp_all add: s2_def s1_def s0)
  have "beta_stopped stopped s1 = (s2, [Ajax ''get'' ''v1/cs/configs''
      (config_params (addr_get (ce_win s) ''namespace'') s @ [(''show'', Str ''all'')])], None)"
    using assms(1,4) fin ask [of s2 False] w
    by (simp add: beta_stopped_def need_object_def modify_def s2_def [symmetric] params [of s2])
  with sent assms(2) show ?thesis
    by (simp add: Let_def can_stop_beta_def can_publish_beta_def can_publish_def s1_def s2_def s0)
qed

theorem beta_cycle_witness:
  "can_stop_beta (state_of (beta_sent False (Bool True) (sample_editor\<lparr>se_isBeta := True, se_betaIps := Str ''1.1.1.1''\<rparr>)))"
proof -
  let ?s = "sample_editor\<lparr>se_isBeta := True, se_betaIps := Str ''1.1.1.1''\<rparr>"
  have "addr_ok (ce_win ?s)" by (simp add: sample_editor_def editor_init_def sample_win_ok)
  moreover have "can_publish_beta ?s" by code_simp
  ultimately show ?thesis
    using beta_cycle [of ?s "Bool True" "Obj [(''data'', Bool True)]" False]
    by (auto simp: Let_def split: prod.splits)
qed

text \<open>Accepting an empty text for a beta reports that it is missing and publishes nevertheless: the
  content that is sent is \<open>false\<close>, to the addresses of the beta.\<close>

theorem empty_beta_sends_false:
  assumes "ce_editor s = Some u" and "ce_diffcb s = ''publishBeta''"
  shows "\<exists>h p. dialog_publish tx ck qs [] s =
      (s\<lparr>se_form := assign (se_form s) [(''content'', Str [])], ce_editor := Some [], se_loading := True\<rparr>,
       [MsgError (tx ''submitFailed''),
        Ajax ''post'' ''v1/cs/configs'' [(''headers'', Obj h), (''data'', Str (qs (Obj p)))]], None) \<and>
    field (Obj p) ''content'' = Bool False \<and> field (Obj h) ''betaIps'' = se_betaIps s"
proof -
  define s1 where "s1 = s\<lparr>se_form := assign (se_form s) [(''content'', Str [])], ce_editor := Some []\<rparr>"
  have set: "setCodeVal [] s = (s1, [], None)" using setCodeVal_run [OF assms(1)] by (simp add: s1_def)
  have "\<not> truthy (code_val s1)" "ce_diffcb s1 = ''publishBeta''" "se_betaIps s1 = se_betaIps s"
    using assms(2) by (simp_all add: code_val_def s1_def)
  then have "dialog_publish tx ck qs [] s = (s1\<lparr>se_loading := True\<rparr>,
       [MsgError (tx ''submitFailed''),
        Ajax ''post'' ''v1/cs/configs'' [(''headers'', Obj (publish_headers True s1)),
          (''data'', Str (qs (Obj (publish_payload (Bool False) s1))))]], None)"
    using set by (simp add: dialog_publish_def cond_def send_config_def getCodeVal_def with_state_def modify_def emit_def)
  moreover have "field (Obj (publish_payload (Bool False) s1)) ''content'' = Bool False" by (simp add: payload_get)
  moreover have "field (Obj (publish_headers True s1)) ''betaIps'' = se_betaIps s" by (simp add: publish_headers_def s1_def)
  ultimately show ?thesis unfolding s1_def by (intro exI conjI) simp_all
qed

theorem empty_beta_sends_false_witness:
  "\<exists>h p. effects_of (dialog_publish (\<lambda>k. k) no_checkers to_str [] (sample_editor\<lparr>ce_editor := Some ''x'', ce_diffcb := ''publishBeta''\<rparr>))
     = [MsgError ''submitFailed'', Ajax ''post'' ''v1/cs/configs'' [(''headers'', Obj h), (''data'', Str (to_str (Obj p)))]] \<and>
     field (Obj p) ''content'' = Bool False"
  using empty_beta_sends_false [of "sample_editor\<lparr>ce_editor := Some ''x'', ce_diffcb := ''publishBeta''\<rparr>" "''x''"
      "\<lambda>k. k" no_checkers to_str]
  by (auto simp del: field_Obj)

text \<open>A beta that has been loaded is the configuration of the page, its md5 included: publishing to everybody
  from the tab of the beta is conditional on the md5 of the beta.\<close>

lemma beta_arrived: "res \<notin> {Undef, Null} \<Longrightarrow> config_arrived True res = config_arrived False (field res ''data'')"
  by (rule ext) (simp add: config_arrived_def form_of_def)

end
