(* ===== verification/Authority.thy ===== *)
theory Authority
  imports Config_History
begin

text \<open>
  The pages of users, roles and permissions under \<open>src/console-ui/src/pages/AuthorityControl/\<close>, with
  the windows that create a user, reset a password, bind a role and grant a permission.

  The values and the errors of a window are a \<open>form\<close>, which stands for the \<open>Field\<close> of the component
  library: what is typed is its values, \<open>setError\<close> replaces the error of a name.  The three pages ask
  for their lists in the same way: the locale \<open>listing_page\<close> states it.
\<close>

section \<open>Forms\<close>

record form =
  fm_values :: slice
  fm_errors :: "(string \<times> string) list"

definition empty_fields :: form where
  "empty_fields = \<lparr>fm_values = [], fm_errors = []\<rparr>"

definition getValue :: "form \<Rightarrow> string \<Rightarrow> jsval" where
  "getValue f k = field (Obj (fm_values f)) k"

definition setError :: "string \<Rightarrow> string \<Rightarrow> form \<Rightarrow> form" where
  "setError k e f = f\<lparr>fm_errors := AList.update k e (fm_errors f)\<rparr>"

text \<open>The walk over the required names: their values, and an error for every one that is missing.\<close>

fun required :: "(string \<times> string) list \<Rightarrow> form \<Rightarrow> jsval list \<times> form" where
  "required [] f = ([], f)"
| "required ((k, e) # es) f =
     (let v = getValue f k;
          (vs, f1) = required es (if truthy v then f else setError k e f)
      in (v # vs, f1))"

definition present :: "jsval list \<Rightarrow> nat" where
  "present vs = length (filter truthy vs)"

definition passwords_agree :: "(string \<Rightarrow> string) \<Rightarrow> jsval list \<Rightarrow> form \<Rightarrow> jsval list option \<times> form" where
  "passwords_agree tx vals f =
     (if getValue f ''password'' \<noteq> getValue f ''rePassword''
      then (None, setError ''rePassword'' (tx ''rePasswordError2'') f) else (Some vals, f))"

definition newUser_check :: "(string \<Rightarrow> string) \<Rightarrow> form \<Rightarrow> jsval list option \<times> form" where
  "newUser_check tx f =
     (case required [(''username'', tx ''usernameError''), (''password'', tx ''passwordError''),
        (''rePassword'', tx ''rePasswordError'')] f of
        (vals, f1) \<Rightarrow> if present vals \<noteq> 3 then (None, f1) else passwords_agree tx vals f1)"

definition passwordReset_check :: "(string \<Rightarrow> string) \<Rightarrow> jsval \<Rightarrow> form \<Rightarrow> jsval list option \<times> form" where
  "passwordReset_check tx username f =
     (case required [(''password'', tx ''passwordError''), (''rePassword'', tx ''rePasswordError'')] f of
        (vals, f1) \<Rightarrow> if present vals \<noteq> 2 then (None, f1) else passwords_agree tx (username # vals) f1)"

definition newRole_check :: "(string \<Rightarrow> string) \<Rightarrow> form \<Rightarrow> jsval list option \<times> form" where
  "newRole_check tx f =
     (case required [(''role'', tx ''roleError''), (''username'', tx ''usernameError'')] f of
        (vals, f1) \<Rightarrow> (if present vals = 2 then Some vals else None, f1))"

definition newPermissions_check :: "(string \<Rightarrow> string) \<Rightarrow> form \<Rightarrow> jsval list option \<times> form" where
  "newPermissions_check tx f =
     (case required [(''role'', tx ''roleError''), (''resource'', tx ''resourceError''),
        (''action'', tx ''actionError'')] f of
        (vals, f1) \<Rightarrow> (if present vals = 3 then Some vals else None, f1))"

text \<open>A request of the axios client that leaves.\<close>

definition axios_send :: "aconfig \<Rightarrow> 's stmt" where
  "axios_send c = emit (\<lambda>_. Ajax (a_method c) (a_url c)
     (case a_params c of Some fs \<Rightarrow> fs | None \<Rightarrow> own_fields (a_data c)))"

text \<open>The arrays the windows hand to the actions, which take them apart.\<close>

definition arg :: "jsval list \<Rightarrow> nat \<Rightarrow> jsval" where
  "arg vs i = slot_or vs i Undef"

section \<open>Search terms\<close>

definition fuzzy_term :: "bool \<Rightarrow> jsval \<Rightarrow> jsval" where
  "fuzzy_term fuzzy v = (if fuzzy \<and> truthy v then Str (''*'' @ to_str v @ ''*'') else v)"

definition has_star :: "jsval \<Rightarrow> bool" where
  "has_star v \<longleftrightarrow> truthy v \<and> str_includes ''*'' (to_str v)"

definition search_mode :: "jsval list \<Rightarrow> jsval" where
  "search_mode vs = Str (if list_ex has_star vs then ''blur'' else ''accurate'')"

text \<open>\<open>totalCount > pageSize\<close>, for a count that is an integer.\<close>

definition pager_shown :: "jsval \<Rightarrow> nat \<Rightarrow> bool" where
  "pager_shown page n = (case field page ''totalCount'' of Num c \<Rightarrow> c > int n | _ \<Rightarrow> False)"

section \<open>Users\<close>

record user_page =
  um_username :: jsval
  um_store :: store
  um_newUser :: form
  um_passwordReset :: form
  us_loading :: bool
  us_pageNo :: jsval
  us_pageSize :: nat
  us_username :: jsval
  us_fuzzy :: bool
  us_createUserVisible :: bool
  us_passwordResetUserVisible :: bool
  us_passwordResetUser :: jsval

definition user_page_init :: "win \<Rightarrow> store \<Rightarrow> js_error + user_page" where
  "user_page_init w st = map_sum id (\<lambda>p. \<lparr>um_username = nullable p, um_store = st,
     um_newUser = empty_fields, um_passwordReset = empty_fields, us_loading = True, us_pageNo = Num 1,
     us_pageSize = 9, us_username = nullable p, us_fuzzy = True, us_createUserVisible = False,
     us_passwordResetUserVisible = False, us_passwordResetUser = Undef\<rparr>) (get_params w ''username'')"

definition users_query :: "user_page \<Rightarrow> slice" where
  "users_query s =
     (let username = fuzzy_term (us_fuzzy s) (um_username s) in
      [(''pageNo'', us_pageNo s), (''pageSize'', Num (int (us_pageSize s))), (''username'', username),
       (''search'', search_mode [username])])"

definition um_getUsers :: "user_page stmt" where
  "um_getUsers = block
     [modify (\<lambda>s. s\<lparr>us_loading := True\<rparr>), emit (\<lambda>s. Ajax ''get'' ''v1/auth/users'' (users_query s))]"

definition um_lower :: "user_page stmt" where
  "um_lower = modify (\<lambda>s. s\<lparr>us_loading := False\<rparr>)"

definition users_answered :: "jsval option \<Rightarrow> user_page stmt" where
  "users_answered = then_catch
     (\<lambda>d. block [modify (\<lambda>s. s\<lparr>um_store := root_reducer (um_store s) (data_action ''USER_LIST'' d)\<rparr>),
        cond us_loading um_lower skip])
     um_lower"

definition um_page :: "jsval \<Rightarrow> user_page stmt" where
  "um_page n = block [modify (\<lambda>s. s\<lparr>us_pageNo := n\<rparr>), um_getUsers]"

definition um_search :: "user_page stmt" where
  "um_search = um_page (Num 1)"

definition um_setUsername :: "jsval \<Rightarrow> user_page stmt" where
  "um_setUsername v = modify (\<lambda>s. s\<lparr>um_username := v, us_username := v\<rparr>)"

definition um_fuzzySwitch :: "user_page stmt" where
  "um_fuzzySwitch = modify (\<lambda>s. s\<lparr>us_fuzzy := \<not> us_fuzzy s\<rparr>)"

definition um_openCreate :: "user_page stmt" where
  "um_openCreate = modify (\<lambda>s. s\<lparr>us_createUserVisible := True\<rparr>)"

definition colseCreateUser :: "user_page stmt" where
  "colseCreateUser = modify (\<lambda>s. s\<lparr>us_createUserVisible := False\<rparr>)"

definition um_openReset :: "jsval \<Rightarrow> user_page stmt" where
  "um_openReset username =
     modify (\<lambda>s. s\<lparr>us_passwordResetUser := username, us_passwordResetUserVisible := True\<rparr>)"

definition um_closeReset :: "user_page stmt" where
  "um_closeReset = modify (\<lambda>s. s\<lparr>us_passwordResetUser := Undef, us_passwordResetUserVisible := False\<rparr>)"

definition password_mask :: "string \<Rightarrow> string" where
  "password_mask = map (\<lambda>c. if is_space c then c else CHR ''*'')"

definition um_askDelete :: "(string \<Rightarrow> string) \<Rightarrow> user_page stmt" where
  "um_askDelete tx = emit (\<lambda>_. Call ''Dialog.confirm'' [Str (tx ''deleteUser''), Str (tx ''deleteUserTip'')])"

definition um_delete :: "jsval \<Rightarrow> user_page stmt" where
  "um_delete username = axios_send (deleteUser username)"

definition user_deleted :: "jsval option \<Rightarrow> user_page stmt" where
  "user_deleted = then_only (\<lambda>res. block [successMsg res, um_page (Num 1)])"

definition newUser_onOk :: "(string \<Rightarrow> string) \<Rightarrow> user_page stmt" where
  "newUser_onOk tx = with_state (\<lambda>s. case newUser_check tx (um_newUser s) of (vals, f) \<Rightarrow> block
     [modify (\<lambda>t. t\<lparr>um_newUser := f\<rparr>),
      (case vals of None \<Rightarrow> skip | Some v \<Rightarrow> axios_send (createUser (arg v 0) (arg v 1)))])"

definition user_created :: "jsval option \<Rightarrow> user_page stmt" where
  "user_created = then_only (\<lambda>res. block [successMsg res, um_page (Num 1), colseCreateUser])"

definition passwordReset_onOk :: "(string \<Rightarrow> string) \<Rightarrow> user_page stmt" where
  "passwordReset_onOk tx = with_state (\<lambda>s.
     case passwordReset_check tx (us_passwordResetUser s) (um_passwordReset s) of (vals, f) \<Rightarrow> block
       [modify (\<lambda>t. t\<lparr>um_passwordReset := f\<rparr>),
        (case vals of None \<Rightarrow> skip | Some v \<Rightarrow> axios_send (passwordReset (arg v 0) (arg v 1)))])"

definition password_reset :: "jsval option \<Rightarrow> user_page stmt" where
  "password_reset = then_only (\<lambda>res. block [successMsg res, um_getUsers, um_closeReset])"

text \<open>What the page reads of the store when it is drawn: reading a list that is not there raises.\<close>

definition drawn :: "store \<Rightarrow> string \<Rightarrow> js_error + jsval list" where
  "drawn st k = (let v = field (Obj (sl_authority st)) k in
     if v \<in> {Undef, Null} then Inl TypeError else Inr (elements (field v ''pageItems'')))"

definition users_drawn :: "store \<Rightarrow> js_error + (jsval \<times> string) list" where
  "users_drawn st = (case drawn st ''users'' of
       Inl e \<Rightarrow> Inl e
     | Inr rows \<Rightarrow>
         if \<forall>r \<in> set rows. js_typeof (field r ''password'') = ''string''
         then Inr (map (\<lambda>r. (field r ''username'', password_mask (to_str (field r ''password'')))) rows)
         else Inl TypeError)"

section \<open>Roles\<close>

record role_page =
  rm_store :: store
  rm_newRole :: form
  rm_dataSource :: jsval
  rs_loading :: bool
  rs_pageNo :: jsval
  rs_pageSize :: nat
  rs_role :: jsval
  rs_username :: jsval
  rs_fuzzy :: bool
  rs_createRoleVisible :: bool

definition role_page_init :: "store \<Rightarrow> role_page" where
  "role_page_init st = \<lparr>rm_store = st, rm_newRole = empty_fields, rm_dataSource = Arr [], rs_loading = True,
     rs_pageNo = Num 1, rs_pageSize = 9, rs_role = Str [], rs_username = Undef, rs_fuzzy = True,
     rs_createRoleVisible = False\<rparr>"

definition roles_query :: "role_page \<Rightarrow> slice" where
  "roles_query s =
     (let username = fuzzy_term (rs_fuzzy s) (rs_username s); role = fuzzy_term (rs_fuzzy s) (rs_role s) in
      [(''pageNo'', rs_pageNo s), (''pageSize'', Num (int (rs_pageSize s))), (''role'', role),
       (''username'', username), (''search'', search_mode [role, username])])"

definition rm_getRoles :: "role_page stmt" where
  "rm_getRoles = block
     [modify (\<lambda>s. s\<lparr>rs_loading := True\<rparr>), emit (\<lambda>s. Ajax ''get'' ''v1/auth/roles'' (roles_query s))]"

definition rm_lower :: "role_page stmt" where
  "rm_lower = modify (\<lambda>s. s\<lparr>rs_loading := False\<rparr>)"

definition roles_answered :: "jsval option \<Rightarrow> role_page stmt" where
  "roles_answered = then_catch
     (\<lambda>d. block [modify (\<lambda>s. s\<lparr>rm_store := root_reducer (rm_store s) (data_action ''ROLE_LIST'' d)\<rparr>),
        cond rs_loading rm_lower skip])
     rm_lower"

definition rm_page :: "jsval \<Rightarrow> role_page stmt" where
  "rm_page n = block [modify (\<lambda>s. s\<lparr>rs_pageNo := n\<rparr>), rm_getRoles]"

definition rm_search :: "role_page stmt" where
  "rm_search = rm_page (Num 1)"

definition rm_setUsername :: "jsval \<Rightarrow> role_page stmt" where
  "rm_setUsername v = modify (\<lambda>s. s\<lparr>rs_username := v\<rparr>)"

definition rm_setRole :: "jsval \<Rightarrow> role_page stmt" where
  "rm_setRole v = modify (\<lambda>s. s\<lparr>rs_role := v\<rparr>)"

definition rm_fuzzySwitch :: "role_page stmt" where
  "rm_fuzzySwitch = modify (\<lambda>s. s\<lparr>rs_fuzzy := \<not> rs_fuzzy s\<rparr>)"

definition rm_openCreate :: "role_page stmt" where
  "rm_openCreate = modify (\<lambda>s. s\<lparr>rs_createRoleVisible := True\<rparr>)"

definition colseCreateRole :: "role_page stmt" where
  "colseCreateRole = modify (\<lambda>s. s\<lparr>rs_createRoleVisible := False\<rparr>)"

text \<open>The cell of the operations: the role of the administrator has none.\<close>

definition role_deletable :: "jsval \<Rightarrow> bool" where
  "role_deletable rec \<longleftrightarrow> field rec ''role'' \<noteq> Str ''ROLE_ADMIN''"

definition rm_askDelete :: "(string \<Rightarrow> string) \<Rightarrow> role_page stmt" where
  "rm_askDelete tx = emit (\<lambda>_. Call ''Dialog.confirm'' [Str (tx ''deleteRole''), Str (tx ''deleteRoleTip'')])"

definition rm_delete :: "jsval \<Rightarrow> role_page stmt" where
  "rm_delete rec = axios_send (deleteRole rec)"

definition role_deleted :: "jsval option \<Rightarrow> role_page stmt" where
  "role_deleted = then_only (\<lambda>res. block [successMsg res, rm_page (Num 1)])"

definition newRole_onOk :: "(string \<Rightarrow> string) \<Rightarrow> role_page stmt" where
  "newRole_onOk tx = with_state (\<lambda>s. case newRole_check tx (rm_newRole s) of (vals, f) \<Rightarrow> block
     [modify (\<lambda>t. t\<lparr>rm_newRole := f\<rparr>),
      (case vals of None \<Rightarrow> skip | Some v \<Rightarrow> axios_send (createRole (arg v 0) (arg v 1)))])"

definition role_created :: "jsval option \<Rightarrow> role_page stmt" where
  "role_created = then_only (\<lambda>res. block [successMsg res, rm_getRoles, colseCreateRole])"

definition newRole_handleChange :: "string \<Rightarrow> role_page stmt" where
  "newRole_handleChange v = (if length v > 0 then axios_send (searchUsers (Str v)) else skip)"

definition users_found :: "jsval option \<Rightarrow> role_page stmt" where
  "users_found = then_only (\<lambda>v. block [successMsg v, modify (\<lambda>s. s\<lparr>rm_dataSource := v\<rparr>)])"

section \<open>Permissions\<close>

record permission_page =
  pm_store :: store
  pm_newPermissions :: form
  pm_dataSource :: jsval
  ps_loading :: bool
  ps_pageNo :: jsval
  ps_pageSize :: nat
  ps_role :: jsval
  ps_fuzzy :: bool
  ps_createPermissionVisible :: bool

definition permission_page_init :: "store \<Rightarrow> permission_page" where
  "permission_page_init st = \<lparr>pm_store = st, pm_newPermissions = empty_fields, pm_dataSource = Arr [],
     ps_loading = True, ps_pageNo = Num 1, ps_pageSize = 9, ps_role = Str [], ps_fuzzy = True,
     ps_createPermissionVisible = False\<rparr>"

definition permissions_query :: "permission_page \<Rightarrow> slice" where
  "permissions_query s =
     (let role = fuzzy_term (ps_fuzzy s) (ps_role s) in
      [(''pageNo'', ps_pageNo s), (''pageSize'', Num (int (ps_pageSize s))), (''role'', role),
       (''search'', search_mode [role])])"

definition pm_getPermissions :: "permission_page stmt" where
  "pm_getPermissions = block
     [modify (\<lambda>s. s\<lparr>ps_loading := True\<rparr>),
      emit (\<lambda>s. Ajax ''get'' ''v1/auth/permissions'' (permissions_query s))]"

definition pm_lower :: "permission_page stmt" where
  "pm_lower = modify (\<lambda>s. s\<lparr>ps_loading := False\<rparr>)"

definition permissions_answered :: "jsval option \<Rightarrow> permission_page stmt" where
  "permissions_answered = then_catch
     (\<lambda>d. block [modify (\<lambda>s. s\<lparr>pm_store := root_reducer (pm_store s) (data_action ''PERMISSIONS_LIST'' d)\<rparr>),
        cond ps_loading pm_lower skip])
     pm_lower"

definition pm_componentDidMount :: "permission_page stmt" where
  "pm_componentDidMount = block [pm_getPermissions, emit (\<lambda>_. Ajax ''get'' ''v1/console/namespaces'' [])]"

definition pm_page :: "jsval \<Rightarrow> permission_page stmt" where
  "pm_page n = block [modify (\<lambda>s. s\<lparr>ps_pageNo := n\<rparr>), pm_getPermissions]"

definition pm_search :: "permission_page stmt" where
  "pm_search = pm_page (Num 1)"

definition pm_setRole :: "jsval \<Rightarrow> permission_page stmt" where
  "pm_setRole v = modify (\<lambda>s. s\<lparr>ps_role := v\<rparr>)"

definition pm_fuzzySwitch :: "permission_page stmt" where
  "pm_fuzzySwitch = modify (\<lambda>s. s\<lparr>ps_fuzzy := \<not> ps_fuzzy s\<rparr>)"

definition pm_openCreate :: "permission_page stmt" where
  "pm_openCreate = modify (\<lambda>s. s\<lparr>ps_createPermissionVisible := True\<rparr>)"

definition colseCreatePermission :: "permission_page stmt" where
  "colseCreatePermission = modify (\<lambda>s. s\<lparr>ps_createPermissionVisible := False\<rparr>)"

definition getActionText :: "(string \<Rightarrow> string) \<Rightarrow> string \<Rightarrow> string option" where
  "getActionText tx = map_of
     [(''r'', tx ''readOnly'' @ '' (r)''), (''w'', tx ''writeOnly'' @ '' (w)''), (''rw'', tx ''readWrite'' @ '' (rw)'')]"

text \<open>The cell of a resource: the first namespace whose id stands before the first colon.  The default of
  the destructuring stands for a resource of no known namespace.\<close>

definition resource_cell :: "jsval list \<Rightarrow> string \<Rightarrow> string" where
  "resource_cell namespaces v =
     (let item = slot_or (filter (\<lambda>n. Str (slot_or (split_on (CHR '':'') v) 0 []) = field n ''namespace'') namespaces) 0 (Obj []);
          namespaceShowName = with_default (field item ''namespaceShowName'') (Str []);
          namespace = with_default (field item ''namespace'') (Str [])
      in to_str namespaceShowName @ (if truthy namespace then '' ('' @ to_str namespace @ '')'' else []))"

definition resource_option :: "jsval \<Rightarrow> string \<times> string" where
  "resource_option n =
     (to_str (field n ''namespace'') @ '':*:*'',
      to_str (field n ''namespaceShowName'') @ '' '' @
        (if truthy (field n ''namespace'') then ''('' @ to_str (field n ''namespace'') @ '')'' else []))"

definition pm_askDelete :: "(string \<Rightarrow> string) \<Rightarrow> permission_page stmt" where
  "pm_askDelete tx =
     emit (\<lambda>_. Call ''Dialog.confirm'' [Str (tx ''deletePermission''), Str (tx ''deletePermissionTip'')])"

definition pm_delete :: "jsval \<Rightarrow> permission_page stmt" where
  "pm_delete rec = axios_send (deletePermission rec)"

definition permission_deleted :: "jsval option \<Rightarrow> permission_page stmt" where
  "permission_deleted = then_only (\<lambda>res. block [successMsg res, pm_page (Num 1)])"

definition newPermissions_onOk :: "(string \<Rightarrow> string) \<Rightarrow> permission_page stmt" where
  "newPermissions_onOk tx = with_state (\<lambda>s. case newPermissions_check tx (pm_newPermissions s) of (vals, f) \<Rightarrow> block
     [modify (\<lambda>t. t\<lparr>pm_newPermissions := f\<rparr>),
      (case vals of None \<Rightarrow> skip | Some v \<Rightarrow> axios_send (createPermission (arg v 0) (arg v 1) (arg v 2)))])"

definition permission_created :: "jsval option \<Rightarrow> permission_page stmt" where
  "permission_created = then_only (\<lambda>res. block [successMsg res, pm_page (Num 1), colseCreatePermission])"

definition newPermissions_handleChange :: "string \<Rightarrow> permission_page stmt" where
  "newPermissions_handleChange v = (if length v > 0 then axios_send (searchRoles (Str v)) else skip)"

definition roles_found :: "jsval option \<Rightarrow> permission_page stmt" where
  "roles_found = then_only (\<lambda>v. block [successMsg v, modify (\<lambda>s. s\<lparr>pm_dataSource := v\<rparr>)])"

section \<open>What the pages share\<close>

text \<open>
  A page that lists a field of the authority slice: it asks under an indicator, an answer is dispatched
  and takes the indicator down, a failure only takes it down; to turn to a page is to ask for it.
\<close>

locale listing_page =
  fixes loading :: "'s \<Rightarrow> bool" and page_no :: "'s \<Rightarrow> jsval" and kept :: "'s \<Rightarrow> store"
    and turn_to :: "jsval \<Rightarrow> 's stmt" and answered :: "jsval option \<Rightarrow> 's stmt" and kind :: string
  assumes turn_raises: "loading (state_of (turn_to n s))"
    and turn_page: "page_no (state_of (turn_to n s)) = n"
    and turn_keeps: "kept (state_of (turn_to n s)) = kept s"
    and answered_lowers: "\<not> loading (state_of (answered r s))"
    and answered_page: "page_no (state_of (answered r s)) = page_no s"
    and answered_kept: "kept (state_of (answered r s)) =
      (case r of None \<Rightarrow> kept s | Some d \<Rightarrow> root_reducer (kept s) (data_action kind d))"
begin

lemma asked_and_answered:
  "\<not> loading (state_of (answered r (state_of (turn_to n s)))) \<and>
   page_no (state_of (answered r (state_of (turn_to n s)))) = n \<and>
   kept (state_of (answered r (state_of (turn_to n s)))) =
     (case r of None \<Rightarrow> kept s | Some d \<Rightarrow> root_reducer (kept s) (data_action kind d))"
  by (simp add: answered_lowers answered_page turn_page answered_kept turn_keeps split: option.split)

text \<open>Any walk through the pages ends on the last one asked for, uncovered.\<close>

lemma after_walk:
  "ns \<noteq> [] \<Longrightarrow> length rs = length ns \<Longrightarrow>
   (let s1 = run (concat (map (\<lambda>(n, r). [turn_to n, answered r]) (zip ns rs))) s
    in \<not> loading s1 \<and> page_no s1 = last ns)"
proof (induction ns arbitrary: rs s)
  case Nil
  then show ?case by simp
next
  case (Cons n ns)
  then obtain r rs' where rs: "rs = r # rs'" "length rs' = length ns" by (cases rs) auto
  show ?case
  proof (cases "ns = []")
    case True
    with rs show ?thesis by (simp add: answered_lowers answered_page turn_page)
  next
    case False
    with Cons.IH [OF False rs(2)] rs show ?thesis by (simp add: Let_def)
  qed
qed

end

lemmas page_stmt_defs = modify_def emit_def cond_def skip_def then_catch_def

interpretation user_list: listing_page us_loading us_pageNo um_store um_page users_answered "''USER_LIST''"
  by unfold_locales (simp_all add: um_page_def um_getUsers_def users_answered_def um_lower_def page_stmt_defs
      split: option.split)

interpretation role_list: listing_page rs_loading rs_pageNo rm_store rm_page roles_answered "''ROLE_LIST''"
  by unfold_locales (simp_all add: rm_page_def rm_getRoles_def roles_answered_def rm_lower_def page_stmt_defs
      split: option.split)

interpretation permission_list: listing_page ps_loading ps_pageNo pm_store pm_page permissions_answered
    "''PERMISSIONS_LIST''"
  by unfold_locales (simp_all add: pm_page_def pm_getPermissions_def permissions_answered_def pm_lower_def
      page_stmt_defs split: option.split)

section \<open>The lists keep their type\<close>




lemma field_assign_one:
  "field (Obj (assign s [(k, v)])) j = (if j = k then v else field (Obj s) j)"
  by (simp add: AList.update_conv')





lemma drawn_kept:
  assumes "kind = ''USER_LIST'' \<and> k = ''users'' \<or> kind = ''ROLE_LIST'' \<and> k = ''roles'' \<or>
    kind = ''PERMISSIONS_LIST'' \<and> k = ''permissions''"
  shows "drawn (case r of None \<Rightarrow> st | Some d \<Rightarrow> root_reducer st (data_action kind d)) k =
    (case r of None \<Rightarrow> drawn st k | Some d \<Rightarrow> Inr (elements (field (spread d) ''pageItems'')))"
proof (cases r)
  case None
  then show ?thesis by simp
next
  case (Some d)
  have "sl_authority (root_reducer st (data_action kind d)) = assign (sl_authority st) [(k, spread d)]"
    using assms by (auto simp: authority_reducer_def data_action_def act_data_def simp del: assign_Cons)
  then show ?thesis
    by (simp add: Some drawn_def field_assign_one spread_def del: field_Obj assign_Cons)
qed


section \<open>Searching\<close>

text \<open>On each of the three pages a search asks for the first page under the indicator, and whatever
  comes back, even nothing, the indicator is down, the first page is the current one, and the rows are
  those of the answer, or the ones from before when there was none.\<close>

theorem search_round:
  "(let s1 = state_of (users_answered r (state_of (um_search s))) in
     \<not> us_loading s1 \<and> us_pageNo s1 = Num 1 \<and> drawn (um_store s1) ''users'' =
       (case r of None \<Rightarrow> drawn (um_store s) ''users'' | Some d \<Rightarrow> Inr (elements (field (spread d) ''pageItems'')))) \<and>
   (let t1 = state_of (roles_answered r (state_of (rm_search t))) in
     \<not> rs_loading t1 \<and> rs_pageNo t1 = Num 1 \<and> drawn (rm_store t1) ''roles'' =
       (case r of None \<Rightarrow> drawn (rm_store t) ''roles'' | Some d \<Rightarrow> Inr (elements (field (spread d) ''pageItems'')))) \<and>
   (let p1 = state_of (permissions_answered r (state_of (pm_search p))) in
     \<not> ps_loading p1 \<and> ps_pageNo p1 = Num 1 \<and> drawn (pm_store p1) ''permissions'' =
       (case r of None \<Rightarrow> drawn (pm_store p) ''permissions'' | Some d \<Rightarrow> Inr (elements (field (spread d) ''pageItems''))))"
  unfolding um_search_def rm_search_def pm_search_def Let_def
  by (simp only: user_list.asked_and_answered role_list.asked_and_answered
      permission_list.asked_and_answered drawn_kept simp_thms)

lemma star_around: "str_includes ''*'' (''*'' @ u @ ''*'')"
  by simp

lemma has_star_fuzzy:
  "has_star (fuzzy_term f (Str u)) \<longleftrightarrow> u \<noteq> [] \<and> (f \<or> CHR ''*'' \<in> set u)"
  by (auto simp: fuzzy_term_def has_star_def includes_iff in_set_conv_decomp)

text \<open>The three pages ask for a fuzzy search exactly when the switch is on and a term is given, or when
  a given term contains a star: with the switch off the terms leave as they were typed.\<close>

theorem search_is_fuzzy:
  "search_mode [fuzzy_term f (Str u)] =
     Str (if u \<noteq> [] \<and> (f \<or> CHR ''*'' \<in> set u) then ''blur'' else ''accurate'') \<and>
   search_mode [fuzzy_term f (Str u), fuzzy_term f (Str v)] =
     Str (if u @ v \<noteq> [] \<and> (f \<or> CHR ''*'' \<in> set (u @ v)) then ''blur'' else ''accurate'') \<and>
   fuzzy_term False w = w"
  by (auto simp: search_mode_def has_star_fuzzy) (simp_all add: fuzzy_term_def)

section \<open>The windows\<close>

definition missing :: "(string \<times> string) list \<Rightarrow> form \<Rightarrow> (string \<times> string) list" where
  "missing es f = filter (\<lambda>(k, e). \<not> truthy (getValue f k)) es"

lemma getValue_setError [simp]: "getValue (setError k e f) j = getValue f j"
  by (simp add: getValue_def setError_def)

lemma getValue_errors [simp]: "getValue (f\<lparr>fm_errors := es\<rparr>) j = getValue f j"
  by (simp add: getValue_def)

lemma missing_setError [simp]: "missing es (setError k e f) = missing es f"
  by (simp add: missing_def)

lemma required_spec:
  "required es f = (map (getValue f \<circ> fst) es, f\<lparr>fm_errors := assign (fm_errors f) (missing es f)\<rparr>)"
proof (induction es f rule: required.induct)
  case (1 f)
  then show ?case by (simp add: missing_def)
next
  case (2 k e es f)
  then show ?case by (cases "truthy (getValue f k)") (simp_all add: missing_def setError_def Let_def)
qed

lemma present_all: "present (map (getValue f \<circ> fst) es) = length es \<longleftrightarrow> missing es f = []"
proof -
  have "present (map (getValue f \<circ> fst) es) + length (missing es f) = length es"
    by (induction es) (auto simp: present_def missing_def)
  then show ?thesis by auto
qed

text \<open>C34. The windows hand on what was entered exactly when nothing required is missing and, where a
  password is chosen, it was repeated; then no error is set.  Otherwise nothing leaves, and every missing
  field gets its error, the repetition the error of a difference.\<close>

theorem windows_check:
  "newRole_check tx f =
     (let es = [(''role'', tx ''roleError''), (''username'', tx ''usernameError'')]; m = missing es f in
      (if m = [] then Some [getValue f ''role'', getValue f ''username''] else None,
       f\<lparr>fm_errors := assign (fm_errors f) m\<rparr>)) \<and>
   newUser_check tx f =
     (let es = [(''username'', tx ''usernameError''), (''password'', tx ''passwordError''),
            (''rePassword'', tx ''rePasswordError'')];
          m = missing es f; same = getValue f ''password'' = getValue f ''rePassword'' in
      (if m = [] \<and> same then Some [getValue f ''username'', getValue f ''password'', getValue f ''rePassword''] else None,
       f\<lparr>fm_errors := assign (fm_errors f)
         (if m = [] \<and> \<not> same then [(''rePassword'', tx ''rePasswordError2'')] else m)\<rparr>)) \<and>
   passwordReset_check tx u f =
     (let es = [(''password'', tx ''passwordError''), (''rePassword'', tx ''rePasswordError'')];
          m = missing es f; same = getValue f ''password'' = getValue f ''rePassword'' in
      (if m = [] \<and> same then Some [u, getValue f ''password'', getValue f ''rePassword''] else None,
       f\<lparr>fm_errors := assign (fm_errors f)
         (if m = [] \<and> \<not> same then [(''rePassword'', tx ''rePasswordError2'')] else m)\<rparr>))"
proof (intro conjI)
  note checks = required_spec passwords_agree_def setError_def Let_def
  let ?role = "[(''role'', tx ''roleError''), (''username'', tx ''usernameError'')]"
  let ?user = "[(''username'', tx ''usernameError''), (''password'', tx ''passwordError''), (''rePassword'', tx ''rePasswordError'')]"
  let ?reset = "[(''password'', tx ''passwordError''), (''rePassword'', tx ''rePasswordError'')]"
  show "newRole_check tx f = (let es = ?role; m = missing es f in
      (if m = [] then Some [getValue f ''role'', getValue f ''username''] else None,
       f\<lparr>fm_errors := assign (fm_errors f) m\<rparr>))"
    using present_all [of f ?role]
    by (cases "missing ?role f = []") (simp_all add: newRole_check_def checks)
  show "newUser_check tx f = (let es = ?user; m = missing es f; same = getValue f ''password'' = getValue f ''rePassword'' in
      (if m = [] \<and> same then Some [getValue f ''username'', getValue f ''password'', getValue f ''rePassword''] else None,
       f\<lparr>fm_errors := assign (fm_errors f)
         (if m = [] \<and> \<not> same then [(''rePassword'', tx ''rePasswordError2'')] else m)\<rparr>))"
    using present_all [of f ?user]
    by (cases "missing ?user f = []") (simp_all add: newUser_check_def checks)
  show "passwordReset_check tx u f = (let es = ?reset; m = missing es f; same = getValue f ''password'' = getValue f ''rePassword'' in
      (if m = [] \<and> same then Some [u, getValue f ''password'', getValue f ''rePassword''] else None,
       f\<lparr>fm_errors := assign (fm_errors f)
         (if m = [] \<and> \<not> same then [(''rePassword'', tx ''rePasswordError2'')] else m)\<rparr>))"
    using present_all [of f ?reset]
    by (cases "missing ?reset f = []") (simp_all add: passwordReset_check_def checks)
qed

section \<open>Resources\<close>

definition namespace_rows :: "jsval list \<Rightarrow> bool" where
  "namespace_rows ns \<longleftrightarrow>
     (\<forall>n \<in> set ns. \<exists>i s. field n ''namespace'' = Str i \<and> field n ''namespaceShowName'' = Str s \<and> CHR '':'' \<notin> set i) \<and>
     distinct (map (\<lambda>n. field n ''namespace'') ns)"

lemma filter_key_unique:
  "distinct (map g xs) \<Longrightarrow> x \<in> set xs \<Longrightarrow> filter (\<lambda>y. g x = g y) xs = [x]"
proof (induction xs)
  case Nil
  then show ?case by simp
next
  case (Cons y ys)
  have "g x \<noteq> g y" if "x \<noteq> y"
  proof -
    have "x \<in> set ys" using Cons.prems(2) that by simp
    then have "g x \<in> g ` set ys" by (rule imageI)
    moreover have "g y \<notin> g ` set ys" using Cons.prems(1) by simp
    ultimately show ?thesis by metis
  qed
  then show ?case using Cons.IH Cons.prems by (cases "x = y") (auto simp: filter_empty_conv)
qed

text \<open>A permission granted for a namespace chosen in the window is shown in the table with the name and
  the id of that namespace, the public one, whose id is empty, with its name alone: the text of the
  option, less the blank at its end.\<close>

theorem resource_roundtrip:
  assumes "namespace_rows ns" and "n \<in> set ns"
    and "field n ''namespace'' = Str i" and "field n ''namespaceShowName'' = Str s"
  shows "resource_cell ns (fst (resource_option n)) = (if i = [] then s else snd (resource_option n)) \<and>
    snd (resource_option n) = s @ '' '' @ (if i = [] then [] else ''('' @ i @ '')'')"
proof
  have colon: "CHR '':'' \<notin> set i" using assms(1-3) by (auto simp: namespace_rows_def)
  have first: "slot_or (split_on (CHR '':'') (i @ '':*:*'')) 0 [] = i"
    using split_on_append [OF colon, of "''*:*''"] by (simp add: slot_or_def)
  have "filter (\<lambda>m. Str i = field m ''namespace'') ns = [n]"
    using filter_key_unique [of "\<lambda>m. field m ''namespace''" ns n] assms by (simp add: namespace_rows_def)
  with first assms(3,4) show "resource_cell ns (fst (resource_option n)) = (if i = [] then s else snd (resource_option n))"
    by (simp add: resource_cell_def resource_option_def Let_def slot_or_def with_default_def del: field_Obj)
  show "snd (resource_option n) = s @ '' '' @ (if i = [] then [] else ''('' @ i @ '')'')"
    using assms(3,4) by (simp add: resource_option_def)
qed

definition sample_rows :: "jsval list" where
  "sample_rows = [Obj [(''namespace'', Str []), (''namespaceShowName'', Str ''public'')],
     Obj [(''namespace'', Str ''dev''), (''namespaceShowName'', Str ''Development'')]]"

theorem resource_roundtrip_witness:
  "resource_cell sample_rows ''dev:*:*'' = ''Development (dev)'' \<and> resource_cell sample_rows '':*:*'' = ''public''"
proof -
  have rows: "namespace_rows sample_rows" by (simp add: namespace_rows_def sample_rows_def)
  show ?thesis
    using resource_roundtrip [OF rows, of "sample_rows ! 1" "''dev''" "''Development''"]
      resource_roundtrip [OF rows, of "sample_rows ! 0" "[]" "''public''"]
    by (simp add: sample_rows_def resource_option_def)
qed

text \<open>Creating a role leaves the page where it is; the two other pages go back to the first.\<close>

lemma created_page:
  "res \<notin> {Undef, Null} \<Longrightarrow> us_pageNo (state_of (user_created (Some res) s)) = Num 1"
  "res \<notin> {Undef, Null} \<Longrightarrow> ps_pageNo (state_of (permission_created (Some res) p)) = Num 1"
  "res \<notin> {Undef, Null} \<Longrightarrow> rs_pageNo (state_of (role_created (Some res) t)) = rs_pageNo t"
  by (auto simp: user_created_def permission_created_def role_created_def successMsg_def need_object_def
      um_page_def um_getUsers_def pm_page_def pm_getPermissions_def rm_getRoles_def colseCreateUser_def
      colseCreatePermission_def colseCreateRole_def stmt_defs split: prod.split)

end
