(* ===== verification/Cluster_Nodes.thy ===== *)
theory Cluster_Nodes
  imports Config_History
begin

text \<open>
  The list of the nodes of the cluster,
  \<open>src/console-ui/src/pages/ClusterManagement/ClusterNodeList/ClusterNodeList.js\<close>: its search, its pages,
  and how a node is told to leave.
\<close>

record cluster_page =
  cn_browser :: browser
  cn_loading :: bool
  cn_total :: jsval
  cn_pageSize :: nat
  cn_currentPage :: nat
  cn_keyword :: string
  cn_dataSource :: jsval
  cn_namespace :: "jsval \<times> jsval"

definition cluster_page_init :: "browser \<Rightarrow> cluster_page" where
  "cluster_page_init b = \<lparr>cn_browser = b, cn_loading = False, cn_total = Num 0, cn_pageSize = 10,
     cn_currentPage = 1, cn_keyword = [], cn_dataSource = Arr [], cn_namespace = (Undef, Undef)\<rparr>"

definition cn_open :: "cluster_page stmt" where
  "cn_open = modify (\<lambda>s. s\<lparr>cn_loading := True\<rparr>)"

definition cn_close :: "cluster_page stmt" where
  "cn_close = modify (\<lambda>s. s\<lparr>cn_loading := False\<rparr>)"

definition nodes_url :: "cluster_page \<Rightarrow> string" where
  "nodes_url s = ''v1/core/cluster/nodes?'' @ js_join ''&''
     [''withInstances=false'', ''pageNo='' @ nat_str (cn_currentPage s),
      ''pageSize='' @ nat_str (cn_pageSize s), ''keyword='' @ cn_keyword s]"

definition queryClusterStateList :: "cluster_page stmt" where
  "queryClusterStateList = block [cn_open, emit (\<lambda>s. Ajax ''GET'' (nodes_url s) [])]"

text \<open>The parameter has a default for \<open>undefined\<close>; taking \<open>null\<close> apart raises.\<close>

definition nodes_success :: "jsval \<Rightarrow> cluster_page stmt" where
  "nodes_success r =
     (if r = Null then throw TypeError
      else modify (\<lambda>s. s\<lparr>cn_dataSource := with_default (field r ''data'') (Arr []),
        cn_total := with_default (field r ''count'') (Num 0)\<rparr>))"

definition nodes_error :: "jsval \<Rightarrow> cluster_page stmt" where
  "nodes_error e = modify (\<lambda>s. s\<lparr>cn_dataSource := Arr [], cn_total := Num 0, cn_currentPage := 0\<rparr>)"

text \<open>\<open>getQueryLater\<close>: the query when the stack is empty; the page runs it when it appears.\<close>

definition cn_getQueryLater :: "cluster_page stmt" where
  "cn_getQueryLater = queryClusterStateList"

definition cn_componentDidMount :: "cluster_page stmt" where
  "cn_componentDidMount = cn_getQueryLater"

definition cn_setKeyword :: "string \<Rightarrow> cluster_page stmt" where
  "cn_setKeyword k = modify (\<lambda>s. s\<lparr>cn_keyword := k\<rparr>)"

definition cn_turn :: "nat \<Rightarrow> cluster_page stmt" where
  "cn_turn n = block [modify (\<lambda>s. s\<lparr>cn_currentPage := n\<rparr>), queryClusterStateList]"

definition cn_search :: "cluster_page stmt" where
  "cn_search = cn_turn 1"

definition cn_setNowNameSpace :: "jsval \<Rightarrow> jsval \<Rightarrow> cluster_page stmt" where
  "cn_setNowNameSpace n i = modify (\<lambda>s. s\<lparr>cn_namespace := (n, i)\<rparr>)"

definition showErrorDialog :: "string \<Rightarrow> string \<Rightarrow> cluster_page stmt" where
  "showErrorDialog title content = emit (\<lambda>_. Alert title content)"

definition showLeaveDialog :: "(string \<Rightarrow> string) \<Rightarrow> cluster_page stmt" where
  "showLeaveDialog tx = emit (\<lambda>_. Confirm (tx ''confirm''))"

definition leave :: "jsval list \<Rightarrow> cluster_page stmt" where
  "leave nodes = with_state (\<lambda>s.
     let t = or_empty (get_item (cn_browser s) ''token'') in
     case json_parse (if t = [] then ''{}'' else t) of
       None \<Rightarrow> throw SyntaxError
     | Some token \<Rightarrow> need_object token (block
         [cn_open,
          emit (\<lambda>_. Ajax ''post'' (''v1/core/cluster/server/leave?accessToken='' @ to_str (field token ''accessToken''))
            (own_fields (Arr nodes)))]))"

definition leave_then :: "(string \<Rightarrow> string) \<Rightarrow> jsval \<Rightarrow> cluster_page stmt" where
  "leave_then tx response = need_object response (need_object (field response ''data'') (block
     [(if field (field response ''data'') ''code'' = Num 200 then emit (\<lambda>_. MsgSuccess (tx ''leaveSucc''))
       else showErrorDialog (tx ''leavePrompt'')
         (to_str (js_or (field (field response ''data'') ''message'') (Str (tx ''leaveFail''))))),
      queryClusterStateList, cn_close]))"

definition leave_catch :: "(string \<Rightarrow> string) \<Rightarrow> jsval \<Rightarrow> cluster_page stmt" where
  "leave_catch tx e = block
     [showErrorDialog (tx ''leavePrompt'')
        (to_str (js_or (field (field (field e ''response'') ''data'') ''message'') (Str (tx ''leaveFail'')))),
      queryClusterStateList, cn_close]"

text \<open>The chain of the request: what \<open>then\<close> raises goes to \<open>catch\<close>, as an error without a response.\<close>

definition leave_settled :: "(string \<Rightarrow> string) \<Rightarrow> jsval response \<Rightarrow> cluster_page stmt" where
  "leave_settled tx r =
     (case r of
        Success x \<Rightarrow> then_catch (leave_then tx) (leave_catch tx Undef) (Some x)
      | Failure e \<Rightarrow> leave_catch tx e)"

definition node_color :: "jsval \<Rightarrow> string" where
  "node_color v =
     (if v = Str ''UP'' then ''green'' else if v = Str ''DOWN'' then ''red''
      else if v = Str ''SUSPICIOUS'' then ''orange'' else ''turquoise'')"

section \<open>Properties\<close>

interpretation nodes: ajax_call cn_loading queryClusterStateList nodes_success nodes_error cn_close
  by unfold_locales (simp_all add: queryClusterStateList_def cn_open_def cn_close_def modify_def emit_def)

lemma query_run: "queryClusterStateList s = (s\<lparr>cn_loading := True\<rparr>, [Ajax ''GET'' (nodes_url s) []], None)"
  by (simp add: queryClusterStateList_def cn_open_def stmt_defs nodes_url_def)

text \<open>An empty answer is no failure: the parameter has a default, \<open>null\<close> has none.\<close>

lemma nodes_lowered:
  "r \<noteq> Success Null \<Longrightarrow> \<not> cn_loading (state_of (settle nodes_success nodes_error cn_close r s))"
  by (rule nodes.settle_lowers, simp add: nodes.settle_error_iff)
    (cases r; simp add: nodes_success_def nodes_error_def modify_def)

definition leave_report :: "(string \<Rightarrow> string) \<Rightarrow> jsval response \<Rightarrow> effect" where
  "leave_report tx r =
     (case r of
        Failure e \<Rightarrow> Alert (tx ''leavePrompt'')
          (to_str (js_or (field (field (field e ''response'') ''data'') ''message'') (Str (tx ''leaveFail''))))
      | Success x \<Rightarrow>
          if field (field x ''data'') ''code'' = Num 200 then MsgSuccess (tx ''leaveSucc'')
          else Alert (tx ''leavePrompt'') (to_str (js_or (field (field x ''data'') ''message'') (Str (tx ''leaveFail'')))))"

lemma field_of_nothing: "v \<in> {Undef, Null} \<Longrightarrow> field v k = Undef"
  by (auto simp: field_def)

lemma leave_then_run:
  "x \<notin> {Undef, Null} \<Longrightarrow> field x ''data'' \<notin> {Undef, Null} \<Longrightarrow>
   leave_then tx x s = (s\<lparr>cn_loading := False\<rparr>, [leave_report tx (Success x), Ajax ''GET'' (nodes_url s) []], None)"
  by (simp add: leave_then_def need_object_def query_run cn_close_def showErrorDialog_def emit_def modify_def
      leave_report_def)

lemma leave_catch_run:
  "leave_catch tx e s = (s\<lparr>cn_loading := False\<rparr>, [leave_report tx (Failure e), Ajax ''GET'' (nodes_url s) []], None)"
  by (simp add: leave_catch_def query_run cn_close_def showErrorDialog_def emit_def modify_def leave_report_def)

text \<open>Whatever the cluster answers, or fails to answer, a request to leave is reported exactly once, as
  a success exactly for the code 200, and the list of nodes is asked for once more; the page is uncovered
  at that moment, before the list has arrived.\<close>

theorem leave_reported_once:
  "leave_settled tx r s =
     (s\<lparr>cn_loading := False\<rparr>, [leave_report tx r, Ajax ''GET'' (nodes_url s) []], None)"
proof (cases r)
  case (Failure e)
  then show ?thesis by (simp add: leave_settled_def leave_catch_run)
next
  case (Success x)
  show ?thesis
  proof (cases "x \<in> {Undef, Null} \<or> field x ''data'' \<in> {Undef, Null}")
    case False
    then show ?thesis using Success by (simp add: leave_settled_def then_catch_def leave_then_run)
  next
    case True
    then have "leave_then tx x s = (s, [], Some TypeError)"
      by (auto simp: leave_then_def need_object_def throw_def)
    moreover have "leave_report tx (Success x) = leave_report tx (Failure Undef)"
      using True by (auto simp: leave_report_def field_of_nothing)
    ultimately show ?thesis using Success by (simp add: leave_settled_def then_catch_def leave_catch_run)
  qed
qed

text \<open>A query that failed leaves the page zero, which the next request of the page, the one after a node
  has left, asks for; a search goes back to the first.\<close>

lemma page_zero_after_error:
  "effects_of (leave_settled tx r (state_of (settle nodes_success nodes_error cn_close (Failure e) s))) =
     [leave_report tx r, Ajax ''GET'' (''v1/core/cluster/nodes?withInstances=false&pageNo=0&pageSize='' @
        nat_str (cn_pageSize s) @ ''&keyword='' @ cn_keyword s) []]"
proof -
  have "nat_str 0 = ''0''" by code_simp
  then show ?thesis
    by (simp add: leave_reported_once settle_def nodes_error_def cn_close_def modify_def nodes_url_def)
qed

end
