(* ===== verification/Listening_Query.thy ===== *)
theory Listening_Query
  imports Config_History
begin

text \<open>
  The listening query, \<open>src/console-ui/src/pages/ConfigurationManagement/ListeningToQuery/ListeningToQuery.js\<close>:
  who listens to a configuration, or what an address listens to.  The whole answer is kept and the page
  turns in it by itself; \<open>page_slice\<close> is that turning, with the lemmas on its pages.
\<close>

section \<open>Pages of a list\<close>

text \<open>\<open>xs.slice(startIndex, startIndex + pageSize)\<close> with \<open>startIndex = (value - 1) * pageSize\<close>; a negative
  start with an end that is not past it gives nothing.\<close>

definition page_slice :: "nat \<Rightarrow> nat \<Rightarrow> 'a list \<Rightarrow> 'a list" where
  "page_slice n v xs = (if v = 0 then [] else take n (drop ((v - 1) * n) xs))"

definition page_count :: "nat \<Rightarrow> 'a list \<Rightarrow> nat" where
  "page_count n xs = (length xs + n - 1) div n"

lemma page_slice_bound: "length (page_slice n v xs) \<le> n"
  by (simp add: page_slice_def)

lemma pages_prefix: "concat (map (\<lambda>v. page_slice n (Suc v) xs) [0..<k]) = take (k * n) xs"
proof (induction k)
  case 0
  then show ?case by simp
next
  case (Suc k)
  then show ?case by (simp add: page_slice_def take_add [symmetric] add.commute)
qed

lemma page_count_enough: "0 < n \<Longrightarrow> length xs \<le> page_count n xs * n"
proof -
  assume n: "0 < n"
  have "length xs + n - 1 < Suc ((length xs + n - 1) div n) * n"
    using n by (metis dividend_less_div_times mult.commute mult_Suc_right add.commute mult_Suc)
  then show ?thesis using n by (simp add: page_count_def)
qed

lemma pages_all: "0 < n \<Longrightarrow> concat (map (\<lambda>v. page_slice n (Suc v) xs) [0..<page_count n xs]) = xs"
  by (simp add: pages_prefix page_count_enough)

lemma page_in_use: "0 < n \<Longrightarrow> 1 \<le> v \<and> v \<le> page_count n xs \<longleftrightarrow> page_slice n v xs \<noteq> []"
proof -
  assume n: "0 < n"
  have "v \<le> page_count n xs \<longleftrightarrow> (v - 1) * n < length xs" if "v \<noteq> 0"
  proof -
    have "v \<le> page_count n xs \<longleftrightarrow> v * n \<le> length xs + n - 1"
      using n by (simp add: page_count_def less_eq_div_iff_mult_less_eq)
    also have "\<dots> \<longleftrightarrow> (v - 1) * n < length xs"
      using n that by (cases v) auto
    finally show ?thesis .
  qed
  then show ?thesis using n by (auto simp: page_slice_def)
qed

section \<open>The page\<close>

record listening_page =
  lq_win :: win
  lq_nownamespace :: jsval
  lq_group :: string
  lq_dataId :: string
  lq_serverId :: string
  lq_tenant :: string
  lq_field :: slice
  ls_loading :: bool
  ls_total :: nat
  ls_pageSize :: nat
  ls_currentPage :: nat
  ls_dataSource :: "jsval list"
  ls_totalDataSource :: "jsval list"
  ls_namespace :: "jsval \<times> jsval \<times> jsval"

definition listening_init :: "win \<Rightarrow> jsval \<Rightarrow> js_error + listening_page" where
  "listening_init w now = map_sum id (\<lambda>r. \<lparr>lq_win = w, lq_nownamespace = now,
     lq_group = or_empty (got r ''listeningGroup''), lq_dataId = or_empty (got r ''listeningDataId''),
     lq_serverId = or_empty (got r ''listeningServerId''), lq_tenant = or_empty (got r ''namespace''),
     lq_field = [], ls_loading = False, ls_total = 0, ls_pageSize = 10, ls_currentPage = 1,
     ls_dataSource = [], ls_totalDataSource = [], ls_namespace = (Undef, Undef, Undef)\<rparr>)
     (read_all w [''listeningGroup'', ''listeningDataId'', ''listeningServerId'', ''namespace''])"

definition lq_setValue :: "string \<Rightarrow> jsval \<Rightarrow> listening_page stmt" where
  "lq_setValue k v = modify (\<lambda>s. s\<lparr>lq_field := AList.update k v (lq_field s)\<rparr>)"

definition lq_value :: "listening_page \<Rightarrow> string \<Rightarrow> jsval" where
  "lq_value s k = field (Obj (lq_field s)) k"

definition lq_componentDidMount :: "listening_page stmt" where
  "lq_componentDidMount = with_state (\<lambda>s. block
     [lq_setValue ''type'' (Num 0), lq_setValue ''group'' (Str (lq_group s)),
      lq_setValue ''dataId'' (Str (lq_dataId s))])"

definition lq_open :: "listening_page stmt" where
  "lq_open = modify (\<lambda>s. s\<lparr>ls_loading := True\<rparr>)"

definition lq_close :: "listening_page stmt" where
  "lq_close = modify (\<lambda>s. s\<lparr>ls_loading := False\<rparr>)"

definition lq_send :: "string \<Rightarrow> listening_page stmt" where
  "lq_send url = block [lq_open, emit (\<lambda>_. Ajax ''GET'' url [])]"

definition by_address_url :: "jsval \<Rightarrow> jsval \<Rightarrow> string" where
  "by_address_url ip tenant = ''v1/cs/listener?ip='' @ to_str ip @
     (if truthy tenant then ''&tenant='' @ to_str tenant else [])"

definition queryTrackQuery :: "listening_page stmt" where
  "queryTrackQuery = with_state (\<lambda>s.
     if lq_value s ''type'' = Num 1
     then (if truthy (lq_nownamespace s)
           then lq_send (by_address_url (lq_value s ''ip'') (lq_nownamespace s))
           else reading lq_win ''namespace'' (\<lambda>ns.
             lq_send (by_address_url (lq_value s ''ip'') (Str (or_empty ns)))))
     else
       (let dataId = lq_value s ''dataId''; grp = lq_value s ''group'' in
        if \<not> truthy dataId \<or> \<not> truthy grp then skip
        else lq_send (''v1/cs/configs/listener?dataId='' @ to_str dataId @ ''&group='' @ to_str grp)))"

text \<open>The rows of an answer; a query by address has the data id and the group in one key.\<close>

definition listening_row :: "bool \<Rightarrow> string \<times> jsval \<Rightarrow> jsval" where
  "listening_row by_address kv =
     (if by_address
      then (let ps = split_on (CHR ''+'') (fst kv) in
        Obj [(''dataId'', Str (slot_or ps 0 [])),
             (''group'', (case slot ps 1 of None \<Rightarrow> Undef | Some g \<Rightarrow> Str g)), (''md5'', snd kv)])
      else Obj [(''ip'', Str (fst kv)), (''md5'', snd kv)])"

definition lq_success :: "jsval \<Rightarrow> jsval \<Rightarrow> listening_page stmt" where
  "lq_success type d = need_object d
     (if field d ''collectStatus'' = Num 200
      then (let rows = map (listening_row (type = Num 1)) (own_fields (field d ''lisentersGroupkeyStatus'')) in
        modify (\<lambda>s. s\<lparr>ls_totalDataSource := rows, ls_total := length rows,
          ls_dataSource := take (ls_pageSize s) rows\<rparr>))
      else skip)"

definition lq_changePage :: "nat \<Rightarrow> listening_page stmt" where
  "lq_changePage v = modify (\<lambda>s. s\<lparr>ls_currentPage := v,
     ls_dataSource := page_slice (ls_pageSize s) v (ls_totalDataSource s)\<rparr>)"

definition lq_resetSearch :: "listening_page stmt" where
  "lq_resetSearch = modify (\<lambda>s. s\<lparr>lq_field := []\<rparr>)"

text \<open>\<open>getQueryLater\<close> runs the query when the stack is empty: the bar of namespaces may come first.\<close>

definition lq_getQueryLater :: "listening_page stmt" where
  "lq_getQueryLater = queryTrackQuery"

definition lq_setNowNameSpace :: "jsval \<Rightarrow> jsval \<Rightarrow> jsval \<Rightarrow> listening_page stmt" where
  "lq_setNowNameSpace n i d = modify (\<lambda>s. s\<lparr>ls_namespace := (n, i, d)\<rparr>)"

definition lq_changeType :: "jsval \<Rightarrow> listening_page stmt" where
  "lq_changeType v = block [lq_setValue ''type'' v, queryTrackQuery]"

definition lq_status :: "jsval \<Rightarrow> string" where
  "lq_status rec = (if field rec ''pushStatus'' = Bool True then ''success'' else ''failure'')"

section \<open>Properties\<close>

interpretation listening: ajax_call ls_loading "lq_send url" "lq_success type" "\<lambda>e. skip" lq_close for url type
  by unfold_locales (simp_all add: lq_send_def lq_open_def lq_close_def stmt_defs)

text \<open>C27. The pages of an answer: turned one after the other they show every row once and in order, no page
  shows more rows than its size, and exactly the pages the pager offers show any.  A new answer shows its
  first page, whatever page is marked as the current one.\<close>

theorem listening_pages:
  assumes "0 < ls_pageSize s" and "d \<notin> {Undef, Null}" and "field d ''collectStatus'' = Num 200"
  shows "let s1 = state_of (lq_success ty d s); n = ls_pageSize s;
      rows = map (listening_row (ty = Num 1)) (own_fields (field d ''lisentersGroupkeyStatus''));
      shown = (\<lambda>v. ls_dataSource (state_of (lq_changePage v s1))) in
    ls_total s1 = length rows \<and> concat (map (\<lambda>v. shown (Suc v)) [0..<page_count n rows]) = rows \<and>
    (\<forall>v. length (shown v) \<le> n) \<and> (\<forall>v. shown v \<noteq> [] \<longleftrightarrow> 1 \<le> v \<and> v \<le> page_count n rows) \<and>
    ls_dataSource s1 = shown 1 \<and> ls_currentPage s1 = ls_currentPage s"
proof -
  define rows where "rows = map (listening_row (ty = Num 1)) (own_fields (field d ''lisentersGroupkeyStatus''))"
  have s1: "state_of (lq_success ty d s) =
      s\<lparr>ls_totalDataSource := rows, ls_total := length rows, ls_dataSource := take (ls_pageSize s) rows\<rparr>"
    using assms(2,3) by (simp add: lq_success_def need_object_def modify_def rows_def Let_def del: field_Obj)
  have shown: "ls_dataSource (state_of (lq_changePage v (s\<lparr>ls_totalDataSource := rows, ls_total := length rows,
      ls_dataSource := take (ls_pageSize s) rows\<rparr>))) = page_slice (ls_pageSize s) v rows" for v
    by (simp add: lq_changePage_def modify_def)
  have "take (ls_pageSize s) rows = page_slice (ls_pageSize s) 1 rows"
    by (simp add: page_slice_def)
  moreover note pages_all [OF assms(1), of rows] page_in_use [OF assms(1), of _ rows]
  ultimately show ?thesis
    unfolding Let_def s1 rows_def [symmetric] shown by (simp add: page_slice_bound)
qed

definition sample_listening :: listening_page where
  "sample_listening = \<lparr>lq_win = sample_win, lq_nownamespace = Undef, lq_group = ''g'', lq_dataId = ''d'',
     lq_serverId = [], lq_tenant = [], lq_field = [(''type'', Num 0)], ls_loading = False, ls_total = 0,
     ls_pageSize = 2, ls_currentPage = 2, ls_dataSource = [], ls_totalDataSource = [],
     ls_namespace = (Undef, Undef, Undef)\<rparr>"

definition sample_listeners :: jsval where
  "sample_listeners = Obj [(''collectStatus'', Num 200),
     (''lisentersGroupkeyStatus'', Obj [(''10.0.0.1'', Str ''a''), (''10.0.0.2'', Str ''b''), (''10.0.0.3'', Str ''a'')])]"

theorem listening_pages_witness:
  "let s1 = state_of (lq_success (Num 0) sample_listeners sample_listening) in
   ls_total s1 = 3 \<and> ls_currentPage s1 = 2 \<and>
   concat (map (\<lambda>v. ls_dataSource (state_of (lq_changePage (Suc v) s1))) [0..<2]) =
     map (listening_row False) [(''10.0.0.1'', Str ''a''), (''10.0.0.2'', Str ''b''), (''10.0.0.3'', Str ''a'')]"
proof -
  have "page_count 2 [listening_row False (''10.0.0.1'', Str ''a''), listening_row False (''10.0.0.2'', Str ''b''),
      listening_row False (''10.0.0.3'', Str ''a'')] = 2"
    by (simp add: page_count_def)
  moreover have "ls_pageSize sample_listening = 2" "ls_currentPage sample_listening = 2"
    by (simp_all add: sample_listening_def)
  moreover have "sample_listeners \<notin> {Undef, Null}" "field sample_listeners ''collectStatus'' = Num 200"
    "own_fields (field sample_listeners ''lisentersGroupkeyStatus'') =
      [(''10.0.0.1'', Str ''a''), (''10.0.0.2'', Str ''b''), (''10.0.0.3'', Str ''a'')]"
    by (simp_all add: sample_listeners_def own_fields_def)
  ultimately show ?thesis
    using listening_pages [of sample_listening sample_listeners "Num 0"] by (simp add: Let_def)
qed

text \<open>A key of a query by address, taken apart again; a tenant behind the group is dropped.\<close>

lemma listening_row_by_address:
  assumes "CHR ''+'' \<notin> set d" and "CHR ''+'' \<notin> set g"
  shows "listening_row True (js_join ''+'' (d # g # rest), v) = Obj [(''dataId'', Str d), (''group'', Str g), (''md5'', v)]"
proof -
  have "split_on (CHR ''+'') (js_join ''+'' (d # g # rest)) = d # split_on (CHR ''+'') (js_join ''+'' (g # rest))"
    using split_on_append [OF assms(1)] by simp
  moreover have "hd (split_on (CHR ''+'') (js_join ''+'' (g # rest))) = g"
    using assms(2) by (cases rest) (simp_all add: split_on_no_sep split_on_append)
  moreover obtain x xs where "split_on (CHR ''+'') (js_join ''+'' (g # rest)) = x # xs"
    by (cases "split_on (CHR ''+'') (js_join ''+'' (g # rest))") auto
  ultimately show ?thesis by (simp add: listening_row_def slot_or_def Let_def)
qed

lemma listening_keys: "set [''listeningGroup'', ''listeningDataId'', ''listeningServerId'', ''namespace''] \<subseteq> set console_keys"
  by (simp add: console_keys_def)

lemma listening_init_ok:
  assumes "addr_ok w"
  shows "\<exists>s. listening_init w now = Inr s \<and> lq_dataId s = or_empty (addr_get w ''listeningDataId'') \<and>
    lq_group s = or_empty (addr_get w ''listeningGroup'')"
  unfolding listening_init_def read_all_ok [OF assms listening_keys] by (simp add: got_def)

lemma first_query:
  assumes "lq_dataId s = d" and "lq_group s = g" and "d \<noteq> []" and "g \<noteq> []"
  shows "effects_of (queryTrackQuery (state_of (lq_componentDidMount s))) =
    [Ajax ''GET'' (''v1/cs/configs/listener?dataId='' @ d @ ''&group='' @ g) []]"
  using assms
  by (simp add: lq_componentDidMount_def with_state_def lq_setValue_def modify_def queryTrackQuery_def lq_value_def
      AList.update_conv' lq_send_def lq_open_def emit_def)

text \<open>From the menu of a row of the list of configurations the listening query opens with the data id
  and the group of that row, and its first query asks who listens to it.\<close>

theorem listening_of_row:
  assumes "addr_ok (cl_win s)" and "rec \<notin> {Undef, Null}"
    and "field rec ''dataId'' = Str d" and "field rec ''group'' = Str g" and "d \<noteq> []" and "g \<noteq> []"
    and "\<forall>v \<in> {d, g, or_empty (addr_get (cl_win s) ''serverId''), or_empty (addr_get (cl_win s) ''namespace'')}. plain_value v"
  shows "\<exists>url p. effects_of (chooseNav rec ''nav3'' s) = [Push url] \<and>
    listening_init (visit (cl_win s) url) now = Inr p \<and>
    effects_of (queryTrackQuery (state_of (lq_componentDidMount p))) =
      [Ajax ''GET'' (''v1/cs/configs/listener?dataId='' @ d @ ''&group='' @ g) []]"
proof -
  let ?sv = "or_empty (addr_get (cl_win s) ''serverId'')" and ?ns = "or_empty (addr_get (cl_win s) ''namespace'')"
  let ?m = "[(''listeningServerId'', ?sv), (''listeningDataId'', d), (''listeningGroup'', g), (''namespace'', ?ns)]"
  let ?url = "link ''/listeningToQuery'' ?m"
  have k: "fst ` set ?m \<subseteq> set console_keys" "\<forall>x \<in> snd ` set ?m. plain_value x" "distinct (map fst ?m)"
    using assms(7) by (simp_all add: console_keys_def)
  have ok: "addr_ok (visit (cl_win s) ?url)"
      "\<And>k. k \<in> set console_keys \<Longrightarrow> addr_get (visit (cl_win s) ?url) k = map_of ?m k"
    using visit_link [OF addr_ok_site [OF assms(1)] _ k(3,1,2), of "''/listeningToQuery''"] by simp_all
  have "addr_get (visit (cl_win s) ?url) ''listeningDataId'' = Some d"
      "addr_get (visit (cl_win s) ?url) ''listeningGroup'' = Some g"
    using ok(2) [of "''listeningDataId''"] ok(2) [of "''listeningGroup''"] by (simp_all add: console_keys_def)
  then obtain p where p: "listening_init (visit (cl_win s) ?url) now = Inr p" "lq_dataId p = d" "lq_group p = g"
    using listening_init_ok [OF ok(1), of now] by auto
  have "str_or x [] = or_empty x" for x by (simp add: str_or_def)
  then have "effects_of (chooseNav rec ''nav3'' s) = [Push ?url]"
    using assms(1-4) by (simp add: chooseNav_def navTo_def with_place_def read_param_ok page_keys modify_def
        need_object_def emit_def navTo_url_def rec_str_def link_def pair_text_def)
  with p(1) first_query [OF p(2,3) assms(5,6)] show ?thesis by blast
qed

theorem listening_of_row_witness:
  "\<exists>url p. effects_of (chooseNav (Obj [(''dataId'', Str ''d''), (''group'', Str ''g'')]) ''nav3'' sample_cl) = [Push url] \<and>
    listening_init (visit (cl_win sample_cl) url) Undef = Inr p \<and>
    effects_of (queryTrackQuery (state_of (lq_componentDidMount p))) =
      [Ajax ''GET'' ''v1/cs/configs/listener?dataId=d&group=g'' []]"
proof -
  have "addr_get (cl_win sample_cl) ''serverId'' = None" "addr_get (cl_win sample_cl) ''namespace'' = None"
    unfolding sample_cl_def sample_browser_def by code_simp+
  then show ?thesis
    using listening_of_row [of sample_cl "Obj [(''dataId'', Str ''d''), (''group'', Str ''g'')]" "''d''" "''g''" Undef]
    by (simp add: sample_cl_simps uri_unreserved_def)
qed

end
