(* ===== verification/Namespace_Page.thy ===== *)
theory Namespace_Page
  imports Config_History
begin

text \<open>
  The page of the namespaces, \<open>src/console-ui/src/pages/NameSpace/NameSpace.js\<close>, with its windows
  \<open>components/NewNameSpace\<close> and \<open>components/EditorNameSpace\<close>.

  The page keeps \<open>window.namespaceList\<close>, which the bar of namespaces draws, and falls back to the default
  namespace when the current one is removed.  \<open>en_values\<close> holds the values of the editing window; what the
  library's \<open>validate\<close> hands to a submission, whether there are errors and the values, are arguments.
\<close>

record namespace_page =
  np_browser :: browser
  np_list :: jsval
  np_showName :: jsval
  np_loading :: bool
  np_defaultNamespace :: jsval
  np_defaultNamespaceName :: jsval
  np_dataSource :: jsval
  nn_visible :: bool
  nn_loading :: bool
  nn_disabled :: bool
  nn_dataSource :: jsval
  en_visible :: bool
  en_loading :: bool
  en_type :: jsval
  en_values :: slice

text \<open>\<open>np_list\<close> and \<open>np_showName\<close> are \<open>window.namespaceList\<close> and \<open>window.namespaceShowName\<close>.\<close>

definition namespace_page_init :: "browser \<Rightarrow> jsval \<Rightarrow> jsval \<Rightarrow> namespace_page" where
  "namespace_page_init b l sn = \<lparr>np_browser = b, np_list = l, np_showName = sn, np_loading = False,
     np_defaultNamespace = Str [], np_defaultNamespaceName = Str ''public'', np_dataSource = Arr [],
     nn_visible = False, nn_loading = False, nn_disabled = False, nn_dataSource = Arr [],
     en_visible = False, en_loading = False, en_type = Undef, en_values = []\<rparr>"

definition np_open :: "namespace_page stmt" where
  "np_open = modify (\<lambda>s. s\<lparr>np_loading := True\<rparr>)"

definition np_close :: "namespace_page stmt" where
  "np_close = modify (\<lambda>s. s\<lparr>np_loading := False\<rparr>)"

definition np_getNameSpaces :: "namespace_page stmt" where
  "np_getNameSpaces = block [np_open, emit (\<lambda>_. Ajax ''get'' ''v1/console/namespaces'' [])]"

text \<open>The loop over the rows; the last row of type one gives the default.\<close>

fun scan_default :: "jsval list \<Rightarrow> namespace_page stmt" where
  "scan_default [] = skip"
| "scan_default (x # xs) = need_object x (block
     [(if field x ''type'' = Num 1 then modify (\<lambda>s. s\<lparr>np_defaultNamespace := field x ''namespace''\<rparr>) else skip),
      scan_default xs])"

definition np_success :: "(string \<Rightarrow> string) \<Rightarrow> jsval \<Rightarrow> namespace_page stmt" where
  "np_success tx res = need_object res
     (if field res ''code'' = Num 200
      then (let d = js_or (field res ''data'') (Arr []) in block
        [modify (\<lambda>s. s\<lparr>np_list := d\<rparr>), scan_default (elements d), modify (\<lambda>s. s\<lparr>np_dataSource := d\<rparr>)])
      else emit (\<lambda>_. Alert (tx ''prompt'') (to_str (field res ''message''))))"

text \<open>\<open>name\<close> is the literal with the Chinese name of the public namespace.\<close>

definition only_public :: "string \<Rightarrow> jsval" where
  "only_public name = Arr [Obj [(''namespace'', Str []), (''namespaceShowName'', Str name), (''type'', Num 0)]]"

definition np_error :: "string \<Rightarrow> jsval \<Rightarrow> namespace_page stmt" where
  "np_error name e = modify (\<lambda>s. s\<lparr>np_list := only_public name\<rparr>)"

definition np_componentDidMount :: "namespace_page stmt" where
  "np_componentDidMount = np_getNameSpaces"

definition detailNamespace :: "jsval \<Rightarrow> namespace_page stmt" where
  "detailNamespace rec = need_object rec (block
     [np_open, emit (\<lambda>_. Ajax ''GET'' (''v1/console/namespaces?show=all&namespaceId='' @ rec_str rec ''namespace'') [])])"

definition detail_shown :: "(string \<Rightarrow> string) \<Rightarrow> jsval \<Rightarrow> namespace_page stmt" where
  "detail_shown tx res =
     (if res = Null then skip
      else need_object res (emit (\<lambda>_. Call ''Dialog.alert''
        (Str (tx ''namespaceDetails'') # map (field res)
          [''namespaceShowName'', ''namespace'', ''configCount'', ''quota'', ''namespaceDesc'']))))"

definition removeNamespace :: "(string \<Rightarrow> string) \<Rightarrow> jsval \<Rightarrow> namespace_page stmt" where
  "removeNamespace tx rec = need_object rec (emit (\<lambda>_. Call ''Dialog.confirm''
     [Str (tx ''removeNamespace''), Str (tx ''confirmDelete''), field rec ''namespaceShowName'', field rec ''namespace'']))"

definition np_remove_confirmed :: "jsval \<Rightarrow> namespace_page stmt" where
  "np_remove_confirmed rec = emit (\<lambda>_. Ajax ''delete'' (''v1/console/namespaces?namespaceId='' @ rec_str rec ''namespace'') [])"

definition np_put :: "string \<Rightarrow> (namespace_page \<Rightarrow> jsval) \<Rightarrow> namespace_page stmt" where
  "np_put k f s =
     (case set_params (b_win (np_browser s)) [(k, f s)] of
        Inl e \<Rightarrow> (s, [], Some e)
      | Inr w \<Rightarrow> (s\<lparr>np_browser := (np_browser s)\<lparr>b_win := w\<rparr>\<rparr>, [], None))"

definition fall_back :: "namespace_page stmt" where
  "fall_back = block
     [np_put ''namespace'' np_defaultNamespace,
      np_put ''namespaceShowName'' np_defaultNamespaceName,
      modify (\<lambda>s. s\<lparr>np_browser := (np_browser s)\<lparr>nownamespace := np_defaultNamespace s\<rparr>,
        np_showName := np_defaultNamespaceName s\<rparr>)]"

definition np_remove_success :: "(string \<Rightarrow> string) \<Rightarrow> jsval \<Rightarrow> jsval \<Rightarrow> namespace_page stmt" where
  "np_remove_success tx rec res = block
     [(if res = Bool True
       then reading (b_win \<circ> np_browser) ''namespace'' (\<lambda>p.
         if field rec ''namespace'' = nullable p then fall_back else skip)
       else need_object res (emit (\<lambda>_. Alert (tx ''deletedFailure'') (to_str (field res ''message''))))),
      np_getNameSpaces]"

text \<open>\<open>refreshNameSpace\<close> of the page, and of the windows, which wait two seconds before they ask.\<close>

definition np_refresh :: "namespace_page stmt" where
  "np_refresh = emit (\<lambda>_. Ajax ''get'' ''v1/console/namespaces'' [])"

definition refresh_success :: "jsval \<Rightarrow> namespace_page stmt" where
  "refresh_success res = need_object res
     (if field res ''code'' = Num 200 then modify (\<lambda>s. s\<lparr>np_list := field res ''data''\<rparr>) else skip)"

definition refresh_later :: "namespace_page stmt" where
  "refresh_later = emit (\<lambda>_. Call ''setTimeout'' [Str ''refreshNameSpace'', Num 2000])"

text \<open>The rows: public and default namespaces can be neither removed nor edited.\<close>

definition row_editable :: "jsval \<Rightarrow> bool" where
  "row_editable rec \<longleftrightarrow> field rec ''type'' \<notin> {Num 0, Num 1}"

definition renderName :: "(string \<Rightarrow> string) \<Rightarrow> jsval \<Rightarrow> jsval" where
  "renderName tx rec =
     (if field rec ''type'' = Num 0 then Str (tx ''namespacePublic'') else field rec ''namespaceShowName'')"

section \<open>The window of a new namespace\<close>

definition nn_openDialog :: "jsval \<Rightarrow> namespace_page stmt" where
  "nn_openDialog d = modify (\<lambda>s. s\<lparr>nn_visible := True, nn_disabled := False, nn_dataSource := d\<rparr>)"

definition addNameSpace :: "namespace_page stmt" where
  "addNameSpace = with_state (\<lambda>s. nn_openDialog (np_dataSource s))"

definition nn_closeDialog :: "namespace_page stmt" where
  "nn_closeDialog = modify (\<lambda>s. s\<lparr>nn_visible := False\<rparr>)"

definition nn_open :: "namespace_page stmt" where
  "nn_open = modify (\<lambda>s. s\<lparr>nn_loading := True\<rparr>)"

definition nn_close :: "namespace_page stmt" where
  "nn_close = modify (\<lambda>s. s\<lparr>nn_loading := False\<rparr>)"

definition nn_able :: "bool \<Rightarrow> namespace_page stmt" where
  "nn_able b = modify (\<lambda>s. s\<lparr>nn_disabled := \<not> b\<rparr>)"

definition customId :: "slice \<Rightarrow> jsval" where
  "customId values = js_or (field (Obj values) ''customNamespaceId'') (Str [])"

definition nn_check :: "slice \<Rightarrow> namespace_page stmt" where
  "nn_check values = block
     [nn_open, emit (\<lambda>_. Ajax ''get'' ''v1/console/namespaces?checkNamespaceIdExist=true''
        [(''customNamespaceId'', customId values)])]"

definition nn_handleSubmit :: "bool \<Rightarrow> slice \<Rightarrow> namespace_page stmt" where
  "nn_handleSubmit errors values = (if errors then skip else block [nn_able False, nn_check values])"

definition nn_create :: "slice \<Rightarrow> namespace_page stmt" where
  "nn_create values = block
     [nn_open, emit (\<lambda>_. Ajax ''post'' ''v1/console/namespaces''
        [(''customNamespaceId'', customId values), (''namespaceName'', field (Obj values) ''namespaceShowName''),
         (''namespaceDesc'', field (Obj values) ''namespaceDesc'')])]"

definition nn_checked :: "(string \<Rightarrow> string) \<Rightarrow> slice \<Rightarrow> jsval \<Rightarrow> namespace_page stmt" where
  "nn_checked tx values res = block
     [nn_able True,
      (if res = Bool True then emit (\<lambda>_. Alert (tx ''notice'') (tx ''namespaceIdAlreadyExist''))
       else nn_create values)]"

definition nn_created :: "(string \<Rightarrow> string) \<Rightarrow> jsval \<Rightarrow> namespace_page stmt" where
  "nn_created tx res = block
     [nn_able True,
      (if res = Bool True then block [nn_closeDialog, np_getNameSpaces, refresh_later]
       else emit (\<lambda>_. Alert (tx ''notice'') (tx ''newnamespceFailedMessage'')))]"

text \<open>The validators, by the calls of \<open>callback\<close> they make: an error or none.\<close>

definition chart_char :: "char \<Rightarrow> bool" where
  "chart_char c \<longleftrightarrow> c \<in> set ''@#$%^&*''"

definition nn_validateChart :: "string \<Rightarrow> jsval \<Rightarrow> string option list" where
  "nn_validateChart msg v = [if list_ex chart_char (to_str v) then Some msg else None]"

definition word_char :: "char \<Rightarrow> bool" where
  "word_char c \<longleftrightarrow> (let n = of_char c :: nat in
     (48 \<le> n \<and> n \<le> 57) \<or> (65 \<le> n \<and> n \<le> 90) \<or> (97 \<le> n \<and> n \<le> 122) \<or> c = CHR ''_'')"

definition validateNamespzecId :: "(string \<Rightarrow> string) \<Rightarrow> string option \<Rightarrow> string option list" where
  "validateNamespzecId tx v =
     (let value = or_empty v in
      if value = [] \<or> js_trim value = [] then [None]
      else (if length value > 128 then [Some (tx ''namespaceIdTooLong'')] else []) @
        (let m = takeWhile (\<lambda>c. word_char c \<or> c = CHR ''-'') value in
         if m \<noteq> [] then (if length value \<noteq> length m then [Some (tx ''input'')] else [None])
         else [Some (tx ''input'')]))"

section \<open>The window of a namespace\<close>

definition en_closeDialog :: "namespace_page stmt" where
  "en_closeDialog = modify (\<lambda>s. s\<lparr>en_visible := False\<rparr>)"

definition en_open :: "namespace_page stmt" where
  "en_open = modify (\<lambda>s. s\<lparr>en_loading := True\<rparr>)"

definition en_close :: "namespace_page stmt" where
  "en_close = modify (\<lambda>s. s\<lparr>en_loading := False\<rparr>)"

definition getNamespaceDetail :: "jsval \<Rightarrow> namespace_page stmt" where
  "getNamespaceDetail rec = need_object rec (block
     [modify (\<lambda>s. s\<lparr>en_values := assign (en_values s) (own_fields rec)\<rparr>),
      emit (\<lambda>_. Ajax ''get'' (''v1/console/namespaces?show=all&namespaceId='' @ rec_str rec ''namespace'') [])])"

definition en_openDialog :: "jsval \<Rightarrow> namespace_page stmt" where
  "en_openDialog rec = block
     [getNamespaceDetail rec, modify (\<lambda>s. s\<lparr>en_visible := True, en_type := field rec ''type''\<rparr>)]"

definition openToEdit :: "jsval \<Rightarrow> namespace_page stmt" where
  "openToEdit rec = en_openDialog rec"

text \<open>The answer \<open>null\<close> leads to \<open>res.message\<close>; the error handler calls a method that does not exist.\<close>

definition en_detail_success :: "jsval \<Rightarrow> namespace_page stmt" where
  "en_detail_success res = need_object res
     (modify (\<lambda>s. s\<lparr>en_values := AList.update ''namespaceDesc'' (field res ''namespaceDesc'') (en_values s)\<rparr>))"

definition en_detail_error :: "namespace_page stmt" where
  "en_detail_error = block [modify (\<lambda>s. s\<lparr>np_list := Arr []\<rparr>), throw TypeError]"

definition en_handleSubmit :: "bool \<Rightarrow> slice \<Rightarrow> namespace_page stmt" where
  "en_handleSubmit errors values =
     (if errors then skip
      else block [en_open, emit (\<lambda>_. Ajax ''put'' ''v1/console/namespaces''
        (map (\<lambda>k. (k, field (Obj values) k)) [''namespace'', ''namespaceShowName'', ''namespaceDesc'']))])"

definition en_success :: "(string \<Rightarrow> string) \<Rightarrow> jsval \<Rightarrow> namespace_page stmt" where
  "en_success tx res =
     (if res = Bool True then block [en_closeDialog, np_getNameSpaces, refresh_later]
      else need_object res (emit (\<lambda>_. Alert (tx ''notice'') (to_str (field res ''message'')))))"

definition en_submit_shown :: "namespace_page \<Rightarrow> bool" where
  "en_submit_shown s \<longleftrightarrow> en_type s \<noteq> Num 0"

section \<open>Properties\<close>

lemmas np_loading_defs = np_open_def np_close_def nn_open_def nn_close_def en_open_def en_close_def

interpretation namespaces: ajax_call np_loading np_getNameSpaces "np_success tx" "np_error name" np_close for tx name
  by unfold_locales (simp_all add: np_getNameSpaces_def np_loading_defs stmt_defs)

interpretation id_check: ajax_call nn_loading "nn_check vals" "nn_checked tx vals" "\<lambda>e. skip" nn_close
    for tx vals
  by unfold_locales (simp_all add: nn_check_def np_loading_defs stmt_defs)

interpretation creating: safe_ajax_call nn_loading "nn_create vals" "nn_created tx" "\<lambda>e. skip" nn_close
    for tx vals
  by unfold_locales (simp_all add: nn_create_def nn_created_def nn_able_def nn_closeDialog_def np_getNameSpaces_def
      refresh_later_def np_loading_defs stmt_defs)

subsection \<open>Ids\<close>

definition id_char :: "char \<Rightarrow> bool" where
  "id_char c \<longleftrightarrow> word_char c \<or> c = CHR ''-''"

lemma id_char_plain: "id_char c \<Longrightarrow> uri_unreserved c \<and> c \<noteq> CHR '':'' \<and> \<not> is_space c"
  by (auto simp: id_char_def word_char_def uri_unreserved_def is_space_def Let_def)

lemma takeWhile_all: "takeWhile P xs = xs \<longleftrightarrow> list_all P xs"
  by (induction xs) auto

lemma takeWhile_length: "length (takeWhile P xs) = length xs \<longleftrightarrow> list_all P xs"
  by (induction xs) auto

definition namespace_id_accepted :: "(string \<Rightarrow> string) \<Rightarrow> string option \<Rightarrow> bool" where
  "namespace_id_accepted tx v \<longleftrightarrow> list_all (\<lambda>c. c = None) (validateNamespzecId tx v)"

lemma namespace_id_accepted_iff:
  "namespace_id_accepted tx v \<longleftrightarrow>
     js_trim (or_empty v) = [] \<or> length (or_empty v) \<le> 128 \<and> list_all id_char (or_empty v)"
proof (cases "js_trim (or_empty v) = []")
  case True
  then show ?thesis by (simp add: namespace_id_accepted_def validateNamespzecId_def)
next
  case False
  define i where "i = or_empty v"
  have ne: "i \<noteq> []" using False unfolding i_def by (auto simp: js_trim_def)
  define m where "m = takeWhile (\<lambda>c. word_char c \<or> c = CHR ''-'') i"
  have m: "length m = length i \<longleftrightarrow> list_all id_char i"
    unfolding m_def takeWhile_length id_char_def ..
  have "m = [] \<Longrightarrow> \<not> list_all id_char i" using m ne by auto
  then show ?thesis
    using False ne m unfolding namespace_id_accepted_def validateNamespzecId_def Let_def i_def [symmetric] m_def [symmetric]
    by auto
qed

text \<open>C26. The id of a new namespace is accepted without an error exactly when it is blank, so that the server
  chooses one, or has at most 128 characters, all of them letters, digits, \<open>_\<close> or \<open>-\<close>.  An accepted id that
  is not blank travels unescaped through the addresses of the console, and a permission on it is shown
  again as that namespace.\<close>

theorem namespace_id_bounds:
  "(namespace_id_accepted tx (Some i) \<longleftrightarrow> js_trim i = [] \<or> length i \<le> 128 \<and> list_all id_char i) \<and>
   (namespace_id_accepted tx (Some i) \<and> js_trim i \<noteq> [] \<longrightarrow>
     plain_value i \<and> encode_uri i = i \<and> slot_or (split_on (CHR '':'') (i @ '':*:*'')) 0 [] = i)"
proof
  show "namespace_id_accepted tx (Some i) \<longleftrightarrow> js_trim i = [] \<or> length i \<le> 128 \<and> list_all id_char i"
    by (simp add: namespace_id_accepted_iff)
  show "namespace_id_accepted tx (Some i) \<and> js_trim i \<noteq> [] \<longrightarrow>
     plain_value i \<and> encode_uri i = i \<and> slot_or (split_on (CHR '':'') (i @ '':*:*'')) 0 [] = i"
  proof
    assume "namespace_id_accepted tx (Some i) \<and> js_trim i \<noteq> []"
    then have all: "\<forall>c \<in> set i. id_char c" by (auto simp: namespace_id_accepted_iff list_all_iff)
    then have plain: "plain_value i" using id_char_plain by (simp add: plain_value_def)
    have "CHR '':'' \<notin> set i" using all id_char_plain by blast
    then show "plain_value i \<and> encode_uri i = i \<and> slot_or (split_on (CHR '':'') (i @ '':*:*'')) 0 [] = i"
      using plain plain_value_encode split_on_append [of "CHR '':''" i "''*:*''"] by (simp add: slot_or_def)
  qed
qed

theorem namespace_id_bounds_witness:
  "plain_value ''team-a_1'' \<and> slot_or (split_on (CHR '':'') ''team-a_1:*:*'') 0 [] = ''team-a_1''"
proof -
  have "js_trim ''team-a_1'' \<noteq> []" "list_all id_char ''team-a_1''" by code_simp+
  then show ?thesis using namespace_id_bounds [of "\<lambda>k. k" "''team-a_1''"] by simp
qed

subsection \<open>Removing the current namespace\<close>

lemma np_put_ok:
  assumes "addr_ok (b_win (np_browser s))" and "k \<in> set console_keys"
  shows "np_put k f s =
    (s\<lparr>np_browser := (np_browser s)\<lparr>b_win := addr_put (b_win (np_browser s)) k (f s)\<rparr>\<rparr>, [], None)"
proof -
  obtain w' where "set_params (b_win (np_browser s)) [(k, f s)] = Inr w'"
    using set_params_console [OF assms(1), of "[(k, f s)]"] assms(2) by auto
  moreover have "k \<noteq> []" using assms(2) console_keys_good by (auto simp: good_key_def)
  ultimately show ?thesis by (simp add: np_put_def addr_put_def set_param_def)
qed

definition fallen :: "browser \<Rightarrow> jsval \<Rightarrow> jsval \<Rightarrow> browser" where
  "fallen b d nm = b\<lparr>b_win := addr_put (addr_put (b_win b) ''namespace'' d) ''namespaceShowName'' nm, nownamespace := d\<rparr>"

lemma fall_back_run:
  assumes "addr_ok (b_win (np_browser s))"
  shows "fall_back s = (s\<lparr>np_browser := fallen (np_browser s) (np_defaultNamespace s) (np_defaultNamespaceName s),
    np_showName := np_defaultNamespaceName s\<rparr>, [], None)"
proof -
  let ?w = "addr_put (b_win (np_browser s)) ''namespace'' (np_defaultNamespace s)"
  have "addr_ok ?w" by (rule addr.put_invar [OF assms namespace_key(1)])
  then show ?thesis
    using assms namespace_key by (simp add: fall_back_def np_put_ok modify_def fallen_def)
qed

lemma fallen_address:
  assumes "addr_ok (b_win b)"
  shows "addr_ok (b_win (fallen b d nm))" and "addr_get (b_win (fallen b d nm)) ''namespace'' = Some (val_str d)"
proof -
  have w: "addr_ok (addr_put (b_win b) ''namespace'' d)" by (rule addr.put_invar [OF assms namespace_key(1)])
  show "addr_ok (b_win (fallen b d nm))"
    using addr.put_invar [OF w namespace_key(2)] by (simp add: fallen_def)
  show "addr_get (b_win (fallen b d nm)) ''namespace'' = Some (val_str d)"
    using addr.get_put [OF w namespace_key(2) namespace_key(1)] addr.get_put [OF assms namespace_key(1) namespace_key(1)]
    by (simp add: fallen_def)
qed

text \<open>C33. When the namespace of the address is removed, the page falls back to the default namespace in the
  address and in the global the requests take their tenant from, and loads the list again.  The storage of
  the browser keeps the id of the removed namespace, and requests go on to carry it as \<open>namespaceId\<close>.\<close>

theorem removal_falls_back:
  assumes "addr_ok (b_win (np_browser s))" and "addr_get (b_win (np_browser s)) ''namespace'' = Some n"
    and "get_item (np_browser s) ''namespace'' = Some n" and "field rec ''namespace'' = Str n"
    and "np_defaultNamespace s = Str d" and "d \<noteq> []" and "d \<noteq> ''global''"
    and "c_url c = Str url" and "CHR ''?'' \<notin> set url" and "\<not> str_includes ''namespaceId='' url"
  shows "let (s1, e, x) = np_remove_success tx rec (Bool True) s in
    x = None \<and> e = [Ajax ''get'' ''v1/console/namespaces'' []] \<and> np_loading s1 \<and>
    addr_get (b_win (np_browser s1)) ''namespace'' = Some d \<and> current_tenant (np_browser s1) = Inr (Str d) \<and>
    get_item (np_browser s1) ''namespace'' = Some n \<and>
    (\<exists>c'. lib_middleware (np_browser s1) c = Inr (Some c') \<and> field (c_data c') ''namespaceId'' = Str n)"
proof -
  let ?b = "fallen (np_browser s) (Str d) (np_defaultNamespaceName s)"
  have run: "np_remove_success tx rec (Bool True) s = (s\<lparr>np_browser := ?b, np_showName := np_defaultNamespaceName s,
      np_loading := True\<rparr>, [Ajax ''get'' ''v1/console/namespaces'' []], None)"
    using assms(1-5) fall_back_run [OF assms(1)]
    by (simp add: np_remove_success_def reading_ok namespace_key nullable_def np_getNameSpaces_def np_open_def
        modify_def emit_def del: field_Obj)
  have tenant: "current_tenant ?b = Inr (Str d)"
    using assms(6,7) by (simp add: current_tenant_def fallen_def)
  have item: "get_item ?b ''namespace'' = Some n"
    using assms(3) by (simp add: fallen_def get_item_def)
  have "val_str (Str d) = d" using val_str_Str_or by simp
  then have "addr_get (b_win ?b) ''namespace'' = Some d"
    using fallen_address(2) [OF assms(1)] by simp
  moreover have "field (c_data (add_namespace ?b c)) ''namespaceId'' = Str n"
    using add_namespace_data(1) [OF assms(8,10), of ?b] item by simp
  ultimately show ?thesis
    unfolding run using lib_middleware_plain [OF tenant assms(8,9)] item tenant by simp
qed

definition sample_namespaces :: namespace_page where
  "sample_namespaces = (namespace_page_init (set_item ''namespace'' ''dev'' (sample_browser\<lparr>b_win := sample_namespaced\<rparr>))
     (Arr []) Undef)\<lparr>np_defaultNamespace := Str ''main''\<rparr>"

theorem removal_falls_back_witness:
  "current_tenant (np_browser (state_of (np_remove_success (\<lambda>k. k) (Obj [(''namespace'', Str ''dev'')]) (Bool True)
      sample_namespaces))) = Inr (Str ''main'') \<and>
   get_item (np_browser (state_of (np_remove_success (\<lambda>k. k) (Obj [(''namespace'', Str ''dev'')]) (Bool True)
      sample_namespaces))) ''namespace'' = Some ''dev''"
proof -
  have win: "b_win (np_browser sample_namespaces) = sample_namespaced"
    "get_item (np_browser sample_namespaces) ''namespace'' = Some ''dev''"
    "np_defaultNamespace sample_namespaces = Str ''main''"
    by (simp_all add: sample_namespaces_def namespace_page_init_def set_item_def get_item_def AList.update_conv')
  have "\<not> str_includes ''namespaceId='' ''v1/ns/instance''" by code_simp
  with removal_falls_back [of sample_namespaces "''dev''" "Obj [(''namespace'', Str ''dev'')]" "''main''"
      sample_config "''v1/ns/instance''" "\<lambda>k. k"] win sample_namespaced_ok
  show ?thesis
    by (cases "np_remove_success (\<lambda>k. k) (Obj [(''namespace'', Str ''dev'')]) (Bool True) sample_namespaces")
      (simp add: sample_config_def)
qed

subsection \<open>The list and the windows\<close>

definition last_default :: "jsval list \<Rightarrow> jsval \<Rightarrow> jsval" where
  "last_default rows d = fold (\<lambda>x acc. if field x ''type'' = Num 1 then field x ''namespace'' else acc) rows d"

lemma scan_default_run:
  "set rows \<inter> {Undef, Null} = {} \<Longrightarrow>
   scan_default rows s = (s\<lparr>np_defaultNamespace := last_default rows (np_defaultNamespace s)\<rparr>, [], None)"
proof (induction rows arbitrary: s)
  case Nil
  then show ?case by (simp add: skip_def last_default_def)
next
  case (Cons x rows)
  then show ?case by (auto simp: need_object_def skip_def modify_def last_default_def)
qed

text \<open>A loaded list is what the table and the bar show, and its last row of type one the default.\<close>

lemma list_loaded:
  assumes "set rows \<inter> {Undef, Null} = {}"
  shows "settle (np_success tx) (np_error name) np_close
      (Success (Obj [(''code'', Num 200), (''data'', Arr rows)])) s =
    (s\<lparr>np_list := Arr rows, np_defaultNamespace := last_default rows (np_defaultNamespace s),
       np_dataSource := Arr rows, np_loading := False\<rparr>, [], None)"
  using scan_default_run [OF assms]
  by (simp add: settle_def np_success_def need_object_def js_or_def elements_def modify_def np_close_def Let_def)

text \<open>Submitting a new namespace disables the button and asks whether the id exists.  When the answer
  has been handled, the window is uncovered: with the button enabled, and either the notice that the id
  exists or the creation on its way, so that it can be submitted again meanwhile; or, when the question
  failed, with the button disabled, until the window is opened again.\<close>

theorem new_namespace_window:
  "let asked = state_of (nn_handleSubmit False vs s);
       (s1, e, x) = settle (nn_checked tx vs) (\<lambda>e. skip) nn_close r asked in
   nn_disabled asked \<and> nn_loading asked \<and> x = None \<and> \<not> nn_loading s1 \<and>
   (case r of
      Success v \<Rightarrow> \<not> nn_disabled s1 \<and>
        e = [if v = Bool True then Alert (tx ''notice'') (tx ''namespaceIdAlreadyExist'')
             else Ajax ''post'' ''v1/console/namespaces''
               [(''customNamespaceId'', customId vs), (''namespaceName'', field (Obj vs) ''namespaceShowName''),
                (''namespaceDesc'', field (Obj vs) ''namespaceDesc'')]]
    | Failure v \<Rightarrow> nn_disabled s1 \<and> e = [] \<and> \<not> nn_disabled (state_of (addNameSpace s1)))"
  by (cases r)
    (simp_all add: nn_handleSubmit_def nn_able_def nn_check_def nn_checked_def nn_create_def settle_def addNameSpace_def
      nn_openDialog_def np_loading_defs stmt_defs Let_def del: field_Obj)

text \<open>When the details of a namespace cannot be had, the editing window empties the list of the bar and
  raises; so does the answer \<open>null\<close>, which leaves the list.\<close>

lemma edit_detail_fails:
  "en_detail_error s = (s\<lparr>np_list := Arr []\<rparr>, [], Some TypeError)"
  "en_detail_success Null s = (s, [], Some TypeError)"
  by (simp_all add: en_detail_error_def en_detail_success_def need_object_def stmt_defs)

end
