(* ===== verification/Config_Sync.thy ===== *)
theory Config_Sync
  imports Config_Detail
begin

text \<open>
  The windows of the configuration pages, \<open>components/SuccessDialog\<close>, \<open>components/DeleteDialog\<close>,
  \<open>components/DiffEditorDialog\<close> and \<open>ConfigDetail/ConfigCompared.js\<close>, and the page that copies a
  configuration to other environments, \<open>ConfigSync/ConfigSync.js\<close>, all under
  \<open>src/console-ui/src/\<close>.

  The handlers of the last page are an inductive set, what it can come to the least set closed under
  them.
\<close>

section \<open>The window with a result\<close>

record result_dialog =
  rd_visible :: bool
  rd_title :: jsval
  rd_maintitle :: jsval
  rd_content :: jsval
  rd_isok :: jsval
  rd_dataId :: jsval
  rd_group :: jsval
  rd_message :: jsval

definition result_dialog_init :: "jsval \<Rightarrow> result_dialog" where
  "result_dialog_init title = \<lparr>rd_visible = False, rd_title = title, rd_maintitle = Str [], rd_content = Str [],
     rd_isok = Bool True, rd_dataId = Str [], rd_group = Str [], rd_message = Undef\<rparr>"

text \<open>\<open>openDialog\<close> of the two windows; with \<open>unpushtrace\<close> the first of them shows no title.\<close>

definition success_openDialog :: "bool \<Rightarrow> jsval \<Rightarrow> result_dialog stmt" where
  "success_openDialog unpushtrace p = need_object p (modify (\<lambda>s. s\<lparr>rd_visible := True,
     rd_maintitle := field p ''maintitle'', rd_title := (if unpushtrace then Str [] else field p ''title''),
     rd_content := field p ''content'', rd_isok := field p ''isok'', rd_dataId := field p ''dataId'',
     rd_group := field p ''group'', rd_message := field p ''message''\<rparr>))"

definition delete_openDialog :: "jsval \<Rightarrow> result_dialog stmt" where
  "delete_openDialog p = need_object p (modify (\<lambda>s. s\<lparr>rd_visible := True, rd_title := field p ''title'',
     rd_content := field p ''content'', rd_isok := field p ''isok'', rd_dataId := field p ''dataId'',
     rd_group := field p ''group'', rd_message := field p ''message''\<rparr>))"

definition rd_closeDialog :: "result_dialog stmt" where
  "rd_closeDialog = modify (\<lambda>s. s\<lparr>rd_visible := False\<rparr>)"

text \<open>What the first window shows: its title, its heading, the data id, the group and the message.\<close>

definition success_shown :: "(string \<Rightarrow> string) \<Rightarrow> result_dialog \<Rightarrow> jsval \<times> jsval list \<times> jsval \<times> jsval \<times> jsval option" where
  "success_shown tx s =
     (js_or (rd_maintitle s) (rd_title s),
      (if truthy (rd_isok s) then [rd_title s] else [rd_title s, Str (tx ''failure'')]),
      rd_dataId s, rd_group s, if truthy (rd_isok s) then None else Some (rd_message s))"

definition delete_shown :: "(string \<Rightarrow> string) \<Rightarrow> result_dialog \<Rightarrow> string \<times> string \<times> jsval \<times> jsval" where
  "delete_shown tx s =
     ((if truthy (rd_isok s) then ''success'' else ''delete'') @ ''-filling'',
      (if truthy (rd_isok s) then tx ''deletedSuccessfully'' else tx ''deleteFailed''), rd_dataId s, rd_group s)"

section \<open>The window with a comparison\<close>

text \<open>The merge view is its two texts, left and right; \<open>publishing\<close> tells whether the page gave a function
  to publish with.\<close>

record diff_dialog =
  dd_visible :: bool
  dd_view :: "(string \<times> string) option"

definition diff_openDialog :: "diff_dialog stmt" where
  "diff_openDialog = modify (\<lambda>s. s\<lparr>dd_visible := True\<rparr>)"

definition diff_closeDialog :: "diff_dialog stmt" where
  "diff_closeDialog = modify (\<lambda>s. s\<lparr>dd_visible := False\<rparr>)"

definition createDiffCodeMirror :: "string option \<Rightarrow> string option \<Rightarrow> diff_dialog stmt" where
  "createDiffCodeMirror l r = modify (\<lambda>s. s\<lparr>dd_view := Some (or_empty l, or_empty r)\<rparr>)"

definition confirmPub :: "diff_dialog stmt" where
  "confirmPub = block
     [diff_closeDialog,
      with_state (\<lambda>s. case dd_view s of
         None \<Rightarrow> throw TypeError
       | Some (l, r) \<Rightarrow> emit (\<lambda>_. Call ''publishConfig'' [Str l]))]"

section \<open>Choosing what to compare with\<close>

record compared_dialog =
  cc_namespaces :: jsval
  cc_list :: jsval
  cc_field :: slice

definition cc_getNamespaces :: "compared_dialog stmt" where
  "cc_getNamespaces = emit (\<lambda>_. Ajax ''get'' ''v1/console/namespaces'' [])"

text \<open>The title of the alert is the function \<open>window.prompt\<close>: no \<open>prompt\<close> is declared.\<close>

definition cc_success :: "jsval \<Rightarrow> compared_dialog stmt" where
  "cc_success res = need_object res
     (if field res ''code'' = Num 200 then modify (\<lambda>s. s\<lparr>cc_namespaces := field res ''data''\<rparr>)
      else emit (\<lambda>_. Call ''Dialog.alert'' [Str ''window.prompt'', field res ''message'']))"

definition cc_error :: "string \<Rightarrow> compared_dialog stmt" where
  "cc_error name = modify (\<lambda>s. s\<lparr>cc_list :=
     Arr [Obj [(''namespace'', Str []), (''namespaceShowName'', Str name), (''type'', Num 0)]]\<rparr>)"

definition cc_onOk :: "compared_dialog stmt" where
  "cc_onOk = emit (\<lambda>s. Call ''onOk'' (map (field (Obj (cc_field s))) [''dataId'', ''group'', ''namespace'']))"

section \<open>Synchronisation\<close>

record sync_page =
  sy_win :: win
  sy_dataId :: string
  sy_group :: string
  sy_serverId :: string
  sy_tenant :: string
  sy_ips :: jsval
  sy_envs :: jsval
  sy_targetEnvs :: jsval
  sy_field :: slice
  ss_envvalues :: jsval
  ss_envlist :: jsval
  ss_envGroups :: jsval
  ss_loading :: bool
  ss_showmore :: bool

definition sync_init :: "win \<Rightarrow> js_error + sync_page" where
  "sync_init w = map_sum id (\<lambda>r. \<lparr>sy_win = w, sy_dataId = str_or (got r ''dataId'') ''yanlin'',
     sy_group = or_empty (got r ''group''), sy_serverId = or_empty (got r ''serverId''), sy_tenant = [],
     sy_ips = Str [], sy_envs = Undef, sy_targetEnvs = Undef, sy_field = [], ss_envvalues = Arr [],
     ss_envlist = Arr [], ss_envGroups = Arr [], ss_loading = False, ss_showmore = False\<rparr>)
     (read_all w [''dataId'', ''group'', ''serverId''])"

definition sy_open :: "sync_page stmt" where
  "sy_open = modify (\<lambda>s. s\<lparr>ss_loading := True\<rparr>)"

definition sy_close :: "sync_page stmt" where
  "sy_close = modify (\<lambda>s. s\<lparr>ss_loading := False\<rparr>)"

definition sy_toggleMore :: "sync_page stmt" where
  "sy_toggleMore = modify (\<lambda>s. s\<lparr>ss_showmore := \<not> ss_showmore s\<rparr>)"

text \<open>\<open>getEnvList\<close>, \<open>getDomain\<close> and \<open>getIps\<close> are called from nowhere.\<close>

definition sy_getEnvList :: "jsval \<Rightarrow> sync_page stmt" where
  "sy_getEnvList v = modify (\<lambda>s. s\<lparr>ss_envvalues := v, sy_envs := v\<rparr>)"

definition sy_getDomain :: "sync_page stmt" where
  "sy_getDomain = emit (\<lambda>_. Ajax ''GET'' ''/diamond-ops/env/domain'' [])"

definition domain_success :: "jsval \<Rightarrow> sync_page stmt" where
  "domain_success d = need_object d
     (if field d ''code'' = Num 200
      then need_object (field d ''data'') (modify (\<lambda>s. s\<lparr>ss_envGroups := field (field d ''data'') ''envGroups''\<rparr>))
      else skip)"

definition sy_getIps :: "jsval \<Rightarrow> sync_page stmt" where
  "sy_getIps v = modify (\<lambda>s. s\<lparr>sy_ips := v\<rparr>)"

definition sync_detail_url :: "sync_page \<Rightarrow> string" where
  "sync_detail_url s = ''/diamond-ops/configList/detail/serverId/'' @ sy_serverId s @ ''/dataId/'' @ sy_dataId s @
     ''/group/'' @ sy_group s @
     (if sy_tenant s = ''global'' \<or> sy_tenant s = [] then [] else ''/tenant/'' @ sy_tenant s) @ ''?id=''"

definition sy_getDataDetail :: "sync_page stmt" where
  "sy_getDataDetail = reading sy_win ''namespace'' (\<lambda>ns. block
     [modify (\<lambda>s. s\<lparr>sy_tenant := or_empty ns\<rparr>),
      reading sy_win ''serverId'' (\<lambda>sv. block
        [modify (\<lambda>s. s\<lparr>sy_serverId := str_or sv ''center''\<rparr>), sy_open,
         emit (\<lambda>s. Ajax ''GET'' (sync_detail_url s) [])])])"

definition sy_put :: "string \<Rightarrow> jsval \<Rightarrow> sync_page stmt" where
  "sy_put k v = modify (\<lambda>s. s\<lparr>sy_field := AList.update k v (sy_field s)\<rparr>)"

definition sync_envs :: "jsval list \<Rightarrow> sync_page stmt" where
  "sync_envs es =
     (if set es \<inter> {Undef, Null} \<noteq> {} then throw TypeError
      else modify (\<lambda>s. s\<lparr>
        ss_envlist := Arr (map (\<lambda>e. Obj [(''value'', field e ''serverId''), (''label'', field e ''name'')]) es),
        ss_envvalues := Arr (map (\<lambda>_. Str (sy_serverId s)) (filter (\<lambda>e. field e ''serverId'' = Str (sy_serverId s)) es))\<rparr>))"

definition sy_success :: "(string \<Rightarrow> string) \<Rightarrow> jsval \<Rightarrow> sync_page stmt" where
  "sy_success tx result = need_object result
     (if field result ''code'' = Num 200
      then (let d = with_default (field result ''data'') (Obj []) in need_object d (block
        [sy_put ''dataId'' (field d ''dataId''), sy_put ''appName'' (field d ''appName''),
         sy_put ''group'' (field d ''group''), sy_put ''content'' (js_or (field d ''content'') (Str [])),
         sync_envs (elements (js_or (field d ''envs'') (Arr [])))]))
      else emit (\<lambda>_. Alert (tx ''error'') (to_str (field result ''message''))))"

definition sy_componentDidMount :: "sync_page stmt" where
  "sy_componentDidMount = sy_getDataDetail"

definition sy_goList :: "sync_page stmt" where
  "sy_goList = emit (\<lambda>s. Push (''/configurationManagement?serverId='' @ sy_serverId s @ ''&group='' @ sy_group s @
     ''&dataId='' @ sy_dataId s))"

definition sync_payload :: "sync_page \<Rightarrow> slice" where
  "sync_payload s =
     map (\<lambda>k. (k, field (Obj (sy_field s)) k)) [''dataId'', ''appName'', ''group'', ''content''] @
     [(''betaIps'', sy_ips s), (''targetEnvs'', sy_envs s)]"

definition sync_put_url :: "sync_page \<Rightarrow> string" where
  "sync_put_url s = ''/diamond-ops/configList/serverId/'' @ sy_serverId s @ ''/dataId/'' @
     rec_str (Obj (sy_field s)) ''dataId'' @ ''/group/'' @ rec_str (Obj (sy_field s)) ''group'' @ ''?id=''"

text \<open>The body of the request is a text.\<close>

definition sync :: "sync_page stmt" where
  "sync = emit (\<lambda>s. Ajax ''put'' (sync_put_url s) [(''body'', json_stringify [] (Obj (sync_payload s)))])"

text \<open>\<open>payload\<close> is what was sent.  The ref holds the configured wrapper of the window; \<open>exposes\<close> tells
  whether the wrapper has the method itself, as the other pages do not expect.\<close>

definition sync_success :: "bool \<Rightarrow> (string \<Rightarrow> string) \<Rightarrow> slice \<Rightarrow> jsval \<Rightarrow> sync_page stmt" where
  "sync_success exposes tx payload res = need_object res
     (if exposes then emit (\<lambda>_. Call ''successDialog.openDialog'' [Obj
        ([(''maintitle'', Str (tx ''syncConfigurationMain'')), (''title'', Str (tx ''syncConfiguration'')),
          (''content'', Str []), (''dataId'', field (Obj payload) ''dataId''), (''group'', field (Obj payload) ''group''),
          (''isok'', Bool (field res ''code'' = Num 200))] @
         (if field res ''code'' = Num 200 then [] else [(''message'', field res ''message'')]))])
      else throw TypeError)"

definition sy_syncResult :: "sync_page stmt" where
  "sy_syncResult = emit (\<lambda>s. Push (generateUrl ''/diamond-ops/static/pages/config-sync/index.html''
     [(''dataId'', field (Obj (sy_field s)) ''dataId''), (''gruop'', field (Obj (sy_field s)) ''group'')]))"

definition changeEnv :: "jsval \<Rightarrow> sync_page stmt" where
  "changeEnv v = modify (\<lambda>s. s\<lparr>sy_targetEnvs := v, ss_envvalues := v\<rparr>)"

definition sy_goResult :: "sync_page stmt" where
  "sy_goResult = emit (\<lambda>s. Push (generateUrl ''/consistencyEfficacy''
     [(''serverId'', Str (sy_serverId s)), (''dataId'', Str (sy_dataId s)), (''group'', Str (sy_group s))]))"

text \<open>The handlers the page binds, and the continuations of its requests.\<close>

inductive wired :: "sync_page stmt \<Rightarrow> bool" where
  mount: "wired sy_componentDidMount"
| detail: "wired (settle (sy_success tx) (\<lambda>e. skip) sy_close r)"
| more: "wired sy_toggleMore"
| targets: "wired (changeEnv v)"
| send: "wired sync"
| sent: "wired (sync_success exposes tx payload res)"
| leave: "wired sy_goList"

inductive sync_reachable :: "sync_page \<Rightarrow> bool" where
  opened: "sync_init w = Inr s \<Longrightarrow> sync_reachable s"
| handled: "sync_reachable s \<Longrightarrow> wired a \<Longrightarrow> sync_reachable (state_of (a s))"

section \<open>Properties\<close>

interpretation sync_detail: ajax_call ss_loading "block [sy_open, emit f]" "sy_success tx" "\<lambda>e. skip" sy_close for f tx
  by unfold_locales (simp_all add: sy_open_def sy_close_def stmt_defs)

definition no_targets :: "sync_page \<Rightarrow> bool" where
  "no_targets s \<longleftrightarrow> sy_envs s = Undef \<and> sy_ips s = Str []"

lemma no_targets_modify:
  "(\<And>s. sy_envs (f s) = sy_envs s \<and> sy_ips (f s) = sy_ips s) \<Longrightarrow> preserves no_targets (modify f)"
  by (simp add: preserves_def modify_def no_targets_def)

lemma wired_keeps: "wired a \<Longrightarrow> preserves no_targets a"
proof (induction rule: wired.induct)
  case (detail tx r)
  have "preserves no_targets (sync_envs es)" for es
    unfolding sync_envs_def by (intro preserves_intros no_targets_modify) simp
  then show ?case
    unfolding sy_success_def Let_def sy_put_def sy_close_def
    by (intro preserves_intros no_targets_modify) simp_all
qed (auto simp: sy_componentDidMount_def sy_getDataDetail_def sy_open_def sy_toggleMore_def changeEnv_def sync_def
    sync_success_def sy_goList_def intro!: preserves_intros no_targets_modify)

lemma reachable_no_targets: "sync_reachable s \<Longrightarrow> no_targets s"
proof (induction rule: sync_reachable.induct)
  case (opened w s)
  then show ?case by (auto simp: sync_init_def no_targets_def map_sum_def split: sum.splits)
next
  case (handled s a)
  then show ?case using preservesD [OF wired_keeps] by blast
qed

lemma sync_body:
  assumes "no_targets s"
  shows "json_stringify [] (Obj (sync_payload s)) = json_stringify [] (Obj
    (map (\<lambda>k. (k, field (Obj (sy_field s)) k)) [''dataId'', ''appName'', ''group'', ''content''] @ [(''betaIps'', Str [])]))"
  using assms by (simp add: json_stringify_def sync_payload_def no_targets_def del: field_Obj)

text \<open>C18. Whatever is done on the page of the synchronisation, the request that synchronises names no target:
  the environments that are ticked are stored under another name than the one the request reads, which
  stays undefined and is left out of its text.  Ticking others changes nothing in the request.\<close>

theorem sync_has_no_targets:
  assumes "sync_reachable s"
  shows "effects_of (sync s) = [Ajax ''put'' (sync_put_url s) [(''body'', json_stringify [] (Obj
      (map (\<lambda>k. (k, field (Obj (sy_field s)) k)) [''dataId'', ''appName'', ''group'', ''content''] @
       [(''betaIps'', Str [])])))]] \<and>
    ss_envvalues (state_of (changeEnv v s)) = v \<and> effects_of (sync (state_of (changeEnv v s))) = effects_of (sync s)"
  using sync_body [OF reachable_no_targets [OF assms]]
  by (simp add: sync_def emit_def changeEnv_def modify_def sync_put_url_def sync_payload_def)

theorem sync_has_no_targets_witness:
  "\<exists>s. sync_init sample_win = Inr s \<and>
     effects_of (sync (state_of (changeEnv (Arr [Str ''east'']) s))) = effects_of (sync s)"
proof -
  have "set [''dataId'', ''group'', ''serverId''] \<subseteq> set console_keys" by (simp add: page_keys)
  from read_all_ok [OF sample_win_ok this] obtain s where s: "sync_init sample_win = Inr s"
    by (simp add: sync_init_def)
  then have "sync_reachable s" by (rule sync_reachable.opened)
  with s show ?thesis using sync_has_no_targets [of s "Arr [Str ''east'']"] by blast
qed

text \<open>What the window of a result shows is the outcome: the failure and its message exactly when the
  payload is not ok.\<close>

lemma result_shown:
  assumes "p \<notin> {Undef, Null}"
  shows "success_shown tx (state_of (success_openDialog u p s)) =
    (js_or (field p ''maintitle'') (if u then Str [] else field p ''title''),
     (if u then Str [] else field p ''title'') # (if truthy (field p ''isok'') then [] else [Str (tx ''failure'')]),
     field p ''dataId'', field p ''group'',
     if truthy (field p ''isok'') then None else Some (field p ''message''))"
  using assms by (simp add: success_openDialog_def need_object_def modify_def success_shown_def del: field_Obj)

end
