(* ===== verification/Region_Bar.thy ===== *)
theory Region_Bar
  imports Navigation
begin

text \<open>
  The rest of the region bar, \<open>src/console-ui/src/components/RegionGroup/RegionGroup.js\<close>: messages of the
  frame around the console, the width of the bar, loading the regions, and the change to another region.
  What the bar does with a list of regions is in \<open>Name_Spaces\<close>.
\<close>

record region_page =
  rp_bar :: region_bar
  rp_url :: string
  rp_left :: jsval
  rp_right :: jsval
  rp_regionWidth :: int
  rp_hideRegionList :: bool
  rp_regionList :: jsval
  rp_parentEdas :: "bool option"
  rp_search :: string
  rp_protocol :: string

text \<open>\<open>rp_regionList\<close> is \<open>window._regionList\<close>; \<open>rp_parentEdas\<close> the answer of \<open>isParentEdas\<close> of
  \<open>window.globalConfig\<close>, when there is one; \<open>rp_search\<close> and \<open>rp_protocol\<close> are those of the location.\<close>

definition region_init :: "region_bar \<Rightarrow> jsval \<Rightarrow> jsval \<Rightarrow> jsval \<Rightarrow> region_page \<Rightarrow> region_page" where
  "region_init b url left right w = w\<lparr>rp_bar := b\<lparr>rg_currRegionId := Str [], rg_stateRegion := Str [],
     rg_instanceData := Arr []\<rparr>, rp_url := to_str (js_or url (Str ''/diamond-ops/env/domain'')),
     rp_left := left, rp_right := right, rp_regionWidth := 700, rp_hideRegionList := False\<rparr>"

definition on_bar :: "region_bar stmt \<Rightarrow> region_page stmt" where
  "on_bar a s = (case a (rp_bar s) of (b, e, x) \<Rightarrow> (s\<lparr>rp_bar := b\<rparr>, e, x))"

definition region_componentDidMount :: "bool \<Rightarrow> region_page stmt" where
  "region_componentDidMount nested = (if nested then call ''getNameSpaces'' else skip)"

definition region_receiveProps :: "jsval \<Rightarrow> jsval \<Rightarrow> jsval \<Rightarrow> region_page stmt" where
  "region_receiveProps url left right =
     modify (\<lambda>s. s\<lparr>rp_url := to_str url, rp_left := left, rp_right := right\<rparr>)"

definition region_componentWillUnmount :: "region_page stmt" where
  "region_componentWillUnmount = emit (\<lambda>_. Call ''postMessage'' [Str ''CONSOLE_HIDE_REGION''])"

text \<open>The widths of the bar, of its title and of its extra part; a part that is not there has none, and
  the comparison with it fails.\<close>

definition region_width :: "int option \<Rightarrow> int option \<Rightarrow> int option \<Rightarrow> int" where
  "region_width main title extra =
     (case (main, title, extra) of
        (Some m, Some t, Some e) \<Rightarrow> if m - e - t - 50 > 100 then m - e - t - 50 else 100
      | _ \<Rightarrow> 100)"

definition setRegionWidth :: "int option \<Rightarrow> int option \<Rightarrow> int option \<Rightarrow> region_page stmt" where
  "setRegionWidth main title extra = modify (\<lambda>s. s\<lparr>rp_regionWidth := region_width main title extra\<rparr>)"

definition handleRegionListStatus :: "int option \<Rightarrow> int option \<Rightarrow> int option \<Rightarrow> region_page stmt" where
  "handleRegionListStatus main title extra = block
     [modify (\<lambda>s. s\<lparr>rp_hideRegionList :=
        (if rp_parentEdas s = Some True then False else \<not> str_includes ''hideTopbar='' (rp_search s))\<rparr>),
      setRegionWidth main title extra]"

definition getRegionList :: "bool \<Rightarrow> region_page stmt" where
  "getRegionList nested = with_state (\<lambda>s.
     if truthy (rp_regionList s) then on_bar (handleRegionList nested (rp_regionList s))
     else block [(if nested then call ''getNameSpaces'' else skip), emit (\<lambda>s. Ajax ''GET'' (rp_url s) [])])"

definition regions_success :: "bool \<Rightarrow> jsval \<Rightarrow> region_page stmt" where
  "regions_success nested res =
     (if truthy res \<and> truthy (field res ''data'')
      then block [modify (\<lambda>s. s\<lparr>rp_regionList := field res ''data''\<rparr>), on_bar (handleRegionList nested (field res ''data''))]
      else skip)"

text \<open>The address of another region: the parameter is appended unless the path mentions it.\<close>

definition region_url :: "string \<Rightarrow> string \<Rightarrow> string \<Rightarrow> string \<Rightarrow> string \<Rightarrow> string" where
  "region_url protocol domain search hash serverId =
     (let lastHash = slot_or (split_on (CHR ''?'') hash) 0 []; url = domain @ search @ lastHash in
      protocol @ ''//'' @
      (if \<not> str_includes ''serverId'' lastHash
       then (if \<not> str_includes ''?'' lastHash then url @ ''?serverId='' @ serverId else url @ ''&serverId='' @ serverId)
       else url))"

fun go_to_region :: "string \<Rightarrow> jsval list \<Rightarrow> region_page stmt" where
  "go_to_region serverId [] = skip"
| "go_to_region serverId (x # xs) = need_object x (block
     [(if field x ''serverId'' = Str serverId
       then with_state (\<lambda>s.
         if rp_parentEdas s = Some True
         then block [on_bar (region_params [(''serverId'', field x ''serverId'')]),
           emit (\<lambda>s. Call ''location.href'' [Str (w_href (b_win (rg_browser (rp_bar s))))])]
         else emit (\<lambda>s. Call ''location.href'' [Str (region_url (rp_protocol s) (to_str (field x ''domain''))
           (rp_search s) (w_hash (b_win (rg_browser (rp_bar s)))) serverId)]))
       else skip),
      go_to_region serverId xs])"

definition changeTableData :: "string \<Rightarrow> region_page stmt" where
  "changeTableData serverId = block
     [on_bar (region_params [(''serverId'', Str serverId)]),
      with_state (\<lambda>s.
        if rg_stateRegion (rp_bar s) = Str serverId then skip
        else block
          [on_bar (modify (\<lambda>b. b\<lparr>rg_currRegionId := Str serverId\<rparr>)),
           (case rp_parentEdas s of
              None \<Rightarrow> throw TypeError
            | Some e \<Rightarrow> go_to_region serverId (elements (rg_instanceData (rp_bar s))))])]"

definition handleAliyunNav :: "int option \<Rightarrow> int option \<Rightarrow> int option \<Rightarrow> jsval \<Rightarrow> region_page stmt" where
  "handleAliyunNav main title extra event =
     (let d = js_or (if truthy event then field event ''data'' else event) (Obj []); type = field d ''type'' in
      if type = Str ''TOPBAR_SIDEBAR_DID_MOUNT'' then block
        [handleRegionListStatus main title extra,
         with_state (\<lambda>s. on_bar (changeRegionBarRegionId (rg_currRegionId (rp_bar s))))]
      else if type = Str ''CONSOLE_REGION_CHANGE'' then need_object (field d ''payload'')
        (changeTableData (to_str (field (field d ''payload'') ''toRegionId'')))
      else skip)"

definition region_buttons :: "region_page \<Rightarrow> (jsval \<times> bool) list" where
  "region_buttons s = (if rp_hideRegionList s then []
     else map (\<lambda>v. (field v ''name'', rg_stateRegion (rp_bar s) = field v ''serverId''))
       (elements (rg_instanceData (rp_bar s))))"

text \<open>The links of the bar of namespaces, \<open>getLink\<close> of \<open>components/NameSpaceList/NameSpaceList.js\<close>: kept in
  \<open>window\<close>, where \<open>null\<close> stands for one that has to be asked for, and copied into the state.\<close>

record link_cache =
  lk_window :: slice
  lk_state :: slice

definition ns_getLink :: "string \<Rightarrow> string \<Rightarrow> link_cache stmt" where
  "ns_getLink linkKey keyName = with_state (\<lambda>s.
     if field (Obj (lk_window s)) keyName = Null
     then emit (\<lambda>_. Ajax ''GET'' ''com.alibaba.nacos.service.getLink'' [(''linkKey'', Str linkKey)])
     else modify (\<lambda>s. s\<lparr>lk_state := AList.update keyName (field (Obj (lk_window s)) keyName) (lk_state s)\<rparr>))"

definition link_success :: "string \<Rightarrow> jsval \<Rightarrow> link_cache stmt" where
  "link_success keyName res = need_object res
     (if field res ''code'' = Num 200
      then modify (\<lambda>s. s\<lparr>lk_window := AList.update keyName (field res ''data'') (lk_window s),
        lk_state := AList.update keyName (field res ''data'') (lk_state s)\<rparr>)
      else skip)"

section \<open>Lemmas\<close>

text \<open>A link that has been asked for once is taken from the window afterwards.\<close>

lemma link_once:
  assumes "res \<notin> {Undef, Null}" and "field res ''code'' = Num 200" and "field res ''data'' = v" and "v \<noteq> Null"
  shows "effects_of (ns_getLink l k (state_of (link_success k res s))) = []"
  using assms by (simp add: link_success_def need_object_def ns_getLink_def with_state_def modify_def AList.update_conv')

lemma region_width_bound: "100 \<le> region_width main title extra"
  by (simp add: region_width_def split: option.split)

text \<open>The part of the hash before the question mark has none: the parameter is never appended with an
  ampersand.\<close>

lemma region_url_separator:
  "region_url protocol domain search hash serverId =
     protocol @ ''//'' @ domain @ search @ takeWhile (\<lambda>c. c \<noteq> CHR ''?'') hash @
     (if str_includes ''serverId'' (takeWhile (\<lambda>c. c \<noteq> CHR ''?'') hash) then [] else ''?serverId='' @ serverId)"
proof -
  define h where "h = takeWhile (\<lambda>c. c \<noteq> CHR ''?'') hash"
  have "CHR ''?'' \<notin> set h" unfolding h_def by (auto dest: set_takeWhileD)
  then have "\<not> str_includes ''?'' h" by (auto simp: includes_iff)
  then show ?thesis
    unfolding region_url_def split_on_hash_first h_def [symmetric] Let_def by simp
qed

end
