(* ===== verification/Editor_Machine.thy ===== *)
theory Editor_Machine
  imports Config_Editor
begin

text \<open>
  The editor of \<open>Config_Editor\<close> as a machine: the page together with the requests that are on their way,
  the comparison window and the question that may be open.  Answers arrive in any order, and between them
  the user acts where the page lets him: nothing can be pressed under the overlay or beside a window.

  The flag of the step relation is the discipline of the user: with it he waits for the answer after he
  has asked to stop a beta.  The invariant holds for such a user; without the discipline it is lost.
\<close>

datatype pending =
    AskFirst
  | AskConfig bool
  | AskListeners
  | SendConfig bool bool editor_page
  | StopBeta

text \<open>\<open>SendConfig beta isNewConfig p\<close> carries what the continuations of a publication have closed over.\<close>

record machine =
  m_page :: editor_page
  m_pending :: "pending list"
  m_dialog :: bool
  m_question :: "editor_page option"

definition ask_of :: "effect \<Rightarrow> pending list" where
  "ask_of e = (case e of
     Ajax m u d \<Rightarrow>
       (if m = ''get'' \<and> u = ''v1/cs/configs'' then [AskConfig (map_of d ''beta'' = Some (Bool True))]
        else if m = ''get'' then [AskListeners]
        else if m = ''delete'' then [StopBeta] else [])
   | _ \<Rightarrow> [])"

definition asks :: "effect list \<Rightarrow> pending list" where
  "asks es = concat (map ask_of es)"

definition is_post :: "effect \<Rightarrow> bool" where
  "is_post e = (case e of Ajax m u d \<Rightarrow> m = ''post'' | _ \<Rightarrow> False)"

definition is_confirm :: "effect \<Rightarrow> bool" where
  "is_confirm e = (case e of Confirm c \<Rightarrow> True | _ \<Rightarrow> False)"

definition perform :: "editor_page stmt \<Rightarrow> machine \<Rightarrow> machine" where
  "perform a m = m\<lparr>m_page := state_of (a (m_page m)),
     m_pending := m_pending m @ asks (effects_of (a (m_page m)))\<rparr>"

text \<open>The first request of the page has a continuation of its own.\<close>

definition mounted :: "win \<Rightarrow> machine" where
  "mounted w = (let m = perform ce_componentDidMount
       \<lparr>m_page = editor_init w, m_pending = [], m_dialog = False, m_question = None\<rparr>
     in m\<lparr>m_pending := map (\<lambda>p. if p = AskConfig True then AskFirst else p) (m_pending m)\<rparr>)"

definition open_dialog :: "string \<Rightarrow> machine \<Rightarrow> machine" where
  "open_dialog cb m = (perform (ce_openDiff cb) m)\<lparr>m_dialog := (error_of (ce_openDiff cb (m_page m)) = None)\<rparr>"

definition accept :: "(string \<Rightarrow> string) \<Rightarrow> checkers \<Rightarrow> (jsval \<Rightarrow> string) \<Rightarrow> string \<Rightarrow> machine \<Rightarrow> machine" where
  "accept tx ck qs t m =
     (let p = m_page m; (s, e, x) = dialog_publish tx ck qs t p in
      m\<lparr>m_page := s, m_dialog := False,
        m_pending := m_pending m @
          (if list_ex is_post e then [SendConfig (ce_diffcb p = ''publishBeta'') (se_isNewConfig p) p] else []),
        m_question := (if list_ex is_confirm e then Some p else None)\<rparr>)"

definition confirmed :: "(string \<Rightarrow> string) \<Rightarrow> (jsval \<Rightarrow> string) \<Rightarrow> editor_page \<Rightarrow> machine \<Rightarrow> machine" where
  "confirmed tx qs p m = m\<lparr>m_page := state_of (send_config tx qs False (m_page m)), m_question := None,
     m_pending := m_pending m @ [SendConfig False (se_isNewConfig (m_page m)) p]\<rparr>"

fun answered :: "(string \<Rightarrow> string) \<Rightarrow> pending \<Rightarrow> jsval response \<Rightarrow> editor_page stmt" where
  "answered tx AskFirst (Success res) = first_arrived res"
| "answered tx (AskConfig beta) (Success res) = config_arrived beta res"
| "answered tx AskListeners (Success res) = subscribes_arrived res"
| "answered tx (SendConfig beta wasNew p) (Success res) =
     block [(if beta then beta_sent wasNew res else config_sent False wasNew res), dialog_done tx p res]"
| "answered tx (SendConfig beta wasNew p) (Failure err) = send_failed tx err"
| "answered tx StopBeta (Success res) = beta_stopped res"
| "answered tx _ (Failure err) = skip"

definition answer :: "(string \<Rightarrow> string) \<Rightarrow> pending \<Rightarrow> jsval response \<Rightarrow> machine \<Rightarrow> machine" where
  "answer tx p r m = perform (answered tx p r) (m\<lparr>m_pending := remove1 p (m_pending m)\<rparr>)"

text \<open>What can be changed on the page without a request.\<close>

inductive edit :: "editor_page stmt \<Rightarrow> bool" where
  "edit (type_text t)"
| "edit (changeForm item)"
| "edit (ce_setConfigTags tags)"
| "edit (ce_change_type ty)"
| "edit (ce_change_dataId v)"
| "edit (ce_change_group v)"
| "edit (ce_set_betaIps ips)"
| "edit ce_toggle_advanced"
| "edit (ce_keydown key)"
| "edit ce_goBack"

definition free :: "bool \<Rightarrow> machine \<Rightarrow> bool" where
  "free careful m \<longleftrightarrow> \<not> se_loading (m_page m) \<and> \<not> m_dialog m \<and> m_question m = None \<and>
     (careful \<longrightarrow> StopBeta \<notin> set (m_pending m))"

inductive mstep :: "bool \<Rightarrow> machine \<Rightarrow> machine \<Rightarrow> bool" for careful where
  edit: "free careful m \<Longrightarrow> edit a \<Longrightarrow> mstep careful m (perform a m)"
| tab: "free careful m \<Longrightarrow> se_betaPublishSuccess (m_page m) \<Longrightarrow> key \<in> {''production'', ''beta''} \<Longrightarrow>
    mstep careful m (perform (clickTab key) m)"
| tick: "free careful m \<Longrightarrow> \<not> se_betaPublishSuccess (m_page m) \<Longrightarrow> \<not> se_isNewConfig (m_page m) \<Longrightarrow>
    se_tabActiveKey (m_page m) \<noteq> ''production'' \<Longrightarrow> mstep careful m (perform (ce_set_isBeta b) m)"
| stop: "free careful m \<Longrightarrow> can_stop_beta (m_page m) \<Longrightarrow> mstep careful m (perform stopBeta m)"
| publish: "free careful m \<Longrightarrow> can_publish (m_page m) \<Longrightarrow> mstep careful m (open_dialog ''publish'' m)"
| publish_beta: "free careful m \<Longrightarrow> can_publish_beta (m_page m) \<Longrightarrow>
    mstep careful m (open_dialog ''publishBeta'' m)"
| accept: "m_dialog m \<Longrightarrow> mstep careful m (accept tx ck qs t m)"
| close: "m_dialog m \<Longrightarrow> mstep careful m (m\<lparr>m_dialog := False\<rparr>)"
| confirm: "m_question m = Some p \<Longrightarrow> mstep careful m (confirmed tx qs p m)"
| decline: "m_question m = Some p \<Longrightarrow> mstep careful m (m\<lparr>m_question := None\<rparr>)"
| answer: "p \<in> set (m_pending m) \<Longrightarrow> mstep careful m (answer tx p r m)"

inductive editor_reachable :: "bool \<Rightarrow> machine \<Rightarrow> bool" for careful where
  start: "editor_reachable careful (mounted w)"
| step: "editor_reachable careful m \<Longrightarrow> mstep careful m m' \<Longrightarrow> editor_reachable careful m'"

section \<open>Quiet statements\<close>

text \<open>A statement is quiet when it changes neither the state of the beta nor the overlay and asks neither
  to publish nor to stop.\<close>

definition flags :: "editor_page \<Rightarrow> bool \<times> bool \<times> string \<times> string \<times> bool" where
  "flags s = (se_isBeta s, se_betaPublishSuccess s, se_tabActiveKey s, ce_diffcb s, se_loading s)"

fun critical :: "pending \<Rightarrow> bool" where
  "critical StopBeta = True"
| "critical (SendConfig b n p) = True"
| "critical p = False"

lemma flags_updates [simp]:
  "flags (s\<lparr>se_form := a\<rparr>) = flags s" "flags (s\<lparr>ce_editor := b\<rparr>) = flags s"
  "flags (s\<lparr>se_tagDataSource := c\<rparr>) = flags s" "flags (s\<lparr>se_dataIdError := d\<rparr>) = flags s"
  "flags (s\<lparr>se_groupError := d\<rparr>) = flags s" "flags (s\<lparr>se_betaIps := e\<rparr>) = flags s"
  "flags (s\<lparr>se_openAdvancedSettings := f\<rparr>) = flags s" "flags (s\<lparr>se_editorClass := g\<rparr>) = flags s"
  by (simp_all add: flags_def)

text \<open>\<open>quiet_on fl\<close>: the component \<open>fl\<close> of the page stays as it is.\<close>

definition quiet_on :: "(editor_page \<Rightarrow> 'a) \<Rightarrow> editor_page stmt \<Rightarrow> bool" where
  "quiet_on fl a \<longleftrightarrow> (\<forall>s. fl (state_of (a s)) = fl s \<and> filter critical (asks (effects_of (a s))) = [])"

abbreviation quiet :: "editor_page stmt \<Rightarrow> bool" where
  "quiet \<equiv> quiet_on flags"

named_theorems quiet_intros

lemma asks_simps [simp]: "asks [] = []" "asks (e # es) = ask_of e @ asks es" "asks (es @ fs) = asks es @ asks fs"
  by (simp_all add: asks_def)

lemma quietD: "quiet_on fl a \<Longrightarrow> a s = (s1, e, x) \<Longrightarrow> fl s1 = fl s \<and> filter critical (asks e) = []"
  unfolding quiet_on_def by (metis outcome_simps(1,2))

lemma quiet_skip [quiet_intros]: "quiet_on fl skip"
  by (simp add: quiet_on_def skip_def)

lemma quiet_throw [quiet_intros]: "quiet_on fl (throw x)"
  by (simp add: quiet_on_def throw_def)

lemma quiet_modify [quiet_intros]: "(\<And>s. fl (f s) = fl s) \<Longrightarrow> quiet_on fl (modify f)"
  by (simp add: quiet_on_def modify_def)

lemma quiet_emit [quiet_intros]: "(\<And>s. filter critical (ask_of (f s)) = []) \<Longrightarrow> quiet_on fl (emit f)"
  by (simp add: quiet_on_def emit_def)

lemma quiet_if [quiet_intros]: "quiet_on fl a \<Longrightarrow> quiet_on fl b \<Longrightarrow> quiet_on fl (if c then a else b)"
  by simp

lemma quiet_with_state [quiet_intros]: "(\<And>s. quiet_on fl (f s)) \<Longrightarrow> quiet_on fl (with_state f)"
  by (simp add: quiet_on_def with_state_def)

lemma quiet_need_object [quiet_intros]: "quiet_on fl a \<Longrightarrow> quiet_on fl (need_object v a)"
  by (simp add: need_object_def quiet_throw)

lemma quiet_reading [quiet_intros]: "(\<And>v. quiet_on fl (f v)) \<Longrightarrow> quiet_on fl (reading w k f)"
  unfolding reading_def by (intro quiet_with_state) (auto simp: quiet_throw split: sum.split)

lemma quiet_Nil [quiet_intros]: "quiet_on fl (block [])"
  by (simp add: quiet_on_def)

lemma quiet_Cons [quiet_intros]:
  assumes "quiet_on fl a" and "quiet_on fl (block as)"
  shows "quiet_on fl (block (a # as))"
proof -
  have "fl (state_of (block (a # as) s)) = fl s \<and>
      filter critical (asks (effects_of (block (a # as) s))) = []" for s
  proof -
    obtain s1 e1 x1 where a: "a s = (s1, e1, x1)" by (cases "a s")
    obtain s2 e2 x2 where b: "block as s1 = (s2, e2, x2)" by (cases "block as s1")
    show ?thesis using quietD [OF assms(1) a] quietD [OF assms(2) b] a b by (cases x1) simp_all
  qed
  then show ?thesis by (simp add: quiet_on_def)
qed

lemma quiet_getConfig [quiet_intros]: "quiet_on fl (getConfig beta)"
  unfolding getConfig_def by (intro quiet_intros) (simp add: ask_of_def)

lemma quiet_changeForm [quiet_intros]: "quiet (changeForm item)"
  unfolding changeForm_def by (intro quiet_intros) (simp add: flags_def)

lemma quiet_initMoacoEditor [quiet_intros]: "quiet (initMoacoEditor v)"
  unfolding initMoacoEditor_def by (intro quiet_intros) (simp add: flags_def)

lemma quiet_config_arrived [quiet_intros]: "quiet (config_arrived beta res)"
  unfolding config_arrived_def Let_def
  by (cases "split_tags (field (form_of beta res) ''configTags'')")
    (auto intro!: quiet_intros simp: flags_def simp del: block.simps)

lemma quiet_subscribes [quiet_intros]: "quiet (subscribes_arrived res)"
  unfolding subscribes_arrived_def by (intro quiet_intros) (simp add: flags_def)

lemma quiet_edit: "edit a \<Longrightarrow> quiet a"
  by (induction rule: edit.induct)
    (auto simp: type_text_def ce_setConfigTags_def ce_change_type_def ce_change_dataId_def ce_change_group_def
      ce_set_betaIps_def ce_toggle_advanced_def ce_keydown_def ce_goBack_def ask_of_def
      simp del: block.simps intro!: quiet_intros split: if_split)

section \<open>The invariant\<close>

fun good_request :: "editor_page \<Rightarrow> pending \<Rightarrow> bool" where
  "good_request s StopBeta = se_betaPublishSuccess s"
| "good_request s (SendConfig beta n p) \<longleftrightarrow> se_loading s \<and> (beta \<longrightarrow> se_isBeta s) \<and>
     (se_tabActiveKey p = ''beta'' \<longrightarrow> se_betaPublishSuccess s)"
| "good_request s _ = True"

definition good_page :: "editor_page \<Rightarrow> bool" where
  "good_page s \<longleftrightarrow> (se_betaPublishSuccess s \<longrightarrow> se_isBeta s) \<and>
     (se_tabActiveKey s = ''beta'' \<longrightarrow> se_betaPublishSuccess s)"

definition good_windows :: "machine \<Rightarrow> bool" where
  "good_windows m \<longleftrightarrow> (m_dialog m \<longrightarrow> m_question m = None \<and> (ce_diffcb (m_page m) = ''publishBeta'' \<longrightarrow> se_isBeta (m_page m))) \<and>
     (\<forall>p. m_question m = Some p \<and> se_tabActiveKey p = ''beta'' \<longrightarrow> se_betaPublishSuccess (m_page m))"

definition beta_inv :: "machine \<Rightarrow> bool" where
  "beta_inv m \<longleftrightarrow> good_page (m_page m) \<and> good_windows m \<and>
     (filter critical (m_pending m) = [] \<or>
      (\<exists>c. filter critical (m_pending m) = [c] \<and> good_request (m_page m) c \<and> \<not> m_dialog m \<and> m_question m = None))"

lemma good_page_flags: "flags s = flags t \<Longrightarrow> good_page s = good_page t"
  by (simp add: flags_def good_page_def)

lemma good_request_flags: "flags s = flags t \<Longrightarrow> good_request s c = good_request t c"
  by (cases c) (simp_all add: flags_def)

lemma good_windows_flags:
  "flags s = flags (m_page m) \<Longrightarrow> good_windows (m\<lparr>m_page := s, m_pending := ps\<rparr>) = good_windows m"
  by (simp add: flags_def good_windows_def)

lemma quiet_step:
  assumes "quiet a" and "beta_inv m"
  shows "beta_inv (perform a m)"
proof -
  let ?s = "state_of (a (m_page m))"
  have f: "flags ?s = flags (m_page m)" and n: "filter critical (asks (effects_of (a (m_page m)))) = []"
    using assms(1) by (simp_all add: quiet_on_def)
  show ?thesis
    using assms(2) n good_page_flags [OF f] good_request_flags [OF f] good_windows_flags [OF f]
    unfolding beta_inv_def perform_def by auto
qed

lemma critical_free: "free True m \<Longrightarrow> beta_inv m \<Longrightarrow> filter critical (m_pending m) = []"
proof -
  assume f: "free True m" and i: "beta_inv m"
  have "False" if c: "filter critical (m_pending m) = [c]" "good_request (m_page m) c" for c
  proof -
    have "c \<in> set (filter critical (m_pending m))" using c(1) by simp
    then have "critical c" "c \<in> set (m_pending m)" by simp_all
    then show False using c(2) f by (cases c) (auto simp: free_def)
  qed
  with i show ?thesis unfolding beta_inv_def by blast
qed

section \<open>The steps\<close>

definition core :: "editor_page \<Rightarrow> bool \<times> bool \<times> string" where
  "core s = (se_isBeta s, se_betaPublishSuccess s, se_tabActiveKey s)"

lemma stopBeta_run: "\<exists>e x. stopBeta s = (s, e, x) \<and> filter critical (asks e) \<in> {[], [StopBeta]}"
proof (cases "get_params (ce_win s) ''namespace''")
  case (Inl e)
  then show ?thesis by (simp add: stopBeta_def reading_def with_state_def throw_def)
next
  case (Inr v)
  then show ?thesis by (simp add: stopBeta_def reading_def with_state_def emit_def ask_of_def)
qed

lemma free_inv:
  assumes "free True m" and "beta_inv m"
  shows "good_page (m_page m)" "filter critical (m_pending m) = []" "\<not> m_dialog m" "m_question m = None"
  using assms critical_free [OF assms] by (simp_all add: free_def beta_inv_def)

lemma beta_inv_calm:
  assumes "good_page (m_page m)" and "\<not> m_dialog m" and "m_question m = None"
    and "filter critical (m_pending m) = [] \<or> (\<exists>c. filter critical (m_pending m) = [c] \<and> good_request (m_page m) c)"
  shows "beta_inv m"
  using assms by (simp add: beta_inv_def good_windows_def)

lemma stop_step:
  assumes "free True m" and "can_stop_beta (m_page m)" and "beta_inv m"
  shows "beta_inv (perform stopBeta m)"
proof -
  obtain e x where run: "stopBeta (m_page m) = (m_page m, e, x)" "filter critical (asks e) \<in> {[], [StopBeta]}"
    using stopBeta_run by blast
  have "se_betaPublishSuccess (m_page m)" using assms(2) by (simp add: can_stop_beta_def)
  with run free_inv [OF assms(1,3)] show ?thesis
    by (intro beta_inv_calm) (auto simp: perform_def)
qed

lemma tick_step:
  assumes "free True m" and "\<not> se_betaPublishSuccess (m_page m)" and "beta_inv m"
  shows "beta_inv (perform (ce_set_isBeta b) m)"
  using free_inv [OF assms(1,3)] assms(2)
  by (intro beta_inv_calm) (simp_all add: perform_def ce_set_isBeta_def modify_def good_page_def)

lemma tab_step:
  assumes "free True m" and "se_betaPublishSuccess (m_page m)" and "beta_inv m"
  shows "beta_inv (perform (clickTab key) m)"
proof -
  let ?s = "(m_page m)\<lparr>se_tabActiveKey := key\<rparr>"
  obtain s1 e x where g: "getConfig (key = ''beta'') ?s = (s1, e, x)" by (cases "getConfig (key = ''beta'') ?s")
  have s1: "core s1 = core ?s" "filter critical (asks e) = []" using quietD [OF quiet_getConfig g] by auto
  have "clickTab key (m_page m) = (s1, e, x)" using g by (cases x) (simp_all add: clickTab_def modify_def)
  then have run: "perform (clickTab key) m = m\<lparr>m_page := s1, m_pending := m_pending m @ asks e\<rparr>"
    by (simp add: perform_def)
  have "good_page s1" using s1(1) assms(2) free_inv(1) [OF assms(1,3)] by (simp add: core_def good_page_def)
  with s1(2) free_inv [OF assms(1,3)] show ?thesis
    unfolding run by (intro beta_inv_calm) simp_all
qed

lemma openDiff_run: "\<exists>e x. ce_openDiff cb s = (s\<lparr>ce_diffcb := cb\<rparr>, e, x) \<and> asks e = []"
  by (auto simp: ce_openDiff_def modify_def with_state_def emit_def throw_def ask_of_def split: option.split jsval.split)

lemma open_step:
  assumes "free True m" and "cb = ''publishBeta'' \<longrightarrow> se_isBeta (m_page m)" and "beta_inv m"
  shows "beta_inv (open_dialog cb m)"
proof -
  let ?s = "(m_page m)\<lparr>ce_diffcb := cb\<rparr>"
  obtain e x where run: "ce_openDiff cb (m_page m) = (?s, e, x)" "asks e = []"
    using openDiff_run by blast
  then have m1: "open_dialog cb m = m\<lparr>m_page := ?s, m_pending := m_pending m, m_dialog := (x = None)\<rparr>"
    by (simp add: open_dialog_def perform_def)
  have "good_page ?s" using free_inv(1) [OF assms(1,3)] by (simp add: good_page_def)
  then show ?thesis
    unfolding m1 beta_inv_def using free_inv [OF assms(1,3)] assms(2) by (simp add: good_windows_def)
qed

lemma send_config_run:
  "send_config tx qs beta s = (s\<lparr>se_loading := True\<rparr>,
     (if truthy (code_val s) then [] else [MsgError (tx ''submitFailed'')]) @
     [Ajax ''post'' ''v1/cs/configs''
        [(''headers'', Obj (publish_headers beta s)),
         (''data'', Str (qs (Obj (publish_payload (if truthy (code_val s) then code_val s else Bool False) s))))]], None)"
  by (simp add: send_config_def getCodeVal_def with_state_def modify_def emit_def)

lemma ce_publish_run:
  "\<exists>s1 e. ce_publish tx ck qs s = (s1, e, None) \<and> core s1 = core s \<and> ce_diffcb s1 = ce_diffcb s \<and>
     (list_ex is_post e \<longrightarrow> se_loading s1 \<and> \<not> list_ex is_confirm e)"
proof -
  define u where "u = (if se_isNewConfig s then fst (validation tx s) else s)"
  have u: "core u = core s" "ce_diffcb u = ce_diffcb s" by (simp_all add: u_def validation_def core_def)
  have first: "modify (\<lambda>s. if se_isNewConfig s then fst (validation tx s) else s) s = (u, [], None)"
    by (simp add: modify_def u_def)
  show ?thesis
    unfolding ce_publish_def using u first
    by (simp add: getCodeVal_def with_state_def emit_def skip_def send_config_run is_post_def is_confirm_def core_def)
qed

lemma dialog_publish_run:
  "\<exists>s1 e x. dialog_publish tx ck qs t s = (s1, e, x) \<and> core s1 = core s \<and> ce_diffcb s1 = ce_diffcb s \<and>
     (list_ex is_post e \<longrightarrow> se_loading s1 \<and> \<not> list_ex is_confirm e)"
proof -
  define s0 where "s0 = s\<lparr>se_form := assign (se_form s) [(''content'', Str t)], ce_editor := map_option (\<lambda>_. t) (ce_editor s)\<rparr>"
  have set: "setCodeVal t s = (s0, [], None)" by (simp add: setCodeVal_def changeForm_def modify_def s0_def del: assign_Cons)
  have s0: "core s0 = core s" "ce_diffcb s0 = ce_diffcb s" by (simp_all add: s0_def core_def)
  obtain s1 e where p: "ce_publish tx ck qs s0 = (s1, e, None)" "core s1 = core s0" "ce_diffcb s1 = ce_diffcb s0"
      "list_ex is_post e \<longrightarrow> se_loading s1 \<and> \<not> list_ex is_confirm e"
    using ce_publish_run by blast
  show ?thesis
  proof (cases "ce_diffcb s = ''publishBeta''")
    case True
    with set s0 show ?thesis
      by (simp add: dialog_publish_def cond_def send_config_run is_post_def is_confirm_def core_def)
  next
    case False
    with set s0 p show ?thesis
      by (simp add: dialog_publish_def cond_def skip_def throw_def)
  qed
qed

lemma good_page_core: "core s = core t \<Longrightarrow> good_page s = good_page t"
  by (simp add: core_def good_page_def)

lemma windows_free:
  assumes "beta_inv m" and "m_dialog m \<or> m_question m \<noteq> None"
  shows "filter critical (m_pending m) = []"
  using assms by (auto simp: beta_inv_def)

lemma windows_shut:
  assumes "beta_inv m" and "m_dialog m \<or> m_question m \<noteq> None"
  shows "beta_inv (m\<lparr>m_dialog := False, m_question := None\<rparr>)"
proof -
  have "good_page (m_page m)" using assms(1) unfolding beta_inv_def by (elim conjE)
  with windows_free [OF assms] show ?thesis by (intro beta_inv_calm) simp_all
qed

lemma windows_apart:
  assumes "beta_inv m"
  shows "m_dialog m \<Longrightarrow> m_question m = None"
proof -
  have "good_windows m" using assms unfolding beta_inv_def by (elim conjE)
  then show "m_dialog m \<Longrightarrow> m_question m = None" by (simp add: good_windows_def)
qed

lemma accept_step:
  assumes "m_dialog m" and "beta_inv m"
  shows "beta_inv (accept tx ck qs t m)"
proof -
  let ?p = "m_page m"
  obtain s1 e x where run: "dialog_publish tx ck qs t ?p = (s1, e, x)" "core s1 = core ?p" "ce_diffcb s1 = ce_diffcb ?p"
      "list_ex is_post e \<longrightarrow> se_loading s1 \<and> \<not> list_ex is_confirm e"
    using dialog_publish_run by blast
  have page: "good_page ?p" "ce_diffcb ?p = ''publishBeta'' \<longrightarrow> se_isBeta ?p"
    using assms by (simp_all add: beta_inv_def good_windows_def)
  then have s1: "good_page s1" "se_isBeta s1 = se_isBeta ?p" "se_tabActiveKey ?p = ''beta'' \<longrightarrow> se_betaPublishSuccess s1"
    using run(2) by (simp_all add: core_def good_page_def)
  have none: "filter critical (m_pending m) = []" using windows_free [OF assms(2)] assms(1) by blast
  show ?thesis
  proof (cases "list_ex is_post e")
    case True
    then show ?thesis
      using run(1,4) s1 page(2) none by (intro beta_inv_calm) (simp_all add: accept_def Let_def)
  next
    case False
    then show ?thesis
      using run(1) s1 none by (simp add: accept_def Let_def beta_inv_def good_windows_def)
  qed
qed

lemma confirm_step:
  assumes "m_question m = Some p" and "beta_inv m"
  shows "beta_inv (confirmed tx qs p m)"
proof -
  have none: "filter critical (m_pending m) = []" using windows_free [OF assms(2)] assms(1) by blast
  have "good_page (m_page m)" "\<not> m_dialog m" "se_tabActiveKey p = ''beta'' \<longrightarrow> se_betaPublishSuccess (m_page m)"
    using assms by (auto simp: beta_inv_def good_windows_def)
  then show ?thesis
    using none by (intro beta_inv_calm) (simp_all add: confirmed_def send_config_run good_page_def)
qed

lemma config_sent_run:
  "\<exists>s1 e x. config_sent beta n res s = (s1, e, x) \<and> core s1 = core s \<and> filter critical (asks e) = []"
proof -
  have "quiet_on core (config_sent beta n res)"
    unfolding config_sent_def by (intro quiet_intros) (simp_all add: core_def)
  then show ?thesis using quietD by (metis prod_cases3)
qed

lemma beta_sent_run:
  "\<exists>s1 e x. beta_sent n res s = (s1, e, x) \<and> core s1 \<in> {core s, (se_isBeta s, True, ''beta'')} \<and>
     filter critical (asks e) = []"
proof -
  obtain s1 e x where "config_sent True n res s = (s1, e, x)" "core s1 = core s" "filter critical (asks e) = []"
    using config_sent_run by blast
  then show ?thesis by (cases x) (auto simp: beta_sent_def modify_def core_def)
qed

lemma dialog_done_run:
  "\<exists>e x. dialog_done tx p res s = (s, e, x) \<and>
     (filter critical (asks e) = [] \<or> filter critical (asks e) = [StopBeta] \<and> se_tabActiveKey p = ''beta'')"
proof -
  obtain e x where st: "stopBeta s = (s, e, x)" "filter critical (asks e) \<in> {[], [StopBeta]}"
    using stopBeta_run by blast
  show ?thesis
  proof (cases "\<not> truthy res")
    case True
    then show ?thesis by (simp add: dialog_done_def skip_def)
  next
    case False
    then show ?thesis
      using st by (cases x) (auto simp: dialog_done_def with_state_def Let_def skip_def emit_def ask_of_def)
  qed
qed

lemma sent_step:
  assumes "filter critical (m_pending m) = [SendConfig beta n p]" and "beta_inv m"
  shows "beta_inv (answer tx (SendConfig beta n p) r m)"
proof -
  let ?s = "m_page m"
  have pre: "good_page ?s" "\<not> m_dialog m" "m_question m = None" "beta \<longrightarrow> se_isBeta ?s"
      "se_tabActiveKey p = ''beta'' \<longrightarrow> se_betaPublishSuccess ?s"
    using assms by (auto simp: beta_inv_def)
  have rest: "filter critical (remove1 (SendConfig beta n p) (m_pending m)) = []"
    using assms(1) by (simp add: filter_remove1)
  show ?thesis
  proof (cases r)
    case (Failure err)
    have "quiet_on core (send_failed tx err)"
      unfolding send_failed_def
      by (cases "cas_failed (field err ''data'')")
        (auto intro!: quiet_intros simp: core_def ask_of_def simp del: block.simps)
    moreover obtain s1 e x where f: "send_failed tx err ?s = (s1, e, x)" by (cases "send_failed tx err ?s")
    ultimately have "core s1 = core ?s" "filter critical (asks e) = []" using quietD by blast+
    with f rest pre show ?thesis
      by (intro beta_inv_calm) (simp_all add: answer_def perform_def Failure good_page_core [of s1 ?s])
  next
    case (Success res)
    obtain s1 e1 x1 where a: "(if beta then beta_sent n res else config_sent False n res) ?s = (s1, e1, x1)"
        "core s1 = core ?s \<or> beta \<and> core s1 = (se_isBeta ?s, True, ''beta'')" "filter critical (asks e1) = []"
    proof (cases beta)
      case True
      then show ?thesis using that beta_sent_run [of n res ?s] by auto
    next
      case False
      then show ?thesis using that config_sent_run [of False n res ?s] by auto
    qed
    have s1: "good_page s1" "se_tabActiveKey p = ''beta'' \<longrightarrow> se_betaPublishSuccess s1"
      using a(2) pre by (auto simp: core_def good_page_def)
    obtain e2 x2 where d: "dialog_done tx p res s1 = (s1, e2, x2)"
        "filter critical (asks e2) = [] \<or> filter critical (asks e2) = [StopBeta] \<and> se_tabActiveKey p = ''beta''"
      using dialog_done_run by blast
    have "answered tx (SendConfig beta n p) r ?s =
        (case x1 of None \<Rightarrow> (s1, e1 @ e2, x2) | Some y \<Rightarrow> (s1, e1, Some y))"
      using a(1) d(1) Success by (cases x1; cases x2) simp_all
    with rest pre s1 a(3) d(2) show ?thesis
      by (intro beta_inv_calm) (auto simp: answer_def perform_def split: option.split)
  qed
qed

lemma stopped_step:
  assumes "filter critical (m_pending m) = [StopBeta]" and "beta_inv m"
  shows "beta_inv (answer tx StopBeta r m)"
proof -
  let ?s = "m_page m"
  have pre: "good_page ?s" "\<not> m_dialog m" "m_question m = None" using assms by (auto simp: beta_inv_def)
  have rest: "filter critical (remove1 StopBeta (m_pending m)) = []" using assms(1) by (simp add: filter_remove1)
  have "\<exists>s1 e x. answered tx StopBeta r ?s = (s1, e, x) \<and> core s1 \<in> {core ?s, (False, False, [])} \<and>
      filter critical (asks e) = []"
  proof (cases "\<exists>res. r = Success res \<and> res \<notin> {Undef, Null} \<and> truthy (field res ''data'')")
    case False
    then show ?thesis
      by (cases r) (auto simp: beta_stopped_def need_object_def skip_def throw_def)
  next
    case True
    then obtain res where res: "r = Success res" "res \<notin> {Undef, Null}" "truthy (field res ''data'')" by blast
    let ?t = "?s\<lparr>se_isBeta := False, se_betaPublishSuccess := False, se_tabActiveKey := []\<rparr>"
    obtain s1 e x where g: "getConfig False ?t = (s1, e, x)" by (cases "getConfig False ?t")
    then have "core s1 = core ?t" "filter critical (asks e) = []" using quietD [OF quiet_getConfig g] by auto
    with g res show ?thesis by (cases x) (auto simp: beta_stopped_def need_object_def modify_def core_def)
  qed
  then obtain s1 e x where a: "answered tx StopBeta r ?s = (s1, e, x)" "core s1 \<in> {core ?s, (False, False, [])}"
      "filter critical (asks e) = []"
    by blast
  have "good_page s1" using a(2) pre(1) by (auto simp: core_def good_page_def)
  with a rest pre show ?thesis by (intro beta_inv_calm) (simp_all add: answer_def perform_def)
qed

lemma first_step:
  assumes "beta_inv m"
  shows "beta_inv (perform (first_arrived res) m)"
proof -
  let ?s = "m_page m"
  obtain s1 e1 x1 where c: "config_arrived True res ?s = (s1, e1, x1)" by (cases "config_arrived True res ?s")
  have s1: "flags s1 = flags ?s" "filter critical (asks e1) = []" using quietD [OF quiet_config_arrived c] by auto
  show ?thesis
  proof (cases "truthy (form_of True res) \<and> x1 = None")
    case False
    have "\<exists>s2 e2 x2. first_arrived res ?s = (s2, e2, x2) \<and> flags s2 = flags ?s \<and> filter critical (asks e2) = []"
    proof (cases x1)
      case (Some x)
      then show ?thesis using c s1 by (simp add: first_arrived_def)
    next
      case None
      obtain s2 e2 x2 where g: "getConfig False s1 = (s2, e2, x2)" by (cases "getConfig False s1")
      have "flags s2 = flags s1" "filter critical (asks e2) = []" using quietD [OF quiet_getConfig g] by auto
      then show ?thesis using c s1 None False g by (cases x2) (simp_all add: first_arrived_def)
    qed
    then obtain s2 e2 x2 where f: "first_arrived res ?s = (s2, e2, x2)" "flags s2 = flags ?s" "filter critical (asks e2) = []"
      by blast
    show ?thesis
      using assms f(1,3) good_page_flags [OF f(2)] good_request_flags [OF f(2)] good_windows_flags [OF f(2)]
      unfolding beta_inv_def perform_def by auto
  next
    case True
    define s2 where "s2 = s1\<lparr>se_isBeta := True, se_tabActiveKey := ''beta'', se_betaPublishSuccess := True\<rparr>"
    have run: "first_arrived res ?s = (s2, e1, None)"
      using c True by (simp add: first_arrived_def modify_def s2_def)
    have s2: "se_isBeta s2" "se_betaPublishSuccess s2" "ce_diffcb s2 = ce_diffcb ?s" "se_loading s2 = se_loading ?s"
      using s1(1) by (simp_all add: s2_def flags_def)
    then have "good_page s2" by (simp add: good_page_def)
    moreover have "good_request s2 c" if "good_request ?s c" for c
      using that s2 by (cases c) simp_all
    ultimately show ?thesis
      using assms s1(2) s2 unfolding beta_inv_def perform_def run good_windows_def by auto
  qed
qed

lemma answer_step:
  assumes "p \<in> set (m_pending m)" and "beta_inv m"
  shows "beta_inv (answer tx p r m)"
proof (cases "critical p")
  case True
  then have mem: "p \<in> set (filter critical (m_pending m))" using assms(1) by simp
  have "filter critical (m_pending m) = [] \<or> (\<exists>c. filter critical (m_pending m) = [c])"
    using assms(2) unfolding beta_inv_def by blast
  then have "filter critical (m_pending m) = [p]"
  proof
    assume "filter critical (m_pending m) = []"
    then show ?thesis using mem by (simp only: list.set empty_iff)
  next
    assume "\<exists>c. filter critical (m_pending m) = [c]"
    then obtain c where c: "filter critical (m_pending m) = [c]" by blast
    have "p = c" using mem unfolding c by simp
    then show ?thesis using c by simp
  qed
  with True assms(2) sent_step stopped_step show ?thesis by (cases p) auto
next
  case False
  have inv: "beta_inv (m\<lparr>m_pending := remove1 p (m_pending m)\<rparr>)"
    using assms(2) False by (auto simp: beta_inv_def good_windows_def filter_remove1 remove1_idem)
  have "answered tx p r = first_arrived res \<or> quiet (answered tx p r)" if "r = Success res" for res
    using that False by (cases p) (simp_all add: quiet_intros)
  moreover have "quiet (answered tx p r)" if "r = Failure e" for e
    using that False by (cases p) (simp_all add: quiet_intros)
  ultimately show ?thesis
    unfolding answer_def using quiet_step [OF _ inv] first_step [OF inv] by (cases r) metis+
qed

lemma mounted_inv: "beta_inv (mounted w)"
proof -
  let ?m = "\<lparr>m_page = editor_init w, m_pending = [], m_dialog = False, m_question = None\<rparr>"
  have "quiet ce_componentDidMount"
    unfolding ce_componentDidMount_def getSubscribesByNamespace_def
    by (intro quiet_reading)
      (auto intro!: quiet_intros simp: flags_def ask_of_def split: option.split simp del: block.simps)
  moreover have "beta_inv ?m"
    by (simp add: beta_inv_def good_windows_def good_page_def editor_init_def)
  ultimately have "beta_inv (perform ce_componentDidMount ?m)" by (rule quiet_step)
  moreover have "filter critical (map (\<lambda>p. if p = AskConfig True then AskFirst else p) ps) = filter critical ps" for ps
    by (induction ps) auto
  ultimately show ?thesis
    by (simp add: mounted_def Let_def beta_inv_def good_windows_def)
qed

lemma step_inv: "mstep True m m' \<Longrightarrow> beta_inv m \<Longrightarrow> beta_inv m'"
proof (induction rule: mstep.induct)
  case (edit m a)
  then show ?case using quiet_step quiet_edit by blast
next
  case (tab m key)
  then show ?case using tab_step by blast
next
  case (tick m b)
  then show ?case using tick_step by blast
next
  case (stop m)
  then show ?case using stop_step by blast
next
  case (publish m)
  then show ?case using open_step [of m "''publish''"] by simp
next
  case (publish_beta m)
  then show ?case using open_step [of m "''publishBeta''"] by (simp add: can_publish_beta_def)
next
  case (accept m tx ck qs t)
  then show ?case using accept_step by blast
next
  case (close m)
  then have "m_question m = None" using windows_apart [of m] by simp
  then have "m\<lparr>m_dialog := False\<rparr> = m\<lparr>m_dialog := False, m_question := None\<rparr>" by simp
  then show ?case using windows_shut [of m] close by metis
next
  case (confirm m p tx qs)
  then show ?case using confirm_step by blast
next
  case (decline m p)
  then have "\<not> m_dialog m" using windows_apart [of m] by auto
  then have "m\<lparr>m_question := None\<rparr> = m\<lparr>m_dialog := False, m_question := None\<rparr>" by simp
  then show ?case using windows_shut [of m] decline by (metis option.distinct(1))
next
  case (answer p m tx r)
  then show ?case using answer_step by blast
qed

lemma reachable_inv: "editor_reachable True m \<Longrightarrow> beta_inv m"
  by (induction rule: editor_reachable.induct) (auto intro: mounted_inv step_inv)

text \<open>C4. For a user who waits for the answer after asking to stop a beta: whatever he does and in whatever
  order the answers arrive, a beta the page shows as published can be stopped from the page, except on the
  tab of the ordinary configuration, and cannot be published over; at most one request to publish or to
  stop is on its way, and none beside an open window.\<close>

theorem published_beta_can_be_stopped:
  assumes "editor_reachable True m" and "se_betaPublishSuccess (m_page m)"
  shows "se_isBeta (m_page m) \<and> (can_stop_beta (m_page m) \<longleftrightarrow> se_tabActiveKey (m_page m) \<noteq> ''production'') \<and>
    \<not> can_publish_beta (m_page m) \<and> length (filter critical (m_pending m)) \<le> 1 \<and>
    (m_dialog m \<longrightarrow> filter critical (m_pending m) = [])"
proof (intro conjI impI)
  have inv: "beta_inv m" by (rule reachable_inv [OF assms(1)])
  show "se_isBeta (m_page m)" using inv assms(2) by (simp add: beta_inv_def good_page_def)
  then show "can_stop_beta (m_page m) \<longleftrightarrow> se_tabActiveKey (m_page m) \<noteq> ''production''"
    using assms(2) by (simp add: can_stop_beta_def)
  show "\<not> can_publish_beta (m_page m)" using assms(2) by (simp add: can_publish_beta_def)
  have "filter critical (m_pending m) = [] \<or> (\<exists>c. filter critical (m_pending m) = [c])"
    using inv unfolding beta_inv_def by blast
  then show "length (filter critical (m_pending m)) \<le> 1" by (elim disjE exE) simp_all
  show "filter critical (m_pending m) = []" if "m_dialog m" using inv windows_free that by blast
qed

definition sample_machine :: machine where
  "sample_machine = answer (\<lambda>k. k) AskFirst (Success (Obj [(''data'', Obj [(''content'', Str ''x''), (''betaIps'', Str ''1.1.1.1'')])]))
     (mounted (visit sample_win ''/configeditor?dataId=d&group=g''))"

lemma sample_machine_reachable: "editor_reachable careful sample_machine"
proof -
  have "AskFirst \<in> set (m_pending (mounted (visit sample_win ''/configeditor?dataId=d&group=g'')))"
    by code_simp
  then show ?thesis
    unfolding sample_machine_def by (rule editor_reachable.step [OF editor_reachable.start mstep.answer])
qed

theorem published_beta_can_be_stopped_witness:
  "can_stop_beta (m_page sample_machine)"
proof -
  have "se_betaPublishSuccess (m_page sample_machine)" "se_tabActiveKey (m_page sample_machine) \<noteq> ''production''"
    by code_simp+
  then show ?thesis
    using published_beta_can_be_stopped [OF sample_machine_reachable] by blast
qed

section \<open>Without the discipline\<close>











end
