(* ===== verification/Json_Roundtrip.thy ===== *)
theory Json_Roundtrip
  imports Js_Json Url_Params
begin

text \<open>
  \<open>JSON.parse\<close> takes back what \<open>JSON.stringify\<close> wrote, compact or indented: the console keeps its session
  as such a text, shows metadata as one for editing, and copies and links records through one.

  Left out are \<open>undefined\<close>, which the text cannot say, and numbers that are not integers, whose literal the
  language may write in another way.
\<close>

fun json_ok :: "jsval \<Rightarrow> bool" where
  "json_ok Undef = False"
| "json_ok Null = True"
| "json_ok (Bool b) = True"
| "json_ok (Num n) = True"
| "json_ok (Dec l) = False"
| "json_ok (Str s) = True"
| "json_ok (Arr xs) = list_all json_ok xs"
| "json_ok (Obj fs) = (distinct (map fst fs) \<and> list_all (\<lambda>(k, v). json_ok v) fs)"

definition blanks :: "string \<Rightarrow> bool" where
  "blanks w \<longleftrightarrow> set w \<subseteq> set [CHR '' '', CHR 0x09, CHR 0x0A, CHR 0x0D]"

lemma blanks_simps [simp]:
  "blanks []" "blanks (a @ b) \<longleftrightarrow> blanks a \<and> blanks b"
  "blanks (c # w) \<longleftrightarrow> c \<in> set [CHR '' '', CHR 0x09, CHR 0x0A, CHR 0x0D] \<and> blanks w"
  by (simp_all add: blanks_def)

lemma skip_blanks: "blanks w \<Longrightarrow> skip_ws (w @ s) = skip_ws s"
  by (induction w) auto

section \<open>Strings\<close>

lemma hex_lower_ok: "n < 16 \<Longrightarrow> is_hex (hex_lower n) \<and> hex_val (hex_lower n) = n"
  by (simp add: is_hex_def hex_val_def hex_lower_def Let_def)

lemma p_escape_control:
  assumes "(of_char c :: nat) < 32"
  shows "p_escape (CHR ''u'' # CHR ''0'' # CHR ''0'' # hex_lower (of_char c div 16) # hex_lower (of_char c mod 16) # t) = Some (c, t)"
proof -
  have "(of_char c :: nat) div 16 < 16" "(of_char c :: nat) mod 16 < 16" using assms by simp_all
  note h = hex_lower_ok [OF this(1)] hex_lower_ok [OF this(2)]
  have z: "is_hex (CHR ''0'')" "hex_val (CHR ''0'') = 0" by (simp_all add: is_hex_def hex_val_def)
  show ?thesis using assms by (simp add: p_escape_def h z code_unit_def)
qed

lemma p_str_char: "p_str (quote_char c @ t) = map_option (map_prod ((#) c) id) (p_str t)"
proof (cases "c \<in> set [CHR 0x22, CHR 0x5C, CHR 0x08, CHR 0x0C, CHR 0x0A, CHR 0x0D, CHR 0x09]")
  case True
  then show ?thesis by (auto simp: quote_char_def p_escape_def simple_escape_def)
next
  case False
  then have q: "quote_char c = (let n = of_char c :: nat in
      if n < 32 then [CHR 0x5C, CHR ''u'', CHR ''0'', CHR ''0'', hex_lower (n div 16), hex_lower (n mod 16)] else [c])"
    by (simp add: quote_char_def)
  show ?thesis
  proof (cases "(of_char c :: nat) < 32")
    case True
    then show ?thesis using p_escape_control [OF True] by (simp add: q Let_def)
  next
    case ge: False
    with False show ?thesis by (simp add: q Let_def)
  qed
qed

lemma p_str_quoted: "p_str (concat (map quote_char s) @ CHR 0x22 # r) = Some (s, r)"
  by (induction s) (simp_all add: p_str_char)

section \<open>Numbers\<close>

definition ends :: "string \<Rightarrow> bool" where
  "ends r \<longleftrightarrow> (case r of [] \<Rightarrow> True | c # _ \<Rightarrow> \<not> is_digit c \<and> c \<notin> set ''.eE'')"

lemma ends_simps [simp]: "ends []" "ends (c # r) \<longleftrightarrow> \<not> is_digit c \<and> c \<notin> set ''.eE''"
  by (simp_all add: ends_def)

lemma zero_char: "char_of (48 :: nat) = CHR ''0''"
  by code_simp

lemma is_digit_char: "n < (10 :: nat) \<Longrightarrow> is_digit (char_of (48 + n))"
  by (simp add: is_digit_def)

lemma nat_str_digits: "\<forall>c \<in> set (nat_str n). is_digit c"
proof (induction n rule: nat_str.induct)
  case (1 n)
  have "is_digit (char_of (48 + n mod 10))" by (simp add: is_digit_char)
  with 1 show ?case by (subst nat_str.simps) (auto simp: is_digit_char)
qed

lemma dec_val_append: "dec_val (a @ b) n = dec_val b (dec_val a n)"
  by (induction a arbitrary: n) simp_all

lemma dec_val_nat_str: "dec_val (nat_str n) 0 = n"
proof (induction n rule: nat_str.induct)
  case (1 n)
  then show ?case by (subst nat_str.simps) (simp add: dec_val_append)
qed

lemma hd_nat_str: "hd (nat_str n) = CHR ''0'' \<longleftrightarrow> n = 0"
proof (induction n rule: nat_str.induct)
  case (1 n)
  have "char_of (48 + n) = CHR ''0'' \<longleftrightarrow> n = 0" if "n < 10"
  proof
    assume "char_of (48 + n) = CHR ''0''"
    then have "(of_char (char_of (48 + n) :: char) :: nat) = of_char (CHR ''0'')" by simp
    then show "n = 0" using that by simp
  qed (simp add: zero_char)
  with 1 show ?case by (subst nat_str.simps) auto
qed

lemma nat_str_zero: "nat_str 0 = ''0''"
  by (simp add: nat_str.simps zero_char)

lemma digits_ends: "\<forall>c \<in> set d. is_digit c \<Longrightarrow> ends r \<Longrightarrow> digits (d @ r) = d"
  unfolding digits_def by (induction d) (auto simp: ends_def split: list.splits)

lemma p_int_nat: "ends r \<Longrightarrow> p_int (nat_str n @ r) = Some (nat_str n, r)"
  using digits_ends [OF nat_str_digits, of r n] hd_nat_str [of n]
  by (cases "n = 0") (simp_all add: p_int_def nat_str_zero Let_def)

lemma p_frac_ends: "ends r \<Longrightarrow> p_frac r = Some ([], r)"
  by (cases r) (simp_all add: p_frac_def)

lemma p_exp_ends: "ends r \<Longrightarrow> p_exp r = Some ([], r)"
  by (cases r) (simp_all add: p_exp_def)

lemma nat_str_no_minus: "\<not> starts_with ''-'' (nat_str n @ r)"
proof -
  obtain c t where t: "nat_str n = c # t" by (cases "nat_str n") auto
  then have "is_digit c" using nat_str_digits [of n] by simp
  then have "c \<noteq> CHR ''-''" by (auto simp: is_digit_def)
  with t show ?thesis by auto
qed

lemma p_num_int:
  assumes "ends r"
  shows "p_num (int_str i @ r) = Some (Num i, r)"
proof (cases "i < 0")
  case True
  then show ?thesis
    using p_int_nat [OF assms, of "nat (- i)"]
    by (simp add: p_num_def int_str_def p_frac_ends [OF assms] p_exp_ends [OF assms] num_val_def dec_val_nat_str)
next
  case False
  then show ?thesis
    using p_int_nat [OF assms, of "nat i"] nat_str_no_minus [of "nat i" r]
    by (simp add: p_num_def int_str_def p_frac_ends [OF assms] p_exp_ends [OF assms] num_val_def dec_val_nat_str Let_def)
qed

section \<open>Values\<close>

text \<open>The text of a value starts with none of the blanks and does not close an array; the parser reads past
  the blanks before it.\<close>

definition opens :: "string \<Rightarrow> bool" where
  "opens s \<longleftrightarrow> (case s of [] \<Rightarrow> False | c # _ \<Rightarrow> c \<notin> set [CHR '' '', CHR 0x09, CHR 0x0A, CHR 0x0D, CHR '']''])"

lemma opens_skip: "opens s \<Longrightarrow> skip_ws (s @ t) = s @ t \<and> expect (CHR '']'') (s @ t) = None"
  by (cases s) (auto simp: opens_def)

lemma digit_others: "is_digit c \<Longrightarrow> c \<notin> set [CHR '' '', CHR 0x09, CHR 0x0A, CHR 0x0D, CHR '']'', CHR 0x22, CHR ''{'',
    CHR ''['', CHR ''t'', CHR ''f'', CHR ''n'']"
  by (auto simp: is_digit_def)

lemma int_str_head: "\<exists>c t. int_str i = c # t \<and> (is_digit c \<or> c = CHR ''-'')"
proof -
  have "\<exists>c t. nat_str n = c # t \<and> is_digit c" for n
    using nat_str_digits [of n] by (cases "nat_str n") auto
  then obtain c t where "nat_str (nat i) = c # t" "is_digit c" by blast
  then show ?thesis by (auto simp: int_str_def)
qed

lemma opens_int: "opens (int_str i)"
proof -
  obtain c t where c: "int_str i = c # t" "is_digit c \<or> c = CHR ''-''" using int_str_head by blast
  from c(2) have "c \<notin> set [CHR '' '', CHR 0x09, CHR 0x0A, CHR 0x0D, CHR '']'']"
  proof
    assume "is_digit c"
    from digit_others [OF this] show ?thesis by simp
  qed simp
  with c(1) show ?thesis by (simp add: opens_def)
qed

lemma opens_ser: "json_ok v \<Longrightarrow> opens (ser gap ind v)"
  by (cases v) (simp_all add: opens_int quote_def wrap_items_def, simp_all add: opens_def)

lemma p_val_blanks: "blanks w \<Longrightarrow> p_val n (w @ s) = p_val n s"
  by (cases n) (simp_all add: skip_blanks)

lemma p_val_number:
  assumes "is_digit c \<or> c = CHR ''-''"
  shows "p_val (Suc n) (c # t) = p_num (c # t)"
proof -
  have "c \<notin> set [CHR '' '', CHR 0x09, CHR 0x0A, CHR 0x0D, CHR 0x22, CHR ''{'', CHR ''['', CHR ''t'', CHR ''f'', CHR ''n'']"
  proof (cases "is_digit c")
    case True
    from digit_others [OF this] show ?thesis by simp
  next
    case False
    then have "c = CHR ''-''" using assms by simp
    then show ?thesis by simp
  qed
  then have "skip_ws (c # t) = c # t" and "c \<noteq> CHR 0x22" "c \<noteq> CHR ''{''" "c \<noteq> CHR ''[''" "c \<noteq> CHR ''t''" "c \<noteq> CHR ''f''"
      "c \<noteq> CHR ''n''"
    by simp_all
  then show ?thesis by (simp only: p_val.simps list.case if_False)
qed

lemma p_val_int:
  assumes "ends r"
  shows "p_val (Suc n) (int_str i @ r) = Some (Num i, r)"
proof -
  obtain c t where "int_str i = c # t" "is_digit c \<or> c = CHR ''-''" using int_str_head by blast
  then show ?thesis using p_val_number [of c n "t @ r"] p_num_int [OF assms, of i] by simp
qed

text \<open>The items between the brackets: a separator of blanks \<open>w\<close> before each, one of blanks \<open>u\<close> after the last.\<close>

definition gap_before :: "string \<Rightarrow> string \<Rightarrow> string" where
  "gap_before gap ind = (if gap = [] then [] else CHR 0x0A # ind @ gap)"

definition gap_after :: "string \<Rightarrow> string \<Rightarrow> string" where
  "gap_after gap ind = (if gap = [] then [] else CHR 0x0A # ind)"

lemma wrap_items_gaps:
  "wrap_items gap ind l r items =
     (if items = [] then l @ r
      else l @ gap_before gap ind @ js_join ('','' @ gap_before gap ind) items @ gap_after gap ind @ r)"
  by (simp add: wrap_items_def gap_before_def gap_after_def)

lemma blanks_gaps: "blanks gap \<Longrightarrow> blanks ind \<Longrightarrow> blanks (gap_before gap ind) \<and> blanks (gap_after gap ind)"
  by (simp add: gap_before_def gap_after_def)

lemma ends_gap: "blanks u \<Longrightarrow> \<not> is_digit c \<and> c \<notin> set ''.eE'' \<Longrightarrow> ends (u @ c # r)"
  by (cases u) (auto simp: is_digit_def)

lemma p_elems_text:
  assumes "\<And>x m t. x \<in> set xs \<Longrightarrow> size x < m \<Longrightarrow> ends t \<Longrightarrow> p_val m (f x @ t) = Some (x, t)"
    and "xs \<noteq> []" and "size_list size xs < n" and "blanks w" and "blanks u"
  shows "p_elems n (w @ js_join ('','' @ w) (map f xs) @ u @ CHR '']'' # r) = Some (xs, r)"
  using assms
proof (induction xs arbitrary: n)
  case Nil
  then show ?case by simp
next
  case (Cons x xs)
  obtain m where n: "n = Suc m" using Cons.prems(3) by (cases n) auto
  show ?case
  proof (cases "xs = []")
    case True
    have "ends (u @ CHR '']'' # r)" by (rule ends_gap [OF Cons.prems(5)]) (simp add: is_digit_def)
    then have "p_val m (f x @ u @ CHR '']'' # r) = Some (x, u @ CHR '']'' # r)"
      using Cons.prems(1) [of x m] Cons.prems(3) n by simp
    then show ?thesis by (simp add: True n p_val_blanks [OF Cons.prems(4)] skip_blanks [OF Cons.prems(5)])
  next
    case False
    let ?t = "w @ js_join ('','' @ w) (map f xs) @ u @ CHR '']'' # r"
    have rest: "p_elems m ?t = Some (xs, r)"
      using Cons.IH [of m] Cons.prems False n by simp
    have "p_val m (f x @ CHR '','' # ?t) = Some (x, CHR '','' # ?t)"
      using Cons.prems(1) [of x m "CHR '','' # ?t"] Cons.prems(3) n by (simp add: is_digit_def)
    then show ?thesis using rest False by (simp add: n p_val_blanks [OF Cons.prems(4)] js_join_Cons)
  qed
qed

lemma p_members_text:
  assumes "\<And>k x m t. (k, x) \<in> set fs \<Longrightarrow> size x < m \<Longrightarrow> ends t \<Longrightarrow> p_val m (f x @ t) = Some (x, t)"
    and "fs \<noteq> []" and "size_list (size_prod (\<lambda>_. 0) size) fs < n" and "blanks w" and "blanks u" and "blanks q"
  shows "p_members n (w @ js_join ('','' @ w) (map (\<lambda>(k, x). quote k @ '':'' @ q @ f x) fs) @ u @ CHR ''}'' # r) = Some (fs, r)"
  using assms
proof (induction fs arbitrary: n)
  case Nil
  then show ?case by simp
next
  case (Cons p fs)
  obtain k x where p: "p = (k, x)" by (cases p)
  obtain m where n: "n = Suc m" using Cons.prems(3) by (cases n) auto
  have x: "size x < m" using Cons.prems(3) by (simp add: n p)
  show ?case
  proof (cases "fs = []")
    case True
    have "ends (u @ CHR ''}'' # r)" by (rule ends_gap [OF Cons.prems(5)]) (simp add: is_digit_def)
    then have "p_val m (f x @ u @ CHR ''}'' # r) = Some (x, u @ CHR ''}'' # r)"
      using Cons.prems(1) [of k x m] x p by simp
    then show ?thesis
      by (simp add: True n p quote_def p_str_quoted p_val_blanks [OF Cons.prems(6)] skip_blanks [OF Cons.prems(4)]
          skip_blanks [OF Cons.prems(5)])
  next
    case False
    let ?t = "w @ js_join ('','' @ w) (map (\<lambda>(k, x). quote k @ '':'' @ q @ f x) fs) @ u @ CHR ''}'' # r"
    have rest: "p_members m ?t = Some (fs, r)"
    proof (rule Cons.IH [OF _ False])
      show "p_val m' (f y @ t) = Some (y, t)" if "(k', y) \<in> set fs" "size y < m'" "ends t" for k' y m' t
        by (rule Cons.prems(1) [of k']) (use that in simp_all)
    qed (use Cons.prems n in simp_all)
    have "p_val m (f x @ CHR '','' # ?t) = Some (x, CHR '','' # ?t)"
      using Cons.prems(1) [of k x m "CHR '','' # ?t"] x p by (simp add: is_digit_def)
    then show ?thesis using rest False
      by (simp add: n p quote_def p_str_quoted p_val_blanks [OF Cons.prems(6)] skip_blanks [OF Cons.prems(4)] js_join_Cons)
  qed
qed

lemma p_val_ser:
  "json_ok v \<Longrightarrow> size v < n \<Longrightarrow> blanks gap \<Longrightarrow> blanks ind \<Longrightarrow> ends r \<Longrightarrow> p_val n (ser gap ind v @ r) = Some (v, r)"
proof (induction v arbitrary: n ind r)
  case (Num i)
  obtain m where n: "n = Suc m" using Num.prems(2) by (cases n) auto
  show ?case using p_val_int [OF Num.prems(5), of m i] by (simp add: n del: p_val.simps)
next
  case (Arr xs)
  obtain m where n: "n = Suc m" using Arr.prems(2) by (cases n) auto
  show ?case
  proof (cases xs)
    case Nil
    then show ?thesis by (simp add: n wrap_items_def)
  next
    case (Cons y ys)
    let ?f = "ser gap (ind @ gap)" and ?b = "gap_before gap ind" and ?u = "gap_after gap ind"
    let ?t = "?b @ js_join ('','' @ ?b) (map ?f xs) @ ?u @ CHR '']'' # r"
    have bl: "blanks ?b" "blanks ?u" using blanks_gaps Arr.prems by blast+
    have "p_elems m ?t = Some (xs, r)"
    proof (rule p_elems_text [OF _ _ _ bl])
      show "p_val m' (?f x @ t) = Some (x, t)" if "x \<in> set xs" "size x < m'" "ends t" for x m' t
        using Arr.IH [OF that(1) _ that(2) _ _ that(3)] Arr.prems that(1) by (simp add: list_all_iff)
    qed (use Arr.prems n Cons in simp_all)
    moreover have "expect (CHR '']'') (skip_ws ?t) = None"
    proof -
      have "opens (?f y)" using Arr.prems(1) Cons by (simp add: opens_ser)
      moreover obtain t where "js_join ('','' @ ?b) (map ?f xs) = ?f y @ t"
        using Cons by (cases ys) simp_all
      ultimately show ?thesis using opens_skip [of "?f y"] by (simp add: skip_blanks [OF bl(1)])
    qed
    ultimately show ?thesis using Cons by (simp add: n wrap_items_gaps del: js_join.simps)
  qed
next
  case (Obj fs)
  obtain m where n: "n = Suc m" using Obj.prems(2) by (cases n) auto
  have defd: "filter (\<lambda>(k, v). v \<noteq> Undef) fs = fs"
    using Obj.prems(1) by (auto simp: list_all_iff intro!: filter_True)
  show ?case
  proof (cases fs)
    case Nil
    then show ?thesis by (simp add: n wrap_items_def)
  next
    case (Cons p ps)
    let ?f = "ser gap (ind @ gap)" and ?b = "gap_before gap ind" and ?u = "gap_after gap ind"
    let ?q = "if gap = [] then [] else '' ''"
    let ?g = "\<lambda>(k, x). quote k @ '':'' @ ?q @ ?f x"
    let ?t = "?b @ js_join ('','' @ ?b) (map ?g fs) @ ?u @ CHR ''}'' # r"
    have bl: "blanks ?b" "blanks ?u" "blanks ?q" using blanks_gaps Obj.prems by simp_all
    have "p_members m ?t = Some (fs, r)"
    proof (rule p_members_text [OF _ _ _ bl])
      show "p_val m' (?f x @ t) = Some (x, t)" if "(k, x) \<in> set fs" "size x < m'" "ends t" for k x m' t
        using Obj.IH [OF that(1) _ _ that(2) _ _ that(3)] Obj.prems that(1) by (auto simp: list_all_iff)
    qed (use Obj.prems n Cons in simp_all)
    moreover have "expect (CHR ''}'') (skip_ws ?t) = None"
    proof -
      obtain t where "js_join ('','' @ ?b) (map ?g fs) = CHR 0x22 # t"
        using Cons by (cases ps; cases p) (simp_all add: quote_def)
      then show ?thesis by (simp add: skip_blanks [OF bl(1)])
    qed
    moreover have "assign [] fs = fs" using Obj.prems(1) by (simp add: assign_Nil_distinct)
    moreover have "(\<lambda>(k, v). quote k @ (if gap = [] then '':'' else '': '') @ ?f v) = ?g" by auto
    ultimately show ?thesis using Cons defd by (simp add: n wrap_items_gaps del: js_join.simps)
  qed
qed (auto simp: quote_def p_str_quoted p_val_int p_lit_def gr0_conv_Suc less_Suc_eq_0_disj)

lemma json_roundtrip:
  assumes "json_ok v" and "blanks gap"
  shows "json_parse (ser gap [] v) = Some v"
proof -
  let ?s = "ser gap [] v" and ?n = "size v + (2 * length (ser gap [] v) + 2)"
  have "p_val ?n ?s = Some (v, [])" using p_val_ser [of v ?n gap "[]" "[]"] assms by simp
  then have "p_val (2 * length ?s + 2) ?s = Some (v, [])"
    using p_val_enough [of ?s ?n] by (simp del: p_val.simps)
  then show ?thesis by (simp add: json_parse_def del: p_val.simps)
qed

lemma json_text:
  "json_ok v \<Longrightarrow> json_stringify gap v = Str (ser gap [] v) \<and> ser gap [] v \<noteq> []"
  using opens_ser [of v gap "[]"] by (auto simp: json_stringify_def opens_def)

end
