(* ===== verification/Batch_Dialogs.thy ===== *)
theory Batch_Dialogs
  imports Config_Sync Json_Roundtrip
begin

text \<open>
  Windows that work on several configurations at a time: \<open>components/CloneDialog\<close>, \<open>components/ExportDialog\<close>,
  \<open>components/ImportDialog\<close> and \<open>components/BatchHandle\<close> under \<open>src/console-ui/src/\<close>.  The first three
  are marked as deprecated and the list of configurations draws only the last; the others are opened
  by whoever holds a reference to them.

  The windows for clone and import share the choice of a policy for conflicts, the locale
  \<open>policy_choice\<close>; those for clone and export describe the query they work on in the same words.
\<close>

section \<open>The query in words\<close>

text \<open>\<open>v.length\<close> where it is compared with zero: raising for \<open>undefined\<close> and \<open>null\<close>, no number for other
  values that are neither arrays nor strings.\<close>

definition no_length :: "jsval \<Rightarrow> bool" where
  "no_length v \<longleftrightarrow> v = Arr [] \<or> v = Str []"

definition some_length :: "jsval \<Rightarrow> bool" where
  "some_length v \<longleftrightarrow> (case v of Arr xs \<Rightarrow> xs \<noteq> [] | Str s \<Rightarrow> s \<noteq> [] | _ \<Rightarrow> False)"

record query =
  q_dataId :: jsval
  q_group :: jsval
  q_appName :: jsval
  q_configTags :: jsval
  q_records :: jsval

definition empty_query :: query where
  "empty_query = \<lparr>q_dataId = Str [], q_group = Str [], q_appName = Str [], q_configTags = Str [], q_records = Arr []\<rparr>"

definition query_of :: "jsval \<Rightarrow> query" where
  "query_of p = \<lparr>q_dataId = field p ''dataId'', q_group = field p ''group'', q_appName = field p ''appName'',
     q_configTags = field p ''configTags'', q_records = field p ''records''\<rparr>"

text \<open>\<open>getQuery\<close> of the two windows; \<open>app\<close> is the label of the application, which they take from different
  entries of the dictionary.\<close>

definition getQuery :: "(string \<Rightarrow> string) \<Rightarrow> string \<Rightarrow> query \<Rightarrow> js_error + string" where
  "getQuery tx app q =
     (if q_records q \<in> {Undef, Null} then Inl TypeError
      else if some_length (q_records q) then Inr (tx ''selectedEntry'')
      else if q_configTags q \<in> {Undef, Null} then Inl TypeError
      else if q_dataId q = Str [] \<and> q_group q = Str [] \<and> q_appName q = Str [] \<and> no_length (q_configTags q) then Inr []
      else Inr (butlast ('' |'' @
        (if q_dataId q \<noteq> Str [] then '' DataId: '' @ to_str (q_dataId q) @ '','' else []) @
        (if q_group q \<noteq> Str [] then '' Group: '' @ to_str (q_group q) @ '','' else []) @
        (if q_appName q \<noteq> Str [] then app @ to_str (q_appName q) @ '','' else []) @
        (if \<not> no_length (q_configTags q) then tx ''tags'' @ to_str (q_configTags q) @ '','' else []))))"

section \<open>The choice of a policy\<close>

text \<open>An entry of the list of policies: its value and its label.\<close>

definition clone_policies :: "(string \<Rightarrow> string) \<Rightarrow> (string \<times> string) list" where
  "clone_policies tx = [(''abort'', tx ''terminate''), (''skip'', tx ''skip''), (''overwrite'', tx ''cover'')]"

definition import_policies :: "(string \<Rightarrow> string) \<Rightarrow> (string \<times> string) list" where
  "import_policies tx = [(''abort'', tx ''terminate''), (''skip'', tx ''skip''), (''overwrite'', tx ''overwrite'')]"

section \<open>Cloning\<close>

record clone_dialog =
  kd_win :: win
  kd_visible :: bool
  kd_serverId :: jsval
  kd_tenantFrom :: jsval
  kd_tenantTo :: jsval
  kd_query :: query
  kd_namespaces :: "jsval list"
  kd_policy :: string
  kd_policyLabel :: string
  kd_total :: jsval
  kd_allPolicy :: "(string \<times> string) list"
  kd_checkData :: jsval
  kd_field :: slice

definition clone_dialog_init :: "win \<Rightarrow> clone_dialog" where
  "clone_dialog_init w = \<lparr>kd_win = w, kd_visible = False, kd_serverId = Str [], kd_tenantFrom = Obj [],
     kd_tenantTo = Str [], kd_query = empty_query, kd_namespaces = [], kd_policy = ''abort'', kd_policyLabel = [],
     kd_total = Num 0, kd_allPolicy = [], kd_checkData = Undef, kd_field = []\<rparr>"

definition kd_componentDidMount :: "(string \<Rightarrow> string) \<Rightarrow> clone_dialog stmt" where
  "kd_componentDidMount tx = modify (\<lambda>s. s\<lparr>kd_policyLabel := tx ''terminate'', kd_allPolicy := clone_policies tx\<rparr>)"

definition kd_openDialog :: "jsval \<Rightarrow> clone_dialog stmt" where
  "kd_openDialog p = reading kd_win ''serverId'' (\<lambda>sv. need_object p (block
     [modify (\<lambda>s. s\<lparr>kd_checkData := field p ''checkData''\<rparr>),
      emit (\<lambda>_. Ajax ''get'' (''/diamond-ops/service/serverId/'' @ str_or sv ''center'' @ ''/namespaceInfo'') [])]))"

text \<open>The namespaces to choose from: all but the source.\<close>

definition clone_target :: "jsval \<Rightarrow> jsval" where
  "clone_target v = Obj [(''value'', field v ''namespace''),
     (''label'', Str (to_str (field v ''namespaceShowName'') @ '' | '' @ to_str (field v ''namespace'')))]"

definition clone_targets :: "jsval \<Rightarrow> jsval list \<Rightarrow> jsval list" where
  "clone_targets p ns = map clone_target (filter (\<lambda>v. field v ''namespace'' \<noteq> field (field p ''tenantFrom'') ''id'') ns)"

definition kd_put :: "string \<Rightarrow> jsval \<Rightarrow> clone_dialog stmt" where
  "kd_put k v = modify (\<lambda>s. s\<lparr>kd_field := AList.update k v (kd_field s)\<rparr>)"

text \<open>\<open>p\<close> is what the window was opened with.\<close>

definition kd_success :: "(string \<Rightarrow> string) \<Rightarrow> jsval \<Rightarrow> jsval \<Rightarrow> clone_dialog stmt" where
  "kd_success tx p res = need_object res
     (if field res ''code'' \<noteq> Num 200
      then emit (\<lambda>_. Alert (tx ''getNamespaceFailed'') (to_str (field res ''message'')))
      else (case field res ''data'' of
         Arr ns \<Rightarrow>
           if set ns \<inter> {Undef, Null} \<noteq> {} \<or> ns \<noteq> [] \<and> field p ''tenantFrom'' \<in> {Undef, Null} then throw TypeError
           else block
             [modify (\<lambda>s. s\<lparr>kd_visible := True, kd_serverId := field p ''serverId'', kd_tenantFrom := field p ''tenantFrom'',
                kd_tenantTo := Str [], kd_query := query_of p, kd_namespaces := clone_targets p ns,
                kd_total := field p ''total''\<rparr>),
              kd_put ''select'' (Str [])]
       | _ \<Rightarrow> throw TypeError))"

definition kd_closeDialog :: "clone_dialog stmt" where
  "kd_closeDialog = modify (\<lambda>s. s\<lparr>kd_visible := False\<rparr>)"

text \<open>The form is told the value under a name that is the value; the state takes it as it is meant.\<close>

definition setTenantTo :: "string \<Rightarrow> clone_dialog stmt" where
  "setTenantTo v = block [kd_put v Undef, modify (\<lambda>s. s\<lparr>kd_tenantTo := Str v\<rparr>)]"

definition kd_setPolicy :: "string \<times> string \<Rightarrow> clone_dialog stmt" where
  "kd_setPolicy item = modify (\<lambda>s. s\<lparr>kd_policyLabel := snd item, kd_policy := fst item\<rparr>)"

text \<open>\<open>errors\<close> is what the form's own validation found.  The object that was handed over at the opening is
  changed in place and given back.\<close>

definition doClone :: "bool \<Rightarrow> clone_dialog stmt" where
  "doClone errors =
     (if errors then skip
      else block
        [kd_closeDialog,
         with_state (\<lambda>s. case kd_checkData s of
            Obj fs \<Rightarrow> block
              [modify (\<lambda>s. s\<lparr>kd_checkData := Obj (assign fs [(''tenantTo'', kd_tenantTo s), (''policy'', Str (kd_policy s))])\<rparr>),
               emit (\<lambda>s. Call ''callback'' [kd_checkData s, Str (kd_policyLabel s)])]
          | _ \<Rightarrow> throw TypeError)])"

section \<open>Import\<close>

record import_dialog =
  im_visible :: bool
  im_serverId :: jsval
  im_tenant :: jsval
  im_policy :: string
  im_policyLabel :: string
  im_allPolicy :: "(string \<times> string) list"

definition import_dialog_init :: import_dialog where
  "import_dialog_init = \<lparr>im_visible = False, im_serverId = Str [], im_tenant = Str [], im_policy = ''abort'',
     im_policyLabel = [], im_allPolicy = []\<rparr>"

definition im_componentDidMount :: "(string \<Rightarrow> string) \<Rightarrow> import_dialog stmt" where
  "im_componentDidMount tx = modify (\<lambda>s. s\<lparr>im_policyLabel := tx ''terminate'', im_allPolicy := import_policies tx\<rparr>)"

definition im_openDialog :: "jsval \<Rightarrow> import_dialog stmt" where
  "im_openDialog p = need_object p (modify (\<lambda>s. s\<lparr>im_visible := True, im_serverId := field p ''serverId'',
     im_tenant := field p ''tenant''\<rparr>))"

definition im_closeDialog :: "import_dialog stmt" where
  "im_closeDialog = modify (\<lambda>s. s\<lparr>im_visible := False\<rparr>)"

definition im_setPolicy :: "string \<times> string \<Rightarrow> import_dialog stmt" where
  "im_setPolicy item = modify (\<lambda>s. s\<lparr>im_policyLabel := snd item, im_policy := fst item\<rparr>)"

text \<open>What the uploading component is told about an answer.\<close>

definition import_formatter :: "jsval \<Rightarrow> js_error + jsval" where
  "import_formatter res =
     (if res \<in> {Undef, Null} then Inl TypeError
      else if field res ''code'' = Num 200 then Inr (Obj [(''code'', Str ''0''), (''retData'', res)])
      else Inr (Obj [(''code'', Str ''1''), (''error'', Obj [(''message'', field res ''message'')]), (''retData'', res)]))"

text \<open>\<open>edas\<close> is the prefix of the surrounding console, when there is one.\<close>

definition uploadLink :: "string option \<Rightarrow> import_dialog \<Rightarrow> js_error + string" where
  "uploadLink edas s =
     (if im_tenant s \<in> {Undef, Null} then Inl TypeError
      else Inr ((case edas of None \<Rightarrow> [] | Some e \<Rightarrow> ''/authgw/'' @ e) @ ''/diamond-ops/batch/import/serverId/'' @
        to_str (im_serverId s) @ ''/tenant/'' @ to_str (field (im_tenant s) ''id'') @ ''?policy='' @ im_policy s))"

definition import_onSuccess :: "jsval \<Rightarrow> import_dialog stmt" where
  "import_onSuccess a = need_object a (block
     [emit (\<lambda>s. Call ''callback'' [field a ''retData'', Str (im_policyLabel s)]), im_closeDialog])"

definition import_onError :: "jsval \<Rightarrow> import_dialog stmt" where
  "import_onError a = need_object a (need_object (field a ''response'') (block
     [emit (\<lambda>s. Call ''callback'' [field (field a ''response'') ''retData'', Str (im_policyLabel s)]), im_closeDialog]))"

section \<open>Export\<close>

record export_dialog =
  ex_visible :: bool
  ex_serverId :: jsval
  ex_tenant :: jsval
  ex_query :: query
  ex_total :: jsval

definition export_dialog_init :: export_dialog where
  "export_dialog_init = \<lparr>ex_visible = False, ex_serverId = Str [], ex_tenant = Str [], ex_query = empty_query,
     ex_total = Num 0\<rparr>"

definition ex_openDialog :: "jsval \<Rightarrow> export_dialog stmt" where
  "ex_openDialog p = need_object p (modify (\<lambda>s. s\<lparr>ex_visible := True, ex_serverId := field p ''serverId'',
     ex_tenant := field p ''tenant'', ex_query := query_of p, ex_total := field p ''total''\<rparr>))"

definition ex_closeDialog :: "export_dialog stmt" where
  "ex_closeDialog = modify (\<lambda>s. s\<lparr>ex_visible := False\<rparr>)"

text \<open>\<open>encodeURI\<close> leaves the characters that separate the parts of an address.\<close>

definition encode_address :: "string \<Rightarrow> string" where
  "encode_address s = concat (map (\<lambda>c. if c \<in> set '';/?:@&=+$,#'' then [c] else enc_char c) s)"

definition export_data :: "jsval list \<Rightarrow> jsval" where
  "export_data rs = Arr (map (\<lambda>r. Obj [(''dataId'', field r ''dataId''), (''group'', field r ''group'')]) rs)"

definition ex_getLink :: "string option \<Rightarrow> export_dialog \<Rightarrow> js_error + string" where
  "ex_getLink edas s =
     (case q_records (ex_query s) of
        Arr rs \<Rightarrow>
          if set rs \<inter> {Undef, Null} \<noteq> {} \<or> ex_tenant s \<in> {Undef, Null} then Inl TypeError
          else (let q = ex_query s in Inr
            ((case edas of None \<Rightarrow> [] | Some e \<Rightarrow> ''/authgw/'' @ e) @ ''/diamond-ops/batch/export/serverId/'' @
             to_str (ex_serverId s) @ ''/tenant/'' @ to_str (field (ex_tenant s) ''id'') @
             ''?dataId='' @ to_str (q_dataId q) @ ''&group='' @ to_str (q_group q) @ ''&appName='' @ to_str (q_appName q) @
             ''&tags='' @ to_str (js_or (q_configTags q) (Str [])) @
             ''&data='' @ encode_address (ser [] [] (export_data rs))))
      | _ \<Rightarrow> Inl TypeError)"

definition doExport :: "string option \<Rightarrow> export_dialog stmt" where
  "doExport edas = with_state (\<lambda>s. case ex_getLink edas s of
     Inl e \<Rightarrow> throw e
   | Inr url \<Rightarrow> block [emit (\<lambda>_. OpenWindow url), ex_closeDialog])"

section \<open>The batch window\<close>

record batch_dialog =
  bh_visible :: bool
  bh_valueList :: jsval
  bh_list :: jsval
  bh_currentPage :: nat
  bh_total :: jsval
  bh_pageSize :: jsval
  bh_dataSource :: jsval

text \<open>\<open>values\<close> and \<open>source\<close> are the properties of the component.\<close>

definition batch_init :: "jsval \<Rightarrow> jsval \<Rightarrow> batch_dialog" where
  "batch_init vs source = \<lparr>bh_visible = False, bh_valueList = js_or vs (Arr []), bh_list = js_or source (Arr []),
     bh_currentPage = 1, bh_total = Num 0, bh_pageSize = Num 10, bh_dataSource = Obj []\<rparr>"

definition bh_getData :: "batch_dialog stmt" where
  "bh_getData = emit (\<lambda>s. let d = bh_dataSource s in Ajax ''GET''
     (''/diamond-ops/configList/serverId/'' @ rec_str d ''serverId'' @ ''?dataId='' @ rec_str d ''dataId'' @
      ''&group='' @ rec_str d ''group'' @ ''&appName='' @ rec_str d ''appName'' @ ''&config_tags='' @
      to_str (js_or (field d ''config_tags'') (Str [])) @ ''&pageNo='' @ nat_str (bh_currentPage s) @
      ''&pageSize='' @ rec_str d ''pageSize'') [])"

definition batch_success :: "jsval \<Rightarrow> batch_dialog stmt" where
  "batch_success res = need_object res
     (if field res ''code'' = Num 200
      then (case field res ''data'' of
         Arr rs \<Rightarrow>
           if set rs \<inter> {Undef, Null} \<noteq> {} then throw TypeError
           else modify (\<lambda>s. s\<lparr>bh_list := Arr (map (\<lambda>r. Obj [(''label'', field r ''dataId''), (''value'', field r ''dataId'')]) rs),
             bh_total := field res ''total''\<rparr>)
       | _ \<Rightarrow> throw TypeError)
      else skip)"

text \<open>Opening also replaces a method of the transfer component, which is not modelled.\<close>

definition bh_openDialog :: "jsval \<Rightarrow> batch_dialog stmt" where
  "bh_openDialog d = need_object d (block
     [modify (\<lambda>s. s\<lparr>bh_visible := True, bh_dataSource := d, bh_pageSize := field d ''pageSize''\<rparr>), bh_getData])"

definition bh_closeDialog :: "batch_dialog stmt" where
  "bh_closeDialog = modify (\<lambda>s. s\<lparr>bh_visible := False\<rparr>)"

definition bh_changePage :: "nat \<Rightarrow> batch_dialog stmt" where
  "bh_changePage n = block [modify (\<lambda>s. s\<lparr>bh_currentPage := n\<rparr>), bh_getData]"

definition bh_onChange :: "jsval \<Rightarrow> batch_dialog stmt" where
  "bh_onChange v = modify (\<lambda>s. s\<lparr>bh_valueList := v\<rparr>)"

text \<open>\<open>listens\<close> tells whether the component was given an \<open>onSubmit\<close>; the list of configurations gives none.\<close>

definition bh_onSubmit :: "bool \<Rightarrow> batch_dialog stmt" where
  "bh_onSubmit listens = (if listens then emit (\<lambda>s. Call ''onSubmit'' [bh_valueList s]) else skip)"

section \<open>Properties\<close>

subsection \<open>The policies\<close>

text \<open>A window with a choice of a policy: \<open>view\<close> shows the policy, its label and the list of entries.  The
  choice hands over an entry of the list; any other handler leaves the view as it is.\<close>

definition keeps_view :: "('s \<Rightarrow> 'v) \<Rightarrow> 's stmt \<Rightarrow> bool" where
  "keeps_view v a \<longleftrightarrow> (\<forall>s. v (state_of (a s)) = v s)"

locale policy_choice =
  fixes view :: "'s \<Rightarrow> string \<times> string \<times> (string \<times> string) list"
    and policies :: "(string \<times> string) list" and opened :: 's and prefer_entry :: "string \<times> string \<Rightarrow> 's stmt"
  assumes starts_listed: "\<exists>p l. view opened = (p, l, policies) \<and> (p, l) \<in> set policies"
    and preferred: "view s = (p, l, ps) \<Longrightarrow> view (state_of (prefer_entry i s)) = (fst i, snd i, ps)"
begin

lemma stays_listed:
  assumes "\<forall>a \<in> set as. a \<in> prefer_entry ` set policies \<or> keeps_view view a"
  shows "\<exists>p l. view (run as opened) = (p, l, policies) \<and> (p, l) \<in> set policies"
proof -
  have "\<exists>p l. view (run as s) = (p, l, policies) \<and> (p, l) \<in> set policies"
    if "\<exists>p l. view s = (p, l, policies) \<and> (p, l) \<in> set policies" for s
    using assms that
  proof (induction as arbitrary: s)
    case Nil
    then show ?case by simp
  next
    case (Cons a as)
    have "\<exists>p l. view (state_of (a s)) = (p, l, policies) \<and> (p, l) \<in> set policies"
    proof (cases "keeps_view view a")
      case True
      then show ?thesis using Cons.prems(2) by (simp add: keeps_view_def)
    next
      case False
      then obtain i where "a = prefer_entry i" "i \<in> set policies" using Cons.prems(1) by auto
      then show ?thesis using Cons.prems(2) preferred by (metis prod.collapse)
    qed
    then show ?case using Cons by simp
  qed
  then show ?thesis using starts_listed by blast
qed

end

definition clone_view :: "clone_dialog \<Rightarrow> string \<times> string \<times> (string \<times> string) list" where
  "clone_view s = (kd_policy s, kd_policyLabel s, kd_allPolicy s)"

definition import_view :: "import_dialog \<Rightarrow> string \<times> string \<times> (string \<times> string) list" where
  "import_view s = (im_policy s, im_policyLabel s, im_allPolicy s)"

interpretation cloning: policy_choice clone_view "clone_policies tx"
  "state_of (kd_componentDidMount tx (clone_dialog_init w))" kd_setPolicy for w tx
  by unfold_locales (simp_all add: clone_view_def kd_componentDidMount_def clone_dialog_init_def clone_policies_def
      kd_setPolicy_def modify_def)

interpretation importing: policy_choice import_view "import_policies tx"
  "state_of (im_componentDidMount tx import_dialog_init)" im_setPolicy for tx
  by unfold_locales (simp_all add: import_view_def im_componentDidMount_def import_dialog_init_def import_policies_def
      im_setPolicy_def modify_def)

text \<open>What can happen to the two windows after they have been drawn.\<close>

inductive clone_handler :: "(string \<Rightarrow> string) \<Rightarrow> clone_dialog stmt \<Rightarrow> bool" for tx where
  "clone_handler tx (kd_openDialog p)"
| "clone_handler tx (kd_success tx p res)"
| "clone_handler tx kd_closeDialog"
| "clone_handler tx (setTenantTo v)"
| "i \<in> set (clone_policies tx) \<Longrightarrow> clone_handler tx (kd_setPolicy i)"
| "clone_handler tx (doClone errors)"

inductive import_handler :: "(string \<Rightarrow> string) \<Rightarrow> import_dialog stmt \<Rightarrow> bool" for tx where
  "import_handler tx (im_openDialog p)"
| "import_handler tx im_closeDialog"
| "i \<in> set (import_policies tx) \<Longrightarrow> import_handler tx (im_setPolicy i)"
| "import_handler tx (import_onSuccess a)"
| "import_handler tx (import_onError a)"

inductive_cases clone_handlerE: "clone_handler tx a"

inductive_cases import_handlerE: "import_handler tx a"

lemma keeps_view_preserves: "keeps_view v a \<longleftrightarrow> (\<forall>x. preserves (\<lambda>s. v s = x) a)"
  by (auto simp: keeps_view_def preserves_def)

lemma clone_keeps:
  "keeps_view clone_view (kd_openDialog p)" "keeps_view clone_view (kd_success tx p res)"
  "keeps_view clone_view kd_closeDialog" "keeps_view clone_view (setTenantTo v)" "keeps_view clone_view (doClone errors)"
  unfolding keeps_view_preserves kd_openDialog_def kd_success_def kd_closeDialog_def setTenantTo_def kd_put_def doClone_def
  by (auto simp: clone_view_def split: jsval.split intro!: preserves_intros)

lemma clone_handler_cases: "clone_handler tx a \<Longrightarrow> a \<in> kd_setPolicy ` set (clone_policies tx) \<or> keeps_view clone_view a"
  by (elim clone_handlerE) (simp_all add: clone_keeps)

lemma import_handler_cases: "import_handler tx a \<Longrightarrow> a \<in> im_setPolicy ` set (import_policies tx) \<or> keeps_view import_view a"
  by (elim import_handlerE) (auto simp: keeps_view_preserves import_view_def im_openDialog_def im_closeDialog_def
      import_onSuccess_def import_onError_def intro!: preserves_intros)

text \<open>Whatever is done in the windows for clone and import, the label they show is the label of the policy
  that is chosen, one of the entries of the list; starting a clone hands over the data of the opening
  with the target and that policy, next to its label, and a finished import reports under the label.\<close>

theorem policy_has_its_label:
  assumes "\<forall>a \<in> set as. clone_handler tx a" and "\<forall>b \<in> set bs. import_handler tx b"
  shows "let s = run (kd_componentDidMount tx # as) (clone_dialog_init w);
      t = run (im_componentDidMount tx # bs) import_dialog_init in
    (kd_policy s, kd_policyLabel s) \<in> set (clone_policies tx) \<and>
    (im_policy t, im_policyLabel t) \<in> set (import_policies tx) \<and>
    effects_of (doClone False s) = (case kd_checkData s of
      Obj fs \<Rightarrow> [Call ''callback'' [Obj (assign fs [(''tenantTo'', kd_tenantTo s), (''policy'', Str (kd_policy s))]),
        Str (kd_policyLabel s)]]
    | _ \<Rightarrow> []) \<and>
    map_sum id (\<lambda>a. effects_of (import_onSuccess a t)) (import_formatter res) =
      (if res \<in> {Undef, Null} then Inl TypeError else Inr [Call ''callback'' [res, Str (im_policyLabel t)]])"
proof -
  define s where "s = run (kd_componentDidMount tx # as) (clone_dialog_init w)"
  define t where "t = run (im_componentDidMount tx # bs) import_dialog_init"
  have "\<forall>a \<in> set as. a \<in> kd_setPolicy ` set (clone_policies tx) \<or> keeps_view clone_view a"
    using assms(1) clone_handler_cases by blast
  from cloning.stays_listed [OF this] have s: "(kd_policy s, kd_policyLabel s) \<in> set (clone_policies tx)"
    by (simp add: s_def clone_view_def)
  have "\<forall>b \<in> set bs. b \<in> im_setPolicy ` set (import_policies tx) \<or> keeps_view import_view b"
    using assms(2) import_handler_cases by blast
  from importing.stays_listed [OF this] have t: "(im_policy t, im_policyLabel t) \<in> set (import_policies tx)"
    by (simp add: t_def import_view_def)
  have "effects_of (doClone False s) = (case kd_checkData s of
      Obj fs \<Rightarrow> [Call ''callback'' [Obj (assign fs [(''tenantTo'', kd_tenantTo s), (''policy'', Str (kd_policy s))]),
        Str (kd_policyLabel s)]]
    | _ \<Rightarrow> [])"
    by (simp add: doClone_def kd_closeDialog_def stmt_defs split: jsval.split)
  moreover have "map_sum id (\<lambda>a. effects_of (import_onSuccess a t)) (import_formatter res) =
      (if res \<in> {Undef, Null} then Inl TypeError else Inr [Call ''callback'' [res, Str (im_policyLabel t)]])"
    by (simp add: import_formatter_def import_onSuccess_def need_object_def im_closeDialog_def stmt_defs)
  ultimately show ?thesis using s t unfolding s_def [symmetric] t_def [symmetric] Let_def by blast
qed

theorem policy_has_its_label_witness:
  "let s = run [kd_componentDidMount (\<lambda>k. k), kd_setPolicy (''skip'', ''skip'')] (clone_dialog_init sample_win) in
   (kd_policy s, kd_policyLabel s) \<in> set (clone_policies (\<lambda>k. k))"
proof -
  have "\<forall>a \<in> set [kd_setPolicy (''skip'', ''skip'')]. clone_handler (\<lambda>k. k) a"
    by (simp add: clone_handler.intros clone_policies_def)
  from policy_has_its_label [OF this, of "[]" sample_win] show ?thesis by (simp add: Let_def)
qed

subsection \<open>The words of a query\<close>

definition query_parts :: "(string \<Rightarrow> string) \<Rightarrow> string \<Rightarrow> string \<Rightarrow> string \<Rightarrow> string \<Rightarrow> string \<Rightarrow> string list" where
  "query_parts tx app d g a ts = map snd (filter (\<lambda>(v, p). v \<noteq> [])
     [(d, '' DataId: '' @ d), (g, '' Group: '' @ g), (a, app @ a), (ts, tx ''tags'' @ ts)])"

lemma butlast_parts:
  "ps \<noteq> [] \<Longrightarrow> butlast (h @ concat (map (\<lambda>p. p @ '','') ps)) = h @ js_join '','' ps"
proof (induction ps arbitrary: h)
  case Nil
  then show ?case by simp
next
  case (Cons p ps)
  show ?case
  proof (cases "ps = []")
    case True
    then show ?thesis by (simp add: butlast_append)
  next
    case False
    from Cons.IH [OF this, of "h @ p @ '',''"] False show ?thesis by (simp add: js_join_Cons)
  qed
qed

text \<open>The windows for clone and export describe a query without selected entries by the parts that are
  given, in order and separated by commas, and an empty query by nothing; with selected entries they
  say so instead, whatever else is given.\<close>

theorem query_in_words:
  "getQuery tx app \<lparr>q_dataId = Str d, q_group = Str g, q_appName = Str a, q_configTags = Str ts, q_records = Arr rs\<rparr> =
     (let ps = query_parts tx app d g a ts in
      Inr (if rs \<noteq> [] then tx ''selectedEntry'' else if ps = [] then [] else '' |'' @ js_join '','' ps))"
proof (cases "rs \<noteq> [] \<or> query_parts tx app d g a ts = []")
  case True
  then show ?thesis
    by (auto simp: getQuery_def some_length_def no_length_def query_parts_def Let_def split: if_splits)
next
  case False
  let ?ps = "query_parts tx app d g a ts"
  have "getQuery tx app \<lparr>q_dataId = Str d, q_group = Str g, q_appName = Str a, q_configTags = Str ts, q_records = Arr rs\<rparr> =
      Inr (butlast ('' |'' @ concat (map (\<lambda>p. p @ '','') ?ps)))"
    using False by (auto simp: getQuery_def some_length_def no_length_def query_parts_def)
  also have "butlast ('' |'' @ concat (map (\<lambda>p. p @ '','') ?ps)) = '' |'' @ js_join '','' ?ps"
    by (rule butlast_parts) (use False in simp)
  finally show ?thesis using False by (simp add: Let_def)
qed

subsection \<open>The link of an export\<close>

lemma decode_plain: "c \<noteq> CHR ''%'' \<Longrightarrow> decode_uri (c # s) = map_option ((#) c) (decode_uri s)"
  by simp

lemma decode_address: "decode_uri (encode_address s) = Some s"
proof (induction s)
  case Nil
  then show ?case by (simp add: encode_address_def)
next
  case (Cons c s)
  show ?case
  proof (cases "c \<in> set '';/?:@&=+$,#''")
    case True
    then have "c \<noteq> CHR ''%''" by auto
    with True Cons show ?thesis by (simp add: encode_address_def)
  next
    case False
    then have "encode_address (c # s) = enc_char c @ encode_address s" by (simp add: encode_address_def)
    then show ?thesis using Cons by (simp add: decode_enc_char)
  qed
qed

lemma enc_char_no_amp: "CHR ''&'' \<notin> set (enc_char c)"
  using encode_uri_no_sep [of "[c]"] by (auto simp: encode_uri_def query_seps_def)

lemma encode_address_amp: "CHR ''&'' \<in> set (encode_address s) \<longleftrightarrow> CHR ''&'' \<in> set s"
  by (induction s) (auto simp: encode_address_def enc_char_no_amp)

lemma quote_char_amp: "CHR ''&'' \<in> set (quote_char c) \<longleftrightarrow> c = CHR ''&''"
proof (cases "c = CHR ''&''")
  case True
  then show ?thesis by (simp add: quote_char_def)
next
  case False
  have "CHR ''&'' \<noteq> hex_lower n" if "n < 16" for n
  proof
    assume "CHR ''&'' = hex_lower n"
    with hex_lower_ok [OF that] have "is_hex (CHR ''&'')" by simp
    then show False by (simp add: is_hex_def)
  qed
  from this [of "of_char c div 16"] this [of "of_char c mod 16"] show ?thesis
    using False char_nat_lt [of c]
    by (auto simp: quote_char_def Let_def split: option.splits dest!: map_of_SomeD)
qed

lemma quote_amp: "CHR ''&'' \<in> set (quote s) \<longleftrightarrow> CHR ''&'' \<in> set s"
  by (simp add: quote_def quote_char_amp)

lemma split_on_middle: "split_on c (a @ c # b) = split_on c a @ split_on c b"
  by (induction a) (auto split: list.splits)

lemma last_split: "c \<notin> set b \<Longrightarrow> last (split_on c (a @ c # b)) = b"
  by (simp add: split_on_middle split_on_no_sep)

definition plain_row :: "jsval \<Rightarrow> bool" where
  "plain_row r \<longleftrightarrow> (case (field r ''dataId'', field r ''group'') of
     (Str d, Str g) \<Rightarrow> CHR ''&'' \<notin> set d \<and> CHR ''&'' \<notin> set g | _ \<Rightarrow> False)"

lemma plain_rowE:
  assumes "plain_row r"
  obtains d g where "field r ''dataId'' = Str d" "field r ''group'' = Str g" "CHR ''&'' \<notin> set d" "CHR ''&'' \<notin> set g"
  using assms by (auto simp: plain_row_def simp del: field_Obj split: jsval.splits)

lemma export_data_plain:
  assumes "list_all plain_row rs"
  shows "json_ok (export_data rs) \<and> CHR ''&'' \<notin> set (ser [] [] (export_data rs))"
proof -
  have row: "json_ok (Obj [(''dataId'', field r ''dataId''), (''group'', field r ''group'')]) \<and>
      CHR ''&'' \<notin> set (ser [] [] (Obj [(''dataId'', field r ''dataId''), (''group'', field r ''group'')]))"
    if "r \<in> set rs" for r
  proof -
    have "plain_row r" using assms that by (simp add: list_all_iff)
    then obtain d g where "field r ''dataId'' = Str d" "field r ''group'' = Str g" "CHR ''&'' \<notin> set d" "CHR ''&'' \<notin> set g"
      by (rule plain_rowE)
    then show ?thesis by (simp add: wrap_items_def quote_amp del: field_Obj)
  qed
  have "CHR ''&'' \<notin> set (js_join '','' (map (ser [] []) (map (\<lambda>r. Obj [(''dataId'', field r ''dataId''),
      (''group'', field r ''group'')]) rs)))"
    using row set_js_join [of "'',''" "map (ser [] []) (map (\<lambda>r. Obj [(''dataId'', field r ''dataId''),
      (''group'', field r ''group'')]) rs)"] by (auto simp del: ser.simps field_Obj)
  then show ?thesis
    using row by (auto simp: export_data_def list_all_iff wrap_items_def simp del: field_Obj)
qed

text \<open>C39. The link of an export carries its records: cut at the ampersands, its last part decodes to the data id
  and the group of every record, in order, unless one of these texts contains an ampersand itself,
  which the encoding leaves; and opening the link closes the window.\<close>

theorem export_link_data:
  assumes "q_records (ex_query s) = Arr rs" and "list_all plain_row rs" and "ex_tenant s \<notin> {Undef, Null}"
  shows "\<exists>url d. doExport edas s = (s\<lparr>ex_visible := False\<rparr>, [OpenWindow url], None) \<and>
    last (split_on (CHR ''&'') url) = ''data='' @ d \<and> Option.bind (decode_uri d) json_parse = Some (export_data rs)"
proof -
  let ?d = "encode_address (ser [] [] (export_data rs))"
  have ok: "json_ok (export_data rs)" "CHR ''&'' \<notin> set (ser [] [] (export_data rs))"
    using export_data_plain [OF assms(2)] by simp_all
  have objects: "set rs \<inter> {Undef, Null} = {}"
    using assms(2) by (auto simp: list_all_iff plain_row_def field_def)
  obtain a where link: "ex_getLink edas s = Inr (a @ CHR ''&'' # ''data='' @ ?d)"
    using assms(1,3) objects by (auto simp: ex_getLink_def Let_def simp del: ser.simps)
  have "CHR ''&'' \<notin> set (''data='' @ ?d)" using ok(2) by (simp add: encode_address_amp)
  from last_split [OF this] have "last (split_on (CHR ''&'') (a @ CHR ''&'' # ''data='' @ ?d)) = ''data='' @ ?d" .
  moreover have "Option.bind (decode_uri ?d) json_parse = Some (export_data rs)"
    using json_roundtrip [OF ok(1), of "[]"] by (simp add: decode_address)
  moreover have "doExport edas s = (s\<lparr>ex_visible := False\<rparr>, [OpenWindow (a @ CHR ''&'' # ''data='' @ ?d)], None)"
    by (simp add: doExport_def link ex_closeDialog_def stmt_defs)
  ultimately show ?thesis by blast
qed

definition sample_export :: "string \<Rightarrow> export_dialog" where
  "sample_export d = export_dialog_init\<lparr>ex_tenant := Obj [(''id'', Str ''t'')],
     ex_query := empty_query\<lparr>q_records := Arr [Obj [(''dataId'', Str d), (''group'', Str ''g'')]]\<rparr>\<rparr>"

theorem export_link_data_witness:
  "\<exists>url d. effects_of (doExport None (sample_export ''a.b'')) = [OpenWindow url] \<and>
     last (split_on (CHR ''&'') url) = ''data='' @ d \<and>
     Option.bind (decode_uri d) json_parse = Some (Arr [Obj [(''dataId'', Str ''a.b''), (''group'', Str ''g'')]])"
proof -
  have "list_all plain_row [Obj [(''dataId'', Str ''a.b''), (''group'', Str ''g'')]]" by (simp add: plain_row_def)
  from export_link_data [OF _ this, of "sample_export ''a.b''" None]
  show ?thesis by (auto simp: sample_export_def export_data_def)
qed

lemma export_link_cut:
  "case ex_getLink None (sample_export ''a&b'') of Inr url \<Rightarrow> \<not> starts_with ''data='' (last (split_on (CHR ''&'') url)) | Inl e \<Rightarrow> False"
  by code_simp

text \<open>The batch window keeps its page from one opening to the next: another search is shown from there.\<close>

lemma batch_page_stays:
  "d \<notin> {Undef, Null} \<Longrightarrow> bh_currentPage (state_of (block [bh_changePage n, bh_closeDialog, bh_openDialog d] s)) = n"
  by (simp add: bh_changePage_def bh_closeDialog_def bh_openDialog_def bh_getData_def need_object_def stmt_defs)

end
