(* ===== verification/Round_Trips.thy ===== *)
theory Round_Trips
  imports Layout Service_Detail Config_List Json_Roundtrip
begin

text \<open>
  What goes through a JSON text and comes back: the session between the login and the requests that use
  it, the metadata shown for editing, and the configurations chosen for cloning.  Each property joins
  handlers of several components through \<open>json_roundtrip\<close>.
\<close>

section \<open>The session\<close>

text \<open>C13. From the login on, a request of either client finds the session that was answered: the library
  puts its access token into the address, sends the stored text as the authorization and the
  namespace of the storage in the data, and keeps the session; the axios client reads the same
  token back; and the menu has the entries of an administrator exactly when the answer says so.\<close>

theorem login_reaches_requests:
  assumes "json_ok (Obj fs)" and "map_of fs ''accessToken'' = Some (Str t)"
    and "c_url c = Str url" and "CHR ''?'' \<notin> set url" and "\<not> str_includes ''namespaceId='' url"
    and "truthy (nownamespace (lp_browser s)) \<or> addr_ok (b_win (lp_browser s))"
    and "get_item (lp_browser s) ''docsite_loginpage'' \<noteq> Some ''false''"
    and "\<not> str_includes ''auth/users/login'' url2"
  shows "let (s1, e, x) = Login_done bad (Some (Obj fs)) s; b = lp_browser s1 in
    e = [Push ''/''] \<and> x = None \<and>
    (\<exists>q. Request console_wrapper b c = (b, Inr (Some q)) \<and> s_url q = url @ ''?accessToken='' @ t \<and>
      Option.bind (s_authorization q) json_parse = Some (Obj fs) \<and>
      field (s_data q) ''namespaceId'' = Str (or_empty (get_item (lp_browser s) ''namespace''))) \<and>
    session_token b url2 = (b, Some (Obj fs)) \<and>
    (authorityControlMenu \<in> set (getMenuData b m) \<longleftrightarrow> truthy (field (Obj fs) ''globalAdmin''))"
proof -
  let ?t = "ser [] [] (Obj fs)"
  let ?b = "set_item ''token'' ?t (lp_browser s)"
  have stored: "json_stringify [] (Obj fs) = Str ?t" "?t \<noteq> []" "json_parse ?t = Some (Obj fs)"
    using json_text [OF assms(1)] json_roundtrip [OF assms(1)] by (blast, blast, simp del: ser.simps)
  have run: "Login_done bad (Some (Obj fs)) s = (s\<lparr>lp_browser := ?b\<rparr>, [Push ''/''], None)"
    by (simp add: Login_done_def then_catch_def modify_def emit_def stored del: ser.simps)
  have "truthy (nownamespace ?b) \<or> addr_ok (b_win ?b)" "get_item ?b ''docsite_loginpage'' \<noteq> Some ''false''"
      "get_item ?b ''token'' = Some ?t" "get_item ?b ''namespace'' = get_item (lp_browser s) ''namespace''"
    using assms(6,7) by (simp_all add: set_item_def get_item_def AList.update_conv' del: ser.simps)
  note session = this
  obtain q where "Request console_wrapper ?b c = (?b, Inr (Some q))" "s_url q = url @ ''?accessToken='' @ t"
      "s_authorization q = Some ?t" "field (s_data q) ''namespaceId'' = Str (or_empty (get_item (lp_browser s) ''namespace''))"
    using Request_logged_in [OF assms(3-5) session(1-3) stored(3) assms(2)] session(4) by auto
  moreover have "session_token ?b url2 = (?b, Some (Obj fs))"
      "authorityControlMenu \<in> set (getMenuData ?b m) \<longleftrightarrow> truthy (field (Obj fs) ''globalAdmin'')"
    using login_opens_session [OF stored assms(8), of bad s m] by (simp_all add: run Let_def del: ser.simps field_Obj)
  ultimately show ?thesis by (simp add: run stored(3) del: ser.simps field_Obj)
qed

theorem login_reaches_requests_witness:
  "let (s1, e, x) = Login_done [] (Some (Obj [(''accessToken'', Str ''abc''), (''tokenTtl'', Num 18000)]))
        \<lparr>lp_browser = sample_browser, lp_closed = False, lp_guideMsg = Undef\<rparr>
   in \<exists>q. Request console_wrapper (lp_browser s1) sample_config = (lp_browser s1, Inr (Some q)) \<and>
     s_url q = ''v1/ns/instance?accessToken=abc''"
proof -
  let ?s = "\<lparr>lp_browser = sample_browser, lp_closed = False, lp_guideMsg = Undef\<rparr>"
  let ?fs = "[(''accessToken'', Str ''abc''), (''tokenTtl'', Num 18000)]"
  have "json_ok (Obj ?fs)" "map_of ?fs ''accessToken'' = Some (Str ''abc'')" "c_url sample_config = Str ''v1/ns/instance''"
    "CHR ''?'' \<notin> set ''v1/ns/instance''" "\<not> str_includes ''namespaceId='' ''v1/ns/instance''"
    "\<not> str_includes ''auth/users/login'' ''v1/cs/configs''"
    by (simp_all add: sample_config_def)
  moreover have "truthy (nownamespace (lp_browser ?s)) \<or> addr_ok (b_win (lp_browser ?s))"
    "get_item (lp_browser ?s) ''docsite_loginpage'' \<noteq> Some ''false''"
    by (simp_all add: sample_browser_def sample_win_ok get_item_def)
  ultimately show ?thesis
    using login_reaches_requests [of ?fs "''abc''" sample_config "''v1/ns/instance''" ?s "''v1/cs/configs''" "[]"]
    by (cases "Login_done [] (Some (Obj ?fs)) ?s") (auto simp: Let_def)
qed

section \<open>Metadata\<close>

text \<open>What a request carries under a key.\<close>

definition carried :: "string \<Rightarrow> effect \<Rightarrow> jsval option" where
  "carried k e = (case e of Ajax m u d \<Rightarrow> map_of d k | _ \<Rightarrow> None)"

lemma carried_simps [simp]: "carried k (Ajax m u d) = map_of d k" "carried k (Call f vs) = None"
  by (simp_all add: carried_def)

lemma metadata_text_added:
  assumes "field (Obj fs) ''metadata'' = Obj m" and "m \<noteq> []"
  shows "add_metadata_text (Obj fs) = Inr (Obj (AList.update ''metadataText'' (json_stringify tab (Obj m)) fs))"
  using assms by (simp add: add_metadata_text_def with_default_def own_fields_def del: field_Obj)

lemma assign_val_other:
  assumes "distinct (map fst fs)" and "k \<notin> fst ` set ch"
  shows "field (assign_val (Obj fs) ch) k = field (Obj fs) k"
proof -
  have "map_of (rev ch) k = None" using assms(2) by (simp add: map_of_eq_None_iff)
  then show ?thesis using assms(1) by (simp add: assign_val_def own_fields_def assign_Nil_distinct map_of_assign)
qed

text \<open>C14. Metadata that is opened for editing and saved untouched comes back as it was, whatever else is
  changed in the dialog of an instance or of a cluster: the text that is sent denotes the object that
  was shown, and so does the one that is sent when an instance is switched on or off.\<close>

theorem metadata_survives_editing:
  assumes "distinct (map fst fs)" and "field (Obj fs) ''metadata'' = Obj m" and "json_ok (Obj m)" and "m \<noteq> []"
    and "''metadataText'' \<notin> fst ` set ch"
  shows "\<exists>t u. json_parse t = Some (Obj m) \<and> json_parse u = Some (Obj m) \<and>
    map (carried ''metadata'') (effects_of (instance_confirm sn cn gn (state_of (block [instance_show (Obj fs), instance_change ch] i)))) =
      [None, Some (Str t)] \<and>
    map (carried ''metadata'') (effects_of (cluster_confirm (state_of (block [cluster_show (Obj fs), cluster_change ch] c)))) =
      [None, Some (Str t)] \<and>
    map (carried ''metadata'') (effects_of (switchState (cn, sn, gn) (Obj fs) it)) = [Some (Str u)]"
proof (intro exI conjI)
  let ?t = "ser tab [] (Obj m)" and ?u = "ser [] [] (Obj m)"
  let ?fs = "AList.update ''metadataText'' (Str ?t) fs"
  show "json_parse ?t = Some (Obj m)" "json_parse ?u = Some (Obj m)"
    by (rule json_roundtrip [OF assms(3)]; simp add: tab_def)+
  have added: "add_metadata_text (Obj fs) = Inr (Obj ?fs)"
    using metadata_text_added [OF assms(2,4)] json_text [OF assms(3)] by simp
  have "field (assign_val (Obj ?fs) ch) ''metadataText'' = Str ?t"
    by (subst assign_val_other) (use assms(1,5) in \<open>simp_all add: distinct_update AList.update_conv' del: ser.simps\<close>)
  note kept = this
  show "map (carried ''metadata'') (effects_of (instance_confirm sn cn gn (state_of (block [instance_show (Obj fs), instance_change ch] i)))) =
      [None, Some (Str ?t)]"
    by (simp add: instance_show_def added instance_change_def instance_confirm_def modify_def emit_def call_def pick_def
        kept del: ser.simps field_Obj)
  show "map (carried ''metadata'') (effects_of (cluster_confirm (state_of (block [cluster_show (Obj fs), cluster_change ch] c)))) =
      [None, Some (Str ?t)]"
    by (simp add: cluster_show_def added cluster_change_def cluster_confirm_def modify_def emit_def call_def Let_def
        kept del: ser.simps field_Obj)
  show "map (carried ''metadata'') (effects_of (switchState (cn, sn, gn) (Obj fs) it)) = [Some (Str ?u)]"
    using json_text [OF assms(3), of "[]"]
    by (simp add: switchState_def need_object_def it_open_def skip_def modify_def emit_def pick_def assms(2) del: ser.simps field_Obj)
qed

definition sample_service :: "(string \<times> jsval) list" where
  "sample_service = [(''ip'', Str ''10.0.0.1''), (''metadata'', Obj [(''zone'', Str ''a''), (''note'', Str [CHR 0x22])])]"

theorem metadata_survives_editing_witness:
  "\<exists>t. json_parse t = Some (Obj [(''zone'', Str ''a''), (''note'', Str [CHR 0x22])]) \<and>
     map (carried ''metadata'') (effects_of (instance_confirm Null Null Null (state_of (block
       [instance_show (Obj sample_service), instance_change [(''weight'', Num 2)]]
       \<lparr>editInstance = Obj [], editInstanceDialogVisible = False\<rparr>)))) = [None, Some (Str t)]"
proof -
  have "distinct (map fst sample_service)"
      "field (Obj sample_service) ''metadata'' = Obj [(''zone'', Str ''a''), (''note'', Str [CHR 0x22])]"
      "json_ok (Obj [(''zone'', Str ''a''), (''note'', Str [CHR 0x22])])"
      "[(''zone'', Str ''a''), (''note'', Str [CHR 0x22])] \<noteq> []" "''metadataText'' \<notin> fst ` set [(''weight'', Num 2)]"
    by (simp_all add: sample_service_def)
  from metadata_survives_editing [OF this, where i = "\<lparr>editInstance = Obj [], editInstanceDialogVisible = False\<rparr>" and sn = Null
      and cn = Null and gn = Null and c = "\<lparr>editCluster = Obj [], editClusterDialogVisible = False\<rparr>"
      and it = instance_table_initial]
  show ?thesis by (elim exE conjE) (intro exI conjI, assumption+)
qed

section \<open>Cloning\<close>

lemma json_copy_same: "json_ok v \<Longrightarrow> json_copy v = v"
  using json_text [of v "[]"] json_roundtrip [of v "[]"] by (simp add: json_copy_def del: ser.simps)

definition row_ok :: "jsval \<times> jsval \<Rightarrow> bool" where
  "row_ok p \<longleftrightarrow> (case p of (i, Obj fs) \<Rightarrow> json_ok i \<and> json_ok (Obj fs) \<and> {''dataId'', ''group''} \<subseteq> fst ` set fs
     | _ \<Rightarrow> False)"

text \<open>The value of a cell after the edits \<open>(row, column, text)\<close>: the last one that was made in it, or the
  selected one.\<close>

definition cell :: "(jsval \<times> string \<times> string) list \<Rightarrow> jsval \<Rightarrow> jsval \<Rightarrow> string \<Rightarrow> jsval" where
  "cell es j r k = (case find (\<lambda>(i, c, v). i = j \<and> c = k) (rev es) of Some (i, c, v) \<Rightarrow> Str v | None \<Rightarrow> field r k)"

definition edited :: "(jsval \<times> string \<times> string) list \<Rightarrow> jsval \<Rightarrow> jsval \<Rightarrow> jsval" where
  "edited es j r = foldl (\<lambda>r (i, k, v). if j = i then assign_val r [(k, Str v)] else r) r es"

lemma edited_cell:
  assumes "row_ok (j, r)"
  shows "(\<exists>fs. edited es j r = Obj fs \<and> distinct (map fst fs)) \<and> field (edited es j r) k = cell es j r k"
proof (induction es rule: rev_induct)
  case Nil
  then show ?case using assms by (auto simp: edited_def cell_def row_ok_def split: jsval.splits)
next
  case (snoc e es)
  obtain i c v where e: "e = (i, c, v)" by (cases e)
  from snoc obtain fs where fs: "edited es j r = Obj fs" "distinct (map fst fs)" by blast
  have step: "edited (es @ [(i, c, v)]) j r = (if j = i then assign_val (Obj fs) [(c, Str v)] else Obj fs)"
    using fs(1) by (simp add: edited_def)
  have "distinct (map fst (AList.update c (Str v) fs))" using fs(2) by (rule distinct_update)
  moreover have "field (edited (es @ [e]) j r) k = cell (es @ [e]) j r k"
    using snoc fs by (simp add: step cell_def e assign_val_def own_fields_def assign_Nil_distinct AList.update_conv')
  ultimately show ?case
    using fs by (simp add: e step assign_val_def own_fields_def assign_Nil_distinct)
qed

lemma row_okE:
  assumes "row_ok p"
  obtains j fs where "p = (j, Obj fs)" "json_ok j" "json_ok (Obj fs)" "''dataId'' \<in> fst ` set fs" "''group'' \<in> fst ` set fs"
  using assms by (cases p; cases "snd p") (auto simp: row_ok_def)

lemma cell_ok:
  assumes "row_ok (j, r)" and "k = ''dataId'' \<or> k = ''group''"
  shows "json_ok (cell es j r k)"
proof -
  from assms(1) obtain j2 fs where "(j, r) = (j2, Obj fs)" "json_ok (Obj fs)" "''dataId'' \<in> fst ` set fs" "''group'' \<in> fst ` set fs"
    by (rule row_okE)
  then have r: "r = Obj fs" "json_ok (Obj fs)" "''dataId'' \<in> fst ` set fs" "''group'' \<in> fst ` set fs" by blast+
  then obtain x where x: "map_of fs k = Some x"
    using assms(2) by (metis domD dom_map_of_conv_image_fst)
  have "json_ok x" using r(2) map_of_SomeD [OF x] by (auto simp: list_all_iff)
  then show ?thesis by (auto simp: cell_def r(1) x split: option.split)
qed

lemma run_edits:
  "run (map (\<lambda>(i, k, v). editableTableOnBlur i k v) es) s =
     s\<lparr>clone_rows := map (\<lambda>(j, r). (j, edited es j r)) (clone_rows s)\<rparr>"
proof (induction es arbitrary: s)
  case Nil
  then show ?case by (simp add: edited_def)
next
  case (Cons e es)
  obtain i k v where e: "e = (i, k, v)" by (cases e)
  have "state_of (editableTableOnBlur i k v s) = s\<lparr>clone_rows :=
      map (\<lambda>(j, r). if j = i then (j, assign_val r [(k, Str v)]) else (j, r)) (clone_rows s)\<rparr>"
    by (simp add: editableTableOnBlur_def modify_def)
  moreover have "(\<lambda>(j, r). (j, edited es j r)) \<circ> (\<lambda>(j, r). if j = i then (j, assign_val r [(k, Str v)]) else (j, r)) =
      (\<lambda>(j, r). (j, edited (e # es) j r))"
    by (auto simp: edited_def e fun_eq_iff)
  ultimately show ?case by (simp add: e Cons.IH)
qed

text \<open>C15. What is cloned is what was selected, with the edits made in the window: for every selected
  configuration, in order, its id, and in each of the two columns the last text that was entered or
  the selected value; and the edits stay in the window, the selection of the page is as it was.\<close>

theorem clone_sends_selection:
  assumes "field data ''code'' = Num 200" and "field data ''data'' = Arr ns" and "set ns \<inter> {Undef, Null} = {}"
    and "list_all row_ok (configsTableSelected s)" and "truthy target"
  shows "let s1 = run (clone_success tx data # map (\<lambda>(i, k, v). editableTableOnBlur i k v) es @ [pick_target target]) s in
    configsTableSelected s1 = configsTableSelected s \<and>
    (\<exists>body. effects_of (clone_start s1) = [Ajax ''post'' (''v1/cs/configs?clone=true&tenant='' @ to_str target @
         ''&policy='' @ to_str (sameConfigPolicy s) @ ''&namespaceId='') [(''body'', Str body)]] \<and>
       json_parse body = Some (Arr (map (\<lambda>(j, r). Obj [(''cfgId'', j), (''dataId'', cell es j r ''dataId''),
         (''group'', cell es j r ''group'')]) (configsTableSelected s))))"
proof -
  define rows where "rows = configsTableSelected s"
  have copies: "map (apsnd json_copy) rows = rows"
    using assms(4) by (auto simp: rows_def list_all_iff json_copy_same intro!: map_idI elim!: row_okE)
  have "truthy data" using assms(1) by (cases data) (simp_all add: field_def)
  let ?s1 = "state_of (clone_success tx data s)"
  have s1: "clone_rows ?s1 = rows \<and> configsTableSelected ?s1 = rows \<and> sameConfigPolicy ?s1 = sameConfigPolicy s"
    using assms(1-3) \<open>truthy data\<close> copies
    by (auto simp: clone_success_def cl_close_def need_object_def stmt_defs rows_def)
  let ?body = "Arr (map (\<lambda>(j, r). Obj [(''cfgId'', j), (''dataId'', cell es j r ''dataId''),
      (''group'', cell es j r ''group'')]) rows)"
  have rows_ok: "row_ok p" if "p \<in> set rows" for p using assms(4) that by (simp add: rows_def list_all_iff)
  have body: "clone_body (map (\<lambda>(j, r). (j, edited es j r)) rows) = ?body"
    using rows_ok edited_cell by (auto simp: clone_body_def simp del: field_Obj)
  have "json_ok j" if "(j, r) \<in> set rows" for j r using rows_ok [OF that] by (auto elim: row_okE)
  then have "json_ok ?body"
    using cell_ok [OF rows_ok] by (auto simp: list_all_iff)
  note stored = json_text [OF this, of "[]"] json_roundtrip [OF this, of "[]"]
  have "run (clone_success tx data # map (\<lambda>(i, k, v). editableTableOnBlur i k v) es @ [pick_target target]) s =
      ?s1\<lparr>clone_rows := map (\<lambda>(j, r). (j, edited es j r)) rows, cloneTargetSpace := target\<rparr>"
    by (simp add: run_append run_edits s1 pick_target_def modify_def assms(5))
  then show ?thesis
    using s1 assms(5) body stored by (simp add: clone_start_def cond_def cl_open_def modify_def emit_def rows_def Let_def del: ser.simps)
qed

definition sample_clone :: config_list where
  "sample_clone = sample_cl\<lparr>configsTableSelected := [(Str ''7'', Obj [(''dataId'', Str ''d''), (''group'', Str ''g'')])]\<rparr>"

theorem clone_sends_selection_witness:
  "let s1 = run [clone_success (\<lambda>k. k) (Obj [(''code'', Num 200), (''data'', Arr [])]) , editableTableOnBlur (Str ''7'') ''dataId'' ''e'',
       pick_target (Str ''dev'')] sample_clone in
   \<exists>u body. effects_of (clone_start s1) = [Ajax ''post'' u [(''body'', Str body)]] \<and>
     json_parse body = Some (Arr [Obj [(''cfgId'', Str ''7''), (''dataId'', Str ''e''), (''group'', Str ''g'')]])"
proof -
  let ?d = "Obj [(''code'', Num 200), (''data'', Arr [])]" and ?es = "[(Str ''7'', ''dataId'', ''e'')]"
  have "list_all row_ok (configsTableSelected sample_clone)" by (simp add: sample_clone_def row_ok_def)
  from clone_sends_selection [OF _ _ _ this, of ?d "[]" "Str ''dev''" "\<lambda>k. k" ?es]
  show ?thesis by (auto simp: Let_def sample_clone_def cell_def)
qed

end
