(* ===== verification/Old_Editor.thy ===== *)
theory Old_Editor
  imports Config_Editor
begin

text \<open>
  The former editor of a configuration,
  \<open>src/console-ui/src/pages/ConfigurationManagement/ConfigEditor/ConfigEditor.js\<close>.  The router leads to
  \<open>NewConfigEditor.js\<close> instead; this one is kept beside it.

  The page was written for an editor and for elements that its markup does not have any more: \<open>old_refs\<close>
  and \<open>old_elements\<close> are the names the markup gives out, and what looks for another one raises.
\<close>

definition old_refs :: "string list" where
  "old_refs = []"

definition old_elements :: "string list" where
  "old_elements = [''container'']"

text \<open>The beta flag of a publication, \<open>hasips\<close>, is \<open>undefined\<close> until a comparison was opened.  \<open>oe_legacy\<close> is
  the text of the editor that \<open>createCodeMirror\<close> would put up, \<open>oe_editor\<close> that of the monaco editor.\<close>

record old_editor =
  oe_win :: win
  oe_edasAppName :: string
  oe_edasAppId :: string
  oe_dataId :: string
  oe_group :: string
  oe_tenant :: string
  oe_serverId :: jsval
  oe_searchDataId :: string
  oe_searchGroup :: string
  oe_codeValue :: jsval
  oe_mode :: string
  oe_hasips :: "bool option"
  oe_valueMap :: slice
  oe_targetEnvs :: jsval
  oe_field :: slice
  oe_editor :: "string option"
  oe_legacy :: "string option"
  oe_compared :: "(string \<times> string) option"
  os_configType :: jsval
  os_loading :: bool
  os_showmore :: bool
  os_activeKey :: string
  os_hasbeta :: bool
  os_ips :: jsval
  os_checkedBeta :: bool
  os_envvalues :: jsval
  os_codeValue :: jsval
  os_tagLst :: "string list"
  os_config_tags :: "string list"
  os_switchEncrypt :: bool
  os_tag :: "(string \<times> string) list"

definition old_init :: "win \<Rightarrow> js_error + old_editor" where
  "old_init w = map_sum id (\<lambda>r. \<lparr>oe_win = w, oe_edasAppName = or_empty (got r ''edasAppName''),
     oe_edasAppId = or_empty (got r ''edasAppId''), oe_dataId = str_or (got r ''dataId'') ''yanlin'',
     oe_group = str_or (got r ''group'') ''DEFAULT_GROUP'', oe_tenant = or_empty (got r ''namespace''), oe_serverId = Undef,
     oe_searchDataId = or_empty (got r ''searchDataId''), oe_searchGroup = or_empty (got r ''searchGroup''),
     oe_codeValue = Str [], oe_mode = ''text'', oe_hasips = None, oe_valueMap = [], oe_targetEnvs = Undef, oe_field = [],
     oe_editor = None, oe_legacy = None, oe_compared = None, os_configType = Str ''text'', os_loading = False,
     os_showmore = False, os_activeKey = ''normal'', os_hasbeta = False, os_ips = Str [], os_checkedBeta = False,
     os_envvalues = Arr [], os_codeValue = Str [], os_tagLst = [], os_config_tags = [], os_switchEncrypt = False, os_tag = []\<rparr>)
     (read_all w [''edasAppName'', ''edasAppId'', ''dataId'', ''group'', ''namespace'', ''searchDataId'', ''searchGroup''])"

definition oe_open :: "old_editor stmt" where
  "oe_open = modify (\<lambda>s. s\<lparr>os_loading := True\<rparr>)"

definition oe_close :: "old_editor stmt" where
  "oe_close = modify (\<lambda>s. s\<lparr>os_loading := False\<rparr>)"

definition oe_initData :: "(string \<Rightarrow> string) \<Rightarrow> old_editor stmt" where
  "oe_initData tx = block
     [modify (\<lambda>s. s\<lparr>os_tag := [(tx ''official'', ''normal'')]\<rparr>),
      modify (\<lambda>s. if starts_with ''cipher-'' (oe_dataId s) then s\<lparr>os_switchEncrypt := True\<rparr> else s)]"

definition oe_set :: "string \<Rightarrow> jsval \<Rightarrow> old_editor stmt" where
  "oe_set k v = modify (\<lambda>s. s\<lparr>oe_field := AList.update k v (oe_field s)\<rparr>)"

definition oe_value :: "old_editor \<Rightarrow> string \<Rightarrow> jsval" where
  "oe_value s k = field (Obj (oe_field s)) k"

definition oe_initMoacoEditor :: "jsval \<Rightarrow> old_editor stmt" where
  "oe_initMoacoEditor v = modify (\<lambda>s. s\<lparr>oe_editor := Some (editor_text v)\<rparr>)"

definition oe_toggleMore :: "old_editor stmt" where
  "oe_toggleMore = modify (\<lambda>s. s\<lparr>os_showmore := \<not> os_showmore s\<rparr>)"

definition oe_navTo :: "string \<Rightarrow> old_editor stmt" where
  "oe_navTo url = reading oe_win ''serverId'' (\<lambda>sv. block
     [modify (\<lambda>s. s\<lparr>oe_serverId := Str (or_empty sv)\<rparr>),
      reading oe_win ''namespace'' (\<lambda>ns. block
        [modify (\<lambda>s. s\<lparr>oe_tenant := or_empty ns\<rparr>),
         emit (\<lambda>s. Push (url @ ''?serverId='' @ to_str (js_or (oe_serverId s) (Str [])) @ ''&dataId='' @ oe_dataId s @
           ''&group='' @ oe_group s @ ''&namespace='' @ oe_tenant s))])])"

section \<open>Loading\<close>

definition oe_getDataDetail :: "old_editor stmt" where
  "oe_getDataDetail = reading oe_win ''namespace'' (\<lambda>ns. block
     [modify (\<lambda>s. s\<lparr>oe_tenant := or_empty ns\<rparr>),
      reading oe_win ''serverId'' (\<lambda>sv. block
        [modify (\<lambda>s. s\<lparr>oe_serverId := Str (str_or sv ''center'')\<rparr>),
         oe_open,
         emit (\<lambda>s. Ajax ''GET'' (''v1/cs/configs?show=all&dataId='' @ oe_dataId s @ ''&group='' @ oe_group s) [])])])"

definition oe_componentDidMount :: "(string \<Rightarrow> string) \<Rightarrow> old_editor stmt" where
  "oe_componentDidMount tx = block [oe_initData tx, oe_getDataDetail]"

definition oe_setConfigTags :: "string list \<Rightarrow> old_editor stmt" where
  "oe_setConfigTags value = modify (\<lambda>s. s\<lparr>os_config_tags := remove_bad (at_most_five value)\<rparr>)"

text \<open>The branch for a missing answer reads its message.\<close>

definition oe_success :: "jsval \<Rightarrow> old_editor stmt" where
  "oe_success data = need_object data (block
     [modify (\<lambda>s. s\<lparr>oe_valueMap := AList.update ''normal'' data (oe_valueMap s)\<rparr>),
      oe_set ''dataId'' (field data ''dataId''),
      with_state (\<lambda>s. oe_set ''appName'' (if oe_edasAppName s \<noteq> [] then Str (oe_edasAppName s) else field data ''appName'')),
      oe_set ''group'' (field data ''group''),
      oe_set ''desc'' (field data ''desc''),
      modify (\<lambda>s. s\<lparr>oe_codeValue := js_or (field data ''content'') (Str []),
        os_configType := js_or (field data ''type'') (Str ''text'')\<rparr>),
      with_state (\<lambda>s. oe_initMoacoEditor (oe_codeValue s)),
      (if field data ''configTags'' \<in> {Undef, Null} then skip
       else case field data ''configTags'' of
          Str t \<Rightarrow> oe_setConfigTags (split_on (CHR '','') t)
        | _ \<Rightarrow> throw TypeError),
      modify (\<lambda>s. s\<lparr>oe_serverId := Undef, oe_targetEnvs := Arr []\<rparr>)])"

definition oe_goList :: "old_editor stmt" where
  "oe_goList = reading oe_win ''namespace'' (\<lambda>ns. emit (\<lambda>s. Push (''/configurationManagement?serverId='' @
     to_str (oe_serverId s) @ ''&group='' @ oe_searchGroup s @ ''&dataId='' @ oe_searchDataId s @ ''&namespace='' @ null_str ns)))"

section \<open>The former editor\<close>

definition oe_createCodeMirror :: "jsval \<Rightarrow> old_editor stmt" where
  "oe_createCodeMirror v =
     (if ''commoneditor'' \<in> set old_refs then modify (\<lambda>s. s\<lparr>oe_legacy := Some (editor_text v)\<rparr>) else throw TypeError)"

definition codemirrorValueChanged :: "string \<Rightarrow> old_editor stmt" where
  "codemirrorValueChanged t = modify (\<lambda>s. s\<lparr>oe_compared := map_option (\<lambda>(l, r). (t, r)) (oe_compared s)\<rparr>)"

definition oe_createDiffCodeMirror :: "string \<Rightarrow> string \<Rightarrow> old_editor stmt" where
  "oe_createDiffCodeMirror l r = modify (\<lambda>s. s\<lparr>oe_compared := Some (l, r)\<rparr>)"

text \<open>The format as the number of an entry.\<close>

definition legacy_mode :: "int \<Rightarrow> string option" where
  "legacy_mode n = map_of [(0, ''text''), (1, ''application/json''), (2, ''xml'')] n"

definition changeConfig :: "int \<Rightarrow> old_editor stmt" where
  "changeConfig n = block
     [(case legacy_mode n of
         None \<Rightarrow> skip
       | Some m \<Rightarrow> block
           [with_state (\<lambda>s. oe_createCodeMirror (oe_codeValue s)), modify (\<lambda>s. s\<lparr>oe_mode := m\<rparr>)]),
      modify (\<lambda>s. s\<lparr>os_configType := Num n\<rparr>)]"

definition oe_setCodeValue :: "jsval \<Rightarrow> old_editor stmt" where
  "oe_setCodeValue v = modify (\<lambda>s. s\<lparr>os_codeValue := v\<rparr>)"

definition toggleDiff :: "bool \<Rightarrow> old_editor stmt" where
  "toggleDiff checked =
     (if ''chontenttab'' \<notin> set old_elements then throw TypeError
      else if \<not> checked then skip
      else with_state (\<lambda>s. case oe_legacy s of
          None \<Rightarrow> throw TypeError
        | Some t \<Rightarrow> if oe_compared s = None then oe_createDiffCodeMirror t (editor_text (oe_codeValue s)) else skip))"

definition oe_getIps :: "jsval \<Rightarrow> old_editor stmt" where
  "oe_getIps v = modify (\<lambda>s. s\<lparr>os_ips := v\<rparr>)"

definition changeBeta :: "bool \<Rightarrow> old_editor stmt" where
  "changeBeta selected =
     (if ''betaips'' \<in> set old_elements then modify (\<lambda>s. s\<lparr>os_checkedBeta := selected\<rparr>) else throw TypeError)"

definition oe_changeEnv :: "jsval \<Rightarrow> old_editor stmt" where
  "oe_changeEnv v = modify (\<lambda>s. s\<lparr>oe_targetEnvs := v, os_envvalues := v\<rparr>)"

definition tab_key :: "string \<Rightarrow> string" where
  "tab_key v = slot_or (split_on (CHR ''-'') v) 0 []"

definition oe_changeTab :: "string \<Rightarrow> old_editor stmt" where
  "oe_changeTab value = with_state (\<lambda>s0. let data = field (Obj (oe_valueMap s0)) (tab_key value) in block
     [modify (\<lambda>s. s\<lparr>os_activeKey := value\<rparr>),
      need_object data (block
        [oe_set ''dataId'' (field data ''dataId''),
         oe_set ''appName'' (if oe_edasAppName s0 \<noteq> [] then Str (oe_edasAppName s0) else field data ''appName''),
         oe_set ''group'' (field data ''group''),
         modify (\<lambda>s. s\<lparr>oe_codeValue := js_or (field data ''content'') (Str [])\<rparr>),
         with_state (\<lambda>s. oe_createCodeMirror (oe_codeValue s)),
         (if truthy (field data ''betaIps'') then block [oe_getIps (field data ''betaIps''), changeBeta True]
          else block [oe_getIps (Str []), changeBeta False])])])"

text \<open>A tag is remembered half a second after the last key; the model runs the timer's function.\<close>

definition oe_onInputUpdate :: "string \<Rightarrow> old_editor stmt" where
  "oe_onInputUpdate value = modify (\<lambda>s. if value \<in> set (os_tagLst s) then s else s\<lparr>os_tagLst := os_tagLst s @ [value]\<rparr>)"

definition changeModel :: "jsval \<Rightarrow> old_editor stmt" where
  "changeModel v = modify (\<lambda>s. if oe_editor s = None then s\<lparr>oe_editor := Some (editor_text v)\<rparr> else s)"

definition oe_newChangeConfig :: "string \<Rightarrow> old_editor stmt" where
  "oe_newChangeConfig value = block [modify (\<lambda>s. s\<lparr>os_configType := Str value\<rparr>), changeModel Undef]"

definition oe_validateChart :: "(string \<Rightarrow> string) \<Rightarrow> string \<Rightarrow> string option" where
  "oe_validateChart tx value = (if \<exists>c \<in> set value. c \<in> set ''@#$%^&*'' then Some (tx ''vdchart'') else None)"

definition oe_type_text :: "string \<Rightarrow> old_editor stmt" where
  "oe_type_text t = modify (\<lambda>s. s\<lparr>oe_editor := map_option (\<lambda>_. t) (oe_editor s)\<rparr>)"

section \<open>Publishing\<close>

definition oe_openDiff :: "bool \<Rightarrow> old_editor stmt" where
  "oe_openDiff hasips = block
     [modify (\<lambda>s. s\<lparr>oe_hasips := Some hasips\<rparr>),
      with_state (\<lambda>s. case (oe_editor s, oe_codeValue s) of
         (Some left, Str right) \<Rightarrow>
           emit (\<lambda>_. Call ''diffEditorDialog.openDialog'' [Str (diff_text left), Str (diff_text right)])
       | _ \<Rightarrow> throw TypeError)]"

definition oe_content :: "old_editor \<Rightarrow> jsval" where
  "oe_content s = (case oe_editor s of Some t \<Rightarrow> Str t | None \<Rightarrow> oe_codeValue s)"

definition old_payload :: "jsval \<Rightarrow> old_editor \<Rightarrow> slice" where
  "old_payload content s =
     [(''dataId'', oe_value s ''dataId''),
      (''appName'', if oe_edasAppName s \<noteq> [] then Str (oe_edasAppId s) else oe_value s ''appName''),
      (''group'', oe_value s ''group''), (''desc'', oe_value s ''desc''),
      (''config_tags'', Str (js_join '','' (os_config_tags s))), (''type'', os_configType s), (''content'', content),
      (''tenant'', Str (oe_tenant s))]"

definition oe_send :: "jsval \<Rightarrow> old_editor stmt" where
  "oe_send content = block
     [modify (\<lambda>s. s\<lparr>oe_codeValue := content\<rparr>),
      reading oe_win ''namespace'' (\<lambda>ns. block
        [modify (\<lambda>s. s\<lparr>oe_tenant := or_empty ns\<rparr>),
         reading oe_win ''serverId'' (\<lambda>sv. block
           [modify (\<lambda>s. s\<lparr>oe_serverId := Str (str_or sv ''center'')\<rparr>),
            emit (\<lambda>s. Ajax ''post'' ''v1/cs/configs'' (old_payload content s))])])]"

text \<open>\<open>errors\<close> is what the form's own validation found; the confirmation, whose question is a fixed Chinese
  text, runs \<open>oe_send\<close>.\<close>

definition oe_publishConfig :: "(string \<Rightarrow> string) \<Rightarrow> checkers \<Rightarrow> bool \<Rightarrow> old_editor stmt" where
  "oe_publishConfig tx ck errors = with_state (\<lambda>s.
     if errors then skip
     else if \<not> truthy (oe_content s) then emit (\<lambda>_. MsgError (tx ''submitFailed''))
     else if truthy (validate ck (to_str (os_configType s)) (to_str (oe_content s))) then oe_send (oe_content s)
     else emit (\<lambda>_. Confirm ''syntax''))"

text \<open>The answer; \<open>payload\<close> is what was sent, \<open>now\<close> the time in the names of the tabs.\<close>

definition oe_sent :: "(string \<Rightarrow> string) \<Rightarrow> nat \<Rightarrow> slice \<Rightarrow> jsval \<Rightarrow> old_editor stmt" where
  "oe_sent tx now payload res = need_object res (block
     [with_state (\<lambda>s0. let key = tab_key (os_activeKey s0); n = nat_str now in block
        [(if key = ''normal'' \<and> oe_hasips s0 = Some True then block
            [modify (\<lambda>s. s\<lparr>os_tag := [(tx ''official'', ''normal-'' @ n), (''BETA'', ''beta-'' @ n)], os_hasbeta := True,
               os_activeKey := ''beta-'' @ n\<rparr>),
             modify (\<lambda>s. s\<lparr>oe_valueMap := AList.update ''beta''
               (Obj (AList.update ''betaIps'' (js_or (field (Obj payload) ''betaIps'') (field (Obj payload) ''ips'')) payload))
               (oe_valueMap s)\<rparr>),
             oe_changeTab (''beta-'' @ n)]
          else skip),
         with_state (\<lambda>s. if key = ''normal'' \<and> oe_hasips s = Some False
           then modify (\<lambda>s. s\<lparr>oe_valueMap := AList.update ''normal'' (Obj payload) (oe_valueMap s)\<rparr>) else skip),
         with_state (\<lambda>s. if key = ''beta'' \<and> oe_hasips s = Some True
           then modify (\<lambda>s. s\<lparr>oe_valueMap := AList.update ''beta'' (Obj payload) (oe_valueMap s)\<rparr>) else skip)]),
      emit (\<lambda>_. Call ''successDialog.openDialog'' [Obj
        [(''maintitle'', Str (tx ''toedittitle'')), (''title'', Str (tx ''toedit'')), (''content'', Str []),
         (''dataId'', field (Obj payload) ''dataId''), (''group'', field (Obj payload) ''group''), (''isok'', Bool True)]])])"

section \<open>The page in use\<close>

text \<open>The flags with which the buttons open a comparison: one button for everybody, and on the tab of a beta
  one for the addresses.\<close>

definition publish_flags :: "old_editor \<Rightarrow> bool list" where
  "publish_flags s =
     (if tab_key (os_activeKey s) = ''beta'' then [True] else []) @
     (if tab_key (os_activeKey s) = ''normal'' then (if os_hasbeta s then [] else [os_checkedBeta s]) else [False])"

inductive old_step :: "old_editor \<Rightarrow> old_editor \<Rightarrow> bool" where
  mount: "old_step s (state_of (oe_componentDidMount tx s))"
| loaded: "old_step s (state_of (settle oe_success (\<lambda>e. skip) oe_close r s))"
| more: "old_step s (state_of (oe_toggleMore s))"
| tags: "old_step s (state_of (oe_setConfigTags ts s))"
| input: "k \<in> {''appName'', ''desc''} \<Longrightarrow> old_step s (state_of (oe_set k v s))"
| format: "old_step s (state_of (oe_newChangeConfig ty s))"
| typed: "old_step s (state_of (oe_type_text t s))"
| tab: "os_hasbeta s \<Longrightarrow> key \<in> snd ` set (os_tag s) \<Longrightarrow> old_step s (state_of (oe_changeTab key s))"
| compare: "b \<in> set (publish_flags s) \<Longrightarrow> old_step s (state_of (oe_openDiff b s))"
| accept: "old_step s (state_of (oe_publishConfig tx ck errors s))"
| confirm: "old_step s (state_of (oe_send c s))"
| sent: "old_step s (state_of (oe_sent tx now payload res s))"
| leave: "old_step s (state_of (oe_goList s))"

inductive old_reachable :: "old_editor \<Rightarrow> bool" where
  opened: "old_init w = Inr s \<Longrightarrow> old_reachable s"
| step: "old_reachable s \<Longrightarrow> old_step s t \<Longrightarrow> old_reachable t"

section \<open>Properties\<close>

interpretation old_detail: ajax_call os_loading "block [oe_open, emit f]" oe_success "\<lambda>e. skip" oe_close for f
  by unfold_locales (simp_all add: oe_open_def oe_close_def stmt_defs)

definition no_beta :: "old_editor \<Rightarrow> bool" where
  "no_beta s \<longleftrightarrow> \<not> os_hasbeta s \<and> \<not> os_checkedBeta s \<and> os_activeKey s = ''normal'' \<and> oe_hasips s \<noteq> Some True"

lemma no_beta_modify:
  "(\<And>s. os_hasbeta (f s) = os_hasbeta s \<and> os_checkedBeta (f s) = os_checkedBeta s \<and> os_activeKey (f s) = os_activeKey s \<and>
     oe_hasips (f s) = oe_hasips s) \<Longrightarrow> preserves no_beta (modify f)"
  by (simp add: preserves_def modify_def no_beta_def)

lemmas oe_quiet = oe_open_def oe_close_def oe_initData_def oe_set_def oe_initMoacoEditor_def oe_toggleMore_def oe_getDataDetail_def
  oe_componentDidMount_def oe_setConfigTags_def oe_success_def oe_goList_def changeModel_def oe_newChangeConfig_def
  oe_type_text_def oe_send_def oe_publishConfig_def

lemma tab_key_normal: "tab_key ''normal'' = ''normal''"
  by code_simp

lemma no_beta_flags: "no_beta s \<Longrightarrow> publish_flags s = [False]"
  by (simp add: no_beta_def publish_flags_def tab_key_normal)

lemma no_beta_sent: "no_beta s \<Longrightarrow> no_beta (state_of (oe_sent tx now payload res s))"
  by (auto simp: no_beta_def oe_sent_def need_object_def stmt_defs Let_def tab_key_normal)

lemma no_beta_step:
  assumes "old_step s t" and "no_beta s"
  shows "no_beta t"
  using assms
proof (induction rule: old_step.induct)
  case (loaded s r)
  have tags: "preserves no_beta (case v of Str t \<Rightarrow> oe_setConfigTags (split_on c t) | _ \<Rightarrow> throw TypeError)" for v c
    by (cases v) (simp_all add: preserves_throw oe_setConfigTags_def no_beta_modify)
  have succ: "preserves no_beta (oe_success d)" for d
    unfolding oe_success_def oe_set_def oe_initMoacoEditor_def
    by (intro preserves_need_object preserves_block_Cons preserves_block_Nil preserves_with_state preserves_if preserves_skip
        tags no_beta_modify; simp)
  have "preserves no_beta (settle oe_success (\<lambda>e. skip) oe_close r)"
    unfolding oe_close_def by (intro preserves_settle preserves_skip succ no_beta_modify; simp)
  then show ?case by (rule preservesD) (rule loaded)
next
  case (tab s key)
  then show ?case by (simp add: no_beta_def)
next
  case (compare b s)
  then have "b = False" using no_beta_flags by simp
  with compare.prems show ?case
    by (auto simp: oe_openDiff_def stmt_defs no_beta_def split: option.split jsval.split)
next
  case (sent s tx now payload res)
  then show ?case by (rule no_beta_sent)
qed (auto simp: oe_quiet simp del: block.simps split: if_splits intro!: preservesD [where P = no_beta] preserves_intros no_beta_modify)

lemma reachable_no_beta: "old_reachable s \<Longrightarrow> no_beta s"
proof (induction rule: old_reachable.induct)
  case (opened w s)
  then show ?case by (auto simp: old_init_def no_beta_def map_sum_def split: sum.splits)
next
  case (step s t)
  then show ?case using no_beta_step by blast
qed

text \<open>C16. The former editor can no longer publish a beta: in every state its page can come to the one button
  opens the comparison for everybody, whatever is sent then carries no addresses, the answer leaves
  the tab as it is and keeps what was sent as the official version; and the function that would show a
  beta raises for want of the editor it was written for.\<close>

theorem old_editor_never_beta:
  assumes "old_reachable s"
  shows "publish_flags s = [False] \<and>
    (\<forall>e \<in> set (effects_of (oe_send c s)). \<exists>d. e = Ajax ''post'' ''v1/cs/configs'' d \<and> map_of d ''betaIps'' = None) \<and>
    (let t = state_of (oe_sent tx now payload (Bool True) (state_of (oe_openDiff False s))) in
       os_activeKey t = ''normal'' \<and> \<not> os_hasbeta t \<and> map_of (oe_valueMap t) ''normal'' = Some (Obj payload)) \<and>
    error_of (oe_changeTab key s) = Some TypeError"
proof (intro conjI)
  have nb: "no_beta s" by (rule reachable_no_beta [OF assms])
  then show "publish_flags s = [False]" by (rule no_beta_flags)
  show "\<forall>e \<in> set (effects_of (oe_send c s)). \<exists>d. e = Ajax ''post'' ''v1/cs/configs'' d \<and> map_of d ''betaIps'' = None"
    by (auto simp: oe_send_def reading_def stmt_defs old_payload_def split: sum.split)
  have "no_beta (state_of (oe_openDiff False s))" "oe_hasips (state_of (oe_openDiff False s)) = Some False"
    using nb by (auto simp: oe_openDiff_def stmt_defs no_beta_def split: option.split jsval.split)
  then show "let t = state_of (oe_sent tx now payload (Bool True) (state_of (oe_openDiff False s))) in
       os_activeKey t = ''normal'' \<and> \<not> os_hasbeta t \<and> map_of (oe_valueMap t) ''normal'' = Some (Obj payload)"
    by (simp add: oe_sent_def need_object_def stmt_defs Let_def no_beta_def tab_key_normal AList.update_conv')
  show "error_of (oe_changeTab key s) = Some TypeError"
    by (simp add: oe_changeTab_def need_object_def oe_set_def oe_createCodeMirror_def old_refs_def stmt_defs Let_def)
qed

theorem old_editor_never_beta_witness:
  "\<exists>s. old_init sample_win = Inr s \<and> publish_flags s = [False] \<and> error_of (oe_changeTab ''beta-7'' s) = Some TypeError"
proof -
  obtain s where s: "old_init sample_win = Inr s" unfolding old_init_def
    using read_all_ok [OF sample_win_ok, of "[''edasAppName'', ''edasAppId'', ''dataId'', ''group'', ''namespace'', ''searchDataId'', ''searchGroup'']"]
    by (auto simp: console_keys_def)
  then have "old_reachable s" by (rule old_reachable.opened)
  from old_editor_never_beta [OF this, of Null "\<lambda>k. k" 7 "[]" "''beta-7''"] s show ?thesis by blast
qed

text \<open>What a configuration is shown from: its texts, and tags that the cleaning leaves as they are.\<close>

definition plain_config :: "jsval \<Rightarrow> string \<Rightarrow> string \<Rightarrow> bool" where
  "plain_config data c tags \<longleftrightarrow> data \<notin> {Undef, Null} \<and> field data ''content'' = Str c \<and> c \<noteq> [] \<and>
     field data ''configTags'' = Str tags \<and> (let ts = split_on (CHR '','') tags in length ts \<le> 5 \<and> list_all (\<lambda>t. CHR ''='' \<notin> set t) ts) \<and>
     truthy (field data ''type'')"

lemma skim_good: "list_all (\<lambda>t. \<not> bad_tag t) ts \<Longrightarrow> skim ts = ts"
  by (induction ts rule: skim.induct) auto

lemma good_tags_kept:
  assumes "length (split_on (CHR '','') tags) \<le> 5" and "list_all (\<lambda>t. CHR ''='' \<notin> set t) (split_on (CHR '','') tags)"
  shows "js_join '','' (remove_bad (at_most_five (split_on (CHR '','') tags))) = tags"
proof -
  have "list_all (\<lambda>t. \<not> bad_tag t) (split_on (CHR '','') tags)"
    using assms(2) split_on_pieces [of _ "CHR '',''" tags] by (auto simp: list_all_iff bad_tag_def)
  then show ?thesis using assms(1) by (simp add: at_most_five_def remove_bad_skim skim_good join_split)
qed

lemma old_loaded_run:
  assumes "oe_edasAppName s = []" and "plain_config data c tags"
  shows "\<exists>t. block [oe_success data, oe_close, oe_openDiff False] s =
      (t, [Call ''diffEditorDialog.openDialog'' [Str (diff_text c), Str (diff_text c)]], None) \<and>
    oe_win t = oe_win s \<and> oe_edasAppName t = [] \<and> oe_editor t = Some c \<and> os_configType t = field data ''type'' \<and>
    js_join '','' (os_config_tags t) = tags \<and>
    (\<forall>k \<in> set [''dataId'', ''appName'', ''group'', ''desc'']. oe_value t k = field data k)"
proof -
  note conf = assms(2) [unfolded plain_config_def Let_def]
  have "js_join '','' (remove_bad (at_most_five (split_on (CHR '','') tags))) = tags"
    using good_tags_kept conf by blast
  moreover have "js_or (Str c) (Str []) = Str c" "js_or (field data ''type'') (Str ''text'') = field data ''type''" "editor_text (Str c) = c"
    using conf by (simp_all add: js_or_def editor_text_def)
  ultimately show ?thesis
    using assms(1) conf
    by (simp add: oe_success_def need_object_def oe_set_def oe_initMoacoEditor_def oe_setConfigTags_def oe_close_def
        oe_openDiff_def stmt_defs oe_value_def field_update del: field_Obj)
qed

text \<open>C17. What was loaded and not touched is published as it was: data id, group, application, description, tags,
  format and content of the answer, with the namespace of the address, once the comparison is accepted
  and the content passes its check.\<close>

theorem old_editor_publishes_loaded:
  assumes "addr_ok (oe_win s)" and "oe_edasAppName s = []" and "plain_config data c tags"
    and "truthy (validate ck (to_str (field data ''type'')) c)"
  shows "let s1 = state_of (block [oe_success data, oe_close, oe_openDiff False] s) in
    error_of (block [oe_success data, oe_close, oe_openDiff False] s) = None \<and>
    effects_of (oe_publishConfig tx ck False s1) = [Ajax ''post'' ''v1/cs/configs''
      (map (\<lambda>k. (k, field data k)) [''dataId'', ''appName'', ''group'', ''desc''] @
       [(''config_tags'', Str tags), (''type'', field data ''type''), (''content'', Str c),
        (''tenant'', Str (or_empty (addr_get (oe_win s) ''namespace'')))])]"
proof -
  obtain t where run: "block [oe_success data, oe_close, oe_openDiff False] s =
      (t, [Call ''diffEditorDialog.openDialog'' [Str (diff_text c), Str (diff_text c)]], None)"
    and t: "oe_win t = oe_win s" "oe_edasAppName t = []" "oe_editor t = Some c" "os_configType t = field data ''type''"
      "js_join '','' (os_config_tags t) = tags"
      "\<forall>k \<in> set [''dataId'', ''appName'', ''group'', ''desc'']. oe_value t k = field data k"
    using old_loaded_run [OF assms(2,3)] by blast
  have "c \<noteq> []" using assms(3) by (simp add: plain_config_def)
  moreover have "\<And>s k. oe_value (s\<lparr>oe_codeValue := v, oe_tenant := w, oe_serverId := x\<rparr>) k = oe_value s k" for v w x
    by (simp add: oe_value_def)
  ultimately have "effects_of (oe_publishConfig tx ck False t) = [Ajax ''post'' ''v1/cs/configs''
      (map (\<lambda>k. (k, field data k)) [''dataId'', ''appName'', ''group'', ''desc''] @
       [(''config_tags'', Str tags), (''type'', field data ''type''), (''content'', Str c),
        (''tenant'', Str (or_empty (addr_get (oe_win s) ''namespace'')))])]"
    using t assms(1,4)
    by (simp add: oe_publishConfig_def oe_content_def oe_send_def reading_ok console_keys_def stmt_defs old_payload_def)
  then show ?thesis by (simp only: run Let_def outcome_simps simp_thms)
qed

lemma sample_win_app: "addr_get sample_win ''edasAppName'' = None"
  by code_simp

definition sample_answer :: jsval where
  "sample_answer = Obj [(''dataId'', Str ''d''), (''group'', Str ''g''), (''content'', Str ''x''), (''type'', Str ''text''),
     (''configTags'', Str ''a,b''), (''desc'', Str [])]"

theorem old_editor_publishes_loaded_witness:
  "\<exists>s. old_init sample_win = Inr s \<and> (\<forall>ck.
    map (\<lambda>e. case e of Ajax m u d \<Rightarrow> map_of d ''config_tags'' | _ \<Rightarrow> None) (effects_of (oe_publishConfig (\<lambda>k. k) ck False
      (state_of (block [oe_success sample_answer, oe_close, oe_openDiff False] s)))) = [Some (Str ''a,b'')])"
proof -
  obtain s where s: "old_init sample_win = Inr s" unfolding old_init_def
    using read_all_ok [OF sample_win_ok, of "[''edasAppName'', ''edasAppId'', ''dataId'', ''group'', ''namespace'', ''searchDataId'', ''searchGroup'']"]
    by (auto simp: console_keys_def)
  have "addr_ok (oe_win s)" "oe_edasAppName s = []"
    using s read_all_ok [OF sample_win_ok, of "[''edasAppName'', ''edasAppId'', ''dataId'', ''group'', ''namespace'', ''searchDataId'', ''searchGroup'']"]
      sample_win_ok sample_win_app by (auto simp: old_init_def console_keys_def got_def)
  moreover have "plain_config sample_answer ''x'' ''a,b''" by (simp add: plain_config_def sample_answer_def)
  moreover have "truthy (validate ck (to_str (field sample_answer ''type'')) ''x'')" for ck
    by (simp add: validate_def sample_answer_def)
  ultimately show ?thesis
    using s old_editor_publishes_loaded [of s sample_answer "''x''" "''a,b''"]
    by (auto simp: Let_def simp del: block.simps)
qed

end
