(* ===== verification/Dictionary.thy ===== *)
theory Dictionary
  imports Round_Trips Batch_Dialogs Old_Editor Authority Cluster_Nodes Config_Sync Namespace_Page Config_History
begin

text \<open>
  The dictionaries of the console, \<open>src/console-ui/src/locales\<close>, and what the pages ask of them.  A
  dictionary is its sections with the names of their texts, put together from one definition per group of pages: what a text says matters to nobody but the
  reader, what matters here is whether it is there.  One name, \<open>InstanceFilter\<close> of \<open>ServiceDetail\<close>, is a
  section within its section.  A component gets the section under its display name, and an empty one
  if there is none; a name that is not in its section is shown as nothing.
\<close>

section \<open>The dictionaries\<close>

type_synonym dictionary = "(string \<times> string list) list"

definition en_US_frame :: dictionary where
  "en_US_frame =
    [(''Header'',
       [''home'', ''docs'', ''blog'', ''community'', ''enterprise'', ''languageSwitchButton'', ''logout'',
        ''changePassword'', ''passwordRequired'', ''usernameRequired'']),
     (''Login'',
       [''login'', ''internalSysTip1'', ''internalSysTip2'', ''submit'', ''pleaseInputUsername'',
        ''pleaseInputPassword'', ''invalidUsernameOrPassword'', ''productDesc'']),
     (''MainLayout'',
       [''nacosName'', ''nacosMode'', ''doesNotExist'', ''configurationManagementVirtual'',
        ''configurationManagement'', ''configdetail'', ''configsync'', ''configeditor'', ''newconfig'',
        ''historyRollback'', ''configRollback'', ''historyDetail'', ''listeningToQuery'',
        ''serviceManagementVirtual'', ''serviceManagement'', ''subscriberList'', ''serviceDetail'', ''namespace'',
        ''clusterManagementVirtual'', ''clusterManagement'', ''authorityControl'', ''userList'',
        ''roleManagement'', ''privilegeManagement'', ''consoleClosed'', ''settingCenter'']),
     (''Password'',
       [''passwordNotConsistent'', ''passwordRequired'', ''pleaseInputOldPassword'', ''pleaseInputNewPassword'',
        ''pleaseInputNewPasswordAgain'', ''oldPassword'', ''newPassword'', ''checkPassword'', ''changePassword'',
        ''invalidPassword'', ''modifyPasswordFailed'']),
     (''NameSpace'',
       [''public_tips'', ''namespace'', ''prompt'', ''namespaceDetails'', ''namespaceName'', ''namespaceID'',
        ''configuration'', ''description'', ''removeNamespace'', ''confirmDelete'', ''configurationManagement'',
        ''removeSuccess'', ''deletedSuccessfully'', ''deletedFailure'', ''namespaceDelete'', ''details'', ''edit'',
        ''namespacePublic'', ''pubNoData'', ''namespaceAdd'', ''namespaceNames'', ''namespaceNumber'',
        ''namespaceOperation'', ''refresh''])]"

definition en_US_services :: dictionary where
  "en_US_services =
    [(''ServiceList'',
       [''serviceList'', ''serviceName'', ''serviceNamePlaceholder'', ''hiddenEmptyService'', ''query'',
        ''pubNoData'', ''columnServiceName'', ''groupName'', ''groupNamePlaceholder'', ''columnClusterCount'',
        ''columnIpCount'', ''columnHealthyInstanceCount'', ''columnTriggerFlag'', ''operation'', ''detail'',
        ''sampleCode'', ''deleteAction'', ''prompt'', ''promptDelete'', ''create'', ''subscriber'']),
     (''SubscriberList'',
       [''subscriberList'', ''serviceName'', ''serviceNamePlaceholder'', ''groupName'', ''groupNamePlaceholder'',
        ''query'', ''pubNoData'', ''address'', ''clientVersion'', ''appName'', ''searchServiceNamePrompt'']),
     (''ClusterNodeList'',
       [''clusterNodeList'', ''nodeIp'', ''nodeIpPlaceholder'', ''query'', ''pubNoData'', ''nodeState'',
        ''extendInfo'', ''operation'', ''leave'', ''leaveSucc'', ''leaveFail'', ''leavePrompt'', ''confirm'',
        ''confirmTxt'']),
     (''EditClusterDialog'',
       [''updateCluster'', ''checkType'', ''checkPort'', ''useIpPortCheck'', ''checkPath'', ''checkHeaders'',
        ''metadata'']),
     (''ServiceDetail'',
       [''serviceDetails'', ''back'', ''editCluster'', ''cluster'', ''metadata'', ''selector'', ''type'',
        ''groupName'', ''protectThreshold'', ''serviceName'', ''editService'', ''InstanceFilter'']),
     (''EditServiceDialog'',
       [''createService'', ''updateService'', ''serviceName'', ''metadata'', ''groupName'', ''type'',
        ''typeLabel'', ''typeNone'', ''selector'', ''protectThreshold'', ''serviceNameRequired'',
        ''protectThresholdRequired'']),
     (''InstanceFilter'',
       [''title'', ''addFilter'', ''clear'']),
     (''InstanceTable'',
       [''operation'', ''port'', ''weight'', ''healthy'', ''metadata'', ''editor'', ''offline'', ''online'',
        ''ephemeral'']),
     (''EditInstanceDialog'',
       [''port'', ''weight'', ''metadata'', ''updateInstance'', ''whetherOnline''])]"

definition en_US_listening_history :: dictionary where
  "en_US_listening_history =
    [(''ListeningToQuery'',
       [''success'', ''failure'', ''configuration'', ''pubNoData'', ''listenerQuery'', ''queryDimension'',
        ''pleaseEnterTheDataId'', ''dataIdCanNotBeEmpty'', ''pleaseInputGroup'', ''groupCanNotBeEmpty'',
        ''pleaseInputIp'', ''query'', ''articleMeetRequirements'']),
     (''HistoryRollback'',
       [''details'', ''rollback'', ''pubNoData'', ''toConfigure'', ''dataId'', ''dataIdCanNotBeEmpty'', ''group'',
        ''groupCanNotBeEmpty'', ''query'', ''articleMeetRequirements'', ''lastUpdateTime'', ''operator'',
        ''operation'', ''compare'', ''historyCompareTitle'', ''historyCompareLastVersion'',
        ''historyCompareSelectedVersion'']),
     (''HistoryDetail'',
       [''historyDetails'', ''update'', ''insert'', ''deleteAction'', ''recipientFrom'', ''moreAdvancedOptions'',
        ''home'', ''actionType'', ''operator'', ''sourceIp'', ''configureContent'', ''back'', ''namespace'']),
     (''DashboardCard'',
       [''importantReminder0'', ''viewDetails1''])]"

definition en_US_configurations :: dictionary where
  "en_US_configurations =
    [(''ConfigurationManagement'',
       [''exportBtn'', ''questionnaire2'', ''ad'', ''noLongerDisplay4'', ''createConfiguration'',
        ''removeConfiguration'', ''sureDelete'', ''environment'', ''configurationManagement'', ''details'',
        ''sampleCode'', ''edit'', ''deleteAction'', ''more'', ''version'', ''listenerQuery'', ''failedEntry'',
        ''successfulEntry'', ''unprocessedEntry'', ''pubNoData'', ''configurationManagement8'', ''queryResults'',
        ''articleMeetRequirements'', ''fuzzydMode'', ''fuzzyd'', ''defaultFuzzyd'', ''fuzzyg'', ''defaultFuzzyg'',
        ''query'', ''advancedQuery9'', ''app1'', ''tags'', ''pleaseEnterTag'', ''configDetailLabel'',
        ''configDetailH'', ''application'', ''operation'', ''export'', ''newExport'', ''import'', ''uploadBtn'',
        ''importSucc'', ''importAbort'', ''importSuccBegin'', ''importSuccEnd'', ''importFail'', ''importFail403'',
        ''importDataValidationError'', ''metadataIllegal'', ''namespaceNotExist'', ''abortImport'', ''skipImport'',
        ''overwriteImport'', ''importRemind'', ''samePreparation'', ''targetNamespace'', ''conflictConfig'',
        ''importSuccEntries'', ''failureEntries'', ''unprocessedEntries'', ''unrecognizedEntries'',
        ''skippedEntries'', ''exportSelected'', ''newExportSelected'', ''clone'', ''exportSelectedAlertTitle'',
        ''exportSelectedAlertContent'', ''cloneSucc'', ''cloneAbort'', ''cloneSuccBegin'', ''cloneSuccEntries'',
        ''cloneSuccEnd'', ''cloneFail'', ''getNamespaceFailed'', ''getNamespace403'', ''startCloning'',
        ''cloningConfiguration'', ''source'', ''configurationNumber'', ''target'', ''selectNamespace'',
        ''selectedEntry'', ''cloneSelectedAlertTitle'', ''cloneSelectedAlertContent'', ''delSelectedAlertTitle'',
        ''delSelectedAlertContent'', ''delSuccessMsg'', ''cloneEditableTitle'', ''authFail'', ''copyNamespaceID''])]"

definition en_US_editing :: dictionary where
  "en_US_editing =
    [(''NewConfig'',
       [''newListingMain'', ''newListing'', ''publishFailed'', ''publishFailed403'', ''doNotEnter'', ''newConfig'',
        ''dataIdIsNotEmpty'', ''groupPlaceholder'', ''moreAdvanced'', ''groupNotEmpty'', ''annotation'',
        ''dataIdLength'', ''collapse'', ''tags'', ''pleaseEnterTag'', ''groupIdCannotBeLonger'', ''description'',
        ''targetEnvironment'', ''configurationFormat'', ''configureContentsOf'', ''fullScreen'', ''escExit'',
        ''release'', ''confirmSyanx'', ''dataIdExists'', ''dataRequired'', ''namespace'']),
     (''CloneDialog'',
       [''terminate'', ''skip'', ''cover'', ''getNamespaceFailed'', ''selectedEntry'', ''homeApplication'',
        ''tags'', ''startCloning'', ''source'', ''configurationNumber'', ''target'', ''conflict'',
        ''selectNamespace'', ''configurationCloning'']),
     (''DeleteDialog'',
       [''confManagement'', ''determine'', ''deletetitle'', ''deletedSuccessfully'', ''deleteFailed'']),
     (''DiffEditorDialog'',
       [''publish'', ''back'']),
     (''ConfigEditor'',
       [''official'', ''production'', ''beta'', ''wrong'', ''submitFailed'', ''toedittitle'', ''newConfigEditor'',
        ''toedit'', ''vdchart'', ''recipientFrom'', ''homeApplication'', ''collapse'', ''groupNotEmpty'', ''tags'',
        ''pleaseEnterTag'', ''targetEnvironment'', ''description'', ''format'', ''configcontent'', ''escExit'',
        ''releaseBeta'', ''release'', ''stopPublishBeta'', ''betaPublish'', ''betaSwitchPrompt'', ''publish'',
        ''back'', ''codeValErrorPrompt'', ''dialogTitle'', ''dialogCurrentArea'', ''dialogOriginalArea'',
        ''publishFailed403'', ''publishCasFailed'', ''namespace''])]"

definition en_US_exchange :: dictionary where
  "en_US_exchange =
    [(''EditorNameSpace'',
       [''notice'', ''pleaseDo'', ''publicSpace'', ''confirmModify'', ''editNamespace'', ''load'', ''namespace'',
        ''namespaceDesc'', ''description'']),
     (''ExportDialog'',
       [''selectedEntry'', ''application'', ''tags'', ''exportBtn'', ''exportConfiguration'', ''source'',
        ''items'']),
     (''ImportDialog'',
       [''terminate'', ''skip'', ''overwrite'', ''zipFileFormat'', ''uploadFile'', ''importLabel'', ''target'',
        ''conflict'', ''beSureExerciseCaution'']),
     (''ShowCodeing'',
       [''sampleCode'', ''loading'']),
     (''SuccessDialog'',
       [''title'', ''determine'', ''failure'']),
     (''ConfigSync'',
       [''error'', ''syncConfigurationMain'', ''syncConfiguration'', ''advancedOptions'', ''collapse'', ''home'',
        ''region'', ''configuration'', ''target'', ''sync'', ''back'']),
     (''NewNameSpace'',
       [''norepeat'', ''notice'', ''input'', ''ok'', ''cancel'', ''newnamespce'', ''loading'', ''name'',
        ''namespaceId'', ''namespaceIdTooLong'', ''namespacenotnull'', ''namespacedescnotnull'', ''description'',
        ''namespaceIdAlreadyExist'', ''newnamespceFailedMessage'']),
     (''NameSpaceList'',
       [''notice'']),
     (''ConfigDetail'',
       [''official'', ''error'', ''configurationDetails'', ''collapse'', ''more'', ''home'', ''tags'',
        ''description'', ''betaRelease'', ''configuration'', ''back'', ''versionComparison'',
        ''dialogCurrentArea'', ''dialogOriginalArea'', ''configComparison'', ''dialogCurrentConfig'',
        ''dialogComparedConfig'', ''configComparisonTitle'', ''dataIdInput'', ''groupInput'', ''namespaceSelect'',
        ''configNotFind'', ''namespace'']),
     (''ConfigRollback'',
       [''rollBack'', ''determine'', ''followingConfiguration'', ''configurationRollback'', ''collapse'', ''more'',
        ''home'', ''actionType'', ''configuration'', ''back'', ''rollbackSuccessful'', ''rollbackDelete'',
        ''update'', ''insert'', ''additionalRollbackMessage'', ''namespace''])]"

definition en_US_authority :: dictionary where
  "en_US_authority =
    [(''UserManagement'',
       [''userManagement'', ''createUser'', ''resetPassword'', ''deleteUser'', ''deleteUserTip'', ''username'',
        ''password'', ''operation'', ''refresh'', ''query'', ''fuzzydMode'', ''defaultFuzzyd'', ''fuzzyd'']),
     (''NewUser'',
       [''createUser'', ''username'', ''password'', ''rePassword'', ''usernamePlaceholder'',
        ''passwordPlaceholder'', ''rePasswordPlaceholder'', ''usernameError'', ''passwordError'',
        ''rePasswordError'', ''rePasswordError2'']),
     (''PasswordReset'',
       [''resetPassword'', ''username'', ''password'', ''rePassword'', ''passwordPlaceholder'',
        ''rePasswordPlaceholder'', ''passwordError'', ''rePasswordError'', ''rePasswordError2'']),
     (''RolesManagement'',
       [''roleManagement'', ''bindingRoles'', ''role'', ''username'', ''operation'', ''deleteRole'',
        ''deleteRoleTip'', ''refresh'', ''fuzzydMode'', ''defaultFuzzyd'', ''fuzzyd'', ''query'']),
     (''NewRole'',
       [''bindingRoles'', ''username'', ''role'', ''usernamePlaceholder'', ''rolePlaceholder'', ''usernameError'',
        ''roleError'']),
     (''PermissionsManagement'',
       [''privilegeManagement'', ''addPermission'', ''role'', ''resource'', ''action'', ''operation'',
        ''deletePermission'', ''deletePermissionTip'', ''readOnly'', ''writeOnly'', ''readWrite'', ''refresh'',
        ''fuzzydMode'', ''defaultFuzzyd'', ''fuzzyd'', ''query'']),
     (''NewPermissions'',
       [''addPermission'', ''role'', ''resource'', ''action'', ''resourcePlaceholder'', ''rolePlaceholder'',
        ''actionPlaceholder'', ''resourceError'', ''roleError'', ''actionError'', ''readOnly'', ''writeOnly'',
        ''readWrite'']),
     (''Components'',
       [''copySuccessfully'']),
     (''SettingCenter'',
       [''settingTitle'', ''settingTheme'', ''settingLight'', ''settingDark'', ''settingLocale'',
        ''settingSubmit''])]"

definition en_US :: dictionary where
  "en_US = en_US_frame @ en_US_services @ en_US_listening_history @ en_US_configurations
    @ en_US_editing @ en_US_exchange @ en_US_authority"

lemmas en_US_parts =
  en_US_frame_def en_US_services_def en_US_listening_history_def
  en_US_configurations_def en_US_editing_def en_US_exchange_def en_US_authority_def

lemmas en_US_all = en_US_def [unfolded en_US_parts append.simps]

definition zh_CN_frame :: dictionary where
  "zh_CN_frame =
    [(''Header'',
       [''home'', ''docs'', ''blog'', ''community'', ''enterprise'', ''languageSwitchButton'', ''logout'',
        ''changePassword'']),
     (''Login'',
       [''login'', ''internalSysTip1'', ''submit'', ''pleaseInputUsername'', ''pleaseInputPassword'',
        ''invalidUsernameOrPassword'', ''passwordRequired'', ''usernameRequired'', ''productDesc'']),
     (''MainLayout'',
       [''nacosName'', ''nacosMode'', ''doesNotExist'', ''configurationManagementVirtual'',
        ''configurationManagement'', ''configdetail'', ''configsync'', ''configeditor'', ''newconfig'',
        ''historyRollback'', ''configRollback'', ''historyDetail'', ''listeningToQuery'',
        ''serviceManagementVirtual'', ''serviceManagement'', ''subscriberList'', ''serviceDetail'', ''namespace'',
        ''clusterManagementVirtual'', ''clusterManagement'', ''authorityControl'', ''userList'',
        ''roleManagement'', ''privilegeManagement'', ''consoleClosed'', ''settingCenter'']),
     (''Password'',
       [''passwordNotConsistent'', ''passwordRequired'', ''pleaseInputOldPassword'', ''pleaseInputNewPassword'',
        ''pleaseInputNewPasswordAgain'', ''oldPassword'', ''newPassword'', ''checkPassword'', ''changePassword'',
        ''invalidPassword'', ''modifyPasswordFailed'']),
     (''NameSpace'',
       [''public_tips'', ''namespace'', ''prompt'', ''namespaceDetails'', ''namespaceName'', ''namespaceID'',
        ''configuration'', ''description'', ''removeNamespace'', ''confirmDelete'', ''configurationManagement'',
        ''removeSuccess'', ''deletedSuccessfully'', ''deletedFailure'', ''namespaceDelete'', ''details'', ''edit'',
        ''namespacePublic'', ''pubNoData'', ''namespaceAdd'', ''namespaceNames'', ''namespaceNumber'',
        ''namespaceOperation'', ''refresh''])]"

definition zh_CN_services :: dictionary where
  "zh_CN_services =
    [(''ServiceList'',
       [''serviceList'', ''serviceName'', ''serviceNamePlaceholder'', ''hiddenEmptyService'', ''query'',
        ''pubNoData'', ''columnServiceName'', ''groupName'', ''groupNamePlaceholder'', ''columnClusterCount'',
        ''columnIpCount'', ''columnHealthyInstanceCount'', ''columnTriggerFlag'', ''operation'', ''detail'',
        ''sampleCode'', ''deleteAction'', ''prompt'', ''promptDelete'', ''create'', ''subscriber'']),
     (''SubscriberList'',
       [''subscriberList'', ''serviceName'', ''serviceNamePlaceholder'', ''groupName'', ''groupNamePlaceholder'',
        ''query'', ''pubNoData'', ''address'', ''clientVersion'', ''appName'', ''searchServiceNamePrompt'']),
     (''ClusterNodeList'',
       [''clusterNodeList'', ''nodeIp'', ''nodeIpPlaceholder'', ''query'', ''pubNoData'', ''nodeState'',
        ''extendInfo'', ''operation'', ''leave'', ''leaveSucc'', ''leaveFail'', ''leavePrompt'', ''confirm'',
        ''confirmTxt'']),
     (''EditClusterDialog'',
       [''updateCluster'', ''checkType'', ''checkPort'', ''useIpPortCheck'', ''checkPath'', ''checkHeaders'',
        ''metadata'']),
     (''ServiceDetail'',
       [''serviceDetails'', ''back'', ''editCluster'', ''cluster'', ''metadata'', ''selector'', ''type'',
        ''groupName'', ''protectThreshold'', ''serviceName'', ''editService'', ''InstanceFilter'']),
     (''EditServiceDialog'',
       [''createService'', ''updateService'', ''serviceName'', ''metadata'', ''groupName'', ''type'',
        ''typeLabel'', ''typeNone'', ''selector'', ''protectThreshold'', ''serviceNameRequired'',
        ''protectThresholdRequired'']),
     (''InstanceFilter'',
       [''title'', ''addFilter'', ''clear'']),
     (''InstanceTable'',
       [''operation'', ''port'', ''weight'', ''healthy'', ''metadata'', ''editor'', ''offline'', ''online'',
        ''ephemeral'']),
     (''EditInstanceDialog'',
       [''port'', ''weight'', ''metadata'', ''updateInstance'', ''whetherOnline''])]"

definition zh_CN_listening_history :: dictionary where
  "zh_CN_listening_history =
    [(''ListeningToQuery'',
       [''success'', ''failure'', ''configuration'', ''pubNoData'', ''listenerQuery'', ''queryDimension'',
        ''pleaseEnterTheDataId'', ''dataIdCanNotBeEmpty'', ''pleaseInputGroup'', ''groupCanNotBeEmpty'',
        ''pleaseInputIp'', ''query'', ''articleMeetRequirements'']),
     (''HistoryRollback'',
       [''details'', ''rollback'', ''pubNoData'', ''toConfigure'', ''dataId'', ''dataIdCanNotBeEmpty'', ''group'',
        ''groupCanNotBeEmpty'', ''query'', ''articleMeetRequirements'', ''lastUpdateTime'', ''operator'',
        ''operation'', ''compare'', ''historyCompareTitle'', ''historyCompareLastVersion'',
        ''historyCompareSelectedVersion'']),
     (''HistoryDetail'',
       [''historyDetails'', ''update'', ''insert'', ''deleteAction'', ''recipientFrom'', ''moreAdvancedOptions'',
        ''home'', ''actionType'', ''configureContent'', ''operator'', ''sourceIp'', ''back'', ''namespace'']),
     (''DashboardCard'',
       [''importantReminder0'', ''viewDetails1''])]"

definition zh_CN_configurations :: dictionary where
  "zh_CN_configurations =
    [(''ConfigurationManagement'',
       [''exportBtn'', ''questionnaire2'', ''ad'', ''noLongerDisplay4'', ''createConfiguration'',
        ''removeConfiguration'', ''sureDelete'', ''environment'', ''configurationManagement'', ''details'',
        ''sampleCode'', ''edit'', ''deleteAction'', ''more'', ''version'', ''listenerQuery'', ''failedEntry'',
        ''successfulEntry'', ''unprocessedEntry'', ''pubNoData'', ''configurationManagement8'', ''queryResults'',
        ''articleMeetRequirements'', ''fuzzydMode'', ''fuzzyd'', ''defaultFuzzyd'', ''fuzzyg'', ''defaultFuzzyg'',
        ''query'', ''advancedQuery9'', ''app1'', ''tags'', ''pleaseEnterTag'', ''configDetailLabel'',
        ''configDetailH'', ''application'', ''operation'', ''export'', ''newExport'', ''import'', ''uploadBtn'',
        ''importSucc'', ''importAbort'', ''importSuccBegin'', ''importSuccEnd'', ''importFail'', ''importFail403'',
        ''importDataValidationError'', ''metadataIllegal'', ''namespaceNotExist'', ''abortImport'', ''skipImport'',
        ''overwriteImport'', ''importRemind'', ''samePreparation'', ''targetNamespace'', ''conflictConfig'',
        ''importSuccEntries'', ''failureEntries'', ''unprocessedEntries'', ''unrecognizedEntries'',
        ''skippedEntries'', ''exportSelected'', ''newExportSelected'', ''clone'', ''exportSelectedAlertTitle'',
        ''exportSelectedAlertContent'', ''cloneSucc'', ''cloneAbort'', ''cloneSuccBegin'', ''cloneSuccEntries'',
        ''cloneSuccEnd'', ''cloneFail'', ''getNamespaceFailed'', ''getNamespace403'', ''startCloning'',
        ''cloningConfiguration'', ''source'', ''configurationNumber'', ''target'', ''selectNamespace'',
        ''selectedEntry'', ''cloneSelectedAlertTitle'', ''cloneSelectedAlertContent'', ''delSelectedAlertTitle'',
        ''delSelectedAlertContent'', ''delSuccessMsg'', ''cloneEditableTitle'', ''authFail'', ''copyNamespaceID''])]"

definition zh_CN_editing :: dictionary where
  "zh_CN_editing =
    [(''NewConfig'',
       [''newListingMain'', ''newListing'', ''publishFailed'', ''publishFailed403'', ''doNotEnter'', ''newConfig'',
        ''dataIdIsNotEmpty'', ''groupPlaceholder'', ''moreAdvanced'', ''groupNotEmpty'', ''annotation'',
        ''dataIdLength'', ''collapse'', ''tags'', ''pleaseEnterTag'', ''groupIdCannotBeLonger'', ''description'',
        ''targetEnvironment'', ''configurationFormat'', ''configureContentsOf'', ''fullScreen'', ''escExit'',
        ''release'', ''confirmSyanx'', ''dataIdExists'', ''dataRequired'', ''namespace'']),
     (''CloneDialog'',
       [''terminate'', ''skip'', ''cover'', ''getNamespaceFailed'', ''selectedEntry'', ''homeApplication'',
        ''tags'', ''startCloning'', ''source'', ''configurationNumber'', ''target'', ''conflict'',
        ''selectNamespace'', ''configurationCloning'']),
     (''DeleteDialog'',
       [''confManagement'', ''determine'', ''deletetitle'', ''deletedSuccessfully'', ''deleteFailed'']),
     (''DiffEditorDialog'',
       [''publish'', ''back'']),
     (''ConfigEditor'',
       [''official'', ''production'', ''beta'', ''wrong'', ''submitFailed'', ''toedittitle'', ''toedit'',
        ''newConfigEditor'', ''vdchart'', ''recipientFrom'', ''homeApplication'', ''collapse'', ''groupNotEmpty'',
        ''tags'', ''pleaseEnterTag'', ''targetEnvironment'', ''description'', ''format'', ''configcontent'',
        ''escExit'', ''releaseBeta'', ''release'', ''stopPublishBeta'', ''betaPublish'', ''betaSwitchPrompt'',
        ''publish'', ''back'', ''codeValErrorPrompt'', ''dialogTitle'', ''dialogCurrentArea'',
        ''dialogOriginalArea'', ''publishFailed403'', ''publishCasFailed'', ''namespace''])]"

definition zh_CN_exchange :: dictionary where
  "zh_CN_exchange =
    [(''EditorNameSpace'',
       [''notice'', ''pleaseDo'', ''publicSpace'', ''confirmModify'', ''editNamespace'', ''load'', ''namespace'',
        ''namespaceDesc'', ''description'']),
     (''ExportDialog'',
       [''selectedEntry'', ''application'', ''tags'', ''exportBtn'', ''exportConfiguration'', ''source'',
        ''items'']),
     (''ImportDialog'',
       [''terminate'', ''skip'', ''overwrite'', ''zipFileFormat'', ''uploadFile'', ''importLabel'', ''target'',
        ''conflict'', ''beSureExerciseCaution'']),
     (''ShowCodeing'',
       [''sampleCode'', ''loading'']),
     (''SuccessDialog'',
       [''title'', ''determine'', ''failure'']),
     (''ConfigSync'',
       [''error'', ''syncConfigurationMain'', ''syncConfiguration'', ''advancedOptions'', ''collapse'', ''home'',
        ''region'', ''configuration'', ''target'', ''sync'', ''back'']),
     (''NewNameSpace'',
       [''norepeat'', ''notice'', ''input'', ''ok'', ''cancel'', ''newnamespce'', ''loading'', ''name'',
        ''namespaceId'', ''namespaceIdTooLong'', ''namespacenotnull'', ''namespacedescnotnull'', ''description'',
        ''namespaceIdAlreadyExist'', ''newnamespceFailedMessage'']),
     (''NameSpaceList'',
       [''notice'']),
     (''ConfigDetail'',
       [''official'', ''error'', ''configurationDetails'', ''collapse'', ''more'', ''home'', ''tags'',
        ''description'', ''betaRelease'', ''configuration'', ''back'', ''versionComparison'',
        ''dialogCurrentArea'', ''dialogOriginalArea'', ''configComparison'', ''dialogCurrentConfig'',
        ''dialogComparedConfig'', ''configComparisonTitle'', ''dataIdInput'', ''groupInput'', ''namespaceSelect'',
        ''configNotFind'', ''namespace'']),
     (''ConfigRollback'',
       [''rollBack'', ''determine'', ''followingConfiguration'', ''configurationRollback'', ''collapse'', ''more'',
        ''home'', ''actionType'', ''configuration'', ''back'', ''rollbackSuccessful'', ''rollbackDelete'',
        ''update'', ''insert'', ''additionalRollbackMessage'', ''namespace''])]"

definition zh_CN_authority :: dictionary where
  "zh_CN_authority =
    [(''UserManagement'',
       [''userManagement'', ''createUser'', ''resetPassword'', ''deleteUser'', ''deleteUserTip'', ''username'',
        ''password'', ''operation'', ''refresh'', ''query'', ''fuzzydMode'', ''defaultFuzzyd'', ''fuzzyd'']),
     (''NewUser'',
       [''createUser'', ''username'', ''password'', ''rePassword'', ''usernamePlaceholder'',
        ''passwordPlaceholder'', ''rePasswordPlaceholder'', ''usernameError'', ''passwordError'',
        ''rePasswordError'', ''rePasswordError2'']),
     (''PasswordReset'',
       [''resetPassword'', ''username'', ''password'', ''rePassword'', ''passwordError'', ''passwordPlaceholder'',
        ''rePasswordPlaceholder'', ''rePasswordError'', ''rePasswordError2'']),
     (''RolesManagement'',
       [''roleManagement'', ''bindingRoles'', ''role'', ''username'', ''operation'', ''deleteRole'',
        ''deleteRoleTip'', ''refresh'', ''fuzzydMode'', ''defaultFuzzyd'', ''fuzzyd'', ''query'']),
     (''NewRole'',
       [''bindingRoles'', ''username'', ''role'', ''usernamePlaceholder'', ''rolePlaceholder'', ''usernameError'',
        ''roleError'']),
     (''PermissionsManagement'',
       [''privilegeManagement'', ''addPermission'', ''role'', ''resource'', ''action'', ''operation'',
        ''deletePermission'', ''deletePermissionTip'', ''readOnly'', ''writeOnly'', ''readWrite'', ''refresh'',
        ''fuzzydMode'', ''defaultFuzzyd'', ''fuzzyd'', ''query'']),
     (''NewPermissions'',
       [''addPermission'', ''role'', ''resource'', ''action'', ''resourcePlaceholder'', ''rolePlaceholder'',
        ''actionPlaceholder'', ''resourceError'', ''roleError'', ''actionError'', ''readOnly'', ''writeOnly'',
        ''readWrite'']),
     (''Components'',
       [''copySuccessfully'']),
     (''SettingCenter'',
       [''settingTitle'', ''settingTheme'', ''settingLight'', ''settingDark'', ''settingLocale'',
        ''settingSubmit''])]"

definition zh_CN :: dictionary where
  "zh_CN = zh_CN_frame @ zh_CN_services @ zh_CN_listening_history @ zh_CN_configurations
    @ zh_CN_editing @ zh_CN_exchange @ zh_CN_authority"

lemmas zh_CN_parts =
  zh_CN_frame_def zh_CN_services_def zh_CN_listening_history_def
  zh_CN_configurations_def zh_CN_editing_def zh_CN_exchange_def zh_CN_authority_def

lemmas zh_CN_all = zh_CN_def [unfolded zh_CN_parts append.simps]

definition texts :: "dictionary \<Rightarrow> string \<Rightarrow> string list" where
  "texts d s = (case map_of d s of None \<Rightarrow> [] | Some ks \<Rightarrow> ks)"

definition dictionary_of :: "string \<Rightarrow> dictionary" where
  "dictionary_of language = (if language = ''zh-CN'' then zh_CN else en_US)"

text \<open>The value that the store hands out: the dictionary over that of the component library, \<open>lib\<close>; \<open>w\<close> says
  how its texts are worded.\<close>

definition locale_value :: "slice \<Rightarrow> (string \<Rightarrow> string \<Rightarrow> string) \<Rightarrow> dictionary \<Rightarrow> jsval" where
  "locale_value lib w d = Obj (assign lib (map (\<lambda>(s, ks). (s, Obj (map (\<lambda>k. (k, Str (w s k))) ks))) d))"

section \<open>What the pages ask for\<close>

text \<open>\<open>f\<close> asks only for the names \<open>ks\<close> when it does not see how the others are worded.\<close>

definition asks :: "string list \<Rightarrow> ((string \<Rightarrow> string) \<Rightarrow> 'a) \<Rightarrow> bool" where
  "asks ks f \<longleftrightarrow> (\<forall>tx tx'. (\<forall>k \<in> set ks. tx k = tx' k) \<longrightarrow> f tx = f tx')"

text \<open>In every language \<open>f\<close> finds in section \<open>s\<close> what it asks for.\<close>

definition worded :: "string \<Rightarrow> ((string \<Rightarrow> string) \<Rightarrow> 'a) \<Rightarrow> bool" where
  "worded s f \<longleftrightarrow> (\<forall>language. asks (texts (dictionary_of language) s) f)"

text \<open>The names that the menu and the handlers of the pages ask for, section by section.\<close>

definition asked :: dictionary where
  "asked =
    [(''MainLayout'',
       [''configurationManagementVirtual'', ''configurationManagement'', ''historyRollback'', ''listeningToQuery'',
       ''serviceManagementVirtual'', ''serviceManagement'', ''subscriberList'', ''authorityControl'', ''userList'',
       ''roleManagement'', ''privilegeManagement'', ''namespace'', ''clusterManagementVirtual'',
       ''clusterManagement'', ''settingCenter'']),
     (''NewUser'',
       [''usernameError'', ''passwordError'', ''rePasswordError'', ''rePasswordError2'']),
     (''PasswordReset'',
       [''passwordError'', ''rePasswordError'', ''rePasswordError2'']),
     (''NewRole'',
       [''roleError'', ''usernameError'']),
     (''NewPermissions'',
       [''roleError'', ''resourceError'', ''actionError'']),
     (''UserManagement'',
       [''deleteUser'', ''deleteUserTip'']),
     (''RolesManagement'',
       [''deleteRole'', ''deleteRoleTip'']),
     (''PermissionsManagement'',
       [''deletePermission'', ''deletePermissionTip'', ''readOnly'', ''writeOnly'', ''readWrite'']),
     (''CloneDialog'',
       [''terminate'', ''skip'', ''cover'', ''getNamespaceFailed'', ''selectedEntry'', ''tags'', ''homeApplication'']),
     (''ImportDialog'',
       [''terminate'', ''skip'', ''overwrite'']),
     (''ExportDialog'',
       [''selectedEntry'', ''tags'', ''application'']),
     (''ClusterNodeList'',
       [''confirm'', ''leaveSucc'', ''leavePrompt'', ''leaveFail'']),
     (''ConfigDetail'',
       [''official'', ''error'', ''configNotFind'']),
     (''ConfigEditor'',
       [''recipientFrom'', ''homeApplication'', ''submitFailed'', ''publishFailed403'', ''publishCasFailed'',
       ''codeValErrorPrompt'', ''stopPublishBeta'', ''betaPublish'', ''newConfigEditor'', ''toedit'', ''official'',
       ''vdchart'', ''toedittitle'']),
     (''HistoryRollback'',
       [''dataIdCanNotBeEmpty'', ''groupCanNotBeEmpty'']),
     (''HistoryDetail'',
       [''update'', ''insert'', ''deleteAction'']),
     (''ConfigRollback'',
       [''rollBack'', ''determine'', ''followingConfiguration'', ''additionalRollbackMessage'',
       ''rollbackSuccessful'', ''update'', ''insert'']),
     (''ConfigurationManagement'',
       [''authFail'', ''getNamespace403'', ''removeConfiguration'', ''configurationManagement'',
       ''exportSelectedAlertTitle'', ''exportSelectedAlertContent'', ''delSelectedAlertTitle'',
       ''delSelectedAlertContent'', ''delSuccessMsg'', ''cloneSelectedAlertTitle'', ''cloneSelectedAlertContent'',
       ''getNamespaceFailed'', ''cloningConfiguration'', ''importAbort'', ''cloneAbort'', ''importSucc'',
       ''cloneSucc'', ''importSuccEntries'', ''cloneSuccEntries'', ''importSuccBegin'', ''cloneSuccBegin'',
       ''importSuccEnd'', ''cloneSuccEnd'', ''importFail'', ''importFail403'', ''importDataValidationError'',
       ''metadataIllegal'', ''namespaceNotExist'', ''copyNamespaceID'', ''queryResults'',
       ''articleMeetRequirements'']),
     (''ConfigSync'',
       [''error'']),
     (''SuccessDialog'',
       [''failure'']),
     (''DeleteDialog'',
       [''deletedSuccessfully'', ''deleteFailed'']),
     (''NameSpace'',
       [''prompt'', ''namespaceDetails'', ''removeNamespace'', ''confirmDelete'', ''deletedFailure'',
       ''namespacePublic'', ''namespace'']),
     (''NewNameSpace'',
       [''notice'', ''namespaceIdAlreadyExist'', ''newnamespceFailedMessage'', ''namespaceIdTooLong'', ''input'']),
     (''EditorNameSpace'',
       [''notice'']),
     (''NewConfig'',
       [''doNotEnter'', ''dataRequired'', ''confirmSyanx'', ''dataIdExists'', ''publishFailed403'',
       ''newListingMain'', ''newListing'', ''publishFailed'']),
     (''Components'',
       [''copySuccessfully''])]"

lemma member_Nil: "list_all (\<lambda>k. k \<in> set ls) []"
  by simp

lemma member_Cons: "k \<in> set ls \<Longrightarrow> list_all (\<lambda>k. k \<in> set ls) ks \<Longrightarrow> list_all (\<lambda>k. k \<in> set ls) (k # ks)"
  by simp

definition covered :: "dictionary \<Rightarrow> dictionary \<Rightarrow> bool" where
  "covered d a \<longleftrightarrow> list_all (\<lambda>(s, ks). \<exists>ls. (s, ls) \<in> set d \<and> list_all (\<lambda>k. k \<in> set ls) ks) a"

lemma covered_Nil: "covered d []"
  by (simp add: covered_def)

lemma covered_Cons:
  "(s, ls) \<in> set d \<Longrightarrow> list_all (\<lambda>k. k \<in> set ls) ks \<Longrightarrow> covered d a \<Longrightarrow> covered d ((s, ks) # a)"
  by (auto simp: covered_def)

text \<open>Found by resolution: a name is looked for along its section, without a comparison of strings.\<close>

lemmas find_words = covered_Nil covered_Cons member_Nil member_Cons list.set_intros

lemma covered_en: "covered en_US asked"
  unfolding en_US_all asked_def by (rule find_words)+

lemma covered_zh: "covered zh_CN asked"
  unfolding zh_CN_all asked_def by (rule find_words)+

lemma sections_en: "distinct (map fst en_US)"
  by (simp add: en_US_all)

lemma same_sections: "map fst zh_CN = map fst en_US"
  by (simp add: en_US_all zh_CN_all)

lemma texts_member: "distinct (map fst d) \<Longrightarrow> (s, ks) \<in> set d \<Longrightarrow> texts d s = ks"
  by (simp add: texts_def)

lemma sections_of: "distinct (map fst (dictionary_of language))"
  using sections_en same_sections by (simp add: dictionary_of_def)

lemma covered_of: "covered (dictionary_of language) asked"
  using covered_en covered_zh by (simp add: dictionary_of_def)

lemma asked_there:
  assumes "(s, ks) \<in> set asked"
  shows "set ks \<subseteq> set (texts (dictionary_of language) s)"
proof -
  obtain ls where "(s, ls) \<in> set (dictionary_of language)" "set ks \<subseteq> set ls"
    using covered_of [of language] assms by (fastforce simp: covered_def list_all_iff)
  then show ?thesis using texts_member [OF sections_of] by blast
qed








lemma unnamed:
  "''importFailMsg'' \<notin> set (texts (dictionary_of language) ''ConfigurationManagement'')"
  "''cloneFailMsg'' \<notin> set (texts (dictionary_of language) ''ConfigurationManagement'')"
  "''deleteAction'' \<notin> set (texts (dictionary_of language) ''ConfigRollback'')"
  by (simp_all add: dictionary_of_def texts_def en_US_all zh_CN_all)

text \<open>Two windows have no section, and so no text at all.\<close>

lemma windows_without_section:
  "texts (dictionary_of language) ''ConfigCompare'' = []"
  "texts (dictionary_of language) ''ShowServiceCodeing'' = []"
  by (simp_all add: dictionary_of_def texts_def en_US_all zh_CN_all)

lemma asks_name: "asks ks (\<lambda>tx. tx k) \<longleftrightarrow> k \<in> set ks"
proof
  assume a: "asks ks (\<lambda>tx. tx k)"
  have "(\<lambda>_. []) k = (\<lambda>j. if j = k then ''x'' else []) k" if "k \<notin> set ks"
    by (rule a [unfolded asks_def, rule_format]) (use that in auto)
  then show "k \<in> set ks" by auto
qed (simp add: asks_def)

lemma worded_name: "worded s (\<lambda>tx. tx k) \<longleftrightarrow> (\<forall>language. k \<in> set (texts (dictionary_of language) s))"
  by (simp add: worded_def asks_name)

lemma named: "worded s (\<lambda>tx. tx k)" if "(s, ks) \<in> set asked" and "k \<in> set ks"
  using asked_there that by (auto simp: worded_name)

lemma worded_const: "worded s (\<lambda>tx. c)"
  by (simp add: worded_def asks_def)

lemma worded_Some: "worded s (\<lambda>tx. Some (f tx)) \<longleftrightarrow> worded s f"
  by (simp add: worded_def asks_def)

lemma worded_if: "worded s (\<lambda>tx. if b then f tx else g tx) \<longleftrightarrow> (if b then worded s f else worded s g)"
  by simp

lemma known_reasons:
  "worded ''ConfigurationManagement'' (\<lambda>tx. tx ''importDataValidationError'')"
  "worded ''ConfigurationManagement'' (\<lambda>tx. tx ''metadataIllegal'')"
  "worded ''ConfigurationManagement'' (\<lambda>tx. tx ''namespaceNotExist'')"
  "worded ''ConfigRollback'' (\<lambda>tx. tx ''update'')"
  "worded ''ConfigRollback'' (\<lambda>tx. tx ''insert'')"
  by (rule named [unfolded asked_def], (rule list.set_intros)+)+

text \<open>C28. What has no text, in any language: the reason of an import or a clone that failed for another reason
  than the five the page knows, and the kind of a deletion on the page of a rollback.\<close>

theorem missing_texts:
  "(worded ''ConfigurationManagement'' (\<lambda>tx. failure_text tx isImport code) \<longleftrightarrow>
     code \<in> {Num 100001, Num 100002, Num 100003, Num 100004, Num 100005}) \<and>
   (worded ''ConfigRollback'' (\<lambda>tx. getOpType tx t) \<longleftrightarrow> t \<noteq> ''D'')"
proof
  show "worded ''ConfigurationManagement'' (\<lambda>tx. failure_text tx isImport code) \<longleftrightarrow>
     code \<in> {Num 100001, Num 100002, Num 100003, Num 100004, Num 100005}"
    using known_reasons unnamed by (simp add: failure_text_def worded_if worded_name)
  show "worded ''ConfigRollback'' (\<lambda>tx. getOpType tx t) \<longleftrightarrow> t \<noteq> ''D''"
    using known_reasons unnamed
    by (simp add: getOpType_def map_of_Cons_code worded_if worded_const worded_Some worded_name)
qed

section \<open>The menu\<close>

definition menu_names :: "browser \<Rightarrow> jsval \<Rightarrow> string list" where
  "menu_names b model = concat (map (\<lambda>m. m_key m #
     (case m_children m of None \<Rightarrow> [] | Some cs \<Rightarrow> map fst cs)) (getMenuData b model))"

lemma menu_named: "set (menu_names b model) \<subseteq> set (texts (dictionary_of language) ''MainLayout'')"
proof -
  have "(''MainLayout'', snd (hd asked)) \<in> set asked" by (simp add: asked_def)
  moreover have "set (menu_names b model) \<subseteq> set (snd (hd asked))"
    by (auto simp: menu_names_def getMenuData_def menu_defs asked_def split: if_splits)
  ultimately show ?thesis using asked_there by blast
qed

lemma locale_text:
  assumes "distinct (map fst d)" and "k \<in> set (texts d s)"
  shows "field (field (locale_value lib w d) s) k = Str (w s k)"
proof -
  obtain ks where "map_of d s = Some ks" "k \<in> set ks"
    using assms(2) by (cases "map_of d s") (auto simp: texts_def)
  then have "map_of (map (\<lambda>(s, ks). (s, Obj (map (\<lambda>k. (k, Str (w s k))) ks))) d) s =
      Some (Obj (map (\<lambda>k. (k, Str (w s k))) ks))"
    by (induction d) auto
  moreover have "map_of (map (\<lambda>k. (k, Str (w s k))) ks) k = Some (Str (w s k))"
    using \<open>k \<in> set ks\<close> by (simp add: map_of_map_restrict)
  ultimately show ?thesis
    using assms(1) by (simp add: locale_value_def field_def map_of_assign map_of_rev comp_def case_prod_beta)
qed

lemma language_chosen:
  "\<exists>l. field (Obj (sl_locale (app_store (run (map (changeLanguage (loc ''en-US'') (loc ''zh-CN'')) langs)
      (state_of (App_componentDidMount (loc ''en-US'') (loc ''zh-CN'') a)))))) ''locale'' = loc l"
proof (induction langs rule: rev_induct)
  case Nil
  then show ?case by (auto simp: App_state Let_def changeTheme_spec changeLanguage_spec(3) field_assign simp del: field_Obj assign_Cons)
next
  case (snoc l langs)
  show ?case by (auto simp: run_append changeLanguage_spec(3) field_assign simp del: field_Obj assign_Cons)
qed

text \<open>After the start of the application and any number of changes of the language, the dictionary in the
  store has a text for every entry of the menu, whatever the browser has stored, whoever is logged in
  and whichever parts of the server are running.\<close>

theorem menu_is_worded:
  "let loc = (\<lambda>l. locale_value lib (w l) (dictionary_of l));
       s = run (map (changeLanguage (loc ''en-US'') (loc ''zh-CN'')) langs)
         (state_of (App_componentDidMount (loc ''en-US'') (loc ''zh-CN'') a))
   in set (menu_names b model) \<subseteq>
     {k. \<exists>t. field (field (field (Obj (sl_locale (app_store s))) ''locale'') ''MainLayout'') k = Str t}"
proof -
  let ?loc = "\<lambda>l. locale_value lib (w l) (dictionary_of l)"
  obtain l where "field (Obj (sl_locale (app_store (run (map (changeLanguage (?loc ''en-US'') (?loc ''zh-CN'')) langs)
      (state_of (App_componentDidMount (?loc ''en-US'') (?loc ''zh-CN'') a)))))) ''locale'' = ?loc l"
    using language_chosen [of ?loc] by blast
  then show ?thesis
    using menu_named locale_text [OF sections_of] by (fastforce simp: Let_def simp del: field_Obj)
qed

section \<open>The two languages\<close>













end
