(* ===== verification/Small_Components.thy ===== *)
theory Small_Components
  imports Dictionary
begin

text \<open>
  Small components that show what they are given: \<open>Copy\<close>, \<open>PageTitle\<close> and \<open>QueryResult\<close> under
  \<open>src/console-ui/src/components\<close>, and the card of the dashboard beside the list of configurations, which
  no page shows.  \<open>loc\<close> is the dictionary in the store.
\<close>

section \<open>Copying a text\<close>

text \<open>The document: the text areas in front of its body, what is selected, and the clipboard.\<close>

record document =
  d_areas :: "string list"
  d_selected :: "string option"
  d_clipboard :: "string option"

text \<open>What the browser does with the command: it copies, refuses (a promise that is rejected, or the value
  \<open>false\<close>), or raises.\<close>

datatype copying = Copied | Refused | Raised

definition copied :: "copying \<Rightarrow> string \<Rightarrow> document \<Rightarrow> document" where
  "copied r v d = (if r = Copied then d\<lparr>d_clipboard := Some v\<rparr> else d)"

text \<open>\<open>secure\<close>: the page has a clipboard of its own.  Otherwise a text area out of sight is filled, selected
  and removed again, whatever the command did.\<close>

definition copyText :: "bool \<Rightarrow> copying \<Rightarrow> jsval \<Rightarrow> string \<Rightarrow> document stmt" where
  "copyText secure r loc v = block
     [(if secure then modify (copied r v)
       else block
         [modify (\<lambda>d. d\<lparr>d_areas := v # d_areas d\<rparr>),
          modify (\<lambda>d. d\<lparr>d_selected := Some (hd (d_areas d))\<rparr>),
          modify (\<lambda>d. copied r (or_empty (d_selected d)) d),
          modify (\<lambda>d. d\<lparr>d_areas := tl (d_areas d), d_selected := None\<rparr>)]),
      need_object (field loc ''Components'')
        (emit (\<lambda>_. MsgSuccess (to_str (field (field loc ''Components'') ''copySuccessfully''))))]"

text \<open>A click of the text copies only where there is no icon.\<close>

definition copy_click :: "bool \<Rightarrow> bool \<Rightarrow> copying \<Rightarrow> jsval \<Rightarrow> string \<Rightarrow> document stmt" where
  "copy_click showIcon secure r loc v = (if showIcon then skip else copyText secure r loc v)"

section \<open>Titles and results\<close>

datatype namespace_view = Hidden | Plain jsval | Copyable jsval jsval jsval jsval

text \<open>\<open>Copyable\<close> has the label, the text, the hint and the value of the field.\<close>

definition getNameSpace :: "jsval \<Rightarrow> jsval \<Rightarrow> jsval \<Rightarrow> jsval \<Rightarrow> bool \<Rightarrow> js_error + namespace_view" where
  "getNameSpace loc i name desc nameSpace =
     (if \<not> nameSpace then Inr (Plain i)
      else if field loc ''NameSpace'' \<in> {Undef, Null} \<or> field loc ''ConfigurationManagement'' \<in> {Undef, Null} then Inl TypeError
      else Inr (Copyable (field (field loc ''NameSpace'') ''namespace'') (js_or desc name)
        (field (field loc ''ConfigurationManagement'') ''copyNamespaceID'') i))"

definition page_title :: "jsval \<Rightarrow> jsval \<Rightarrow> jsval \<Rightarrow> jsval \<Rightarrow> jsval \<Rightarrow> bool \<Rightarrow> js_error + jsval \<times> namespace_view" where
  "page_title loc title i name desc nameSpace = map_sum id (Pair title)
     (if truthy i \<and> i \<noteq> Str ''undefined'' then getNameSpace loc i name desc nameSpace else Inr Hidden)"

definition query_result :: "jsval \<Rightarrow> jsval \<Rightarrow> js_error + jsval \<times> jsval \<times> jsval" where
  "query_result loc n = (let c = field loc ''ConfigurationManagement'' in
     if c \<in> {Undef, Null} then Inl TypeError
     else Inr (field c ''queryResults'', n, field c ''articleMeetRequirements''))"

section \<open>The card of the dashboard\<close>

datatype flag = NoFlag | New | Hot

datatype card = Notice "(jsval \<times> jsval) list" | Content jsval "(jsval \<times> jsval \<times> flag) list"

definition flag_of :: "jsval \<Rightarrow> flag" where
  "flag_of tag = (if tag = Str ''new'' then New else if tag = Str ''hot'' then Hot else NoFlag)"

text \<open>A notice has its titles with their addresses, any other card a list of entries, if it has one.\<close>

definition dashboard_card :: "jsval \<Rightarrow> js_error + card" where
  "dashboard_card data0 = (let data = with_default data0 (Obj []) in
     if data = Null then Inl TypeError
     else if field data ''modeType'' = Str ''notice''
     then (case field data ''modeList'' of
         Arr items \<Rightarrow> if set items \<inter> {Undef, Null} \<noteq> {} then Inl TypeError
           else Inr (Notice (map (\<lambda>i. (field i ''title'', field i ''url'')) items))
       | _ \<Rightarrow> Inl TypeError)
     else (case field data ''modeList'' of
         Arr items \<Rightarrow> if set items \<inter> {Undef, Null} \<noteq> {} then Inl TypeError
           else Inr (Content (field data ''modeName'')
             (map (\<lambda>i. (field i ''title'', field i ''url'', flag_of (field i ''tag''))) items))
       | v \<Rightarrow> if truthy v then Inl TypeError else Inr (Content (field data ''modeName'') [])))"

section \<open>Properties\<close>

lemma console_text:
  "(s, ks) \<in> set asked \<Longrightarrow> k \<in> set ks \<Longrightarrow>
    field (field (locale_value lib w (dictionary_of language)) s) k = Str (w s k)"
  using locale_text [OF sections_of] asked_there by blast

lemma small_texts:
  "field (field (locale_value lib w (dictionary_of l)) ''Components'') ''copySuccessfully'' = Str (w ''Components'' ''copySuccessfully'')"
  "field (field (locale_value lib w (dictionary_of l)) ''NameSpace'') ''namespace'' = Str (w ''NameSpace'' ''namespace'')"
  "field (field (locale_value lib w (dictionary_of l)) ''ConfigurationManagement'') ''copyNamespaceID'' =
     Str (w ''ConfigurationManagement'' ''copyNamespaceID'')"
  "field (field (locale_value lib w (dictionary_of l)) ''ConfigurationManagement'') ''queryResults'' =
     Str (w ''ConfigurationManagement'' ''queryResults'')"
  "field (field (locale_value lib w (dictionary_of l)) ''ConfigurationManagement'') ''articleMeetRequirements'' =
     Str (w ''ConfigurationManagement'' ''articleMeetRequirements'')"
  by (rule console_text [unfolded asked_def], ((rule list.set_intros)+))+

lemma field_there: "field v k = Str t \<Longrightarrow> v \<notin> {Undef, Null}"
  by (auto simp: field_def)

text \<open>In both languages copying says that it succeeded, whatever the browser did; it leaves the document without
  the text area, and the clipboard has the text only if the browser copied it.\<close>

theorem copying_is_reported:
  "copyText secure r (locale_value lib w (dictionary_of l)) v d =
     (d\<lparr>d_clipboard := if r = Copied then Some v else d_clipboard d, d_selected := if secure then d_selected d else None\<rparr>,
      [MsgSuccess (w ''Components'' ''copySuccessfully'')], None)"
  using field_there [OF small_texts(1)]
  by (simp add: copyText_def need_object_def copied_def small_texts stmt_defs)

text \<open>The head line of a page and the number of results find their texts in both languages, and the id
  \<open>undefined\<close>, which an address without a namespace leaves, is not shown.\<close>

theorem titles_are_worded:
  "page_title (locale_value lib w (dictionary_of l)) title i name desc nameSpace \<noteq> Inl e \<and>
   page_title loc title (Str ''undefined'') name desc nameSpace = Inr (title, Hidden) \<and>
   query_result (locale_value lib w (dictionary_of l)) n =
     Inr (Str (w ''ConfigurationManagement'' ''queryResults''), n, Str (w ''ConfigurationManagement'' ''articleMeetRequirements''))"
  using field_there [OF small_texts(2) [of lib w l]] field_there [OF small_texts(3) [of lib w l]]
  by (auto simp: page_title_def getNameSpace_def query_result_def small_texts Let_def simp del: field_Obj)

end
