(* ===== verification/Sample_Code.thy ===== *)
theory Sample_Code
  imports Navigation
begin

text \<open>
  The two windows of sample code, \<open>src/console-ui/src/components/ShowCodeing/\<close>: that of a configuration and
  that of a service.  The texts are lists of lines; the window takes its programs from the row it was
  opened with, after a timer of zero, and shows one in a preview that is there while the window is.
\<close>

section \<open>The texts\<close>

definition text_of_lines :: "string list \<Rightarrow> string" where
  "text_of_lines ls = js_join [CHR 0x0A] ls"

definition tabs :: "nat \<Rightarrow> string \<Rightarrow> string" where
  "tabs n l = replicate n (CHR 0x09) @ l"

definition sprigboot_code :: "string" where
  "sprigboot_code = text_of_lines
    [''// Refer to document: https://github.com/nacos-group/nacos-examples/tree/master/nacos-spring-boot-example/nacos-spring-boot-config-example'',
     ''package com.alibaba.nacos.example.spring.boot.controller;'',
     [],
     ''import org.springframework.beans.factory.annotation.Value;'',
     ''import org.springframework.stereotype.Controller;'',
     ''import org.springframework.web.bind.annotation.RequestMapping;'',
     ''import org.springframework.web.bind.annotation.ResponseBody;'',
     [],
     ''import static org.springframework.web.bind.annotation.RequestMethod.GET;'',
     [],
     ''@Controller'',
     ''@RequestMapping(\"config\")'',
     ''public class ConfigController {'',
     [],
     ''    @Value(\"${useLocalCache:false}\")'',
     ''    private boolean useLocalCache;'',
     [],
     ''    public void setUseLocalCache(boolean useLocalCache) {'',
     ''        this.useLocalCache = useLocalCache;'',
     ''    }'',
     [],
     ''    @RequestMapping(value = \"/get\", method = GET)'',
     ''    @ResponseBody'',
     ''    public boolean get() {'',
     ''        return useLocalCache;'',
     ''    }'',
     ''}'']"

definition sprigcloud_code :: "string" where
  "sprigcloud_code = text_of_lines
    [''// Refer to document:  https://github.com/nacos-group/nacos-examples/tree/master/nacos-spring-cloud-example/nacos-spring-cloud-config-example'',
     ''package com.alibaba.nacos.example.spring.cloud.controller;'',
     [],
     ''import org.springframework.beans.factory.annotation.Value;'',
     ''import org.springframework.cloud.context.config.annotation.RefreshScope;'',
     ''import org.springframework.web.bind.annotation.RequestMapping;'',
     ''import org.springframework.web.bind.annotation.RestController;'',
     [],
     ''@RestController'',
     ''@RequestMapping(\"/config\")'',
     ''@RefreshScope'',
     ''public class ConfigController {'',
     [],
     ''    @Value(\"${useLocalCache:false}\")'',
     ''    private boolean useLocalCache;'',
     [],
     ''    @RequestMapping(\"/get\")'',
     ''    public boolean get() {'',
     ''        return useLocalCache;'',
     ''    }'',
     ''}'']"

definition getJavaCode :: "string \<Rightarrow> string \<Rightarrow> string" where
  "getJavaCode d g = text_of_lines
    [''/*'',
     ''* Demo for Nacos'',
     ''* pom.xml'',
     ''    <dependency>'',
     ''        <groupId>com.alibaba.nacos</groupId>'',
     ''        <artifactId>nacos-client</artifactId>'',
     ''        <version>${version}</version>'',
     ''    </dependency>'',
     ''*/'',
     ''package com.alibaba.nacos.example;'',
     [],
     ''import java.util.Properties;'',
     ''import java.util.concurrent.Executor;'',
     ''import com.alibaba.nacos.api.NacosFactory;'',
     ''import com.alibaba.nacos.api.config.ConfigService;'',
     ''import com.alibaba.nacos.api.config.listener.Listener;'',
     ''import com.alibaba.nacos.api.exception.NacosException;'',
     [],
     ''/**'',
     '' * Config service example'',
     '' *'',
     '' * @author Nacos'',
     '' *'',
     '' */'',
     ''public class ConfigExample {'',
     [],
     tabs 1 ''public static void main(String[] args) throws NacosException, InterruptedException {'',
     tabs 2 ''String serverAddr = \"localhost\";'',
     tabs 2 (''String dataId = \"'' @ d @ ''\";''),
     tabs 2 (''String group = \"'' @ g @ ''\";''),
     tabs 2 ''Properties properties = new Properties();'',
     tabs 2 ''properties.put(PropertyKeyConst.SERVER_ADDR, serverAddr);'',
     tabs 2 ''ConfigService configService = NacosFactory.createConfigService(properties);'',
     tabs 2 ''String content = configService.getConfig(dataId, group, 5000);'',
     tabs 2 ''System.out.println(content);'',
     tabs 2 ''configService.addListener(dataId, group, new Listener() {'',
     tabs 3 ''@Override'',
     tabs 3 ''public void receiveConfigInfo(String configInfo) {'',
     tabs 4 ''System.out.println(\"receive:\" + configInfo);'',
     tabs 3 ''}'',
     [],
     tabs 3 ''@Override'',
     tabs 3 ''public Executor getExecutor() {'',
     tabs 4 ''return null;'',
     tabs 3 ''}'',
     tabs 2 ''});'',
     [],
     tabs 2 ''boolean isPublishOk = configService.publishConfig(dataId, group, \"content\");'',
     tabs 2 ''System.out.println(isPublishOk);'',
     [],
     tabs 2 ''Thread.sleep(3000);'',
     tabs 2 ''content = configService.getConfig(dataId, group, 5000);'',
     tabs 2 ''System.out.println(content);'',
     [],
     tabs 2 ''boolean isRemoveOk = configService.removeConfig(dataId, group);'',
     tabs 2 ''System.out.println(isRemoveOk);'',
     tabs 2 ''Thread.sleep(3000);'',
     [],
     tabs 2 ''content = configService.getConfig(dataId, group, 5000);'',
     tabs 2 ''System.out.println(content);'',
     tabs 2 ''Thread.sleep(300000);'',
     [],
     tabs 1 ''}'',
     ''}'',
     []]"

definition getCSharpCode :: "string \<Rightarrow> string \<Rightarrow> string" where
  "getCSharpCode d g = text_of_lines
    [''/*'',
     ''Demo for Basic Nacos Opreation'',
     ''App.csproj'',
     [],
     ''<ItemGroup>'',
     ''  <PackageReference Include=\"nacos-sdk-csharp\" Version=\"${latest.version}\" />'',
     ''</ItemGroup>'',
     ''*/'',
     [],
     ''using Microsoft.Extensions.DependencyInjection;'',
     ''using Nacos.V2;'',
     ''using Nacos.V2.DependencyInjection;'',
     ''using System;'',
     ''using System.Collections.Generic;'',
     ''using System.Threading.Tasks;'',
     [],
     ''class Program'',
     ''{'',
     ''    static async Task Main(string[] args)'',
     ''    {'',
     ''        string serverAddr = \"http://localhost:8848\";'',
     ''        string dataId = \"'' @ d @ ''\";'',
     ''        string group = \"'' @ g @ ''\";'',
     [],
     ''        IServiceCollection services = new ServiceCollection();'',
     [],
     ''        services.AddNacosV2Config(x =>'',
     ''        {'',
     ''            x.ServerAddresses = new List<string> { serverAddr };'',
     ''            x.Namespace = \"cs-test\";'',
     [],
     ''            // swich to use http or rpc'',
     ''            x.ConfigUseRpc = true;'',
     ''        });'',
     [],
     ''        IServiceProvider serviceProvider = services.BuildServiceProvider();'',
     ''        var configSvc = serviceProvider.GetService<INacosConfigService>();'',
     [],
     ''        var content = await configSvc.GetConfig(dataId, group, 3000);'',
     ''        Console.WriteLine(content);'',
     [],
     ''        var listener = new ConfigListener();'',
     [],
     ''        await configSvc.AddListener(dataId, group, listener);'',
     [],
     ''        var isPublishOk = await configSvc.PublishConfig(dataId, group, \"content\");'',
     ''        Console.WriteLine(isPublishOk);'',
     [],
     ''        await Task.Delay(3000);'',
     ''        content = await configSvc.GetConfig(dataId, group, 5000);'',
     ''        Console.WriteLine(content);'',
     [],
     ''        var isRemoveOk = await configSvc.RemoveConfig(dataId, group);'',
     ''        Console.WriteLine(isRemoveOk);'',
     ''        await Task.Delay(3000);'',
     [],
     ''        content = await configSvc.GetConfig(dataId, group, 5000);'',
     ''        Console.WriteLine(content);'',
     ''        await Task.Delay(300000);'',
     ''    }'',
     [],
     ''    internal class ConfigListener : IListener'',
     ''    {'',
     ''        public void ReceiveConfigInfo(string configInfo)'',
     ''        {'',
     ''            Console.WriteLine(\"receive:\" + configInfo);'',
     ''        }'',
     ''    }'',
     ''}'',
     [],
     ''/*'',
     ''Refer to document:  https://github.com/nacos-group/nacos-sdk-csharp/tree/dev/samples/MsConfigApp'',
     ''Demo for ASP.NET Core Integration'',
     ''MsConfigApp.csproj'',
     [],
     ''<ItemGroup>'',
     ''  <PackageReference Include=\"nacos-sdk-csharp.Extensions.Configuration\" Version=\"${latest.version}\" />'',
     ''</ItemGroup>'',
     ''*/'',
     [],
     ''using Microsoft.AspNetCore.Hosting;'',
     ''using Microsoft.Extensions.Configuration;'',
     ''using Microsoft.Extensions.Hosting;'',
     ''using Serilog;'',
     ''using Serilog.Events;'',
     [],
     ''public class Program'',
     ''{'',
     ''    public static void Main(string[] args)'',
     ''    {'',
     ''        Log.Logger = new LoggerConfiguration()'',
     ''            .Enrich.FromLogContext()'',
     ''            .MinimumLevel.Override(\"Microsoft\", LogEventLevel.Warning)'',
     ''            .MinimumLevel.Override(\"System\", LogEventLevel.Warning)'',
     ''            .MinimumLevel.Debug()'',
     ''            .WriteTo.Console()'',
     ''            .CreateLogger();'',
     [],
     ''        try'',
     ''        {'',
     ''            Log.ForContext<Program>().Information(\"Application starting...\");'',
     ''            CreateHostBuilder(args, Log.Logger).Build().Run();'',
     ''        }'',
     ''        catch (System.Exception ex)'',
     ''        {'',
     ''            Log.ForContext<Program>().Fatal(ex, \"Application start-up failed!!\");'',
     ''        }'',
     ''        finally'',
     ''        {'',
     ''            Log.CloseAndFlush();'',
     ''        }'',
     ''    }'',
     [],
     ''    public static IHostBuilder CreateHostBuilder(string[] args, Serilog.ILogger logger) =>'',
     ''        Host.CreateDefaultBuilder(args)'',
     ''            .ConfigureAppConfiguration((context, builder) =>'',
     ''            {'',
     ''                var c = builder.Build();'',
     ''                builder.AddNacosV2Configuration(c.GetSection(\"NacosConfig\"), logAction: x => x.AddSerilog(logger));'',
     ''            })'',
     ''            .ConfigureWebHostDefaults(webBuilder =>'',
     ''            {'',
     ''                webBuilder.UseStartup<Startup>().UseUrls(\"http://*:8787\");'',
     ''            })'',
     ''            .UseSerilog();'',
     ''}'',
     ''  '']"

definition service_getJavaCode :: "string \<Rightarrow> string" where
  "service_getJavaCode n = text_of_lines
    [''/* Refer to document: https://github.com/alibaba/nacos/blob/master/example/src/main/java/com/alibaba/nacos/example'',
     ''*  pom.xml'',
     ''    <dependency>'',
     ''        <groupId>com.alibaba.nacos</groupId>'',
     ''        <artifactId>nacos-client</artifactId>'',
     ''        <version>${latest.version}</version>'',
     ''    </dependency>'',
     ''*/'',
     ''package com.alibaba.nacos.example;'',
     [],
     ''import java.util.Properties;'',
     [],
     ''import com.alibaba.nacos.api.exception.NacosException;'',
     ''import com.alibaba.nacos.api.naming.NamingFactory;'',
     ''import com.alibaba.nacos.api.naming.NamingService;'',
     ''import com.alibaba.nacos.api.naming.listener.Event;'',
     ''import com.alibaba.nacos.api.naming.listener.EventListener;'',
     ''import com.alibaba.nacos.api.naming.listener.NamingEvent;'',
     [],
     ''/**'',
     '' * @author nkorange'',
     '' */'',
     ''public class NamingExample {'',
     [],
     ''    public static void main(String[] args) throws NacosException {'',
     [],
     ''        Properties properties = new Properties();'',
     ''        properties.setProperty(\"serverAddr\", System.getProperty(\"serverAddr\"));'',
     ''        properties.setProperty(\"namespace\", System.getProperty(\"namespace\"));'',
     [],
     ''        NamingService naming = NamingFactory.createNamingService(properties);'',
     [],
     ''        naming.registerInstance(\"'' @ n @ ''\", \"11.11.11.11\", 8888, \"TEST1\");'',
     [],
     ''        naming.registerInstance(\"'' @ n @ ''\", \"2.2.2.2\", 9999, \"DEFAULT\");'',
     [],
     ''        System.out.println(naming.getAllInstances(\"'' @ n @ ''\"));'',
     [],
     ''        naming.deregisterInstance(\"'' @ n @ ''\", \"2.2.2.2\", 9999, \"DEFAULT\");'',
     [],
     ''        System.out.println(naming.getAllInstances(\"'' @ n @ ''\"));'',
     [],
     ''        naming.subscribe(\"'' @ n @ ''\", new EventListener() {'',
     ''            @Override'',
     ''            public void onEvent(Event event) {'',
     ''                System.out.println(((NamingEvent)event).getServiceName());'',
     ''                System.out.println(((NamingEvent)event).getInstances());'',
     ''            }'',
     ''        });'',
     ''    }'',
     ''}'']"

definition getSpringCode :: "string" where
  "getSpringCode = text_of_lines
    [''/* Refer to document: https://github.com/nacos-group/nacos-examples/tree/master/nacos-spring-example/nacos-spring-discovery-example'',
     ''*  pom.xml'',
     ''    <dependency>'',
     ''        <groupId>com.alibaba.nacos</groupId>'',
     ''        <artifactId>nacos-spring-context</artifactId>'',
     ''        <version>${latest.version}</version>'',
     ''    </dependency>'',
     ''*/'',
     [],
     ''// Refer to document:  https://github.com/nacos-group/nacos-examples/blob/master/nacos-spring-example/nacos-spring-discovery-example/src/main/java/com/alibaba/nacos/example/spring'',
     ''package com.alibaba.nacos.example.spring;'',
     [],
     ''import com.alibaba.nacos.api.annotation.NacosProperties;'',
     ''import com.alibaba.nacos.spring.context.annotation.discovery.EnableNacosDiscovery;'',
     ''import org.springframework.context.annotation.Configuration;'',
     [],
     ''@Configuration'',
     ''@EnableNacosDiscovery(globalProperties = @NacosProperties(serverAddr = \"127.0.0.1:8848\"))'',
     ''public class NacosConfiguration {'',
     [],
     ''}'',
     [],
     ''// Refer to document: https://github.com/nacos-group/nacos-examples/tree/master/nacos-spring-example/nacos-spring-discovery-example/src/main/java/com/alibaba/nacos/example/spring/controller'',
     ''package com.alibaba.nacos.example.spring.controller;'',
     [],
     ''import com.alibaba.nacos.api.annotation.NacosInjected;'',
     ''import com.alibaba.nacos.api.exception.NacosException;'',
     ''import com.alibaba.nacos.api.naming.NamingService;'',
     ''import com.alibaba.nacos.api.naming.pojo.Instance;'',
     ''import org.springframework.stereotype.Controller;'',
     ''import org.springframework.web.bind.annotation.RequestMapping;'',
     ''import org.springframework.web.bind.annotation.RequestParam;'',
     ''import org.springframework.web.bind.annotation.ResponseBody;'',
     [],
     ''import java.util.List;'',
     [],
     ''import static org.springframework.web.bind.annotation.RequestMethod.GET;'',
     [],
     ''@Controller'',
     ''@RequestMapping(\"discovery\")'',
     ''public class DiscoveryController {'',
     [],
     ''    @NacosInjected'',
     ''    private NamingService namingService;'',
     [],
     ''    @RequestMapping(value = \"/get\", method = GET)'',
     ''    @ResponseBody'',
     ''    public List<Instance> get(@RequestParam String serviceName) throws NacosException {'',
     ''        return namingService.getAllInstances(serviceName);'',
     ''    }'',
     ''}'']"

definition getSpringBootCode :: "string" where
  "getSpringBootCode = text_of_lines
    [''/* Refer to document: https://github.com/nacos-group/nacos-examples/blob/master/nacos-spring-boot-example/nacos-spring-boot-discovery-example'',
     ''*  pom.xml'',
     ''    <dependency>'',
     ''       <groupId>com.alibaba.boot</groupId>'',
     ''       <artifactId>nacos-discovery-spring-boot-starter</artifactId>'',
     ''       <version>${latest.version}</version>'',
     ''    </dependency>'',
     ''*/'',
     ''/* Refer to document:  https://github.com/nacos-group/nacos-examples/blob/master/nacos-spring-boot-example/nacos-spring-boot-discovery-example/src/main/resources'',
     ''* application.properties'',
     ''   nacos.discovery.server-addr=127.0.0.1:8848'',
     ''*/'',
     ''// Refer to document: https://github.com/nacos-group/nacos-examples/blob/master/nacos-spring-boot-example/nacos-spring-boot-discovery-example/src/main/java/com/alibaba/nacos/example/spring/boot/controller'',
     [],
     ''package com.alibaba.nacos.example.spring.boot.controller;'',
     [],
     ''import com.alibaba.nacos.api.annotation.NacosInjected;'',
     ''import com.alibaba.nacos.api.exception.NacosException;'',
     ''import com.alibaba.nacos.api.naming.NamingService;'',
     ''import com.alibaba.nacos.api.naming.pojo.Instance;'',
     ''import org.springframework.stereotype.Controller;'',
     ''import org.springframework.web.bind.annotation.RequestMapping;'',
     ''import org.springframework.web.bind.annotation.RequestParam;'',
     ''import org.springframework.web.bind.annotation.ResponseBody;'',
     [],
     ''import java.util.List;'',
     [],
     ''import static org.springframework.web.bind.annotation.RequestMethod.GET;'',
     [],
     ''@Controller'',
     ''@RequestMapping(\"discovery\")'',
     ''public class DiscoveryController {'',
     [],
     ''    @NacosInjected'',
     ''    private NamingService namingService;'',
     [],
     ''    @RequestMapping(value = \"/get\", method = GET)'',
     ''    @ResponseBody'',
     ''    public List<Instance> get(@RequestParam String serviceName) throws NacosException {'',
     ''        return namingService.getAllInstances(serviceName);'',
     ''    }'',
     ''}'']"

definition getSpringCloudCode :: "string \<Rightarrow> string" where
  "getSpringCloudCode n = text_of_lines
    [''/* Refer to document: https://github.com/nacos-group/nacos-examples/blob/master/nacos-spring-cloud-example/nacos-spring-cloud-discovery-example/'',
     ''*  pom.xml'',
     ''    <dependency>'',
     ''       <groupId>org.springframework.cloud</groupId>'',
     ''       <artifactId>spring-cloud-starter-alibaba-nacos-discovery</artifactId>'',
     ''       <version>${latest.version}</version>'',
     ''    </dependency>'',
     ''*/'',
     [],
     ''// nacos-spring-cloud-provider-example'',
     [],
     ''/* Refer to document:  https://github.com/nacos-group/nacos-examples/tree/master/nacos-spring-cloud-example/nacos-spring-cloud-discovery-example/nacos-spring-cloud-provider-example/src/main/resources'',
     ''* application.properties'',
     ''server.port=18080'',
     ''spring.application.name='' @ n,
     ''spring.cloud.nacos.discovery.server-addr=127.0.0.1:8848'',
     ''*/'',
     [],
     ''// Refer to document: https://github.com/nacos-group/nacos-examples/tree/master/nacos-spring-cloud-example/nacos-spring-cloud-discovery-example/nacos-spring-cloud-provider-example/src/main/java/com/alibaba/nacos/example/spring/cloud'',
     ''package com.alibaba.nacos.example.spring.cloud;'',
     [],
     ''import org.springframework.boot.SpringApplication;'',
     ''import org.springframework.boot.autoconfigure.SpringBootApplication;'',
     ''import org.springframework.cloud.client.discovery.EnableDiscoveryClient;'',
     ''import org.springframework.web.bind.annotation.PathVariable;'',
     ''import org.springframework.web.bind.annotation.RequestMapping;'',
     ''import org.springframework.web.bind.annotation.RequestMethod;'',
     ''import org.springframework.web.bind.annotation.RestController;'',
     [],
     ''/**'',
     '' * @author xiaojing'',
     '' */'',
     ''@SpringBootApplication'',
     ''@EnableDiscoveryClient'',
     ''public class NacosProviderApplication {'',
     [],
     ''  public static void main(String[] args) {'',
     ''    SpringApplication.run(NacosProviderApplication.class, args);'',
     ''}'',
     [],
     ''  @RestController'',
     ''  class EchoController {'',
     ''    @RequestMapping(value = \"/echo/{string}\", method = RequestMethod.GET)'',
     ''    public String echo(@PathVariable String string) {'',
     ''      return \"Hello Nacos Discovery \" + string;'',
     ''    }'',
     ''  }'',
     ''}'',
     [],
     ''// nacos-spring-cloud-consumer-example'',
     [],
     ''/* Refer to document: https://github.com/nacos-group/nacos-examples/tree/master/nacos-spring-cloud-example/nacos-spring-cloud-discovery-example/nacos-spring-cloud-consumer-example/src/main/resources'',
     ''* application.properties'',
     ''spring.application.name=micro-service-oauth2'',
     ''spring.cloud.nacos.discovery.server-addr=127.0.0.1:8848'',
     ''*/'',
     [],
     ''// Refer to document: https://github.com/nacos-group/nacos-examples/tree/master/nacos-spring-cloud-example/nacos-spring-cloud-discovery-example/nacos-spring-cloud-consumer-example/src/main/java/com/alibaba/nacos/example/spring/cloud'',
     ''package com.alibaba.nacos.example.spring.cloud;'',
     [],
     ''import org.springframework.beans.factory.annotation.Autowired;'',
     ''import org.springframework.boot.SpringApplication;'',
     ''import org.springframework.boot.autoconfigure.SpringBootApplication;'',
     ''import org.springframework.cloud.client.discovery.EnableDiscoveryClient;'',
     ''import org.springframework.cloud.client.loadbalancer.LoadBalanced;'',
     ''import org.springframework.context.annotation.Bean;'',
     ''import org.springframework.web.bind.annotation.PathVariable;'',
     ''import org.springframework.web.bind.annotation.RequestMapping;'',
     ''import org.springframework.web.bind.annotation.RequestMethod;'',
     ''import org.springframework.web.bind.annotation.RestController;'',
     ''import org.springframework.web.client.RestTemplate;'',
     [],
     ''/**'',
     '' * @author xiaojing'',
     '' */'',
     ''@SpringBootApplication'',
     ''@EnableDiscoveryClient'',
     ''public class NacosConsumerApplication {'',
     [],
     ''    @LoadBalanced'',
     ''    @Bean'',
     ''    public RestTemplate restTemplate() {'',
     ''        return new RestTemplate();'',
     ''    }'',
     [],
     ''    public static void main(String[] args) {'',
     ''        SpringApplication.run(NacosConsumerApplication.class, args);'',
     ''    }'',
     [],
     ''    @RestController'',
     ''    public class TestController {'',
     [],
     ''        private final RestTemplate restTemplate;'',
     [],
     ''        @Autowired'',
     ''        public TestController(RestTemplate restTemplate) {this.restTemplate = restTemplate;}'',
     [],
     ''        @RequestMapping(value = \"/echo/{str}\", method = RequestMethod.GET)'',
     ''        public String echo(@PathVariable String str) {'',
     ''            return restTemplate.getForObject(\"http://service-provider/echo/\" + str, String.class);'',
     ''        }'',
     ''    }'',
     ''}'']"

definition service_getCSharpCode :: "string \<Rightarrow> string" where
  "service_getCSharpCode n = text_of_lines
    [''/* Refer to document: https://github.com/nacos-group/nacos-sdk-csharp/'',
     ''Demo for Basic Nacos Opreation'',
     ''App.csproj'',
     [],
     ''<ItemGroup>'',
     ''  <PackageReference Include=\"nacos-sdk-csharp\" Version=\"${latest.version}\" />'',
     ''</ItemGroup>'',
     ''*/'',
     [],
     ''using Microsoft.Extensions.DependencyInjection;'',
     ''using Nacos.V2;'',
     ''using Nacos.V2.DependencyInjection;'',
     ''using System;'',
     ''using System.Collections.Generic;'',
     ''using System.Threading.Tasks;'',
     [],
     ''class Program'',
     ''{'',
     ''    static async Task Main(string[] args)'',
     ''    {'',
     ''        IServiceCollection services = new ServiceCollection();'',
     [],
     ''        services.AddNacosV2Naming(x =>'',
     ''        {'',
     ''            x.ServerAddresses = new List<string> { \"http://localhost:8848/\" };'',
     ''            x.Namespace = \"cs-test\";'',
     [],
     ''            // swich to use http or rpc'',
     ''            x.NamingUseRpc = true;'',
     ''        });'',
     [],
     ''        IServiceProvider serviceProvider = services.BuildServiceProvider();'',
     ''        var namingSvc = serviceProvider.GetService<INacosNamingService>();'',
     [],
     ''        await namingSvc.RegisterInstance(\"'' @ n @ ''\", \"11.11.11.11\", 8888, \"TEST1\");'',
     [],
     ''        await namingSvc.RegisterInstance(\"'' @ n @ ''\", \"2.2.2.2\", 9999, \"DEFAULT\");'',
     [],
     ''        Console.WriteLine(Newtonsoft.Json.JsonConvert.SerializeObject(await namingSvc.GetAllInstances(\"'' @ n @ ''\")));'',
     [],
     ''        await namingSvc.DeregisterInstance(\"'' @ n @ ''\", \"2.2.2.2\", 9999, \"DEFAULT\");'',
     [],
     ''        var listener = new EventListener();'',
     [],
     ''        await namingSvc.Subscribe(\"'' @ n @ ''\", listener);'',
     ''    }'',
     [],
     ''    internal class EventListener : IEventListener'',
     ''    {'',
     ''        public Task OnEvent(IEvent @event)'',
     ''        {'',
     ''            Console.WriteLine(Newtonsoft.Json.JsonConvert.SerializeObject(@event));'',
     ''            return Task.CompletedTask;'',
     ''        }'',
     ''    }'',
     ''}'',
     [],
     ''/* Refer to document: https://github.com/nacos-group/nacos-sdk-csharp/'',
     ''Demo for ASP.NET Core Integration'',
     ''App.csproj'',
     [],
     ''<ItemGroup>'',
     ''  <PackageReference Include=\"nacos-sdk-csharp.AspNetCore\" Version=\"${latest.version}\" />'',
     ''</ItemGroup>'',
     ''*/'',
     [],
     ''/* Refer to document: https://github.com/nacos-group/nacos-sdk-csharp/blob/dev/samples/App1/appsettings.json'',
     ''*  appsettings.json'',
     ''{'',
     ''  \"nacos\": {'',
     ''    \"ServerAddresses\": [ \"http://localhost:8848\" ],'',
     ''    \"DefaultTimeOut\": 15000,'',
     ''    \"Namespace\": \"cs\",'',
     ''    \"ServiceName\": \"App1\",'',
     ''    \"GroupName\": \"DEFAULT_GROUP\",'',
     ''    \"ClusterName\": \"DEFAULT\",'',
     ''    \"Port\": 0,'',
     ''    \"Weight\": 100,'',
     ''    \"RegisterEnabled\": true,'',
     ''    \"InstanceEnabled\": true,'',
     ''    \"Ephemeral\": true,'',
     ''    \"NamingUseRpc\": true,'',
     ''    \"NamingLoadCacheAtStart\": \"\"'',
     ''  }'',
     ''}'',
     ''*/'',
     [],
     ''// Refer to document: https://github.com/nacos-group/nacos-sdk-csharp/blob/dev/samples/App1/Startup.cs'',
     ''using Nacos.AspNetCore.V2;'',
     [],
     ''public class Startup'',
     ''{'',
     ''    public Startup(IConfiguration configuration)'',
     ''    {'',
     ''        Configuration = configuration;'',
     ''    }'',
     [],
     ''    public IConfiguration Configuration { get; }'',
     [],
     ''    public void ConfigureServices(IServiceCollection services)'',
     ''    {'',
     ''        // ....'',
     ''        services.AddNacosAspNet(Configuration);'',
     ''    }'',
     [],
     ''    public void Configure(IApplicationBuilder app, IWebHostEnvironment env)'',
     ''    {'',
     ''        // ....'',
     ''    }'',
     ''}'',
     ''    '']"

section \<open>The windows\<close>

text \<open>\<open>TODO\<close> stands for the programs that are not written yet.\<close>

definition todo :: string where
  "todo = ''TODO''"

definition text_or_empty :: "jsval \<Rightarrow> string" where
  "text_or_empty v = to_str (js_or v (Str []))"

text \<open>The programs of a configuration and those of a service, by the fields that keep them.\<close>

definition config_codes :: "jsval \<Rightarrow> (string \<times> string) list" where
  "config_codes rec = (let d = text_or_empty (field rec ''dataId''); g = text_or_empty (field rec ''group'') in
     [(''defaultCode'', getJavaCode d g), (''sprigboot_code'', sprigboot_code), (''sprigcloud_code'', sprigcloud_code),
      (''nodejsCode'', todo), (''cppCode'', todo), (''shellCode'', todo), (''pythonCode'', todo),
      (''csharpCode'', getCSharpCode d g)])"

definition service_codes :: "jsval \<Rightarrow> (string \<times> string) list" where
  "service_codes rec = (let n = to_str (field rec ''name'') in
     [(''defaultCode'', service_getJavaCode n), (''springCode'', getSpringCode), (''sprigbootCode'', getSpringBootCode),
      (''sprigcloudCode'', getSpringCloudCode n), (''nodejsCode'', todo), (''cppCode'', todo), (''shellCode'', todo),
      (''pythonCode'', todo), (''csharpCode'', service_getCSharpCode n)])"

datatype timer = ReadRow | ShowText string

record code_window =
  sc_win :: win
  sc_record :: jsval
  sc_codes :: "(string \<times> string) list"
  sc_visible :: bool
  sc_loading :: bool
  sc_preview :: "(string \<times> string) option"
  sc_timers :: "timer list"

definition config_window :: "win \<Rightarrow> code_window" where
  "config_window w = \<lparr>sc_win = w, sc_record = Obj [],
     sc_codes = [(''defaultCode'', []), (''sprigboot_code'', sprigboot_code), (''sprigcloud_code'', sprigcloud_code),
       (''nodejsCode'', todo), (''cppCode'', todo), (''shellCode'', todo), (''pythonCode'', todo), (''csharpCode'', todo)],
     sc_visible = False, sc_loading = False, sc_preview = None, sc_timers = []\<rparr>"

definition service_window :: "win \<Rightarrow> code_window" where
  "service_window w = \<lparr>sc_win = w, sc_record = Obj [],
     sc_codes = [(''defaultCode'', []), (''springCode'', todo), (''sprigbootCode'', todo), (''sprigcloudCode'', todo),
       (''nodejsCode'', todo), (''cppCode'', todo), (''shellCode'', todo), (''pythonCode'', todo), (''csharpCode'', todo)],
     sc_visible = False, sc_loading = False, sc_preview = None, sc_timers = []\<rparr>"

definition sc_openLoading :: "code_window stmt" where
  "sc_openLoading = modify (\<lambda>s. s\<lparr>sc_loading := True\<rparr>)"

definition sc_closeLoading :: "code_window stmt" where
  "sc_closeLoading = modify (\<lambda>s. s\<lparr>sc_loading := False\<rparr>)"

definition sc_openDialog :: "jsval \<Rightarrow> code_window stmt" where
  "sc_openDialog rec = modify (\<lambda>s. s\<lparr>sc_visible := True, sc_record := rec, sc_timers := sc_timers s @ [ReadRow]\<rparr>)"

definition sc_closeDialog :: "code_window stmt" where
  "sc_closeDialog = modify (\<lambda>s. s\<lparr>sc_visible := False, sc_preview := None\<rparr>)"

definition sc_createCodeMirror :: "string \<Rightarrow> string \<Rightarrow> code_window stmt" where
  "sc_createCodeMirror mode v = modify (\<lambda>s. if sc_visible s then s\<lparr>sc_preview := Some (mode, v)\<rparr> else s)"

definition code_of :: "string \<Rightarrow> code_window \<Rightarrow> string" where
  "code_of k s = or_empty (map_of (sc_codes s) k)"

definition sc_getData :: "(jsval \<Rightarrow> (string \<times> string) list) \<Rightarrow> code_window stmt" where
  "sc_getData codes = reading sc_win ''namespace'' (\<lambda>ns. with_state (\<lambda>s. if sc_record s \<in> {Undef, Null} then throw TypeError else block
     [modify (\<lambda>s. s\<lparr>sc_codes := codes (sc_record s)\<rparr>),
      with_state (\<lambda>s. sc_createCodeMirror ''text/x-java'' (code_of ''defaultCode'' s))]))"

text \<open>A click of a tab hands over the program that was in the field when the window was drawn.\<close>

definition sc_changeTab :: "string \<Rightarrow> code_window stmt" where
  "sc_changeTab k = modify (\<lambda>s. s\<lparr>sc_timers := sc_timers s @ [ShowText (code_of k s)]\<rparr>)"

definition run_timer :: "(jsval \<Rightarrow> (string \<times> string) list) \<Rightarrow> timer \<Rightarrow> code_window stmt" where
  "run_timer codes t = (case t of ReadRow \<Rightarrow> sc_getData codes | ShowText v \<Rightarrow> sc_createCodeMirror ''text/javascript'' v)"

text \<open>The timers run in the order in which they were set.\<close>

inductive code_step :: "(jsval \<Rightarrow> (string \<times> string) list) \<Rightarrow> code_window \<Rightarrow> code_window \<Rightarrow> bool" for codes where
  opens: "code_step codes s (state_of (sc_openDialog rec s))" if "rec \<notin> {Undef, Null}"
| closes: "code_step codes s (state_of (sc_closeDialog s))"
| clicks: "code_step codes s (state_of (sc_changeTab k s))" if "sc_visible s" and "k \<in> fst ` set (sc_codes s)"
| fires: "code_step codes s (state_of (run_timer codes t (s\<lparr>sc_timers := ts\<rparr>)))" if "sc_timers s = t # ts"

inductive_cases code_stepE: "code_step codes s t"

inductive code_reachable :: "(jsval \<Rightarrow> (string \<times> string) list) \<Rightarrow> code_window \<Rightarrow> code_window \<Rightarrow> bool" for codes s0 where
  start: "code_reachable codes s0 s0"
| step: "code_reachable codes s0 s \<Longrightarrow> code_step codes s t \<Longrightarrow> code_reachable codes s0 t"

section \<open>Properties\<close>

text \<open>What the two windows share: they start closed, without a row and with the fields that their programs
  fill.\<close>

locale sample_dialog =
  fixes codes :: "jsval \<Rightarrow> (string \<times> string) list" and window :: "win \<Rightarrow> code_window"
  assumes starts: "sc_win (window w) = w" "sc_record (window w) = Obj []" "sc_timers (window w) = []"
    and fields: "map fst (codes rec) = map fst (sc_codes (window w))"
begin

definition read_or_waiting :: "win \<Rightarrow> code_window \<Rightarrow> bool" where
  "read_or_waiting w s \<longleftrightarrow> sc_win s = w \<and> sc_record s \<notin> {Undef, Null} \<and>
    (ReadRow \<in> set (sc_timers s) \<or> sc_codes s = codes (sc_record s) \<or> sc_record s = Obj [] \<and> sc_codes s = sc_codes (window w))"

lemma read_or_waiting_step:
  assumes "code_step codes s t" and "addr_ok w" and "read_or_waiting w s"
  shows "read_or_waiting w t"
  using assms(1)
proof (rule code_stepE)
  fix tm ts assume t: "t = state_of (run_timer codes tm (s\<lparr>sc_timers := ts\<rparr>))" and "sc_timers s = tm # ts"
  then show ?thesis using assms(2,3)
    by (cases tm) (auto simp: read_or_waiting_def run_timer_def sc_getData_def sc_createCodeMirror_def reading_ok
        console_keys_def stmt_defs)
qed (use assms(3) in \<open>auto simp: read_or_waiting_def sc_openDialog_def sc_closeDialog_def sc_changeTab_def stmt_defs\<close>)

lemma reachable_read:
  assumes "code_reachable codes (window w) s" and "addr_ok w"
  shows "read_or_waiting w s"
  using assms(1)
proof induction
  case start
  then show ?case by (simp add: read_or_waiting_def starts)
next
  case (step s t)
  then show ?case using read_or_waiting_step assms(2) by blast
qed

lemma tabs_stay:
  assumes "code_reachable codes (window w) s" and "addr_ok w" and "ReadRow \<notin> set (sc_timers s)"
  shows "map fst (sc_codes s) = map fst (sc_codes (window w))"
  using reachable_read [OF assms(1,2)] assms(3) fields by (auto simp: read_or_waiting_def)

lemma programs_of_row:
  assumes "code_reachable codes (window w) s" and "addr_ok w" and "ReadRow \<notin> set (sc_timers s)" and "sc_record s \<noteq> Obj []"
  shows "sc_codes s = codes (sc_record s)"
  using reachable_read [OF assms(1,2)] assms(3,4) by (simp add: read_or_waiting_def)

end

interpretation config_code: sample_dialog config_codes config_window
  by unfold_locales (simp_all add: config_window_def config_codes_def Let_def)

interpretation service_code: sample_dialog service_codes service_window
  by unfold_locales (simp_all add: service_window_def service_codes_def Let_def)

text \<open>The reader of the programs: a string literal of Java or C# up to its closing quote, and the first one
  that a program declares under a name.\<close>

fun read_literal :: "string \<Rightarrow> string option" where
  "read_literal [] = None"
| "read_literal [c] = (if c = CHR 0x22 then Some [] else None)"
| "read_literal (c # e # s) =
     (if c = CHR 0x22 then Some []
      else if c = CHR 0x5C then
        (case map_of [(CHR ''n'', CHR 0x0A), (CHR ''r'', CHR 0x0D), (CHR ''t'', CHR 0x09), (CHR 0x22, CHR 0x22),
            (CHR 0x5C, CHR 0x5C)] e of None \<Rightarrow> None | Some x \<Rightarrow> map_option ((#) x) (read_literal s))
      else map_option ((#) c) (read_literal (e # s)))"

definition trimmed_line :: "string \<Rightarrow> string" where
  "trimmed_line = dropWhile (\<lambda>c. c = CHR 0x09 \<or> c = CHR '' '')"

definition declared :: "string \<Rightarrow> string \<Rightarrow> string option" where
  "declared start t =
     (case List.find (starts_with start) (map trimmed_line (split_on (CHR 0x0A) t)) of
        None \<Rightarrow> None
      | Some l \<Rightarrow> read_literal (drop (length start) l))"

definition one_line :: "string \<Rightarrow> bool" where
  "one_line = list_all (\<lambda>c. c \<noteq> CHR 0x0A)"

lemma declared_lines:
  assumes "list_all one_line ls" and "ls \<noteq> []"
  shows "declared start (text_of_lines ls) =
     (case List.find (starts_with start) (map trimmed_line ls) of
        None \<Rightarrow> None
      | Some l \<Rightarrow> read_literal (drop (length start) l))"
proof -
  have "\<forall>l \<in> set ls. CHR 0x0A \<notin> set l" using assms(1) by (auto simp: list_all_iff one_line_def)
  then show ?thesis using assms(2) by (simp add: declared_def text_of_lines_def split_join)
qed

definition plain_literal :: "string \<Rightarrow> bool" where
  "plain_literal d \<longleftrightarrow> list_all (\<lambda>c. c \<notin> {CHR 0x22, CHR 0x5C, CHR 0x0A}) d"

lemma read_plain: "plain_literal d \<Longrightarrow> read_literal (d @ CHR 0x22 # s) = Some d"
proof (induction d)
  case Nil
  then show ?case by (cases s) simp_all
next
  case (Cons c d)
  then show ?case by (cases "d @ CHR 0x22 # s") (auto simp: plain_literal_def)
qed

lemma one_line_simps:
  "one_line []" "one_line (c # l) \<longleftrightarrow> c \<noteq> CHR 0x0A \<and> one_line l" "one_line (l @ m) \<longleftrightarrow> one_line l \<and> one_line m"
  by (simp_all add: one_line_def)

lemma one_line_tabs: "one_line (tabs n l) \<longleftrightarrow> one_line l"
  by (induction n) (simp_all add: one_line_simps tabs_def)

lemma trimmed_simps:
  "trimmed_line [] = []" "trimmed_line (c # l) = (if c = CHR 0x09 \<or> c = CHR '' '' then trimmed_line l else c # l)"
  by (simp_all add: trimmed_line_def)

lemma trimmed_tabs: "trimmed_line (tabs n l) = trimmed_line l"
  by (induction n) (simp_all add: trimmed_simps tabs_def)

lemma plain_one_line: "plain_literal d \<Longrightarrow> one_line d"
  by (auto simp: plain_literal_def one_line_def list_all_iff)

lemma java_declares:
  assumes "plain_literal d" and "plain_literal g"
  shows "declared ''String dataId = \"'' (getJavaCode d g) = Some d"
    and "declared ''String group = \"'' (getJavaCode d g) = Some g"
  unfolding getJavaCode_def using assms
  by (subst declared_lines; simp add: one_line_simps one_line_tabs trimmed_simps trimmed_tabs plain_one_line read_plain)+

lemma csharp_declares:
  assumes "plain_literal d" and "plain_literal g"
  shows "declared ''string dataId = \"'' (getCSharpCode d g) = Some d"
    and "declared ''string group = \"'' (getCSharpCode d g) = Some g"
  unfolding getCSharpCode_def using assms
  by (subst declared_lines; simp add: one_line_simps one_line_tabs trimmed_simps trimmed_tabs plain_one_line read_plain)+

text \<open>A quote in a data id is not escaped: the program declares the part in front of it.\<close>

lemma quote_cuts_declaration: "declared ''String dataId = \"'' (getJavaCode ''a\"b'' ''g'') = Some ''a''"
  unfolding getJavaCode_def
  by (subst declared_lines; simp add: one_line_simps one_line_tabs trimmed_simps trimmed_tabs)

text \<open>C23. Whatever the user does in the window of sample code, as soon as no row waits to be read the Java and the
  C# program declare the data id and the group of the row that was opened last, however often the
  window was opened and closed and tabs were clicked; the other window has the programs of its row, too.\<close>

theorem sample_code_names_the_row:
  assumes "addr_ok w" and "code_reachable config_codes (config_window w) s" and "ReadRow \<notin> set (sc_timers s)"
    and "field (sc_record s) ''dataId'' = Str d" and "field (sc_record s) ''group'' = Str g"
    and "plain_literal d" and "plain_literal g"
  shows "declared ''String dataId = \"'' (code_of ''defaultCode'' s) = Some d \<and>
    declared ''String group = \"'' (code_of ''defaultCode'' s) = Some g \<and>
    declared ''string dataId = \"'' (code_of ''csharpCode'' s) = Some d \<and>
    declared ''string group = \"'' (code_of ''csharpCode'' s) = Some g \<and>
    (code_reachable service_codes (service_window w) t \<and> ReadRow \<notin> set (sc_timers t) \<and> sc_record t \<noteq> Obj [] \<longrightarrow>
      code_of ''defaultCode'' t = service_getJavaCode (to_str (field (sc_record t) ''name'')))"
proof -
  have "sc_record s \<noteq> Obj []" using assms(4) by auto
  from config_code.programs_of_row [OF assms(2,1,3) this]
  have "code_of ''defaultCode'' s = getJavaCode d g" "code_of ''csharpCode'' s = getCSharpCode d g"
    using assms(4,5) by (simp_all add: code_of_def config_codes_def text_or_empty_def js_or_def Let_def)
  moreover have "code_of ''defaultCode'' t = service_getJavaCode (to_str (field (sc_record t) ''name''))"
    if "code_reachable service_codes (service_window w) t" "ReadRow \<notin> set (sc_timers t)" "sc_record t \<noteq> Obj []"
    using service_code.programs_of_row [OF that(1) assms(1) that(2,3)]
    by (simp add: code_of_def service_codes_def Let_def)
  ultimately show ?thesis
    using java_declares [OF assms(6,7)] csharp_declares [OF assms(6,7)] by simp
qed

definition sample_row :: jsval where
  "sample_row = Obj [(''dataId'', Str ''a.b''), (''group'', Str ''g'')]"

theorem sample_code_names_the_row_witness:
  "\<exists>s. code_reachable config_codes (config_window sample_win) s \<and>
     declared ''String dataId = \"'' (code_of ''defaultCode'' s) = Some ''a.b''"
proof -
  define s1 where "s1 = state_of (sc_openDialog sample_row (config_window sample_win))"
  define s where "s = state_of (run_timer config_codes ReadRow (s1\<lparr>sc_timers := []\<rparr>))"
  have "code_step config_codes (config_window sample_win) s1"
    unfolding s1_def by (rule code_step.opens) (simp add: sample_row_def)
  moreover have "code_step config_codes s1 s"
    unfolding s_def by (rule code_step.fires) (simp add: s1_def sc_openDialog_def config_window_def stmt_defs)
  ultimately have r: "code_reachable config_codes (config_window sample_win) s"
    by (blast intro: code_reachable.intros)
  moreover have "ReadRow \<notin> set (sc_timers s)" "sc_record s = sample_row"
    by (simp_all add: s_def s1_def run_timer_def sc_getData_def sc_createCodeMirror_def sc_openDialog_def config_window_def
        reading_ok console_keys_def sample_win_ok sample_row_def stmt_defs)
  moreover have "plain_literal ''a.b''" "plain_literal ''g''" by (simp_all add: plain_literal_def)
  ultimately show ?thesis
    using sample_code_names_the_row [OF sample_win_ok r, of "''a.b''" "''g''"] by (auto simp: sample_row_def)
qed

end
