(* ===== verification/Dist_Copy.thy ===== *)
theory Dist_Copy
  imports Js_Prelude "HOL-Library.Sublist" "HOL-Library.Multiset"
begin

text \<open>
  The two scripts that bring a build of the console into the server's resources:
  \<open>src/console-ui/build/copy-dist.js\<close> (\<open>delDir\<close>, \<open>copyDir\<close>) and \<open>src/console-ui/build/copyFile.js\<close>.

  The file system is a list of paths with what is there.  Of Node's \<open>fs\<close> the operations that the scripts
  call are modelled, with the errors they raise.  Symbolic links are left out; what is neither a file nor a
  directory (a socket, a pipe) is there, since the scripts ask for both kinds and do nothing with the rest.
  A copy is two streams that are joined: they do their work only after the script has ended, in any order.
\<close>

section \<open>The file system\<close>

type_synonym fpath = "string list"

datatype fs_entry = Regular string | Special | Directory

type_synonym files = "(fpath \<times> fs_entry) list"

datatype fs_error = ENOENT | ENOTDIR | EISDIR | EEXIST | ENOTEMPTY

text \<open>What the scripts print.\<close>

datatype notice = Start | Delete_file fpath | Delete_directory fpath | Copy_file fpath | Create_directory fpath
  | Complete

record disk =
  dk_files :: files
  dk_pipes :: "(fpath \<times> fpath) list"
  dk_log :: "notice list"

text \<open>A run ends, raises, or (never with the fuel the scripts are given below) is cut off.\<close>

datatype outcome = Finished disk | Threw fs_error disk | Cut_off

fun and_then :: "outcome \<Rightarrow> (disk \<Rightarrow> outcome) \<Rightarrow> outcome" where
  "and_then (Finished s) f = f s"
| "and_then (Threw e s) f = Threw e s"
| "and_then Cut_off f = Cut_off"

primrec for_each :: "('a \<Rightarrow> disk \<Rightarrow> outcome) \<Rightarrow> 'a list \<Rightarrow> disk \<Rightarrow> outcome" where
  "for_each f [] s = Finished s"
| "for_each f (x # xs) s = and_then (f x s) (for_each f xs)"

definition entry_of :: "disk \<Rightarrow> fpath \<Rightarrow> fs_entry option" where
  "entry_of s p = map_of (dk_files s) p"

definition existsSync :: "disk \<Rightarrow> fpath \<Rightarrow> bool" where
  "existsSync s p = (entry_of s p \<noteq> None)"

definition names_in :: "files \<Rightarrow> fpath \<Rightarrow> string list" where
  "names_in fs d = map (\<lambda>(p, e). last p) (filter (\<lambda>(p, e). p \<noteq> [] \<and> butlast p = d) fs)"

definition readdirSync :: "fpath \<Rightarrow> (string list \<Rightarrow> disk \<Rightarrow> outcome) \<Rightarrow> disk \<Rightarrow> outcome" where
  "readdirSync d f s = (case entry_of s d of
     None \<Rightarrow> Threw ENOENT s
   | Some Directory \<Rightarrow> f (names_in (dk_files s) d) s
   | Some _ \<Rightarrow> Threw ENOTDIR s)"

definition statSync :: "fpath \<Rightarrow> (fs_entry \<Rightarrow> disk \<Rightarrow> outcome) \<Rightarrow> disk \<Rightarrow> outcome" where
  "statSync p f s = (case entry_of s p of None \<Rightarrow> Threw ENOENT s | Some e \<Rightarrow> f e s)"

definition without :: "fpath \<Rightarrow> disk \<Rightarrow> disk" where
  "without p s = s\<lparr>dk_files := filter (\<lambda>(q, e). q \<noteq> p) (dk_files s)\<rparr>"

definition unlinkSync :: "fpath \<Rightarrow> disk \<Rightarrow> outcome" where
  "unlinkSync p s = (case entry_of s p of
     None \<Rightarrow> Threw ENOENT s
   | Some Directory \<Rightarrow> Threw EISDIR s
   | Some _ \<Rightarrow> Finished (without p s))"

definition rmdirSync :: "fpath \<Rightarrow> disk \<Rightarrow> outcome" where
  "rmdirSync p s = (case entry_of s p of
     None \<Rightarrow> Threw ENOENT s
   | Some Directory \<Rightarrow> (if names_in (dk_files s) p \<noteq> [] then Threw ENOTEMPTY s else Finished (without p s))
   | Some _ \<Rightarrow> Threw ENOTDIR s)"

definition parent_check :: "fpath \<Rightarrow> disk \<Rightarrow> fs_error option" where
  "parent_check p s = (case entry_of s (butlast p) of
     None \<Rightarrow> Some ENOENT | Some Directory \<Rightarrow> None | Some _ \<Rightarrow> Some ENOTDIR)"

definition mkdirSync :: "fpath \<Rightarrow> disk \<Rightarrow> outcome" where
  "mkdirSync p s = (if existsSync s p then Threw EEXIST s
     else case parent_check p s of
       Some e \<Rightarrow> Threw e s
     | None \<Rightarrow> Finished (s\<lparr>dk_files := (p, Directory) # dk_files s\<rparr>))"

definition print :: "notice \<Rightarrow> disk \<Rightarrow> outcome" where
  "print m s = Finished (s\<lparr>dk_log := dk_log s @ [m]\<rparr>)"

definition pipe :: "fpath \<Rightarrow> fpath \<Rightarrow> disk \<Rightarrow> outcome" where
  "pipe src target s = Finished (s\<lparr>dk_pipes := dk_pipes s @ [(src, target)]\<rparr>)"

text \<open>The work of two joined streams: the file is read, and the target is made or replaced.\<close>

definition read_file :: "fpath \<Rightarrow> (string \<Rightarrow> disk \<Rightarrow> outcome) \<Rightarrow> disk \<Rightarrow> outcome" where
  "read_file p f s = (case entry_of s p of
     None \<Rightarrow> Threw ENOENT s | Some Directory \<Rightarrow> Threw EISDIR s
   | Some (Regular c) \<Rightarrow> f c s | Some Special \<Rightarrow> f [] s)"

definition write_file :: "fpath \<Rightarrow> string \<Rightarrow> disk \<Rightarrow> outcome" where
  "write_file p c s = (case entry_of s p of
     None \<Rightarrow> (case parent_check p s of
        Some e \<Rightarrow> Threw e s | None \<Rightarrow> Finished (s\<lparr>dk_files := (p, Regular c) # dk_files s\<rparr>))
   | Some Directory \<Rightarrow> Threw EISDIR s
   | Some Special \<Rightarrow> Finished s
   | Some (Regular d) \<Rightarrow> Finished (s\<lparr>dk_files := map (\<lambda>(q, e). (q, if q = p then Regular c else e)) (dk_files s)\<rparr>))"

definition transfer :: "fpath \<times> fpath \<Rightarrow> disk \<Rightarrow> outcome" where
  "transfer st = read_file (fst st) (write_file (snd st))"

section \<open>The scripts\<close>

text \<open>The fuel bounds the depth of the recursion.\<close>

definition delDir_step :: "(fpath \<Rightarrow> disk \<Rightarrow> outcome) \<Rightarrow> fpath \<Rightarrow> string \<Rightarrow> disk \<Rightarrow> outcome" where
  "delDir_step rec dest p = (let target = dest @ [p] in
     statSync target (\<lambda>st s.
       and_then (case st of
           Regular c \<Rightarrow> and_then (print (Delete_file target) s) (unlinkSync target)
         | _ \<Rightarrow> Finished s) (\<lambda>s.
       case st of
         Directory \<Rightarrow> and_then (print (Delete_directory target) s) (rec target)
       | _ \<Rightarrow> Finished s)))"

primrec delDir :: "nat \<Rightarrow> fpath \<Rightarrow> disk \<Rightarrow> outcome" where
  "delDir 0 dest s = Cut_off"
| "delDir (Suc n) dest s = readdirSync dest (\<lambda>paths s.
     and_then (for_each (delDir_step (delDir n) dest) paths s)
       (readdirSync dest (\<lambda>paths s. if paths = [] then rmdirSync dest s else Finished s))) s"

definition copyDir_step :: "(fpath \<Rightarrow> disk \<Rightarrow> outcome) \<Rightarrow> (fpath \<Rightarrow> fpath \<Rightarrow> disk \<Rightarrow> outcome)
    \<Rightarrow> fpath \<Rightarrow> fpath \<Rightarrow> string \<Rightarrow> disk \<Rightarrow> outcome" where
  "copyDir_step del rec source dest p = (let src = source @ [p]; target = dest @ [p] in
     statSync src (\<lambda>st s.
       and_then (case st of
           Regular c \<Rightarrow> and_then
             (if existsSync s target then and_then (print (Delete_file target) s) (unlinkSync target)
              else Finished s) (\<lambda>s.
             and_then (print (Copy_file target) s) (pipe src target))
         | _ \<Rightarrow> Finished s) (\<lambda>s.
       case st of
         Directory \<Rightarrow> and_then
           (if existsSync s target then and_then (print (Delete_directory target) s) (del target)
            else Finished s) (\<lambda>s.
           and_then (print (Create_directory target) s) (\<lambda>s.
           and_then (mkdirSync target s) (rec src target)))
       | _ \<Rightarrow> Finished s)))"

primrec copyDir :: "nat \<Rightarrow> fpath \<Rightarrow> fpath \<Rightarrow> disk \<Rightarrow> outcome" where
  "copyDir 0 source dest s = Cut_off"
| "copyDir (Suc n) source dest s = readdirSync source
     (for_each (copyDir_step (delDir n) (copyDir n) source dest)) s"

text \<open>\<open>__dirname\<close> is the directory of the scripts, in some directory \<open>up\<close>.\<close>

definition dirname :: "fpath \<Rightarrow> fpath" where
  "dirname up = up @ [''console-ui'', ''build'']"

definition distPath :: "fpath \<Rightarrow> fpath" where
  "distPath up = butlast (dirname up) @ [''dist'']"

definition rootPath :: "fpath \<Rightarrow> fpath" where
  "rootPath up = butlast (butlast (dirname up)) @ [''console'', ''src'', ''main'', ''resources'', ''static'']"

definition depth_bound :: "files \<Rightarrow> nat" where
  "depth_bound fs = Suc (foldr (\<lambda>(p, e). max (length p)) fs 0)"

definition copy_dist :: "fpath \<Rightarrow> disk \<Rightarrow> outcome" where
  "copy_dist up s = and_then (print Start s) (\<lambda>s.
     and_then (copyDir (depth_bound (dk_files s)) (distPath up) (rootPath up) s) (print Complete))"

text \<open>The streams, in the order in which they get to work.\<close>

definition drain :: "(fpath \<times> fpath) list \<Rightarrow> disk \<Rightarrow> outcome" where
  "drain order = for_each transfer order"

definition copy_file_mkdir :: "fpath \<Rightarrow> disk \<Rightarrow> outcome" where
  "copy_file_mkdir dir s = (if \<not> existsSync s dir then mkdirSync dir s else Finished s)"

definition copyList :: "fpath list" where
  "copyList = [[''js'', ''main.js''], [''css'', ''main.css''], [''index.html'']]"

definition copy_one :: "fpath \<Rightarrow> fpath \<Rightarrow> disk \<Rightarrow> outcome" where
  "copy_one up name s = (let srcFileName = distPath up @ name; destFileName = rootPath up @ name in
     if \<not> existsSync s srcFileName then Finished s
     else and_then (copy_file_mkdir (butlast destFileName) s) (pipe srcFileName destFileName))"

definition copy_file :: "fpath \<Rightarrow> disk \<Rightarrow> outcome" where
  "copy_file up = for_each (copy_one up) copyList"

section \<open>The shape of a file system\<close>

text \<open>Every path is there once, and everything lies in a directory.\<close>

definition sound_files :: "files \<Rightarrow> bool" where
  "sound_files fs = (distinct (map fst fs)
     \<and> list_all (\<lambda>(p, e). p = [] \<or> map_of fs (butlast p) = Some Directory) fs)"

text \<open>There is something below \<open>p\<close>, or \<open>p\<close> itself, that the scripts do not delete.\<close>

definition special_below :: "files \<Rightarrow> fpath \<Rightarrow> bool" where
  "special_below fs p = list_ex (\<lambda>(q, e). e = Special \<and> prefix p q) fs"

lemma map_of_kept: "map_of (filter (\<lambda>(q, e). P q) fs) p = (if P p then map_of fs p else None)"
  by (induction fs) auto

lemma distinct_kept: "distinct (map fst fs) \<Longrightarrow> distinct (map fst (filter P fs))"
  by (induction fs) auto

lemma parent_is_directory:
  assumes "sound_files fs" and "map_of fs p = Some e" and "p \<noteq> []"
  shows "map_of fs (butlast p) = Some Directory"
  using assms map_of_SomeD [OF assms(2)] by (auto simp: sound_files_def list_all_iff)

lemma ancestor_is_directory:
  assumes "sound_files fs" and "map_of fs (q @ r) = Some e" and "r \<noteq> []"
  shows "map_of fs q = Some Directory"
  using assms(2,3)
proof (induction r arbitrary: e rule: rev_induct)
  case (snoc k r)
  then have "map_of fs (q @ r) = Some Directory"
    using parent_is_directory [OF assms(1), of "q @ r @ [k]"] by (simp add: butlast_append)
  then show ?case using snoc.IH by (cases r) auto
qed simp

lemma below_a_leaf:
  assumes "sound_files fs" and "map_of fs q = Some e" and "e \<noteq> Directory" and "prefix q p" and "p \<noteq> q"
  shows "map_of fs p = None"
  using assms ancestor_is_directory [OF assms(1), of q] by (cases "map_of fs p") (auto simp: prefix_def)

lemma sound_kept:
  assumes "sound_files fs" and "\<And>p k. P (p @ [k]) \<Longrightarrow> P p"
  shows "sound_files (filter (\<lambda>(p, e). P p) fs)"
proof -
  have "P (butlast p)" if "P p" "p \<noteq> []" for p
    using that assms(2) [of "butlast p" "last p"] by simp
  then show ?thesis using assms(1) by (auto simp: sound_files_def list_all_iff distinct_kept map_of_kept)
qed

lemma special_below_iff:
  "distinct (map fst fs) \<Longrightarrow> special_below fs p \<longleftrightarrow> (\<exists>q. map_of fs q = Some Special \<and> prefix p q)"
  by (auto simp: special_below_def list_ex_iff)

lemma special_below_parent: "special_below fs (p @ [k]) \<Longrightarrow> special_below fs p"
  unfolding special_below_def list_ex_iff by (fastforce dest: append_prefixD)

lemma special_below_kept:
  "special_below (filter (\<lambda>(p, e). Q p \<or> special_below fs p) fs) p = special_below fs p"
  unfolding special_below_def list_ex_iff by fastforce

lemma split_last: "p \<noteq> [] \<and> butlast p = d \<and> last p = k \<longleftrightarrow> p = d @ [k]"
  by (cases p rule: rev_cases) auto

lemma names_in_Cons:
  "names_in ((p, e) # fs) d = (if p \<noteq> [] \<and> butlast p = d then last p # names_in fs d else names_in fs d)"
  by (simp add: names_in_def)

lemma names_in_iff: "k \<in> set (names_in fs d) \<longleftrightarrow> map_of fs (d @ [k]) \<noteq> None"
proof (induction fs)
  case (Cons x fs)
  then show ?case using split_last [of "fst x" d k] by (cases x) (auto simp: names_in_Cons)
qed (simp add: names_in_def)

lemma distinct_names_in: "distinct (map fst fs) \<Longrightarrow> distinct (names_in fs d)"
proof (induction fs)
  case (Cons x fs)
  then have "map_of fs (fst x) = None" by (simp add: map_of_eq_None_iff)
  then have "last (fst x) \<notin> set (names_in fs d)" if "fst x \<noteq> []" "butlast (fst x) = d"
    using that split_last [of "fst x" d "last (fst x)"] by (simp add: names_in_iff)
  then show ?case using Cons by (cases x) (simp add: names_in_Cons)
qed (simp add: names_in_def)

section \<open>Deleting a directory\<close>

text \<open>What is left when everything below \<open>dest\<close> that can be deleted is gone.\<close>

definition pruned :: "fpath \<Rightarrow> files \<Rightarrow> files" where
  "pruned dest fs = filter (\<lambda>(p, e). \<not> prefix dest p \<or> special_below fs p) fs"

definition pruned_all :: "fpath set \<Rightarrow> files \<Rightarrow> files" where
  "pruned_all ds fs = filter (\<lambda>(p, e). (\<forall>d\<in>ds. \<not> prefix d p) \<or> special_below fs p) fs"

lemma pruned_is_all: "pruned d fs = pruned_all {d} fs"
  by (simp add: pruned_def pruned_all_def)

lemma map_of_pruned_all:
  "map_of (pruned_all ds fs) p = (if (\<forall>d\<in>ds. \<not> prefix d p) \<or> special_below fs p then map_of fs p else None)"
  by (simp add: pruned_all_def map_of_kept)

lemma sound_pruned_all: "sound_files fs \<Longrightarrow> sound_files (pruned_all ds fs)"
  unfolding pruned_all_def
  by (rule sound_kept) (auto dest: special_below_parent intro: prefix_prefix)

lemma pruned_all_union: "pruned_all ds (pruned_all cs fs) = pruned_all (cs \<union> ds) fs"
proof -
  have "special_below (pruned_all cs fs) = special_below fs"
    unfolding pruned_all_def by (rule ext) (rule special_below_kept)
  then show ?thesis
    by (subst (1) pruned_all_def, simp only:) (auto simp: pruned_all_def intro!: filter_cong)
qed

lemma set_pruned_all: "set (pruned_all ds fs) \<subseteq> set fs"
  by (auto simp: pruned_all_def)

lemma leaf_pruned:
  assumes fs: "sound_files fs" and q: "map_of fs q = Some e" and e: "e \<noteq> Directory"
  shows "pruned q fs = (if e = Special then fs else filter (\<lambda>(p, e). p \<noteq> q) fs)"
proof -
  have d: "distinct (map fst fs)" using fs by (simp add: sound_files_def)
  have only: "p = q" if "(p, e') \<in> set fs" "prefix q p" for p e'
  proof (rule ccontr)
    assume "p \<noteq> q"
    then have "map_of fs p = None" using below_a_leaf [OF fs q e that(2)] by blast
    then show False using that(1) d by simp
  qed
  have "special_below fs q \<longleftrightarrow> e = Special"
  proof
    assume "special_below fs q"
    then obtain r where r: "(r, Special) \<in> set fs" "prefix q r"
      by (auto simp: special_below_def list_ex_iff)
    then have "r = q" by (rule only)
    then show "e = Special" using r(1) q d by simp
  qed (use q in \<open>auto simp: special_below_iff [OF d]\<close>)
  then show ?thesis
    using only by (auto simp: pruned_def intro!: filter_True filter_cong)
qed

text \<open>What an operation on \<open>s\<close> does that ends, with the directories \<open>ds\<close> deleted as far as possible.\<close>

definition deletes :: "fpath set \<Rightarrow> disk \<Rightarrow> outcome \<Rightarrow> bool" where
  "deletes ds s r = (\<exists>l. r = Finished (s\<lparr>dk_files := pruned_all ds (dk_files s), dk_log := l\<rparr>))"

definition shallow :: "files \<Rightarrow> fpath \<Rightarrow> nat \<Rightarrow> bool" where
  "shallow fs d n = (\<forall>(p, e) \<in> set fs. prefix d p \<longrightarrow> length p < length d + n)"

definition logged :: "notice \<Rightarrow> disk \<Rightarrow> disk" where
  "logged m s = s\<lparr>dk_log := dk_log s @ [m]\<rparr>"

lemma print_logged: "print m s = Finished (logged m s)"
  by (simp add: print_def logged_def)

lemma files_first: "s\<lparr>dk_log := l, dk_files := f\<rparr> = s\<lparr>dk_files := f, dk_log := l\<rparr>"
  by (cases s) simp

lemma pipes_first: "s\<lparr>dk_log := l, dk_pipes := q\<rparr> = s\<lparr>dk_pipes := q, dk_log := l\<rparr>"
  by (cases s) simp

lemma delDir_step_cases:
  "delDir_step rec dest p s = (case entry_of s (dest @ [p]) of
     None \<Rightarrow> Threw ENOENT s
   | Some Special \<Rightarrow> Finished s
   | Some (Regular c) \<Rightarrow> unlinkSync (dest @ [p]) (logged (Delete_file (dest @ [p])) s)
   | Some Directory \<Rightarrow> rec (dest @ [p]) (logged (Delete_directory (dest @ [p])) s))"
proof -
  have *: "and_then r Finished = r" for r by (cases r) auto
  show ?thesis
    by (auto simp: delDir_step_def statSync_def print_logged Let_def * split: option.split fs_entry.split)
qed

lemma delDir_step_deletes:
  assumes fs: "sound_files (dk_files s)" and there: "map_of (dk_files s) (dest @ [k]) \<noteq> None"
    and rec: "\<And>l. map_of (dk_files s) (dest @ [k]) = Some Directory \<Longrightarrow>
      deletes {dest @ [k]} s (rec (dest @ [k]) (s\<lparr>dk_log := l\<rparr>))"
  shows "deletes {dest @ [k]} s (delDir_step rec dest k s)"
proof -
  obtain e where e: "map_of (dk_files s) (dest @ [k]) = Some e" using there by auto
  show ?thesis
  proof (cases e)
    case Directory
    with e rec show ?thesis by (simp add: delDir_step_cases entry_of_def logged_def)
  next
    case (Regular c)
    with e leaf_pruned [OF fs e] show ?thesis
      by (auto simp: delDir_step_cases entry_of_def logged_def unlinkSync_def without_def
          deletes_def pruned_is_all files_first)
  next
    case Special
    with e leaf_pruned [OF fs e] show ?thesis
      by (auto simp: delDir_step_cases entry_of_def deletes_def pruned_is_all intro!: exI [of _ "dk_log s"])
  qed
qed

lemma delete_names:
  assumes rec: "\<And>d s. sound_files (dk_files s) \<Longrightarrow> map_of (dk_files s) d = Some Directory \<Longrightarrow>
      shallow (dk_files s) d n \<Longrightarrow> deletes {d} s (rec d s)"
    and "sound_files (dk_files s)" and "distinct ks"
    and "\<And>k. k \<in> set ks \<Longrightarrow> map_of (dk_files s) (dest @ [k]) \<noteq> None"
    and "shallow (dk_files s) dest (Suc n)"
  shows "deletes ((\<lambda>k. dest @ [k]) ` set ks) s (for_each (delDir_step rec dest) ks s)"
  using assms(2-)
proof (induction ks arbitrary: s)
  case Nil
  then show ?case by (auto simp: deletes_def pruned_all_def intro!: exI [of _ "dk_log s"])
next
  case (Cons k ks)
  have near: "shallow (dk_files s) (dest @ [k]) n"
    using Cons.prems(4) by (auto simp: shallow_def dest!: append_prefixD)
  have "deletes {dest @ [k]} s (delDir_step rec dest k s)"
  proof (rule delDir_step_deletes [OF Cons.prems(1) Cons.prems(3)])
    show "deletes {dest @ [k]} s (rec (dest @ [k]) (s\<lparr>dk_log := l\<rparr>))"
      if "map_of (dk_files s) (dest @ [k]) = Some Directory" for l
      using rec [of "s\<lparr>dk_log := l\<rparr>" "dest @ [k]"] that Cons.prems(1) near by (simp add: deletes_def)
  qed simp
  then obtain l where step: "delDir_step rec dest k s =
      Finished (s\<lparr>dk_files := pruned_all {dest @ [k]} (dk_files s), dk_log := l\<rparr>)" (is "_ = Finished ?s")
    by (auto simp: deletes_def)
  have "deletes ((\<lambda>k. dest @ [k]) ` set ks) ?s (for_each (delDir_step rec dest) ks ?s)"
    using Cons.prems set_pruned_all [of "{dest @ [k]}" "dk_files s"]
    by (intro Cons.IH) (auto simp: sound_pruned_all map_of_pruned_all shallow_def)
  then show ?case
    by (auto simp: step deletes_def pruned_all_union)
qed

lemma strictly_below: "prefix d p \<Longrightarrow> p \<noteq> d \<Longrightarrow> \<exists>k r. p = (d @ [k]) @ r"
proof -
  assume "prefix d p" "p \<noteq> d"
  then obtain r where "p = d @ r" "r \<noteq> []" by (auto simp: prefix_def)
  then show "\<exists>k r. p = (d @ [k]) @ r" by (cases r) auto
qed

text \<open>Everything below a directory is below one of its children.\<close>

definition children :: "files \<Rightarrow> fpath \<Rightarrow> fpath set" where
  "children fs d = (\<lambda>k. d @ [k]) ` set (names_in fs d)"

lemma children_cover:
  assumes fs: "sound_files fs" and p: "(p, e) \<in> set fs" "prefix d p"
  shows "p = d \<or> (\<exists>c \<in> children fs d. prefix c p)"
proof (cases "p = d")
  case False
  then obtain k r where r: "p = (d @ [k]) @ r" using p(2) by (blast dest: strictly_below)
  have "map_of fs ((d @ [k]) @ r) = Some e"
    using p(1) r fs by (simp add: sound_files_def)
  then have "map_of fs (d @ [k]) \<noteq> None"
    using ancestor_is_directory [OF fs, of "d @ [k]" r] by (cases "r = []") auto
  then show ?thesis using r by (auto simp: names_in_iff children_def)
qed simp

lemma children_special:
  assumes fs: "sound_files fs" and d: "map_of fs d = Some Directory"
  shows "names_in (pruned_all (children fs d) fs) d = [] \<longleftrightarrow> \<not> special_below fs d"
proof -
  have "names_in (pruned_all (children fs d) fs) d = []
      \<longleftrightarrow> (\<forall>k. map_of (pruned_all (children fs d) fs) (d @ [k]) = None)"
    using names_in_iff [of _ "pruned_all (children fs d) fs" d] by (metis all_not_in_conv set_empty)
  also have "\<dots> \<longleftrightarrow> (\<forall>k \<in> set (names_in fs d). \<not> special_below fs (d @ [k]))"
    by (auto simp: map_of_pruned_all names_in_iff children_def)
  also have "\<dots> \<longleftrightarrow> \<not> special_below fs d"
  proof -
    have "\<exists>k\<in>set (names_in fs d). special_below fs (d @ [k])" if S: "special_below fs d"
    proof -
      obtain q where q: "(q, Special) \<in> set fs" "prefix d q"
        using S by (auto simp: special_below_def list_ex_iff)
      moreover have "q \<noteq> d" using map_of_is_SomeI [of fs q Special] q(1) d fs by (auto simp del: map_of_eq_Some_iff simp: sound_files_def)
      ultimately obtain c where "c \<in> children fs d" "prefix c q" using children_cover [OF fs] by blast
      then show ?thesis using q(1) by (auto simp: special_below_def list_ex_iff children_def)
    qed
    then show ?thesis by (blast dest: special_below_parent)
  qed
  finally show ?thesis .
qed

lemma pruned_children:
  assumes fs: "sound_files fs"
  shows "pruned_all {d} fs = filter (\<lambda>(q, e). special_below fs d \<or> q \<noteq> d) (pruned_all (children fs d) fs)"
proof -
  have apart: "(\<forall>x\<in>{d}. \<not> prefix x p) \<or> special_below fs p \<longleftrightarrow>
      ((\<forall>x\<in>children fs d. \<not> prefix x p) \<or> special_below fs p) \<and> (special_below fs d \<or> p \<noteq> d)"
    if p: "(p, e) \<in> set fs" for p e
  proof (cases "prefix d p")
    case True
    have "special_below fs p \<Longrightarrow> special_below fs d"
      using True by (auto simp: special_below_def list_ex_iff intro: prefix_order.trans)
    moreover have "\<not> prefix x d" if "x \<in> children fs d" for x using that by (auto simp: children_def)
    ultimately show ?thesis using children_cover [OF fs p True] True by (cases "p = d") auto
  next
    case False
    then have "\<not> prefix x p" if "x \<in> children fs d" for x
      using that by (auto simp: children_def dest: append_prefixD)
    with False show ?thesis by auto
  qed
  have "pruned_all {d} fs = filter (\<lambda>(p, e). ((\<forall>x\<in>children fs d. \<not> prefix x p) \<or> special_below fs p)
      \<and> (special_below fs d \<or> p \<noteq> d)) fs"
    unfolding pruned_all_def by (rule filter_cong [OF refl]) (clarify, rule apart)
  also have "\<dots> = filter (\<lambda>(q, e). special_below fs d \<or> q \<noteq> d) (pruned_all (children fs d) fs)"
    unfolding pruned_all_def filter_filter by (rule filter_cong [OF refl]) auto
  finally show ?thesis .
qed

lemma delDir_works:
  "sound_files (dk_files s) \<Longrightarrow> map_of (dk_files s) dest = Some Directory \<Longrightarrow>
   shallow (dk_files s) dest n \<Longrightarrow> deletes {dest} s (delDir n dest s)"
proof (induction n arbitrary: dest s)
  case 0
  then show ?case using map_of_SomeD [OF 0(2)] by (auto simp: shallow_def)
next
  case (Suc n)
  let ?fs = "dk_files s" and ?ks = "names_in (dk_files s) dest"
  have d: "distinct (map fst ?fs)" using Suc.prems(1) by (simp add: sound_files_def)
  have "deletes (children ?fs dest) s (for_each (delDir_step (delDir n) dest) ?ks s)"
    unfolding children_def
    by (rule delete_names) (use Suc d in \<open>auto simp: distinct_names_in names_in_iff\<close>)
  then obtain l where loop: "for_each (delDir_step (delDir n) dest) ?ks s =
      Finished (s\<lparr>dk_files := pruned_all (children ?fs dest) ?fs, dk_log := l\<rparr>)" by (auto simp: deletes_def)
  have own: "map_of (pruned_all (children ?fs dest) ?fs) dest = Some Directory"
    using Suc.prems(2) by (auto simp: map_of_pruned_all children_def)
  show ?case
    unfolding deletes_def
    using Suc.prems(2) own children_special [OF Suc.prems(1,2)] pruned_children [OF Suc.prems(1), of dest]
    by (intro exI [of _ l])
      (simp add: readdirSync_def entry_of_def loop rmdirSync_def without_def files_first)
qed

section \<open>Copying a directory\<close>

text \<open>Nothing in the target has another kind than the file or directory of that name in the source, and
nothing in the way of a directory resists deletion.\<close>

definition fits :: "files \<Rightarrow> fpath \<Rightarrow> fpath \<Rightarrow> string \<Rightarrow> bool" where
  "fits fs src dest k = (case map_of fs (src @ [k]) of
     Some (Regular c) \<Rightarrow> map_of fs (dest @ [k]) \<noteq> Some Directory
   | Some Directory \<Rightarrow> (case map_of fs (dest @ [k]) of
        None \<Rightarrow> True | Some Directory \<Rightarrow> \<not> special_below fs (dest @ [k]) | Some _ \<Rightarrow> False)
   | _ \<Rightarrow> True)"

definition is_taken :: "files \<Rightarrow> fpath \<Rightarrow> string \<Rightarrow> bool" where
  "is_taken fs src k = (map_of fs (src @ [k]) \<notin> {None, Some Special})"

text \<open>What lies where, when for the names in \<open>ks\<close> the tree in \<open>src\<close> has replaced that in \<open>dest\<close>; \<open>f\<close>
says what of the source has arrived.\<close>

definition grafted :: "(fs_entry option \<Rightarrow> fs_entry option) \<Rightarrow> fpath \<Rightarrow> fpath \<Rightarrow> string set \<Rightarrow> files
    \<Rightarrow> fpath \<Rightarrow> fs_entry option" where
  "grafted f src dest ks fs p =
     (if prefix dest p \<and> p \<noteq> dest \<and> p ! length dest \<in> ks \<and> is_taken fs src (p ! length dest)
      then f (map_of fs (src @ drop (length dest) p)) else map_of fs p)"

definition directories_only :: "fs_entry option \<Rightarrow> fs_entry option" where
  "directories_only e = (if e = Some Directory then e else None)"

lemma directories_only_simps [simp]: "directories_only None = None" "directories_only (Some Special) = None"
  by (simp_all add: directories_only_def)

definition no_special :: "fs_entry option \<Rightarrow> fs_entry option" where
  "no_special e = (if e = Some Special then None else e)"

definition copies_below :: "fpath \<Rightarrow> fpath \<Rightarrow> string set \<Rightarrow> files \<Rightarrow> (fpath \<times> fpath) set" where
  "copies_below src dest ks fs =
     {(src @ k # r, dest @ k # r) |k r c. k \<in> ks \<and> map_of fs (src @ k # r) = Some (Regular c)}"

definition prepares :: "fpath \<Rightarrow> fpath \<Rightarrow> string set \<Rightarrow> disk \<Rightarrow> outcome \<Rightarrow> bool" where
  "prepares src dest ks s r = (\<exists>t. r = Finished t \<and> sound_files (dk_files t)
     \<and> (\<forall>p. map_of (dk_files t) p = grafted directories_only src dest ks (dk_files s) p)
     \<and> set (dk_pipes t) = set (dk_pipes s) \<union> copies_below src dest ks (dk_files s))"

lemma grafted_below:
  "grafted f src dest ks fs (dest @ k # r) =
     (if k \<in> ks \<and> is_taken fs src k then f (map_of fs (src @ k # r)) else map_of fs (dest @ k # r))"
  by (simp add: grafted_def)

lemma grafted_elsewhere: "\<not> (\<exists>k r. p = dest @ k # r) \<Longrightarrow> grafted f src dest ks fs p = map_of fs p"
  by (auto simp: grafted_def dest: strictly_below)

lemma parallel_not_below: "parallel a b \<Longrightarrow> a @ r \<noteq> b @ q"
  using prefix_same_cases [of a "a @ r" b] by (auto simp: parallel_def)

lemma grafted_source: "parallel src dest \<Longrightarrow> grafted f src dest ks fs (src @ r) = map_of fs (src @ r)"
  by (rule grafted_elsewhere) (auto dest: parallel_not_below)

lemma is_taken_cong: "(\<And>r. map_of gs (src @ r) = map_of fs (src @ r)) \<Longrightarrow> is_taken gs src k = is_taken fs src k"
  by (simp add: is_taken_def)

lemma prepares_more:
  assumes par: "parallel src dest" and k: "k \<notin> ks"
    and one: "prepares src dest {k} s (Finished t)" and rest: "prepares src dest ks t r"
  shows "prepares src dest (insert k ks) s r"
proof -
  obtain u where u: "r = Finished u" "sound_files (dk_files u)"
      "\<And>p. map_of (dk_files u) p = grafted directories_only src dest ks (dk_files t) p"
      "set (dk_pipes u) = set (dk_pipes t) \<union> copies_below src dest ks (dk_files t)"
    using rest by (auto simp: prepares_def)
  have t: "\<And>p. map_of (dk_files t) p = grafted directories_only src dest {k} (dk_files s) p"
      "set (dk_pipes t) = set (dk_pipes s) \<union> copies_below src dest {k} (dk_files s)"
    using one by (auto simp: prepares_def)
  have same: "map_of (dk_files t) (src @ r) = map_of (dk_files s) (src @ r)" for r
    using par by (simp add: t grafted_source)
  have "map_of (dk_files u) p = grafted directories_only src dest (insert k ks) (dk_files s) p" for p
  proof (cases "\<exists>k r. p = dest @ k # r")
    case True
    then show ?thesis using k
      by (auto simp: u t grafted_below grafted_source [OF par] is_taken_cong [OF same])
  next
    case False
    then show ?thesis by (simp add: u t grafted_elsewhere)
  qed
  moreover have "set (dk_pipes u) = set (dk_pipes s) \<union> copies_below src dest (insert k ks) (dk_files s)"
    unfolding u(4) t(2) copies_below_def same by auto
  ultimately show ?thesis using u by (simp add: prepares_def)
qed

lemma prepares_logged [simp]: "prepares src dest ks (logged m s) r = prepares src dest ks s r"
  by (simp add: prepares_def logged_def)

lemma prepares_nothing:
  assumes "sound_files (dk_files s)" and "k \<notin> ks \<or> \<not> is_taken (dk_files s) src k" and "ks \<subseteq> {k}"
  shows "prepares src dest ks s (Finished s)"
proof -
  have "\<not> (k' \<in> ks \<and> is_taken (dk_files s) src k')" for k' using assms(2,3) by auto
  then have "grafted directories_only src dest ks (dk_files s) = map_of (dk_files s)"
    by (auto simp: grafted_def fun_eq_iff)
  moreover have "copies_below src dest ks (dk_files s) = {}"
  proof -
    have "\<not> is_taken (dk_files s) src k' \<Longrightarrow> map_of (dk_files s) (src @ k' # r) \<noteq> Some (Regular c)" for k' r c
      using ancestor_is_directory [OF assms(1), of "src @ [k']" r "Regular c"]
      by (cases "r = []") (auto simp: is_taken_def)
    then show ?thesis using assms(2,3) by (auto simp: copies_below_def)
  qed
  ultimately show ?thesis using assms(1) by (simp add: prepares_def)
qed

lemma copyDir_step_cases:
  "copyDir_step del rec src dest k s = (case entry_of s (src @ [k]) of
     None \<Rightarrow> Threw ENOENT s
   | Some Special \<Rightarrow> Finished s
   | Some (Regular c) \<Rightarrow> and_then
       (if existsSync s (dest @ [k])
        then unlinkSync (dest @ [k]) (logged (Delete_file (dest @ [k])) s) else Finished s)
       (\<lambda>s. pipe (src @ [k]) (dest @ [k]) (logged (Copy_file (dest @ [k])) s))
   | Some Directory \<Rightarrow> and_then
       (if existsSync s (dest @ [k])
        then del (dest @ [k]) (logged (Delete_directory (dest @ [k])) s) else Finished s)
       (\<lambda>s. and_then (mkdirSync (dest @ [k]) (logged (Create_directory (dest @ [k])) s))
         (rec (src @ [k]) (dest @ [k]))))"
proof -
  have *: "and_then r Finished = r" for r by (cases r) auto
  show ?thesis
    by (auto simp: copyDir_step_def statSync_def print_logged Let_def * split: option.split fs_entry.split)
qed

lemma sound_Cons:
  "sound_files fs \<Longrightarrow> map_of fs p = None \<Longrightarrow> p \<noteq> [] \<Longrightarrow> map_of fs (butlast p) = Some Directory \<Longrightarrow>
   sound_files ((p, e) # fs)"
proof -
  assume fs: "sound_files fs" "map_of fs p = None" "p \<noteq> []" "map_of fs (butlast p) = Some Directory"
  have "butlast p \<noteq> p" using fs(2,4) by auto
  moreover have "map_of ((p, e) # fs) (butlast q) = Some Directory" if "(q, e') \<in> set fs" "q \<noteq> []" for q e'
  proof -
    have "map_of fs (butlast q) = Some Directory"
      using fs(1) that by (auto simp: sound_files_def list_all_iff)
    then show ?thesis using fs(2) by auto
  qed
  then have "list_all (\<lambda>(q, e'). q = [] \<or> map_of ((p, e) # fs) (butlast q) = Some Directory) fs"
    by (auto simp: list_all_iff simp del: map_of_eq_Some_iff map_of.simps)
  ultimately show "sound_files ((p, e) # fs)"
    using fs by (simp add: sound_files_def map_of_eq_None_iff)
qed

lemma absent_kept: "map_of fs p = None \<Longrightarrow> filter (\<lambda>(q, e). q \<noteq> p) fs = fs"
  by (rule filter_True) (force simp: map_of_eq_None_iff)

lemma copy_regular:
  assumes fs: "sound_files (dk_files s)"
    and src: "map_of (dk_files s) (src @ [k]) = Some (Regular c)" and fit: "fits (dk_files s) src dest k"
  shows "prepares src dest {k} s (copyDir_step del rec src dest k s)"
proof -
  let ?u = "without (dest @ [k]) s"
  let ?t = "?u\<lparr>dk_pipes := dk_pipes s @ [(src @ [k], dest @ [k])]\<rparr>"
  have no_dir: "map_of (dk_files s) (dest @ [k]) \<noteq> Some Directory"
    using src fit by (simp add: fits_def)
  have leaf: "map_of (dk_files s) (d @ k # r) = None"
    if "map_of (dk_files s) (d @ [k]) \<noteq> Some Directory" "r \<noteq> []" for d r
    using ancestor_is_directory [OF fs, of "d @ [k]" r] that
    by (cases "map_of (dk_files s) (d @ k # r)") auto
  have "map_of (dk_files ?t) p = grafted directories_only src dest {k} (dk_files s) p" for p
  proof (cases "\<exists>k r. p = dest @ k # r")
    case True
    then obtain k' r where p: "p = dest @ k' # r" by blast
    have "directories_only (map_of (dk_files s) (src @ k # r)) = None"
      using src leaf [of src r] by (cases "r = []") (auto simp: directories_only_def)
    moreover have "r \<noteq> [] \<Longrightarrow> map_of (dk_files s) (dest @ k # r) = None" using leaf no_dir by blast
    ultimately show ?thesis
      using src by (auto simp: p grafted_below without_def map_of_kept is_taken_def)
  next
    case False
    then show ?thesis by (auto simp: grafted_elsewhere without_def map_of_kept)
  qed
  moreover have "copies_below src dest {k} (dk_files s) = {(src @ [k], dest @ [k])}"
    using src leaf [of src] by (auto simp: copies_below_def) (metis option.distinct(1))+
  moreover have "sound_files (dk_files ?t)"
  proof -
    have "butlast q \<noteq> dest @ [k]" if "(q, e) \<in> set (dk_files s)" "q \<noteq> []" for q e
      using fs that no_dir by (auto simp: sound_files_def list_all_iff)
    then show ?thesis using fs
      by (auto simp: without_def sound_files_def list_all_iff distinct_kept map_of_kept)
  qed
  ultimately have "prepares src dest {k} s (Finished (?t\<lparr>dk_log := l\<rparr>))" for l by (simp add: prepares_def)
  moreover have "without (dest @ [k]) s = s" if "map_of (dk_files s) (dest @ [k]) = None"
    using that by (simp add: without_def absent_kept)
  ultimately show ?thesis
    using src no_dir
    by (auto simp: copyDir_step_cases entry_of_def existsSync_def unlinkSync_def pipe_def
        without_def logged_def files_first pipes_first split: fs_entry.split)
qed

text \<open>A new directory takes the place of whatever was there.\<close>

definition makes_room :: "fpath \<Rightarrow> disk \<Rightarrow> disk \<Rightarrow> bool" where
  "makes_room d s t = (sound_files (dk_files t) \<and> dk_pipes t = dk_pipes s
     \<and> set (dk_files t) \<subseteq> insert (d, Directory) (set (dk_files s))
     \<and> (\<forall>p. map_of (dk_files t) p =
          (if p = d then Some Directory else if prefix d p then None else map_of (dk_files s) p)))"

lemma pruned_clean:
  assumes "\<not> special_below fs d"
  shows "map_of (pruned_all {d} fs) p = (if prefix d p then None else map_of fs p)"
proof -
  have "special_below fs p \<Longrightarrow> \<not> prefix d p"
    using assms by (auto simp: special_below_def list_ex_iff dest: prefix_order.trans)
  then show ?thesis by (auto simp: map_of_pruned_all)
qed

lemma absent_below:
  assumes "sound_files fs" and "map_of fs d = None" and "prefix d p"
  shows "map_of fs p = None"
proof -
  obtain r where r: "p = d @ r" using assms(3) by (auto simp: prefix_def)
  then show ?thesis
    using ancestor_is_directory [OF assms(1), of d r] assms(2) by (cases "map_of fs p"; cases "r = []") auto
qed

lemma room_made:
  assumes fs: "sound_files (dk_files s)" and own: "map_of (dk_files s) dest = Some Directory"
    and src: "map_of (dk_files s) (src @ [k]) = Some Directory" and fit: "fits (dk_files s) src dest k"
    and flat: "shallow (dk_files s) (dest @ [k]) n"
  shows "\<exists>t. makes_room (dest @ [k]) s t
    \<and> copyDir_step (delDir n) rec src dest k s = rec (src @ [k]) (dest @ [k]) t"
proof -
  let ?d = "dest @ [k]"
  let ?new = "\<lambda>F. (?d, Directory) # F"
  have make: "mkdirSync ?d (logged m (s\<lparr>dk_files := F, dk_log := l\<rparr>)) =
      Finished (s\<lparr>dk_files := ?new F, dk_log := l @ [m]\<rparr>)"
    if "map_of F ?d = None" "map_of F dest = Some Directory" for F l m
    using that by (simp add: mkdirSync_def existsSync_def entry_of_def parent_check_def logged_def files_first)
  have room: "makes_room ?d s (s\<lparr>dk_files := ?new F, dk_log := l\<rparr>)"
    if "sound_files F" "set F \<subseteq> set (dk_files s)"
      "\<And>p. map_of F p = (if prefix ?d p then None else map_of (dk_files s) p)" for F l
    using that own by (auto simp: makes_room_def simp del: map_of_eq_Some_iff intro: sound_Cons)
  show ?thesis
  proof (cases "map_of (dk_files s) ?d")
    case None
    have "makes_room ?d s (s\<lparr>dk_files := ?new (dk_files s), dk_log := l\<rparr>)" for l
      by (rule room) (use fs None absent_below [OF fs] in auto)
    then show ?thesis
      using make [where F = "dk_files s" and l = "dk_log s"] None own src
      by (auto simp: copyDir_step_cases entry_of_def existsSync_def)
  next
    case (Some e)
    then have e: "e = Directory" and clean: "\<not> special_below (dk_files s) ?d"
      using fit src by (auto simp: fits_def split: fs_entry.splits)
    let ?F = "pruned_all {?d} (dk_files s)" and ?l = "logged (Delete_directory ?d) s"
    have "makes_room ?d s (s\<lparr>dk_files := ?new ?F, dk_log := l\<rparr>)" for l
      by (rule room) (use fs sound_pruned_all set_pruned_all pruned_clean [OF clean] in auto)
    moreover have "deletes {?d} ?l (delDir n ?d ?l)"
      by (rule delDir_works) (use fs Some e flat in \<open>auto simp: logged_def\<close>)
    then obtain l where "delDir n ?d ?l = Finished (s\<lparr>dk_files := ?F, dk_log := l\<rparr>)"
      by (auto simp: deletes_def logged_def files_first)
    moreover have "map_of ?F ?d = None" "map_of ?F dest = Some Directory"
      using own by (simp_all add: pruned_clean [OF clean])
    ultimately show ?thesis
      using make [where F = ?F] Some src by (auto simp: copyDir_step_cases entry_of_def existsSync_def)
  qed
qed

lemma room_source:
  assumes "makes_room (dest @ [k]) s t" and "parallel src dest"
  shows "map_of (dk_files t) (src @ q) = map_of (dk_files s) (src @ q)"
proof -
  have "\<not> prefix (dest @ [k]) (src @ q)"
    using parallel_not_below [OF assms(2), of q] by (auto simp: prefix_def)
  then show ?thesis using assms(1) by (auto simp: makes_room_def)
qed

lemma not_taken_below:
  assumes "sound_files fs" and "\<not> (j \<in> set (names_in fs d) \<and> is_taken fs d j)"
  shows "map_of fs (d @ j # q) \<in> {None, Some Special}"
  using assms(2) ancestor_is_directory [OF assms(1), of "d @ [j]" q]
  by (cases "map_of fs (d @ j # q)"; cases "q = []") (auto simp: names_in_iff is_taken_def)

text \<open>The new directory is filled from its namesake: then the whole name is copied.\<close>

lemma room_grafted:
  assumes fs: "sound_files (dk_files s)" and par: "parallel src dest"
    and src: "map_of (dk_files s) (src @ [k]) = Some Directory" and room: "makes_room (dest @ [k]) s t"
  shows "grafted directories_only (src @ [k]) (dest @ [k]) (set (names_in (dk_files s) (src @ [k]))) (dk_files t) p
      = grafted directories_only src dest {k} (dk_files s) p" (is "?l p = ?r p")
proof (cases "prefix (dest @ [k]) p")
  case True
  then obtain q where p: "p = dest @ k # q" by (auto simp: prefix_def)
  let ?ks = "set (names_in (dk_files s) (src @ [k]))"
  have t: "map_of (dk_files t) (dest @ [k]) = Some Directory" "map_of (dk_files t) (dest @ k # j # q) = None" for j q
    using room by (auto simp: makes_room_def)
  have same: "map_of (dk_files t) ((src @ [k]) @ q) = map_of (dk_files s) ((src @ [k]) @ q)" for q
    using room_source [OF room par, of "k # q"] by simp
  show ?thesis
  proof (cases q)
    case Nil
    then show ?thesis using src grafted_below [of directories_only src dest "{k}" "dk_files s" k q]
      by (simp add: p grafted_elsewhere t is_taken_def directories_only_def)
  next
    case (Cons j q')
    have "?l (dest @ k # j # q') = directories_only (map_of (dk_files s) (src @ k # j # q'))"
      using grafted_below [of directories_only "src @ [k]" "dest @ [k]" ?ks "dk_files t" j q']
        not_taken_below [OF fs, of j "src @ [k]" q'] t(2) [of j q'] same [of "j # q'"]
      by (cases "j \<in> ?ks \<and> is_taken (dk_files s) (src @ [k]) j") (auto simp: is_taken_cong [OF same])
    then show ?thesis using src by (simp add: p Cons grafted_below is_taken_def)
  qed
next
  case False
  then have "?l p = map_of (dk_files s) p"
    using room by (auto simp: grafted_def makes_room_def)
  moreover have "?r p = map_of (dk_files s) p"
  proof (cases "\<exists>k r. p = dest @ k # r")
    case True
    then obtain j q where "p = dest @ j # q" by blast
    moreover from this False have "j \<noteq> k" by auto
    ultimately show ?thesis by (simp add: grafted_below)
  qed (rule grafted_elsewhere)
  ultimately show ?thesis by simp
qed

lemma filled_room:
  assumes fs: "sound_files (dk_files s)" and par: "parallel src dest"
    and src: "map_of (dk_files s) (src @ [k]) = Some Directory" and room: "makes_room (dest @ [k]) s t"
    and fill: "prepares (src @ [k]) (dest @ [k]) (set (names_in (dk_files t) (src @ [k]))) t r"
  shows "prepares src dest {k} s r"
proof -
  let ?ks = "set (names_in (dk_files s) (src @ [k]))"
  have same: "map_of (dk_files t) (src @ k # q) = map_of (dk_files s) (src @ k # q)" for q
    by (rule room_source [OF room par])
  have names: "set (names_in (dk_files t) (src @ [k])) = ?ks"
    using same [of "[_]"] by (auto simp: names_in_iff)
  have "j \<in> ?ks" if "map_of (dk_files s) (src @ k # j # q) = Some (Regular c)" for j q c
    using not_taken_below [OF fs, of j "src @ [k]" q] that by auto
  moreover have "q \<noteq> []" if "map_of (dk_files s) (src @ k # q) = Some (Regular c)" for q c
    using src that by auto
  ultimately have "copies_below (src @ [k]) (dest @ [k]) ?ks (dk_files t) = copies_below src dest {k} (dk_files s)"
    by (auto simp: copies_below_def same neq_Nil_conv) (metis neq_Nil_conv)+
  then show ?thesis
    using fill room unfolding names
    by (auto simp: prepares_def room_grafted [OF fs par src room] makes_room_def)
qed

lemma copyDir_step_prepares:
  assumes rec: "\<And>t. sound_files (dk_files t) \<Longrightarrow> map_of (dk_files t) (src @ [k]) = Some Directory \<Longrightarrow>
      map_of (dk_files t) (dest @ [k]) = Some Directory \<Longrightarrow>
      (\<And>j. fits (dk_files t) (src @ [k]) (dest @ [k]) j) \<Longrightarrow>
      shallow (dk_files t) (src @ [k]) n \<Longrightarrow> shallow (dk_files t) (dest @ [k]) n \<Longrightarrow>
      prepares (src @ [k]) (dest @ [k]) (set (names_in (dk_files t) (src @ [k]))) t
        (rec (src @ [k]) (dest @ [k]) t)"
    and fs: "sound_files (dk_files s)" and par: "parallel src dest"
    and dest: "map_of (dk_files s) dest = Some Directory" and fit: "fits (dk_files s) src dest k"
    and there: "map_of (dk_files s) (src @ [k]) \<noteq> None"
    and flat: "shallow (dk_files s) src (Suc n)" "shallow (dk_files s) dest (Suc n)"
  shows "prepares src dest {k} s (copyDir_step (delDir n) rec src dest k s)"
proof -
  have flat': "shallow (dk_files s) (d @ [k]) n" if "shallow (dk_files s) d (Suc n)" for d
    using that by (auto simp: shallow_def dest!: append_prefixD)
  obtain e where e: "map_of (dk_files s) (src @ [k]) = Some e" using there by auto
  show ?thesis
  proof (cases e)
    case (Regular c)
    then show ?thesis using copy_regular [OF fs _ fit] e by simp
  next
    case Special
    then show ?thesis using e prepares_nothing [OF fs, of k "{k}"]
      by (simp add: copyDir_step_cases entry_of_def is_taken_def)
  next
    case Directory
    with e have src: "map_of (dk_files s) (src @ [k]) = Some Directory" by simp
    obtain t where t: "makes_room (dest @ [k]) s t"
        "copyDir_step (delDir n) rec src dest k s = rec (src @ [k]) (dest @ [k]) t"
      using room_made [OF fs dest src fit flat' [OF flat(2)]] by blast
    have "\<not> prefix (dest @ [k]) (src @ [k])" "src @ [k] \<noteq> dest @ [k]"
      using parallel_not_below [OF par, of "[k]"] by (auto simp: prefix_def)
    then have src': "map_of (dk_files t) (src @ [k]) = Some Directory"
      using t(1) src by (simp add: makes_room_def)
    have "0 < n" using flat' [OF flat(1)] src by (auto simp: shallow_def dest: map_of_SomeD)
    moreover have not_sym: "dest @ [k] \<noteq> src @ k # q" for q
      using parallel_not_below [OF par, of "k # q" "[k]"] by auto
    have "\<not> prefix (src @ [k]) (dest @ [k])"
      using not_sym by (auto simp: prefix_def)
    moreover have "set (dk_files t) \<subseteq> insert (dest @ [k], Directory) (set (dk_files s))"
      using t(1) by (simp add: makes_room_def)
    ultimately have flat'': "shallow (dk_files t) (src @ [k]) n" "shallow (dk_files t) (dest @ [k]) n"
      using flat' [OF flat(1)] flat' [OF flat(2)] by (auto simp: shallow_def)
    have fit': "fits (dk_files t) (src @ [k]) (dest @ [k]) j" for j
      using t(1) by (auto simp: fits_def makes_room_def split: option.split fs_entry.split)
    have "prepares (src @ [k]) (dest @ [k]) (set (names_in (dk_files t) (src @ [k]))) t
        (rec (src @ [k]) (dest @ [k]) t)"
      using t(1) by (intro rec src' fit' flat'') (auto simp: makes_room_def)
    then show ?thesis using filled_room [OF fs par src t(1)] t(2) by simp
  qed
qed

text \<open>The names that come later are not affected by what was done for the earlier ones.\<close>

lemma shallow_iff:
  "distinct (map fst fs) \<Longrightarrow>
   shallow fs d n \<longleftrightarrow> (\<forall>r. map_of fs (d @ r) \<noteq> None \<longrightarrow> length r < n)"
  by (force simp: shallow_def prefix_def)

lemma prepares_unaffected:
  assumes par: "parallel src dest" and dest: "map_of (dk_files s) dest = Some Directory"
    and fs: "sound_files (dk_files s)" and t: "prepares src dest ks s (Finished t)"
  shows "map_of (dk_files t) (src @ r) = map_of (dk_files s) (src @ r)"
    and "map_of (dk_files t) dest = Some Directory"
    and "shallow (dk_files s) src n \<Longrightarrow> shallow (dk_files t) src n"
    and "shallow (dk_files s) src n \<Longrightarrow> shallow (dk_files s) dest n \<Longrightarrow> shallow (dk_files t) dest n"
    and "j \<notin> ks \<Longrightarrow> fits (dk_files t) src dest j = fits (dk_files s) src dest j"
proof -
  have m: "map_of (dk_files t) p = grafted directories_only src dest ks (dk_files s) p" for p
    using t by (auto simp: prepares_def)
  have d: "distinct (map fst (dk_files s))" "distinct (map fst (dk_files t))"
    using t fs by (auto simp: prepares_def sound_files_def)
  have same: "map_of (dk_files t) (src @ r) = map_of (dk_files s) (src @ r)" for r
    by (simp only: m grafted_source [OF par])
  show "map_of (dk_files t) (src @ r) = map_of (dk_files s) (src @ r)" by (rule same)
  show "map_of (dk_files t) dest = Some Directory" using dest by (simp add: m grafted_elsewhere)
  show "shallow (dk_files s) src n \<Longrightarrow> shallow (dk_files t) src n"
    by (simp add: shallow_iff d same)
  show "shallow (dk_files t) dest n" if "shallow (dk_files s) src n" "shallow (dk_files s) dest n"
    using that unfolding shallow_iff [OF d(1)] shallow_iff [OF d(2)] m
    by (auto simp: grafted_def directories_only_def split: if_splits)
  assume j: "j \<notin> ks"
  have "map_of (dk_files t) (dest @ j # r) = map_of (dk_files s) (dest @ j # r)" for r
    using j by (simp add: m grafted_below)
  then have "map_of (dk_files t) q = map_of (dk_files s) q" if "prefix (dest @ [j]) q" for q
    using that by (auto simp: prefix_def)
  then have "special_below (dk_files t) (dest @ [j]) = special_below (dk_files s) (dest @ [j])"
    "map_of (dk_files t) (dest @ [j]) = map_of (dk_files s) (dest @ [j])"
    unfolding special_below_iff [OF d(1)] special_below_iff [OF d(2)] by (metis, simp)
  then show "fits (dk_files t) src dest j = fits (dk_files s) src dest j"
    unfolding fits_def same by (simp only:)
qed

lemma copy_names:
  assumes rec: "\<And>src dest t. sound_files (dk_files t) \<Longrightarrow> parallel src dest \<Longrightarrow>
      map_of (dk_files t) src = Some Directory \<Longrightarrow> map_of (dk_files t) dest = Some Directory \<Longrightarrow>
      (\<And>j. fits (dk_files t) src dest j) \<Longrightarrow> shallow (dk_files t) src n \<Longrightarrow> shallow (dk_files t) dest n \<Longrightarrow>
      prepares src dest (set (names_in (dk_files t) src)) t (rec src dest t)"
    and par: "parallel src dest"
    and "sound_files (dk_files s)" and "map_of (dk_files s) dest = Some Directory" and "distinct ks"
    and "\<And>k. k \<in> set ks \<Longrightarrow> map_of (dk_files s) (src @ [k]) \<noteq> None \<and> fits (dk_files s) src dest k"
    and "shallow (dk_files s) src (Suc n)" and "shallow (dk_files s) dest (Suc n)"
  shows "prepares src dest (set ks) s (for_each (copyDir_step (delDir n) rec src dest) ks s)"
  using assms(3-)
proof (induction ks arbitrary: s)
  case Nil
  then show ?case using prepares_nothing [of s _ "{}"] by simp
next
  case (Cons k ks)
  have "prepares src dest {k} s (copyDir_step (delDir n) rec src dest k s)"
    by (rule copyDir_step_prepares) (use Cons.prems par in \<open>auto intro!: rec parallel_append\<close>)
  then obtain t where step: "copyDir_step (delDir n) rec src dest k s = Finished t"
      "prepares src dest {k} s (Finished t)" by (auto simp: prepares_def)
  note other = prepares_unaffected [OF par Cons.prems(2,1) step(2)]
  have "prepares src dest (set ks) t (for_each (copyDir_step (delDir n) rec src dest) ks t)"
  proof (rule Cons.IH)
    show "map_of (dk_files t) (src @ [j]) \<noteq> None \<and> fits (dk_files t) src dest j" if "j \<in> set ks" for j
      using Cons.prems(3) Cons.prems(4) [of j] that other(5) [of j] by (cases "j = k") (auto simp: other(1))
  qed (use step(2) Cons.prems other in \<open>auto simp: prepares_def\<close>)
  then show ?case using prepares_more [OF par _ step(2)] Cons.prems(3) by (simp add: step(1))
qed

lemma copyDir_prepares:
  "sound_files (dk_files s) \<Longrightarrow> parallel src dest \<Longrightarrow>
   map_of (dk_files s) src = Some Directory \<Longrightarrow> map_of (dk_files s) dest = Some Directory \<Longrightarrow>
   (\<And>k. fits (dk_files s) src dest k) \<Longrightarrow> shallow (dk_files s) src n \<Longrightarrow> shallow (dk_files s) dest n \<Longrightarrow>
   prepares src dest (set (names_in (dk_files s) src)) s (copyDir n src dest s)"
proof (induction n arbitrary: src dest s)
  case 0
  then show ?case using map_of_SomeD [OF 0(3)] by (auto simp: shallow_def)
next
  case (Suc n)
  have "prepares src dest (set (names_in (dk_files s) src)) s
      (for_each (copyDir_step (delDir n) (copyDir n) src dest) (names_in (dk_files s) src) s)"
    by (rule copy_names) (use Suc in \<open>auto simp: sound_files_def distinct_names_in names_in_iff\<close>)
  then show ?case using Suc.prems(3) by (simp add: readdirSync_def entry_of_def)
qed

section \<open>The streams\<close>

text \<open>Sources are files that no stream writes, targets are files or free places in a directory.\<close>

definition ready :: "(fpath \<times> fpath) list \<Rightarrow> files \<Rightarrow> bool" where
  "ready order fs = (\<forall>(a, b) \<in> set order. (\<exists>c. map_of fs a = Some (Regular c))
     \<and> (map_of fs b = None \<or> (\<exists>c. map_of fs b = Some (Regular c)))
     \<and> map_of fs (butlast b) = Some Directory
     \<and> (\<forall>(a', b') \<in> set order. a \<noteq> b' \<and> (b = b' \<longrightarrow> a = a')))"

lemma write_file_writes:
  assumes "map_of (dk_files s) p = None \<or> (\<exists>d. map_of (dk_files s) p = Some (Regular d))"
    and "map_of (dk_files s) (butlast p) = Some Directory"
  shows "\<exists>t. write_file p c s = Finished t
    \<and> (\<forall>q. map_of (dk_files t) q = (if q = p then Some (Regular c) else map_of (dk_files s) q))"
proof -
  have "map_of (map (\<lambda>(q, e). (q, if q = p then Regular c else e)) fs) q =
      (if q = p then map_option (\<lambda>_. Regular c) (map_of fs q) else map_of fs q)" for fs q
    by (induction fs) auto
  then show ?thesis using assms
    by (auto simp: write_file_def entry_of_def parent_check_def)
qed

lemma drain_writes:
  assumes "ready order (dk_files s)"
  shows "\<exists>t. drain order s = Finished t
    \<and> (\<forall>(a, b) \<in> set order. map_of (dk_files t) b = map_of (dk_files s) a)
    \<and> (\<forall>p. p \<notin> snd ` set order \<longrightarrow> map_of (dk_files t) p = map_of (dk_files s) p)"
  using assms
proof (induction order arbitrary: s)
  case Nil
  then show ?case by (simp add: drain_def)
next
  case (Cons ab order)
  obtain a b where ab: "ab = (a, b)" by (cases ab)
  obtain c where c: "map_of (dk_files s) a = Some (Regular c)"
    using Cons.prems by (auto simp: ready_def ab)
  obtain u where u: "write_file b c s = Finished u"
      "\<And>q. map_of (dk_files u) q = (if q = b then Some (Regular c) else map_of (dk_files s) q)"
    using write_file_writes [of s b c] Cons.prems by (auto simp: ready_def ab)
  have still: "map_of (dk_files u) x = map_of (dk_files s) x" "map_of (dk_files u) (butlast y) = Some Directory"
      "map_of (dk_files u) y = None \<or> (\<exists>c. map_of (dk_files u) y = Some (Regular c))"
    if "(x, y) \<in> set order" for x y
    using Cons.prems that by (fastforce simp: ready_def ab u(2))+
  have "ready order (dk_files u)"
    unfolding ready_def
  proof (clarify, intro conjI)
    fix x y assume xy: "(x, y) \<in> set order"
    show "\<exists>c. map_of (dk_files u) x = Some (Regular c)"
      using Cons.prems xy unfolding ready_def still(1) [OF xy] by auto
    show "\<forall>(x', y') \<in> set order. x \<noteq> y' \<and> (y = y' \<longrightarrow> x = x')"
      using Cons.prems xy unfolding ready_def by auto
  qed (fact still(2) still(3))+
  then obtain t where t: "drain order u = Finished t"
      "\<And>a b. (a, b) \<in> set order \<Longrightarrow> map_of (dk_files t) b = map_of (dk_files u) a"
      "\<And>p. p \<notin> snd ` set order \<Longrightarrow> map_of (dk_files t) p = map_of (dk_files u) p"
    using Cons.IH by blast
  have "map_of (dk_files t) b = map_of (dk_files s) a"
  proof (cases "b \<in> snd ` set order")
    case True
    then obtain x where "(x, b) \<in> set order" by auto
    moreover from this have "x = a" using Cons.prems by (auto simp: ready_def ab)
    ultimately show ?thesis using t(2) still(1) by simp
  qed (simp add: t(3) u(2) c)
  moreover have "transfer ab s = Finished u"
    using u(1) c by (simp add: transfer_def read_file_def entry_of_def ab)
  ultimately show ?case using t still(1) u(2) by (auto simp: drain_def ab)
qed

section \<open>What the scripts achieve\<close>

definition no_clash :: "files \<Rightarrow> fpath \<Rightarrow> fpath \<Rightarrow> bool" where
  "no_clash fs src dest = list_all (fits fs src dest) (names_in fs src)"

definition mirrored :: "fpath \<Rightarrow> fpath \<Rightarrow> files \<Rightarrow> fpath \<Rightarrow> fs_entry option" where
  "mirrored src dest fs = grafted no_special src dest (set (names_in fs src)) fs"

lemma no_clash_fits: "no_clash fs src dest \<Longrightarrow> fits fs src dest k"
  by (cases "k \<in> set (names_in fs src)") (auto simp: no_clash_def list_all_iff names_in_iff fits_def)

lemma depth_bound_shallow:
  assumes "depth_bound fs \<le> n"
  shows "shallow fs d n"
proof -
  have "length p < depth_bound fs" if "(p, e) \<in> set fs" for p e
    using that unfolding depth_bound_def by (induction fs) (auto simp: less_Suc_eq_le max.coboundedI2)
  then show ?thesis using assms by (fastforce simp: shallow_def)
qed

lemma copied_names:
  assumes fs: "sound_files fs" and c: "map_of fs (src @ k # r) = Some (Regular c)"
  shows "k \<in> set (names_in fs src)" and "is_taken fs src k"
  using c ancestor_is_directory [OF fs, of "src @ [k]" r] by (cases "r = []"; auto simp: names_in_iff is_taken_def)+

lemma pipes_ready:
  assumes fs: "sound_files fs" and par: "parallel src dest" and dest: "map_of fs dest = Some Directory"
    and m: "\<And>p. map_of gs p = grafted directories_only src dest (set (names_in fs src)) fs p"
    and order: "set order = copies_below src dest (set (names_in fs src)) fs"
  shows "ready order gs"
  unfolding ready_def
proof (clarify, intro conjI)
  fix a b assume "(a, b) \<in> set order"
  then obtain k r c where ab: "a = src @ k # r" "b = dest @ k # r"
      and c: "map_of fs (src @ k # r) = Some (Regular c)" by (auto simp: order copies_below_def)
  note k = copied_names [OF fs c]
  show "\<exists>c. map_of gs a = Some (Regular c)" using c by (simp add: ab m grafted_source [OF par])
  have "map_of gs b = None" using k c by (simp add: ab m grafted_below directories_only_def)
  then show "map_of gs b = None \<or> (\<exists>c. map_of gs b = Some (Regular c))" ..
  show "map_of gs (butlast b) = Some Directory"
  proof (cases "r = []")
    case True
    then show ?thesis using dest by (simp add: ab m grafted_elsewhere)
  next
    case False
    then show ?thesis using k parent_is_directory [OF fs c]
      by (simp add: ab butlast_append m grafted_below directories_only_def)
  qed
  show "\<forall>(a', b') \<in> set order. a \<noteq> b' \<and> (b = b' \<longrightarrow> a = a')"
    using parallel_not_below [OF par] by (auto simp: order copies_below_def ab)
qed

lemma streams_finish:
  assumes fs: "sound_files (dk_files s)" and par: "parallel src dest"
    and dest: "map_of (dk_files s) dest = Some Directory" and none: "dk_pipes s = []"
    and t: "prepares src dest (set (names_in (dk_files s) src)) s (Finished t)"
    and order: "mset order = mset (dk_pipes t)"
  shows "\<exists>u. drain order t = Finished u \<and> map_of (dk_files u) = mirrored src dest (dk_files s)"
proof -
  let ?ks = "set (names_in (dk_files s) src)"
  have m: "map_of (dk_files t) p = grafted directories_only src dest ?ks (dk_files s) p" for p
    using t by (auto simp: prepares_def)
  have set_order: "set order = copies_below src dest ?ks (dk_files s)"
    using t none mset_eq_setD [OF order] by (auto simp: prepares_def)
  obtain u where u: "drain order t = Finished u"
      "\<And>a b. (a, b) \<in> set order \<Longrightarrow> map_of (dk_files u) b = map_of (dk_files t) a"
      "\<And>p. p \<notin> snd ` set order \<Longrightarrow> map_of (dk_files u) p = map_of (dk_files t) p"
    using drain_writes [OF pipes_ready [OF fs par dest m set_order]] by blast
  have "map_of (dk_files u) p = mirrored src dest (dk_files s) p" for p
  proof (cases "p \<in> snd ` set order")
    case True
    then obtain k r c where p: "p = dest @ k # r" "(src @ k # r, p) \<in> set order"
        and c: "map_of (dk_files s) (src @ k # r) = Some (Regular c)"
      by (auto simp: set_order copies_below_def)
    show ?thesis
      using u(2) [OF p(2)] c copied_names [OF fs c]
      by (simp add: p(1) mirrored_def grafted_below m grafted_source [OF par] no_special_def)
  next
    case False
    have "directories_only (map_of (dk_files s) (src @ k # r)) = no_special (map_of (dk_files s) (src @ k # r))"
      if "p = dest @ k # r" "k \<in> ?ks" for k r
    proof -
      have "map_of (dk_files s) (src @ k # r) \<noteq> Some (Regular c)" for c
        using False that by (force simp: set_order copies_below_def)
      then show ?thesis
        by (cases "map_of (dk_files s) (src @ k # r)"; cases "the (map_of (dk_files s) (src @ k # r))")
          (auto simp: directories_only_def no_special_def)
    qed
    then show ?thesis unfolding u(3) [OF False] m mirrored_def
      by (cases "\<exists>k r. p = dest @ k # r") (auto simp: grafted_below grafted_elsewhere)
  qed
  then show ?thesis using u(1) by blast
qed

lemma dist_and_root_parallel: "parallel (distPath up) (rootPath up)"
  by (simp add: distPath_def rootPath_def dirname_def butlast_append parallel_def)

lemma for_each_append: "for_each f (xs @ ys) s = and_then (for_each f xs s) (for_each f ys)"
proof (induction xs arbitrary: s)
  case (Cons x xs)
  then show ?case by (cases "f x s") auto
qed simp

lemma clash_throws:
  assumes fs: "sound_files (dk_files s)" and clash: "\<not> fits (dk_files s) src dest k"
    and dest: "map_of (dk_files s) dest = Some Directory" and flat: "shallow (dk_files s) (dest @ [k]) (Suc n)"
  shows "\<exists>e t. copyDir_step (delDir (Suc n)) rec src dest k s = Threw e t"
proof -
  let ?d = "dest @ [k]"
  consider (is_file) c where "map_of (dk_files s) (src @ [k]) = Some (Regular c)"
      "map_of (dk_files s) ?d = Some Directory"
    | (leaf) e where "map_of (dk_files s) (src @ [k]) = Some Directory"
      "map_of (dk_files s) ?d = Some e" "e \<noteq> Directory"
    | (special) "map_of (dk_files s) (src @ [k]) = Some Directory"
      "map_of (dk_files s) ?d = Some Directory" "special_below (dk_files s) ?d"
    using clash by (auto simp: fits_def split: option.splits fs_entry.splits)
  then show ?thesis
  proof cases
    case is_file
    then show ?thesis
      by (simp add: copyDir_step_cases entry_of_def existsSync_def unlinkSync_def logged_def)
  next
    case leaf
    then show ?thesis
      by (cases e) (simp_all add: copyDir_step_cases entry_of_def existsSync_def readdirSync_def logged_def)
  next
    case special
    let ?l = "logged (Delete_directory ?d) s"
    have "deletes {?d} ?l (delDir (Suc n) ?d ?l)"
      by (rule delDir_works) (use fs special flat in \<open>auto simp: logged_def\<close>)
    then obtain l where "delDir (Suc n) ?d ?l =
        Finished (s\<lparr>dk_files := pruned_all {?d} (dk_files s), dk_log := l\<rparr>)"
      by (auto simp: deletes_def logged_def files_first)
    moreover have "map_of (pruned_all {?d} (dk_files s)) ?d = Some Directory"
      using special by (simp add: map_of_pruned_all)
    ultimately show ?thesis using special
      by (simp add: copyDir_step_cases entry_of_def existsSync_def mkdirSync_def logged_def
          del: delDir.simps)
  qed
qed

lemma copyDir_clash:
  assumes fs: "sound_files (dk_files s)" and par: "parallel src dest"
    and dir: "map_of (dk_files s) src = Some Directory" "map_of (dk_files s) dest = Some Directory"
    and clash: "\<not> no_clash (dk_files s) src dest"
    and flat: "shallow (dk_files s) src n" "shallow (dk_files s) dest n"
  shows "\<exists>e t. copyDir n src dest s = Threw e t"
proof -
  let ?ks = "names_in (dk_files s) src"
  have "\<exists>k \<in> set ?ks. \<not> fits (dk_files s) src dest k" using clash by (auto simp: no_clash_def list_all_iff)
  then obtain as k bs where ks: "?ks = as @ k # bs" and k: "\<not> fits (dk_files s) src dest k"
      and as: "\<forall>j \<in> set as. fits (dk_files s) src dest j"
    using split_list_first_prop [of ?ks "\<lambda>k. \<not> fits (dk_files s) src dest k"] by auto
  have d: "distinct (as @ k # bs)" using distinct_names_in [of "dk_files s" src] fs ks by (simp add: sound_files_def)
  have there: "map_of (dk_files s) (src @ [j]) \<noteq> None" if "j \<in> set (as @ [k])" for j
  proof -
    have "j \<in> set ?ks" using that ks by auto
    then show ?thesis by (simp only: names_in_iff) simp
  qed
  have "\<exists>e. (src @ [k], e) \<in> set (dk_files s)"
    using there [of k] map_of_SomeD [of "dk_files s" "src @ [k]"] by fastforce
  then have "1 < n" using flat(1) by (auto simp: shallow_def)
  then obtain m where n: "n = Suc (Suc m)" using less_imp_Suc_add [of 1 n] by auto
  have "prepares src dest (set as) s (for_each (copyDir_step (delDir (Suc m)) (copyDir (Suc m)) src dest) as s)"
  proof (rule copy_names [OF copyDir_prepares par fs dir(2)])
    show "distinct as" using d by simp
    show "map_of (dk_files s) (src @ [j]) \<noteq> None \<and> fits (dk_files s) src dest j" if "j \<in> set as" for j
      using that there [of j] as by simp
  qed (use flat n in simp_all)
  then obtain t where t: "for_each (copyDir_step (delDir (Suc m)) (copyDir (Suc m)) src dest) as s = Finished t"
      "prepares src dest (set as) s (Finished t)" by (auto simp: prepares_def)
  note other = prepares_unaffected [OF par dir(2) fs t(2)]
  have "shallow (dk_files t) (dest @ [k]) (Suc m)"
    using other(4) [OF flat] by (auto simp: n shallow_def dest!: append_prefixD)
  moreover have "sound_files (dk_files t)" using t(2) by (auto simp: prepares_def)
  moreover have "\<not> fits (dk_files t) src dest k" using other(5) [of k] k d by simp
  ultimately have "\<exists>e u. copyDir_step (delDir (Suc m)) (copyDir (Suc m)) src dest k t = Threw e u"
    using other(2) by (intro clash_throws)
  then obtain e u where "copyDir_step (delDir (Suc m)) (copyDir (Suc m)) src dest k t = Threw e u" by blast
  then show ?thesis
    using dir(1) t(1)
    by (simp add: n copyDir.simps(2) [of "Suc m"] readdirSync_def entry_of_def ks for_each_append
        del: delDir.simps copyDir.simps)
qed

text \<open>The files of a build that \<open>copyFile.js\<close> carries over.\<close>

definition carried :: "fpath \<Rightarrow> files \<Rightarrow> fpath list" where
  "carried up fs = filter (\<lambda>name. map_of fs (distPath up @ name) \<noteq> None) copyList"

lemma entry_tests:
  "(case x of Some (Regular c) \<Rightarrow> True | _ \<Rightarrow> False) \<longleftrightarrow> (\<exists>c. x = Some (Regular c))"
  "(case x of None \<Rightarrow> True | Some (Regular c) \<Rightarrow> True | _ \<Rightarrow> False) \<longleftrightarrow> x = None \<or> (\<exists>c. x = Some (Regular c))"
  "(case x of None \<Rightarrow> True | Some Directory \<Rightarrow> True | _ \<Rightarrow> False) \<longleftrightarrow> x \<in> {None, Some Directory}"
  by (auto split: option.split fs_entry.split)

text \<open>What there must be: where the build has one of the names it has a file, and in the static directory
there is a file of that name, or none, in a directory of that name, or none.\<close>

definition carriable :: "fpath \<Rightarrow> files \<Rightarrow> bool" where
  "carriable up fs = list_all (\<lambda>name.
     (case map_of fs (distPath up @ name) of Some (Regular c) \<Rightarrow> True | _ \<Rightarrow> False)
     \<and> (case map_of fs (rootPath up @ name) of None \<Rightarrow> True | Some (Regular c) \<Rightarrow> True | _ \<Rightarrow> False)
     \<and> (case map_of fs (rootPath up @ butlast name) of None \<Rightarrow> True | Some Directory \<Rightarrow> True | _ \<Rightarrow> False))
     (carried up fs)"

definition carried_over :: "fpath \<Rightarrow> files \<Rightarrow> fpath \<Rightarrow> fs_entry option" where
  "carried_over up fs p =
     (if prefix (rootPath up) p \<and> drop (length (rootPath up)) p \<in> set (carried up fs)
      then map_of fs (distPath up @ drop (length (rootPath up)) p)
      else if p \<in> (\<lambda>name. rootPath up @ butlast name) ` set (carried up fs) then Some Directory
      else map_of fs p)"

text \<open>The directories that the script makes, and the streams it starts, after some of the names.\<close>

definition carries :: "fpath \<Rightarrow> fpath list \<Rightarrow> disk \<Rightarrow> outcome \<Rightarrow> bool" where
  "carries up names s r = (\<exists>t. r = Finished t
     \<and> (\<forall>p. map_of (dk_files t) p = (if p \<in> (\<lambda>name. rootPath up @ butlast name) ` set names
          then Some Directory else map_of (dk_files s) p))
     \<and> dk_pipes t = dk_pipes s @ map (\<lambda>name. (distPath up @ name, rootPath up @ name)) names)"

lemma copy_one_carries:
  assumes "map_of (dk_files s) (distPath up @ name) \<noteq> None" and "name \<noteq> []" and "length name \<le> 2"
    and "map_of (dk_files s) (rootPath up) = Some Directory"
    and "map_of (dk_files s) (rootPath up @ butlast name) \<in> {None, Some Directory}"
  shows "carries up [name] s (copy_one up name s)"
proof -
  have "butlast (butlast (rootPath up @ name)) = rootPath up" if long: "butlast name \<noteq> []"
  proof -
    obtain a b where "name = [a, b]" using long assms(3) by (cases name rule: remdups_adj.cases) auto
    then show ?thesis by (simp add: butlast_append)
  qed
  then have parent: "butlast name \<noteq> [] \<Longrightarrow> butlast (rootPath up @ butlast name) = rootPath up"
    using assms(2) by (simp add: butlast_append)
  show ?thesis
    using assms parent
    by (cases "butlast name = []"; cases "map_of (dk_files s) (rootPath up @ butlast name)")
      (auto simp: carries_def copy_one_def existsSync_def entry_of_def copy_file_mkdir_def mkdirSync_def
        parent_check_def pipe_def butlast_append fun_eq_iff simp del: map_of_eq_Some_iff map_of_eq_None_iff)
qed

lemma dist_not_root: "distPath up @ q \<noteq> rootPath up @ r"
  using parallel_not_below [OF dist_and_root_parallel] .

lemma copy_names_carry:
  assumes "\<And>name. name \<in> set names \<Longrightarrow> name \<noteq> [] \<and> length name \<le> 2"
    and "map_of (dk_files s) (rootPath up) = Some Directory"
    and "\<And>name. name \<in> set names \<Longrightarrow> map_of (dk_files s) (distPath up @ name) \<noteq> None \<Longrightarrow>
      map_of (dk_files s) (rootPath up @ butlast name) \<in> {None, Some Directory}"
  shows "carries up (filter (\<lambda>name. map_of (dk_files s) (distPath up @ name) \<noteq> None) names) s
    (for_each (copy_one up) names s)"
  using assms
proof (induction names arbitrary: s)
  case Nil
  then show ?case by (simp add: carries_def)
next
  case (Cons name names)
  show ?case
  proof (cases "map_of (dk_files s) (distPath up @ name) = None")
    case True
    then have "copy_one up name s = Finished s" by (simp add: copy_one_def existsSync_def entry_of_def)
    then show ?thesis using Cons True by simp
  next
    case False
    have "carries up [name] s (copy_one up name s)"
      using Cons.prems False by (intro copy_one_carries) (auto simp del: map_of_eq_Some_iff map_of_eq_None_iff)
    then obtain t where t: "copy_one up name s = Finished t"
        "\<And>p. map_of (dk_files t) p =
          (if p = rootPath up @ butlast name then Some Directory else map_of (dk_files s) p)"
        "dk_pipes t = dk_pipes s @ [(distPath up @ name, rootPath up @ name)]"
      by (auto simp: carries_def)
    have same: "map_of (dk_files t) (distPath up @ q) = map_of (dk_files s) (distPath up @ q)" for q
      by (simp add: t(2) dist_not_root)
    have "carries up (filter (\<lambda>name. map_of (dk_files t) (distPath up @ name) \<noteq> None) names) t
        (for_each (copy_one up) names t)"
      by (rule Cons.IH) (use Cons.prems in \<open>auto simp: t(2) dist_not_root simp del: map_of_eq_Some_iff\<close>)
    then show ?thesis using False unfolding same by (auto simp: t carries_def)
  qed
qed

text \<open>C21. Copying a build: when nothing in the server's static directory has another kind than its namesake in
the build, the script ends; and when its streams have worked, in whatever order, every file and directory
that the build names at its top is the build's, whole, with nothing of the former one left inside, and
everything else on the disk is what it was.\<close>

theorem copy_dist_mirrors:
  assumes "sound_files (dk_files s)" and "dk_pipes s = []"
    and "map_of (dk_files s) (distPath up) = Some Directory"
    and "map_of (dk_files s) (rootPath up) = Some Directory"
    and "no_clash (dk_files s) (distPath up) (rootPath up)"
  shows "\<exists>t. copy_dist up s = Finished t \<and> (\<forall>order. mset order = mset (dk_pipes t) \<longrightarrow>
    (\<exists>u. drain order t = Finished u \<and> map_of (dk_files u) = mirrored (distPath up) (rootPath up) (dk_files s)))"
proof -
  let ?s = "logged Start s"
  have s: "dk_files ?s = dk_files s" "dk_pipes ?s = dk_pipes s" by (simp_all add: logged_def)
  let ?n = "depth_bound (dk_files ?s)"
  have "prepares (distPath up) (rootPath up) (set (names_in (dk_files ?s) (distPath up))) ?s
      (copyDir ?n (distPath up) (rootPath up) ?s)"
    by (rule copyDir_prepares) (use assms in \<open>auto simp: s dist_and_root_parallel no_clash_fits
        intro: depth_bound_shallow simp del: map_of_eq_Some_iff\<close>)
  then obtain t where t: "copyDir ?n (distPath up) (rootPath up) ?s = Finished t"
      "prepares (distPath up) (rootPath up) (set (names_in (dk_files ?s) (distPath up))) ?s (Finished t)"
    by (auto simp: prepares_def)
  have "prepares (distPath up) (rootPath up) (set (names_in (dk_files ?s) (distPath up))) ?s
      (Finished (logged Complete t))"
    using t(2) by (simp add: prepares_def logged_def)
  note done' = streams_finish [OF _ dist_and_root_parallel _ _ this, unfolded s]
  show ?thesis
    using done' assms t(1) by (auto simp: copy_dist_def print_logged simp del: map_of_eq_Some_iff)
qed

lemma carriable_names:
  assumes "carriable up fs" and "name \<in> set (carried up fs)"
  shows "\<exists>c. map_of fs (distPath up @ name) = Some (Regular c)"
    and "map_of fs (rootPath up @ name) = None \<or> (\<exists>c. map_of fs (rootPath up @ name) = Some (Regular c))"
    and "map_of fs (rootPath up @ butlast name) \<in> {None, Some Directory}"
  using assms unfolding carriable_def list_all_iff entry_tests by blast+

lemma copyList_short: "name \<in> set copyList \<Longrightarrow> name \<noteq> [] \<and> length name \<le> 2"
  by (auto simp: copyList_def)

lemma carried_short: "name \<in> set (carried up fs) \<Longrightarrow> name \<noteq> [] \<and> length name \<le> 2"
  by (rule copyList_short) (simp add: carried_def)

lemma carried_not_nested: "name \<in> set (carried up fs) \<Longrightarrow> butlast name \<notin> set (carried up fs)"
  by (simp add: carried_def) (auto simp: copyList_def)

lemma carried_streams:
  assumes able: "carriable up fs"
    and t: "\<And>p. map_of (dk_files t) p = (if p \<in> (\<lambda>name. rootPath up @ butlast name) ` set (carried up fs)
      then Some Directory else map_of fs p)"
    and order: "set order = (\<lambda>name. (distPath up @ name, rootPath up @ name)) ` set (carried up fs)"
  shows "\<exists>u. drain order t = Finished u \<and> map_of (dk_files u) = carried_over up fs"
proof -
  let ?names = "carried up fs"
  have here: "map_of (dk_files t) (rootPath up @ name) = map_of fs (rootPath up @ name)"
      "map_of (dk_files t) (distPath up @ name) = map_of fs (distPath up @ name)" if "name \<in> set ?names" for name
    using carried_not_nested that by (auto simp: t dist_not_root)
  have "ready order (dk_files t)"
    using carriable_names(1,2) [OF able] here carried_short
    by (auto simp: ready_def order dist_not_root butlast_append t
        simp del: map_of_eq_Some_iff map_of_eq_None_iff)
  then obtain u where u: "drain order t = Finished u"
      "\<And>a b. (a, b) \<in> set order \<Longrightarrow> map_of (dk_files u) b = map_of (dk_files t) a"
      "\<And>p. p \<notin> snd ` set order \<Longrightarrow> map_of (dk_files u) p = map_of (dk_files t) p"
    using drain_writes by blast
  have "map_of (dk_files u) p = carried_over up fs p" for p
  proof (cases "p \<in> snd ` set order")
    case True
    then obtain name where "p = rootPath up @ name" "name \<in> set ?names" by (auto simp: order)
    then show ?thesis using u(2) [of "distPath up @ name" p] here by (auto simp: order carried_over_def)
  next
    case False
    then have "\<not> (prefix (rootPath up) p \<and> drop (length (rootPath up)) p \<in> set ?names)"
      by (auto simp: order prefix_def image_iff)
    then show ?thesis using u(3) [OF False] by (auto simp: carried_over_def t)
  qed
  then show ?thesis using u(1) by blast
qed

text \<open>C20. After a build: where the build's files find files, or free places, the script ends, and when its
streams have worked, in whatever order, the three files are those of the build as far as it has them, the
directories they need are there, and everything else on the disk is what it was.\<close>

theorem copy_file_carries_over:
  assumes "map_of (dk_files s) (rootPath up) = Some Directory" and "dk_pipes s = []"
    and "carriable up (dk_files s)"
  shows "\<exists>t. copy_file up s = Finished t \<and> (\<forall>order. mset order = mset (dk_pipes t) \<longrightarrow>
    (\<exists>u. drain order t = Finished u \<and> map_of (dk_files u) = carried_over up (dk_files s)))"
proof -
  let ?names = "carried up (dk_files s)"
  have "carries up ?names s (copy_file up s)"
    unfolding carried_def copy_file_def
    by (rule copy_names_carry)
      (use assms(1) carriable_names(3) [OF assms(3)] in \<open>auto simp: carried_def dest: copyList_short\<close>)
  then obtain t where t: "copy_file up s = Finished t"
      "\<And>p. map_of (dk_files t) p = (if p \<in> (\<lambda>name. rootPath up @ butlast name) ` set ?names
        then Some Directory else map_of (dk_files s) p)"
      "dk_pipes t = map (\<lambda>name. (distPath up @ name, rootPath up @ name)) ?names"
    using assms(2) by (auto simp: carries_def)
  have "\<exists>u. drain order t = Finished u \<and> map_of (dk_files u) = carried_over up (dk_files s)"
    if "mset order = mset (dk_pipes t)" for order
    using carried_streams [OF assms(3) t(2)] mset_eq_setD [OF that] by (simp add: t(3))
  then show ?thesis using t(1) by blast
qed

text \<open>A file of the build over a directory, a directory of the build over a file, or something in the way
that cannot be deleted: the script raises.\<close>

theorem copy_dist_clash:
  assumes "sound_files (dk_files s)"
    and "map_of (dk_files s) (distPath up) = Some Directory"
    and "map_of (dk_files s) (rootPath up) = Some Directory"
    and "\<not> no_clash (dk_files s) (distPath up) (rootPath up)"
  shows "\<exists>e t. copy_dist up s = Threw e t"
proof -
  have "\<exists>e t. copyDir (depth_bound (dk_files s)) (distPath up) (rootPath up) (logged Start s) = Threw e t"
    by (rule copyDir_clash) (use assms in \<open>auto simp: logged_def dist_and_root_parallel
        intro: depth_bound_shallow simp del: map_of_eq_Some_iff\<close>)
  then show ?thesis by (auto simp: copy_dist_def print_logged logged_def)
qed

text \<open>C22. Deleting a directory ends, and takes away exactly what is not on the way to something that is neither
a file nor a directory.\<close>

theorem delDir_prunes:
  assumes "sound_files (dk_files s)" and "map_of (dk_files s) dest = Some Directory"
    and "depth_bound (dk_files s) \<le> n"
  shows "\<exists>t. delDir n dest s = Finished t \<and> dk_files t = pruned dest (dk_files s) \<and> dk_pipes t = dk_pipes s"
  using delDir_works [OF assms(1,2) depth_bound_shallow [OF assms(3)]]
  by (auto simp: deletes_def pruned_is_all)

section \<open>A disk to try them on\<close>

text \<open>A build with a page, a script and a picture; in the static directory a former script, the login page and
a picture of its own.\<close>

definition sample_root :: fpath where
  "sample_root = [''console'', ''src'', ''main'', ''resources'', ''static'']"

definition sample_disk :: disk where
  "sample_disk = \<lparr>dk_files =
     [([], Directory), ([''console-ui''], Directory), ([''console-ui'', ''dist''], Directory),
      ([''console-ui'', ''dist'', ''index.html''], Regular ''new page''),
      ([''console-ui'', ''dist'', ''js''], Directory),
      ([''console-ui'', ''dist'', ''js'', ''main.js''], Regular ''new script''),
      ([''console''], Directory), ([''console'', ''src''], Directory),
      ([''console'', ''src'', ''main''], Directory),
      ([''console'', ''src'', ''main'', ''resources''], Directory), (sample_root, Directory),
      (sample_root @ [''js''], Directory), (sample_root @ [''js'', ''old.js''], Regular ''old script''),
      (sample_root @ [''login.html''], Regular ''login'')],
     dk_pipes = [], dk_log = []\<rparr>"

lemma sample_places:
  "rootPath [] = sample_root" "distPath [] = [''console-ui'', ''dist'']"
  by (simp_all add: rootPath_def distPath_def dirname_def sample_root_def)

lemma sample_sound: "sound_files (dk_files sample_disk)"
  by (simp add: sound_files_def sample_disk_def sample_root_def)

lemma sample_names: "names_in (dk_files sample_disk) [''console-ui'', ''dist''] = [''index.html'', ''js'']"
  by (simp add: names_in_def sample_disk_def sample_root_def)

lemma sample_no_clash: "no_clash (dk_files sample_disk) (distPath []) (rootPath [])"
  by (simp add: no_clash_def sample_places sample_names fits_def)
    (simp add: sample_disk_def sample_root_def special_below_def)

lemma sample_directories:
  "map_of (dk_files sample_disk) (distPath []) = Some Directory"
  "map_of (dk_files sample_disk) (rootPath []) = Some Directory"
  unfolding sample_places by (simp_all add: sample_disk_def sample_root_def del: map_of_eq_Some_iff)

theorem copy_dist_mirrors_witness:
  "\<exists>t u. copy_dist [] sample_disk = Finished t \<and> drain (rev (dk_pipes t)) t = Finished u
    \<and> map_of (dk_files u) (sample_root @ [''index.html'']) = Some (Regular ''new page'')
    \<and> map_of (dk_files u) (sample_root @ [''js'', ''main.js'']) = Some (Regular ''new script'')
    \<and> map_of (dk_files u) (sample_root @ [''js'', ''old.js'']) = None
    \<and> map_of (dk_files u) (sample_root @ [''login.html'']) = Some (Regular ''login'')"
proof -
  obtain t where t: "copy_dist [] sample_disk = Finished t" "\<And>order. mset order = mset (dk_pipes t) \<Longrightarrow>
      \<exists>u. drain order t = Finished u \<and> map_of (dk_files u) = mirrored (distPath []) (rootPath []) (dk_files sample_disk)"
    using copy_dist_mirrors [OF sample_sound _ sample_directories sample_no_clash]
    by (auto simp: sample_disk_def)
  obtain u where u: "drain (rev (dk_pipes t)) t = Finished u"
      "map_of (dk_files u) = mirrored (distPath []) (rootPath []) (dk_files sample_disk)"
    using t(2) [OF mset_rev] by blast
  have m: "map_of (dk_files u) (sample_root @ k # r) = (if k \<in> {''index.html'', ''js''}
      then no_special (map_of (dk_files sample_disk) ([''console-ui'', ''dist''] @ k # r))
      else map_of (dk_files sample_disk) (sample_root @ k # r))" for k r
    unfolding u(2) mirrored_def sample_places sample_names grafted_below
    by (auto simp: is_taken_def sample_disk_def sample_root_def)
  show ?thesis
    using t(1) u(1) m [of "''index.html''" "[]"] m [of "''js''" "[''main.js'']"] m [of "''js''" "[''old.js'']"]
      m [of "''login.html''" "[]"]
    by (intro exI conjI) (simp_all add: no_special_def sample_disk_def sample_root_def del: map_of_eq_Some_iff)
qed

theorem copy_file_carries_over_witness:
  "\<exists>t u. copy_file [] sample_disk = Finished t \<and> drain (rev (dk_pipes t)) t = Finished u
    \<and> map_of (dk_files u) (sample_root @ [''js'', ''main.js'']) = Some (Regular ''new script'')
    \<and> map_of (dk_files u) (sample_root @ [''js'', ''old.js'']) = Some (Regular ''old script'')"
proof -
  have c: "carried [] (dk_files sample_disk) = [[''js'', ''main.js''], [''index.html'']]"
    unfolding carried_def sample_places copyList_def by (simp add: sample_disk_def sample_root_def)
  have able: "carriable [] (dk_files sample_disk)"
    unfolding carriable_def c sample_places by (simp add: sample_disk_def sample_root_def)
  obtain t where t: "copy_file [] sample_disk = Finished t" "\<And>order. mset order = mset (dk_pipes t) \<Longrightarrow>
      \<exists>u. drain order t = Finished u \<and> map_of (dk_files u) = carried_over [] (dk_files sample_disk)"
    using copy_file_carries_over [OF sample_directories(2) _ able] by (auto simp: sample_disk_def)
  obtain u where u: "drain (rev (dk_pipes t)) t = Finished u"
      "map_of (dk_files u) = carried_over [] (dk_files sample_disk)"
    using t(2) [OF mset_rev] by blast
  have "carried_over [] (dk_files sample_disk) (sample_root @ [''js'', ''main.js'']) = Some (Regular ''new script'')"
    "carried_over [] (dk_files sample_disk) (sample_root @ [''js'', ''old.js'']) = Some (Regular ''old script'')"
    unfolding carried_over_def c sample_places
    by (simp_all add: sample_disk_def sample_root_def del: map_of_eq_Some_iff)
  then show ?thesis using t(1) u by auto
qed

theorem delDir_prunes_witness:
  "\<exists>t. delDir 9 sample_root sample_disk = Finished t
    \<and> dk_files t = pruned sample_root (dk_files sample_disk)
    \<and> map_of (dk_files t) sample_root = None"
proof -
  have "depth_bound (dk_files sample_disk) \<le> 9"
    by (simp add: depth_bound_def sample_disk_def sample_root_def)
  moreover have "map_of (pruned sample_root (dk_files sample_disk)) sample_root = None"
    by (simp add: pruned_is_all map_of_pruned_all special_below_def)
      (simp add: sample_disk_def sample_root_def)
  ultimately show ?thesis
    using delDir_prunes [OF sample_sound sample_directories(2), of 9] by (auto simp: sample_places)
qed

end
