(* ===== verification/List_View.thy ===== *)
theory List_View
  imports Config_List
begin

text \<open>
  What the list of configurations draws and what its controls do: \<open>render\<close> and \<open>renderCol\<close> of
  \<open>src/console-ui/src/pages/ConfigurationManagement/ConfigurationManagement/ConfigurationManagement.js\<close>.

  A control is drawn or not, depending on the state; a gesture on a control that is drawn runs the handler
  that \<open>render\<close> has bound to it.  With it the page becomes a step relation, of gestures on what is drawn and
  of answers, and it is shown that the page asks for what it shows.  What stands under \<open>display: none\<close> is not
  drawn.  Widths, colours and icons are left out.
\<close>

section \<open>Controls and gestures\<close>

datatype row_link = Details | SampleCode | Edit | Remove | Menu string

datatype batch = DeleteSelected | CloneSelected | Export | NewExport | ExportSelected | NewExportSelected

datatype cl_control =
    NamespaceBar | CreateButton | DataIdInput | GroupInput | FuzzySwitch | QueryButton | AdvancedButton
  | ImportButton | AppNameInput | TagsSelect | DetailInput
  | ColumnHead string | OperationHead | RowBoxes | RowLink jsval row_link
  | BatchButton batch | PageSizes | PageNumbers

datatype gesture =
    Click | Enter | Type string | Pick "string option" | PickMany "string list option" | Search string
  | Sort string | Mark "jsval list" "jsval list" | Turn jsval bool | Resize jsval
  | Switched jsval jsval jsval | Entered bool

text \<open>The page and what the store holds for it.\<close>

record list_page =
  lp_page :: config_list
  lp_items :: "jsval list"
  lp_total :: jsval
  lp_number :: jsval

section \<open>What is drawn\<close>

definition inApp :: "config_list \<Rightarrow> bool" where
  "inApp s = (cl_edasAppId s \<noteq> [])"

abbreviation advanced :: "config_list \<Rightarrow> bool" where
  "advanced s \<equiv> truthy (st_isAdvancedQuery s)"

type_synonym drawn_item = "cl_control \<times> string \<times> jsval"

definition draw_head :: "(string \<Rightarrow> string) \<Rightarrow> config_list \<Rightarrow> drawn_item list" where
  "draw_head tx s = (if inApp s then []
     else [(NamespaceBar, tx ''configurationManagement8'',
       Arr [snd (snd (st_namespace s)) , fst (snd (st_namespace s)), fst (st_namespace s)])])"

text \<open>A control with its label and the value it shows.\<close>

definition draw_form :: "(string \<Rightarrow> string) \<Rightarrow> config_list \<Rightarrow> drawn_item list" where
  "draw_form tx s =
     [(CreateButton, tx ''createConfiguration'', Undef),
      (DataIdInput, ''Data ID'', Str (cl_dataId s)),
      (GroupInput, ''Group'', Str (st_group s)),
      (FuzzySwitch, tx ''fuzzydMode'', Bool (st_fuzzy s)),
      (QueryButton, tx ''query'', Undef)]
     @ (if inApp s then [] else [(AdvancedButton, tx ''advancedQuery9'', Undef)])
     @ [(ImportButton, tx ''import'', Undef)]
     @ (if inApp s then [] else if advanced s then [(AppNameInput, tx ''application'', Str (st_appName s))] else [])
     @ (if advanced s
        then [(TagsSelect, tx ''tags'', Arr (map Str (st_config_tags s))),
              (DetailInput, tx ''configDetailLabel'', Str (st_config_detail s))]
        else [])"

definition placeholder :: "(string \<Rightarrow> string) \<Rightarrow> config_list \<Rightarrow> cl_control \<Rightarrow> string" where
  "placeholder tx s c =
     (if c = DataIdInput then tx (if st_fuzzy s then ''defaultFuzzyd'' else ''fuzzyd'')
      else if c = GroupInput then tx (if st_fuzzy s then ''defaultFuzzyg'' else ''fuzzyg'')
      else if c = AppNameInput then tx ''app1'' else if c = TagsSelect then tx ''pleaseEnterTag''
      else if c = DetailInput then tx ''configDetailH'' else [])"

definition renderCol :: "(string \<Rightarrow> string) \<Rightarrow> jsval \<Rightarrow> drawn_item list" where
  "renderCol tx rec =
     [(RowLink rec Details, tx ''details'', Undef), (RowLink rec SampleCode, tx ''sampleCode'', Undef),
      (RowLink rec Edit, tx ''edit'', Undef), (RowLink rec Remove, tx ''deleteAction'', Undef),
      (RowLink rec (Menu ''nav1''), tx ''version'', Undef), (RowLink rec (Menu ''nav3''), tx ''listenerQuery'', Undef)]"

definition draw_table :: "(string \<Rightarrow> string) \<Rightarrow> list_page \<Rightarrow> drawn_item list" where
  "draw_table tx v =
     [(RowBoxes, [], Arr (st_selectedRowKeys (lp_page v))),
      (ColumnHead ''dataId'', ''Data Id'', Arr (map (\<lambda>r. field r ''dataId'') (lp_items v))),
      (ColumnHead ''group'', ''Group'', Arr (map (\<lambda>r. field r ''group'') (lp_items v)))]
     @ (if inApp (lp_page v) then []
        else [(ColumnHead ''appName'', tx ''application'', Arr (map (\<lambda>r. field r ''appName'') (lp_items v)))])
     @ [(OperationHead, tx ''operation'', Undef)]
     @ concat (map (renderCol tx) (lp_items v))"

text \<open>The total is a number of the server's, or missing.\<close>

definition some_total :: "jsval \<Rightarrow> bool" where
  "some_total t = (case t of Num n \<Rightarrow> n > 0 | _ \<Rightarrow> False)"

definition draw_batch :: "(string \<Rightarrow> string) \<Rightarrow> list_page \<Rightarrow> drawn_item list" where
  "draw_batch tx v = (if \<not> some_total (lp_total v) then [] else
     [(BatchButton DeleteSelected, tx ''deleteAction'', Undef), (BatchButton CloneSelected, tx ''clone'', Undef),
      (BatchButton Export, tx ''export'', Undef), (BatchButton NewExport, tx ''newExport'', Undef),
      (BatchButton ExportSelected, tx ''exportSelected'', Undef),
      (BatchButton NewExportSelected, tx ''newExportSelected'', Undef),
      (PageSizes, [], st_pageSize (lp_page v)), (PageNumbers, [], lp_number v)])"

definition cl_render :: "(string \<Rightarrow> string) \<Rightarrow> list_page \<Rightarrow> drawn_item list" where
  "cl_render tx v = draw_head tx (lp_page v) @ draw_form tx (lp_page v) @ draw_table tx v @ draw_batch tx v"

section \<open>What a gesture does\<close>

text \<open>Searching for a tag adds it to the tags offered; the address is written with the tags from before, which
the state still has.\<close>

definition onSearch :: "string \<Rightarrow> config_list stmt" where
  "onSearch val = with_state (\<lambda>s. case st_tagLst s of
     None \<Rightarrow> throw TypeError
   | Some ts \<Rightarrow> if val \<in> set ts then skip else block
       [modify (\<lambda>s. s\<lparr>st_tagLst := Some (ts @ [val])\<rparr>),
        put_param ''tagList'' (Str (js_join '','' ts))])"

fun on_row :: "(string \<Rightarrow> string) \<Rightarrow> jsval \<Rightarrow> row_link \<Rightarrow> config_list stmt" where
  "on_row tx rec Details = goDetail rec"
| "on_row tx rec SampleCode = showCode rec"
| "on_row tx rec Edit = goEditor rec"
| "on_row tx rec Remove = removeConfig tx rec"
| "on_row tx rec (Menu key) = chooseNav rec key"

fun on_batch :: "(string \<Rightarrow> string) \<Rightarrow> batch \<Rightarrow> config_list stmt" where
  "on_batch tx DeleteSelected = multipleSelectionDeletion tx"
| "on_batch tx CloneSelected = cloneSelectedDataConfirm tx"
| "on_batch tx Export = exportData"
| "on_batch tx NewExport = exportDataNew"
| "on_batch tx ExportSelected = exportSelectedData tx False"
| "on_batch tx NewExportSelected = exportSelectedData tx True"

definition on_gesture :: "(string \<Rightarrow> string) \<Rightarrow> cl_control \<Rightarrow> gesture \<Rightarrow> config_list stmt" where
  "on_gesture tx c g = (case c of
     NamespaceBar \<Rightarrow> (case g of Entered needclean \<Rightarrow> cleanAndGetData needclean
       | Switched n i d \<Rightarrow> cl_setNowNameSpace n i d | _ \<Rightarrow> skip)
   | CreateButton \<Rightarrow> (case g of Click \<Rightarrow> chooseEnv | _ \<Rightarrow> skip)
   | DataIdInput \<Rightarrow> (case g of Type v \<Rightarrow> cl_setDataId v | Enter \<Rightarrow> selectAll | _ \<Rightarrow> skip)
   | GroupInput \<Rightarrow> (case g of Pick v \<Rightarrow> setGroup v | Enter \<Rightarrow> selectAll | _ \<Rightarrow> skip)
   | FuzzySwitch \<Rightarrow> (case g of Click \<Rightarrow> handleDefaultFuzzySwitchChange | _ \<Rightarrow> skip)
   | QueryButton \<Rightarrow> (case g of Click \<Rightarrow> selectAll | _ \<Rightarrow> skip)
   | AdvancedButton \<Rightarrow> (case g of Click \<Rightarrow> changeAdvancedQuery | _ \<Rightarrow> skip)
   | ImportButton \<Rightarrow> (case g of Click \<Rightarrow> importData tx | _ \<Rightarrow> skip)
   | AppNameInput \<Rightarrow> (case g of Type v \<Rightarrow> setAppName v | Enter \<Rightarrow> getData (Num 1) | _ \<Rightarrow> skip)
   | TagsSelect \<Rightarrow> (case g of PickMany ts \<Rightarrow> setConfigTags ts | Search v \<Rightarrow> onSearch v | _ \<Rightarrow> skip)
   | DetailInput \<Rightarrow> (case g of Type v \<Rightarrow> setConfigDetail v | _ \<Rightarrow> skip)
   | RowBoxes \<Rightarrow> (case g of Mark ids recs \<Rightarrow> configDataTableOnChange ids recs | _ \<Rightarrow> skip)
   | RowLink rec l \<Rightarrow> (case g of Click \<Rightarrow> on_row tx rec l | _ \<Rightarrow> skip)
   | BatchButton b \<Rightarrow> (case g of Click \<Rightarrow> on_batch tx b | _ \<Rightarrow> skip)
   | PageSizes \<Rightarrow> (case g of Resize n \<Rightarrow> handlePageSizeChange n | _ \<Rightarrow> skip)
   | PageNumbers \<Rightarrow> (case g of Turn n enter \<Rightarrow> changePage n enter | _ \<Rightarrow> skip)
   | ColumnHead k \<Rightarrow> skip
   | OperationHead \<Rightarrow> skip)"

text \<open>Sorting works on the configurations in the store; \<open>le\<close> is the order of \<open>localeCompare\<close>.\<close>

definition press :: "(string \<Rightarrow> string) \<Rightarrow> (string \<Rightarrow> string \<Rightarrow> bool) \<Rightarrow> cl_control \<Rightarrow> gesture \<Rightarrow> list_page \<Rightarrow> list_page" where
  "press tx le c g v = v\<lparr>lp_page := state_of (on_gesture tx c g (lp_page v)),
     lp_items := (case (c, g) of (ColumnHead k, Sort order) \<Rightarrow> onChangeSort le k order (lp_items v)
       | _ \<Rightarrow> lp_items v)\<rparr>"

section \<open>The page as a machine\<close>

text \<open>What runs besides: the windows that the page has opened, and the answers to its requests.\<close>

inductive answer :: "(string \<Rightarrow> string) \<Rightarrow> config_list stmt \<Rightarrow> bool" for tx where
  removal: "answer tx (remove_confirmed rec)"
| removed: "answer tx (remove_success tx rec res)"
| deletion: "answer tx deletion_confirmed"
| deleted: "answer tx (deletion_success tx)"
| targets: "answer tx (clone_success tx data)"
| no_targets: "answer tx (clone_error e)"
| target: "answer tx (pick_target v)"
| policy: "answer tx (pick_policy v)"
| cell: "answer tx (editableTableOnBlur i k w)"
| cloning: "answer tx clone_start"
| cloned: "answer tx (cloned tx ret)"
| imported: "answer tx (import_success tx ret)"
| not_imported: "answer tx (import_error tx e)"
| drawn: "answer tx (cl_componentDidMount tx host)"

inductive list_step :: "(string \<Rightarrow> string) \<Rightarrow> (string \<Rightarrow> string \<Rightarrow> bool) \<Rightarrow> list_page \<Rightarrow> list_page \<Rightarrow> bool" for tx le where
  gesture: "c \<in> fst ` set (cl_render tx v) \<Longrightarrow> list_step tx le v (press tx le c g v)"
| answer: "answer tx a \<Longrightarrow> list_step tx le v (v\<lparr>lp_page := state_of (a (lp_page v))\<rparr>)"
| arrived: "list_step tx le v (v\<lparr>lp_page := state_of (data_arrived (lp_page v)), lp_items := items,
    lp_total := count, lp_number := number\<rparr>)"
| failed: "list_step tx le v (v\<lparr>lp_page := state_of (data_failed tx res (lp_page v)), lp_items := [],
    lp_total := Num 0\<rparr>)"

section \<open>The page asks for what it shows\<close>

definition shown_value :: "drawn_item list \<Rightarrow> cl_control \<Rightarrow> jsval" where
  "shown_value ds c = (case map_of ds c of None \<Rightarrow> Str [] | Some (l, v) \<Rightarrow> v)"

text \<open>The request that can be read off the form.\<close>

definition request_shown :: "jsval \<Rightarrow> jsval \<Rightarrow> string \<Rightarrow> drawn_item list \<Rightarrow> effect" where
  "request_shown pageNo pageSize tenant ds =
     (let fuzzy = (shown_value ds FuzzySwitch = Bool True); detail = to_str (shown_value ds DetailInput);
          ps = changeParamsBySearchType fuzzy
            [(''dataId'', shown_value ds DataIdInput), (''group'', shown_value ds GroupInput),
             (''appName'', shown_value ds AppNameInput), (''config_tags'', Str (to_str (shown_value ds TagsSelect))),
             (''pageNo'', pageNo), (''pageSize'', pageSize), (''tenant'', Str tenant)]
      in if detail \<noteq> [] then Ajax ''get'' ''v2/cs/config/searchDetail'' (ps @ [(''config_detail'', Str (star fuzzy detail))])
         else Ajax ''get'' ''v1/cs/configs'' ps)"

text \<open>Outside an application: the copies of a term agree, and what is not shown is empty.\<close>

definition agree :: "config_list \<Rightarrow> bool" where
  "agree s = (\<not> inApp s \<and> cl_group s = st_group s \<and> cl_appName s = st_appName s
     \<and> (advanced s \<or> st_appName s = [] \<and> st_config_tags s = [] \<and> st_config_detail s = []))"

named_theorems agree_intros \<open>handlers that keep the terms of the query\<close>

lemma keeps_put_params [preserves_intros]:
  "(\<And>s b. P s \<Longrightarrow> P (s\<lparr>cl_browser := b\<rparr>)) \<Longrightarrow> preserves P (put_params f)"
  by (auto simp: preserves_def put_params_def split: sum.split)

lemma keeps_read_param [preserves_intros]: "(\<And>v. preserves P (f v)) \<Longrightarrow> preserves P (read_param k f)"
  by (auto simp: preserves_def read_param_def with_state_def throw_def split: sum.split)

lemma agree_other:
  "agree s \<Longrightarrow> agree (s\<lparr>cl_browser := b\<rparr>)" "agree s \<Longrightarrow> agree (s\<lparr>cl_tenant := x\<rparr>)"
  "agree s \<Longrightarrow> agree (s\<lparr>cl_serverId := x\<rparr>)" "agree s \<Longrightarrow> agree (s\<lparr>cl_pageNo := j, cl_pageSizeSent := k\<rparr>)"
  "agree s \<Longrightarrow> agree (s\<lparr>st_loading := l\<rparr>)" "agree s \<Longrightarrow> agree (s\<lparr>st_pageSize := j\<rparr>)"
  "agree s \<Longrightarrow> agree (s\<lparr>st_pageEnter := l, st_currentPage := j\<rparr>)" "agree s \<Longrightarrow> agree (s\<lparr>st_currentPage := j\<rparr>)"
  by (simp_all add: agree_def inApp_def)

lemma agree_put_param [agree_intros]: "preserves agree (put_param k v)"
  unfolding put_param_def by (intro preserves_intros agree_other)

lemma agree_getData [agree_intros]: "preserves agree (getData n)"
  unfolding getData_def cl_open_def by (intro preserves_intros agree_intros agree_other)

lemma agree_openUri [agree_intros]: "preserves agree (openUri url ps)"
  unfolding openUri_def by (intro preserves_intros)

lemma agree_identity [agree_intros]: "(\<And>a u. preserves agree (f a u)) \<Longrightarrow> preserves agree (with_identity f)"
  by (auto simp: with_identity_def preserves_def with_state_def throw_def Let_def
      split: option.split sum.split)

lemma agree_with_place [agree_intros]: "preserves agree a \<Longrightarrow> preserves agree (with_place d a)"
  unfolding with_place_def by (intro preserves_intros agree_other)

lemma agree_row: "preserves agree (on_row tx rec l)"
proof -
  have "preserves agree (chooseNav rec key)" for key
    unfolding chooseNav_def navTo_def by (intro preserves_intros agree_intros)
  moreover have "preserves agree (goDetail rec)" "preserves agree (goEditor rec)" "preserves agree (removeConfig tx rec)"
      "preserves agree (showCode rec)"
    unfolding goDetail_def goEditor_def removeConfig_def showCode_def by (intro preserves_intros agree_intros)+
  ultimately show ?thesis by (cases l) simp_all
qed

lemma agree_batch: "preserves agree (on_batch tx b)"
proof -
  have "preserves agree (exportSelectedData tx new)" "preserves agree (export_all version)" for new version
    unfolding exportSelectedData_def export_all_def by (intro preserves_intros agree_intros)+
  moreover have "preserves agree (multipleSelectionDeletion tx)" "preserves agree (cloneSelectedDataConfirm tx)"
    unfolding multipleSelectionDeletion_def cloneSelectedDataConfirm_def cl_open_def
    by (intro preserves_intros agree_intros agree_other; simp add: agree_def inApp_def)+
  ultimately show ?thesis by (cases b) (simp_all add: exportData_def exportDataNew_def)
qed

lemma agree_process [agree_intros]: "preserves agree (processImportAndCloneResult tx isImport ret)"
proof -
  have "preserves agree (report_result tx isImport d)" for d
    unfolding report_result_def Let_def by (intro preserves_intros)
  then show ?thesis
    unfolding processImportAndCloneResult_def by (intro preserves_intros agree_intros)
qed

lemma agree_clone_success: "preserves agree (clone_success tx data)"
  unfolding clone_success_def cl_close_def
  by (intro preserves_intros agree_other) (auto split: jsval.split
    intro!: preserves_intros simp: agree_def inApp_def)

lemmas answer_defs = remove_confirmed_def remove_success_def deletion_confirmed_def deletion_success_def
  clone_error_def reset_table_def cl_close_def pick_target_def pick_policy_def editableTableOnBlur_def
  clone_start_def cl_open_def cloned_def import_success_def import_error_def cl_componentDidMount_def
  setIsCn_def

lemma keeps_call [preserves_intros]: "preserves P (call n)"
  by (simp add: call_def preserves_emit)

lemma agree_answer: "answer tx a \<Longrightarrow> preserves agree a"
  by (induction rule: answer.induct, simp_all only: answer_defs)
    ((intro preserves_intros agree_intros agree_clone_success agree_other; simp add: agree_def inApp_def)+)

text \<open>The advanced terms: as long as they are shown anything may be in them; hiding them empties them.\<close>

definition agree_shown :: "config_list \<Rightarrow> bool" where
  "agree_shown s = (agree s \<and> advanced s)"

lemma shown_put_param: "preserves agree_shown (put_param k v)"
  unfolding put_param_def by (intro preserves_intros) (simp add: agree_shown_def agree_other)

lemma shown_setters:
  "preserves agree_shown (setAppName v)" "preserves agree_shown (setConfigTags ts)"
  "preserves agree_shown (setConfigDetail v)" "preserves agree_shown (onSearch v)"
  unfolding setAppName_def setConfigTags_def setConfigDetail_def onSearch_def
  by ((intro preserves_intros shown_put_param; simp add: agree_shown_def agree_def inApp_def)+,
    auto simp: agree_shown_def agree_def inApp_def simp del: block.simps
      intro!: preserves_intros shown_put_param split: option.split)

lemma cleared_fields:
  "clear s = (t, e, None) \<Longrightarrow> cl_appName t = [] \<and> st_appName t = [] \<and> st_config_tags t = [] \<and> st_config_detail t = []"
  by (auto simp: clear_def setAppName_def setConfigTags_def setConfigDetail_def modify_def put_param_def
      put_params_def split: sum.splits)

lemma shown_clear: "preserves agree_shown clear"
  unfolding clear_def by (intro preserves_intros shown_setters)

lemma agree_changeAdvancedQuery: "preserves agree changeAdvancedQuery"
proof (rule preservesI)
  fix s assume s: "agree s"
  show "agree (state_of (changeAdvancedQuery s))"
  proof (cases "advanced s")
    case False
    obtain t e x where p: "put_param ''isAdvanceQuery'' (Bool True) s = (t, e, x)"
      by (cases "put_param ''isAdvanceQuery'' (Bool True) s")
    have "agree t" using preservesD [OF agree_put_param s] p by (metis outcome_simps(1))
    then show ?thesis using False p
      by (cases x) (auto simp: changeAdvancedQuery_def with_state_def Let_def skip_def modify_def agree_def inApp_def)
  next
    case True
    then have "agree_shown s" using s by (simp add: agree_shown_def)
    obtain t e x where p: "put_param ''isAdvanceQuery'' (Bool False) s = (t, e, x)"
      by (cases "put_param ''isAdvanceQuery'' (Bool False) s")
    have t: "agree_shown t"
      using preservesD [OF shown_put_param \<open>agree_shown s\<close>] p by (metis outcome_simps(1))
    obtain u e' y where c: "clear t = (u, e', y)" by (cases "clear t")
    have u: "agree_shown u" using preservesD [OF shown_clear t] c by (metis outcome_simps(1))
    show ?thesis
    proof (cases "x = None \<and> y = None")
      case True
      then have "cl_appName u = [] \<and> st_appName u = [] \<and> st_config_tags u = [] \<and> st_config_detail u = []"
        using cleared_fields c by blast
      then show ?thesis using True \<open>advanced s\<close> p c u
        by (simp add: changeAdvancedQuery_def with_state_def Let_def modify_def agree_shown_def agree_def inApp_def)
    next
      case False
      then show ?thesis using \<open>advanced s\<close> p c t u
        by (cases x; cases y) (auto simp: changeAdvancedQuery_def with_state_def Let_def modify_def agree_shown_def)
    qed
  qed
qed

lemma agree_plain_gesture:
  "preserves agree (cleanAndGetData b)" "preserves agree (setGroup v)" "preserves agree (cl_setDataId w)"
  "preserves agree (cl_setNowNameSpace i j k)" "preserves agree handleDefaultFuzzySwitchChange"
  "preserves agree (configDataTableOnChange ids recs)" "preserves agree selectAll"
  "preserves agree (changePage n enter)" "preserves agree (handlePageSizeChange n)" "preserves agree chooseEnv"
  unfolding cleanAndGetData_def setGroup_def cl_setDataId_def cl_setNowNameSpace_def
    handleDefaultFuzzySwitchChange_def configDataTableOnChange_def selectAll_def changePage_def
    handlePageSizeChange_def chooseEnv_def
  by (intro preserves_intros agree_intros agree_other; simp add: agree_def inApp_def)+

lemma agree_importData: "preserves agree (importData tx)"
proof -
  have "preserves agree (open_import tx token)" for token
    unfolding open_import_def
    by (auto split: sum.split prod.split intro!: preserves_intros)
  then show ?thesis
    unfolding importData_def on_page_def
    by (intro preserves_intros) (auto simp: agree_def inApp_def simp del: block.simps split: option.split
      intro!: preserves_intros)
qed

lemma agree_gesture:
  assumes "agree s" and "c \<in> {AppNameInput, TagsSelect, DetailInput} \<Longrightarrow> advanced s"
  shows "agree (state_of (on_gesture tx c g s))"
proof (cases "c \<in> {AppNameInput, TagsSelect, DetailInput}")
  case True
  have shown: "agree_shown s" using assms True by (simp add: agree_shown_def)
  have "agree (state_of (a s))" if "preserves agree_shown a" for a
    using preservesD [OF that shown] by (simp add: agree_shown_def)
  moreover have "agree (state_of (getData (Num 1) s))"
    by (rule preservesD [OF agree_getData assms(1)])
  ultimately show ?thesis
    using True assms(1) shown_setters
    by (cases c; cases g; simp add: on_gesture_def skip_def)
next
  case False
  then have "preserves agree (on_gesture tx c g)"
    by (cases c; cases g; simp add: on_gesture_def preserves_skip agree_plain_gesture agree_importData
      agree_changeAdvancedQuery agree_row agree_batch)
  then show ?thesis using assms(1) by (rule preservesD)
qed

lemma drawn_advanced:
  assumes "agree (lp_page v)" and "c \<in> fst ` set (cl_render tx v)" and "c \<in> {AppNameInput, TagsSelect, DetailInput}"
  shows "advanced (lp_page v)"
  using assms
  by (auto simp: cl_render_def draw_head_def draw_form_def draw_table_def draw_batch_def renderCol_def
      split: if_splits)

lemma agree_step: "list_step tx le v w \<Longrightarrow> agree (lp_page v) \<Longrightarrow> agree (lp_page w)"
proof (induction rule: list_step.induct)
  case (gesture c v g)
  then show ?case using drawn_advanced [of v c tx] by (auto simp: press_def intro: agree_gesture)
next
  case (answer a v)
  then show ?case using preservesD [OF agree_answer] by simp
next
  case (arrived v items count number)
  then show ?case by (simp add: data_arrived_def cl_close_def modify_def agree_def inApp_def)
next
  case (failed v res)
  have "preserves agree (data_failed tx res)"
    unfolding data_failed_def cl_close_def by (intro preserves_intros agree_other)
  then show ?case using failed by (simp add: preservesD)
qed

lemma agree_reachable:
  assumes "(list_step tx le)\<^sup>*\<^sup>* v w" and "agree (lp_page v)"
  shows "agree (lp_page w)"
  using assms by (induction rule: rtranclp_induct) (auto intro: agree_step)

lemma put_params_only_browser: "put_params f s = (t, e, x) \<Longrightarrow> \<exists>b. t = s\<lparr>cl_browser := b\<rparr>"
  by (auto simp: put_params_def split: sum.splits intro: exI [of _ "cl_browser s"])

lemma init_copies:
  "config_list_init b sh desc sel = Inr s \<Longrightarrow> cl_group s = st_group s \<and> cl_appName s = st_appName s"
  unfolding config_list_init_def Let_def
  by (auto split: prod.splits option.splits dest!: put_params_only_browser)

lemma init_agree:
  assumes "config_list_init b sh desc sel = Inr s" and "\<not> inApp s"
    and "advanced s \<or> st_appName s = [] \<and> st_config_tags s = [] \<and> st_config_detail s = []"
  shows "agree s"
  using assms init_copies [OF assms(1)] by (auto simp: agree_def)

lemma shown_simps:
  assumes "\<not> inApp (lp_page v)"
  shows "shown_value (cl_render tx v) FuzzySwitch = Bool (st_fuzzy (lp_page v))"
    "shown_value (cl_render tx v) DataIdInput = Str (cl_dataId (lp_page v))"
    "shown_value (cl_render tx v) GroupInput = Str (st_group (lp_page v))"
    "shown_value (cl_render tx v) AppNameInput = (if advanced (lp_page v) then Str (st_appName (lp_page v)) else Str [])"
    "shown_value (cl_render tx v) TagsSelect =
       (if advanced (lp_page v) then Arr (map Str (st_config_tags (lp_page v))) else Str [])"
    "shown_value (cl_render tx v) DetailInput = (if advanced (lp_page v) then Str (st_config_detail (lp_page v)) else Str [])"
proof -
  have rest: "c \<notin> fst ` set (draw_table tx v @ draw_batch tx v)" if "c \<in> {AppNameInput, TagsSelect, DetailInput}" for c
    using that by (auto simp: draw_table_def draw_batch_def renderCol_def)
  have "map_of (draw_table tx v @ draw_batch tx v) c = None" if "c \<in> {AppNameInput, TagsSelect, DetailInput}" for c
    using rest [OF that] by (simp only: map_of_eq_None_iff) simp
  then show "shown_value (cl_render tx v) FuzzySwitch = Bool (st_fuzzy (lp_page v))"
    "shown_value (cl_render tx v) DataIdInput = Str (cl_dataId (lp_page v))"
    "shown_value (cl_render tx v) GroupInput = Str (st_group (lp_page v))"
    "shown_value (cl_render tx v) AppNameInput = (if advanced (lp_page v) then Str (st_appName (lp_page v)) else Str [])"
    "shown_value (cl_render tx v) TagsSelect =
       (if advanced (lp_page v) then Arr (map Str (st_config_tags (lp_page v))) else Str [])"
    "shown_value (cl_render tx v) DetailInput = (if advanced (lp_page v) then Str (st_config_detail (lp_page v)) else Str [])"
    using assms by (auto simp: shown_value_def cl_render_def draw_head_def draw_form_def map_add_def
      simp del: map_of_append)
qed

lemma to_str_strings: "to_str (Arr (map Str ts)) = js_join '','' ts"
  by (induction ts rule: induct_list012) simp_all

lemma request_as_shown:
  assumes "agree (lp_page v)"
  shows "list_request pn pz (lp_page v) = request_shown pn pz (cl_tenant (lp_page v)) (cl_render tx v)"
  using assms
  by (auto simp: agree_def list_request_def query_params_def request_shown_def shown_simps Let_def to_str_strings
      simp del: to_str.simps(7))

text \<open>C8. The page asks for what it shows: outside of an application, opened at an address that names no
advanced term, or with the advanced fields shown, and whatever has been done on what is drawn and whatever
has been answered since, the button of the query sends the request that can be read off the page, with
nothing in the place of a field that is not drawn, or nothing at all while another load is on its way.\<close>

theorem query_is_what_is_shown:
  assumes "config_list_init b sh desc sel = Inr s0" and "\<not> inApp s0"
    and "advanced s0 \<or> st_appName s0 = [] \<and> st_config_tags s0 = [] \<and> st_config_detail s0 = []"
    and "(list_step tx le)\<^sup>*\<^sup>* v0 v" and "lp_page v0 = s0" and "addr_ok (cl_win (lp_page v))"
  shows "effects_of (on_gesture tx QueryButton Click (lp_page v)) =
    (if st_loading (lp_page v) then []
     else [request_shown (page_asked (Num 1) (lp_page v)) (size_asked (lp_page v))
       (or_empty (addr_get (cl_win (lp_page v)) ''namespace'')) (cl_render tx v)])"
proof -
  let ?s = "lp_page v"
  have "agree ?s"
    using agree_reachable [OF assms(4)] init_agree [OF assms(1-3)] assms(5) by simp
  then have "list_request pn pz (placed ?s) = request_shown pn pz (cl_tenant (placed ?s)) (cl_render tx v)" for pn pz
  proof -
    assume "agree ?s"
    then have "list_request pn pz (lp_page (v\<lparr>lp_page := placed ?s\<rparr>))
        = request_shown pn pz (cl_tenant (placed ?s)) (cl_render tx (v\<lparr>lp_page := placed ?s\<rparr>))"
      by (subst request_as_shown [where tx = tx]) (simp_all add: placed_def agree_def inApp_def)
    moreover have "cl_render tx (v\<lparr>lp_page := placed ?s\<rparr>) = cl_render tx v"
      by (simp add: cl_render_def draw_head_def draw_form_def draw_table_def draw_batch_def placed_def inApp_def)
    ultimately show ?thesis by simp
  qed
  then show ?thesis
    using getData_busy [of ?s "Num 1"] getData_run [OF assms(6), of "Num 1"]
    by (simp add: on_gesture_def selectAll_def placed_def)
qed

text \<open>The tags that can be picked: what was searched for is not in the address before another search, and
after the tags have been cleared a search raises.\<close>

theorem tag_search:
  assumes "addr_ok (cl_win s)"
  shows "st_tagLst s = Some ts \<Longrightarrow> t \<notin> set ts \<Longrightarrow>
      st_tagLst (state_of (onSearch t s)) = Some (ts @ [t]) \<and>
      addr_get (cl_win (state_of (onSearch t s))) ''tagList'' = Some (js_join '','' ts)"
    and "error_of (onSearch t (state_of (setConfigTags None s))) = Some TypeError"
proof -
  show "st_tagLst (state_of (onSearch t s)) = Some (ts @ [t]) \<and>
      addr_get (cl_win (state_of (onSearch t s))) ''tagList'' = Some (js_join '','' ts)"
    if "st_tagLst s = Some ts" "t \<notin> set ts"
    using that put_param_ok [of "s\<lparr>st_tagLst := Some (ts @ [t])\<rparr>" "''tagList''" "Str (js_join '','' ts)"] assms
      addr.get_put [OF assms page_keys(6) page_keys(6)] page_keys(6)
    by (simp add: onSearch_def with_state_def modify_def with_win_def val_str_def js_or_def)
  have u: "addr_ok (addr_put (cl_win s) ''tagList'' (Str []))" by (rule addr.put_invar [OF assms page_keys(6)])
  have "st_tagLst (state_of (setConfigTags None s)) = None"
    using put_param_ok [of "s\<lparr>st_config_tags := [], st_tagLst := None\<rparr>" "''tagList''" "Str []"]
      put_param_ok [of "with_win (addr_put (cl_win s) ''tagList'' (Str [])) (s\<lparr>st_config_tags := [], st_tagLst := None\<rparr>)"
        "''configTags''" "Str []"] assms u page_keys
    by (simp add: setConfigTags_def modify_def with_win_def)
  then show "error_of (onSearch t (state_of (setConfigTags None s))) = Some TypeError"
    by (simp add: onSearch_def with_state_def throw_def)
qed

lemma sample_terms:
  "addr_get sample_win ''appName'' = None" "addr_get sample_win ''configTags'' = None"
  "addr_get sample_win ''configDetail'' = None" "addr_get sample_win ''edasAppId'' = None"
  "addr_get sample_win ''dataId'' = Some ''a&b''"
  by code_simp+

lemma sample_start:
  "\<exists>s. config_list_init sample_browser Undef Undef [] = Inr s \<and> \<not> inApp s \<and> st_appName s = [] \<and> st_config_tags s = []
    \<and> st_config_detail s = [] \<and> \<not> advanced s \<and> addr_ok (cl_win s) \<and> \<not> st_loading s \<and> cl_dataId s = ''a&b''"
proof -
  have win: "b_win sample_browser = sample_win" by (simp add: sample_browser_def)
  obtain w where w: "set_params sample_win [(''dataId'', Str ''a&b''), (''group'', Str []), (''appName'', Str [])] = Inr w"
      "addr_ok w"
    using set_params_console [OF sample_win_ok, of "[(''dataId'', Str ''a&b''), (''group'', Str []), (''appName'', Str [])]"]
      page_keys by auto
  have none: "addr_get sample_win ''group'' = None" "addr_get sample_win ''isAdvanceQuery'' = None" by code_simp+
  have g: "(case get_params sample_win k of Inl e \<Rightarrow> None | Inr v \<Rightarrow> v) = addr_get sample_win k" for k
    by (simp add: addr_get_def)
  show ?thesis
    using w by (simp add: config_list_init_def Let_def g win sample_terms none put_params_def inApp_def comma_list_def)
qed

theorem query_is_what_is_shown_witness:
  "\<exists>s (v :: list_page) ps. config_list_init sample_browser Undef Undef [] = Inr s
    \<and> lp_page v = s\<lparr>st_fuzzy := \<not> st_fuzzy s\<rparr>
    \<and> effects_of (on_gesture (\<lambda>k. k) QueryButton Click (lp_page v)) = [Ajax ''get'' ''v1/cs/configs'' ps]
    \<and> map_of ps ''appName'' = Some (Str []) \<and> map_of ps ''config_tags'' = Some (Str [])"
proof -
  obtain s where s: "config_list_init sample_browser Undef Undef [] = Inr s" "\<not> inApp s" "st_appName s = []"
      "st_config_tags s = []" "st_config_detail s = []" "\<not> advanced s" "addr_ok (cl_win s)" "\<not> st_loading s"
    using sample_start by blast
  let ?v = "\<lparr>lp_page = s, lp_items = [], lp_total = Num 0, lp_number = Num 1\<rparr>"
  let ?w = "press (\<lambda>k. k) (\<lambda>_ _. True) FuzzySwitch Click ?v"
  have w: "lp_page ?w = s\<lparr>st_fuzzy := \<not> st_fuzzy s\<rparr>"
    by (simp add: press_def on_gesture_def handleDefaultFuzzySwitchChange_def modify_def)
  have step: "(list_step (\<lambda>k. k) (\<lambda>_ _. True))\<^sup>*\<^sup>* ?v ?w"
    by (rule r_into_rtranclp, rule list_step.gesture) (simp add: cl_render_def draw_form_def)
  have adv: "advanced s \<or> st_appName s = [] \<and> st_config_tags s = [] \<and> st_config_detail s = []" using s by simp
  have ok: "addr_ok (cl_win (lp_page ?w))" using s w by simp
  have app: "\<not> inApp (lp_page ?w)" using s(2) w by (simp add: inApp_def)
  have "\<exists>ps. effects_of (on_gesture (\<lambda>k. k) QueryButton Click (lp_page ?w)) = [Ajax ''get'' ''v1/cs/configs'' ps]
      \<and> map_of ps ''appName'' = Some (Str []) \<and> map_of ps ''config_tags'' = Some (Str [])"
    using query_is_what_is_shown [OF s(1,2) adv step _ ok] s w
    by (simp add: request_shown_def Let_def shown_simps [OF app] changeParamsBySearchType_def)
  then show ?thesis using s(1) w by blast
qed

end
