(* ===== verification/Service_View.thy ===== *)
theory Service_View
  imports Service_List
begin

text \<open>
  What the list of services draws, what its controls do, and which answer it shows: \<open>render\<close> of
  \<open>src/console-ui/src/pages/ServiceManagement/ServiceList/ServiceList.js\<close>.

  Unlike the list of configurations the page sends a query while another one is on its way.  The queries on
  their way are part of the state here; \<open>server\<close> is what the server answers to an address.
\<close>

section \<open>What is drawn\<close>

datatype service_link = ToDetail | ToSample | ToSubscribers | ToDeletion

datatype sl_control =
    SlNamespaces | SlCreate | SlServiceName | SlGroupName | SlHideEmpty | SlQuery
  | SlRow jsval service_link | SlPages | SlDialog

type_synonym sl_drawn = "sl_control \<times> string \<times> jsval"

definition sl_draw_form :: "(string \<Rightarrow> string) \<Rightarrow> service_list \<Rightarrow> sl_drawn list" where
  "sl_draw_form tx s =
     [(SlCreate, tx ''create'', Undef),
      (SlServiceName, tx ''serviceName'', Str (sl_serviceName s)),
      (SlGroupName, tx ''groupName'', Str (sl_groupName s)),
      (SlHideEmpty, tx ''hiddenEmptyService'', Bool (sl_hasIpCount s)),
      (SlQuery, tx ''query'', Undef)]"

text \<open>The columns of the table, with the fields of a row that they show; the links stand in one more, under
\<open>operation\<close>.\<close>

definition sl_columns :: "(string \<Rightarrow> string) \<Rightarrow> (string \<times> string) list" where
  "sl_columns tx =
     [(tx ''columnServiceName'', ''name''), (tx ''groupName'', ''groupName''),
      (tx ''columnClusterCount'', ''clusterCount''), (tx ''columnIpCount'', ''ipCount''),
      (tx ''columnHealthyInstanceCount'', ''healthyInstanceCount''), (tx ''columnTriggerFlag'', ''triggerFlag'')]"

definition sl_links :: "(string \<Rightarrow> string) \<Rightarrow> jsval \<Rightarrow> sl_drawn list" where
  "sl_links tx rec =
     [(SlRow rec ToDetail, tx ''detail'', Undef), (SlRow rec ToSample, tx ''sampleCode'', Undef),
      (SlRow rec ToSubscribers, tx ''subscriber'', Undef), (SlRow rec ToDeletion, tx ''deleteAction'', Undef)]"

definition sl_rows :: "service_list \<Rightarrow> jsval list" where
  "sl_rows s = (case sl_dataSource s of Arr xs \<Rightarrow> xs | _ \<Rightarrow> [])"

text \<open>A row of the table: its class, its cells, its links.\<close>

definition sl_draw_table :: "(string \<Rightarrow> string) \<Rightarrow> service_list \<Rightarrow> (string \<times> jsval list \<times> sl_drawn list) list" where
  "sl_draw_table tx s = map (\<lambda>r. (sl_rowColor r, map (\<lambda>(title, k). field r k) (sl_columns tx), sl_links tx r)) (sl_rows s)"

definition sl_render :: "(string \<Rightarrow> string) \<Rightarrow> service_list \<Rightarrow> sl_drawn list" where
  "sl_render tx s =
     (SlNamespaces, tx ''serviceList'',
       Arr [snd (snd (sl_namespace s)), fst (snd (sl_namespace s)), fst (sl_namespace s)])
     # sl_draw_form tx s @ concat (map (\<lambda>(cl, cells, links). links) (sl_draw_table tx s))
     @ [(SlPages, [], Arr [Num (int (sl_currentPage s)), sl_total s, Num (int (sl_pageSize s))]),
        (SlDialog, [], Undef)]"

section \<open>What a gesture does\<close>

datatype sl_gesture =
    SlClick | SlEnter | SlType string | SlSwitch bool | SlResize nat | SlTurn nat
  | SlSwitched jsval jsval jsval | SlEntered | SlRefresh

definition getQueryLater :: "service_list stmt" where
  "getQueryLater = queryServiceList"

definition showSampleCode :: "jsval \<Rightarrow> service_list stmt" where
  "showSampleCode rec = emit (\<lambda>_. Call ''showcode.openDialog'' [rec])"

fun sl_on_row :: "(string \<Rightarrow> string) \<Rightarrow> jsval \<Rightarrow> service_link \<Rightarrow> service_list stmt" where
  "sl_on_row tx rec ToDetail = openServiceDetail rec"
| "sl_on_row tx rec ToSample = showSampleCode rec"
| "sl_on_row tx rec ToSubscribers = querySubscriber rec"
| "sl_on_row tx rec ToDeletion = deleteService (tx ''promptDelete'')"

definition sl_on_gesture :: "(string \<Rightarrow> string) \<Rightarrow> sl_control \<Rightarrow> sl_gesture \<Rightarrow> service_list stmt" where
  "sl_on_gesture tx c g = (case c of
     SlNamespaces \<Rightarrow> (case g of SlEntered \<Rightarrow> getQueryLater | SlSwitched n i d \<Rightarrow> sl_setNowNameSpace n i d | _ \<Rightarrow> skip)
   | SlCreate \<Rightarrow> (case g of SlClick \<Rightarrow> openEditServiceDialog | _ \<Rightarrow> skip)
   | SlServiceName \<Rightarrow> (case g of SlType v \<Rightarrow> sl_setServiceName v | SlEnter \<Rightarrow> search_first | _ \<Rightarrow> skip)
   | SlGroupName \<Rightarrow> (case g of SlType v \<Rightarrow> sl_setGroupName v | SlEnter \<Rightarrow> search_first | _ \<Rightarrow> skip)
   | SlHideEmpty \<Rightarrow> (case g of SlSwitch b \<Rightarrow> toggle_hasIpCount b | _ \<Rightarrow> skip)
   | SlQuery \<Rightarrow> (case g of SlClick \<Rightarrow> search_first | _ \<Rightarrow> skip)
   | SlRow rec l \<Rightarrow> (case g of SlClick \<Rightarrow> sl_on_row tx rec l | _ \<Rightarrow> skip)
   | SlPages \<Rightarrow> (case g of SlResize n \<Rightarrow> sl_handlePageSizeChange n | SlTurn n \<Rightarrow> sl_changePage n | _ \<Rightarrow> skip)
   | SlDialog \<Rightarrow> (case g of SlRefresh \<Rightarrow> search_first | _ \<Rightarrow> skip))"

section \<open>Queries on their way\<close>

text \<open>\<open>sv_sent\<close> and \<open>sv_done\<close> are the history: the queries that have left, and those that have been answered, with
whether they succeeded.\<close>

record service_view =
  sv_page :: service_list
  sv_pending :: "string list"
  sv_sent :: "string list"
  sv_done :: "(string \<times> bool) list"

definition queries :: "effect list \<Rightarrow> string list" where
  "queries es = concat (map (\<lambda>e. case e of Ajax m u d \<Rightarrow> if m = ''GET'' then [u] else [] | _ \<Rightarrow> []) es)"

definition sv_run :: "service_list stmt \<Rightarrow> service_view \<Rightarrow> service_view" where
  "sv_run a v = (let r = a (sv_page v); qs = queries (effects_of r) in
     v\<lparr>sv_page := state_of r, sv_pending := sv_pending v @ qs, sv_sent := sv_sent v @ qs\<rparr>)"

definition sv_answer :: "(string \<Rightarrow> jsval) \<Rightarrow> string \<Rightarrow> string list \<Rightarrow> service_view \<Rightarrow> service_view" where
  "sv_answer server q rest v = v\<lparr>sv_page := state_of (list_success (server q) (sv_page v)), sv_pending := rest,
     sv_done := sv_done v @ [(q, True)]\<rparr>"

definition sv_fail :: "jsval \<Rightarrow> string \<Rightarrow> string list \<Rightarrow> service_view \<Rightarrow> service_view" where
  "sv_fail e q rest v = v\<lparr>sv_page := state_of (list_error e (sv_page v)), sv_pending := rest,
     sv_done := sv_done v @ [(q, False)]\<rparr>"

text \<open>The deletion of a service, confirmed and answered, and the overlay that the window of a service raises and
lowers.\<close>

inductive deleting :: "service_list stmt \<Rightarrow> bool" where
  confirmed: "deleting (delete_confirmed service)"
| succeeded: "deleting (delete_success res)"
| unsuccessful: "deleting (delete_error res)"
| completed: "deleting sl_close"
| covered: "deleting sl_open"

text \<open>With \<open>ordered\<close> the answers come in the order of the queries, otherwise in any order.\<close>

inductive service_step :: "bool \<Rightarrow> (string \<Rightarrow> jsval) \<Rightarrow> (string \<Rightarrow> string) \<Rightarrow> service_view \<Rightarrow> service_view \<Rightarrow> bool"
  for ordered server tx where
  gesture: "c \<in> fst ` set (sl_render tx (sv_page v)) \<Longrightarrow>
    service_step ordered server tx v (sv_run (sl_on_gesture tx c g) v)"
| deletion: "deleting a \<Longrightarrow> service_step ordered server tx v (sv_run a v)"
| answered: "sv_pending v = as @ q # bs \<Longrightarrow> ordered \<longrightarrow> as = [] \<Longrightarrow>
    service_step ordered server tx v (sv_answer server q (as @ bs) v)"
| failed: "sv_pending v = as @ q # bs \<Longrightarrow> ordered \<longrightarrow> as = [] \<Longrightarrow>
    service_step ordered server tx v (sv_fail e q (as @ bs) v)"

section \<open>The answer that is shown\<close>

definition answer_rows :: "jsval \<Rightarrow> jsval" where
  "answer_rows res = with_default (field (with_default res (Obj [])) ''serviceList'') (Arr [])"

definition shown_rows :: "(string \<Rightarrow> jsval) \<Rightarrow> (string \<times> bool) list \<Rightarrow> jsval" where
  "shown_rows server ds = (if ds = [] then Arr []
     else if snd (last ds) then answer_rows (server (fst (last ds))) else Arr [])"

definition consistent :: "(string \<Rightarrow> jsval) \<Rightarrow> service_view \<Rightarrow> bool" where
  "consistent server v = (sl_dataSource (sv_page v) = shown_rows server (sv_done v))"

definition in_order :: "service_view \<Rightarrow> bool" where
  "in_order v = (sv_sent v = map fst (sv_done v) @ sv_pending v)"

definition keeps_rows :: "service_list stmt \<Rightarrow> bool" where
  "keeps_rows a = (\<forall>d. preserves (\<lambda>s. sl_dataSource s = d) a)"

lemma keeps_rowsD: "keeps_rows a \<Longrightarrow> sl_dataSource (state_of (a s)) = sl_dataSource s"
  by (simp add: keeps_rows_def preserves_def)

lemma keeps_rows_write: "preserves (\<lambda>s. sl_dataSource s = d) (list_write_params f)"
  by (auto simp: preserves_def list_write_params_def split: sum.split)

lemma keeps_rows_query: "preserves (\<lambda>s. sl_dataSource s = d) queryServiceList"
  unfolding queryServiceList_def sl_open_def by (intro preserves_intros keeps_rows_write) simp

lemma keeps_rows_row: "preserves (\<lambda>s. sl_dataSource s = d) (sl_on_row tx rec l)"
  by (cases l) (simp_all add: openServiceDetail_def showSampleCode_def querySubscriber_def deleteService_def
    preserves_need_object preserves_emit)

lemma keeps_rows_gesture: "keeps_rows (sl_on_gesture tx c g)"
proof -
  have "preserves (\<lambda>s. sl_dataSource s = d) search_first"
      "preserves (\<lambda>s. sl_dataSource s = d) getQueryLater"
      "preserves (\<lambda>s. sl_dataSource s = d) (sl_setNowNameSpace i j k)"
      "preserves (\<lambda>s. sl_dataSource s = d) openEditServiceDialog"
      "preserves (\<lambda>s. sl_dataSource s = d) (sl_setServiceName w)"
      "preserves (\<lambda>s. sl_dataSource s = d) (sl_setGroupName w)"
      "preserves (\<lambda>s. sl_dataSource s = d) (toggle_hasIpCount b)"
      "preserves (\<lambda>s. sl_dataSource s = d) (sl_handlePageSizeChange n)"
      "preserves (\<lambda>s. sl_dataSource s = d) (sl_changePage n)" for d i j k w b n
    unfolding search_first_def getQueryLater_def sl_setNowNameSpace_def openEditServiceDialog_def
      sl_setServiceName_def sl_setGroupName_def toggle_hasIpCount_def sl_handlePageSizeChange_def sl_changePage_def
    by (intro preserves_intros keeps_rows_query; simp)+
  then show ?thesis
    by (cases c; cases g; simp add: sl_on_gesture_def keeps_rows_def keeps_rows_row preserves_skip)
qed

lemma keeps_rows_deleting: "deleting a \<Longrightarrow> keeps_rows a"
  by (induction rule: deleting.induct)
    (auto simp: keeps_rows_def delete_confirmed_def delete_success_def delete_error_def unless_ok_def
      message_error_def sl_open_def sl_close_def simp del: block.simps
      intro!: preserves_intros keeps_rows_query)

lemma consistent_run: "keeps_rows a \<Longrightarrow> consistent server v \<Longrightarrow> consistent server (sv_run a v)"
  by (simp add: consistent_def sv_run_def Let_def keeps_rowsD)

lemma answered_rows: "server q \<noteq> Null \<Longrightarrow> consistent server (sv_answer server q rest v)"
  by (auto simp: consistent_def sv_answer_def shown_rows_def answer_rows_def list_success_def Let_def modify_def
      throw_def with_default_def simp del: field_Obj)

lemma failed_rows: "consistent server (sv_fail e q rest v)"
  by (simp add: consistent_def sv_fail_def shown_rows_def list_error_def modify_def)

lemma step_consistent:
  assumes "service_step ordered server tx v w" and "consistent server v" and "\<And>q. server q \<noteq> Null"
  shows "consistent server w"
  using assms
  by (induction rule: service_step.induct)
    (auto intro: consistent_run keeps_rows_gesture keeps_rows_deleting answered_rows failed_rows)

lemma step_in_order: "service_step True server tx v w \<Longrightarrow> in_order v \<Longrightarrow> in_order w"
  by (induction rule: service_step.induct)
    (auto simp: in_order_def sv_run_def Let_def sv_answer_def sv_fail_def)

lemma reachable_in_order:
  assumes "(service_step True server tx)\<^sup>*\<^sup>* v w" and "in_order v"
  shows "in_order w"
  using assms by (induction rule: rtranclp_induct) (auto intro: step_in_order)

lemma reachable_consistent:
  assumes "(service_step ordered server tx)\<^sup>*\<^sup>* v w" and "consistent server v" and "\<And>q. server q \<noteq> Null"
  shows "consistent server w"
  using assms by (induction rule: rtranclp_induct) (auto intro: step_consistent)

definition view_init :: "service_list \<Rightarrow> service_view" where
  "view_init s = \<lparr>sv_page = s, sv_pending = [], sv_sent = [], sv_done = []\<rparr>"

lemma init_consistent:
  "service_list_init w st = Inr s \<Longrightarrow> consistent server (view_init s) \<and> in_order (view_init s)"
  by (auto simp: service_list_init_def consistent_def in_order_def view_init_def shown_rows_def split: sum.splits)

text \<open>C9. When the answers come in the order of the queries, then whenever no query is on its way the table shows
the answer to the query that left last, or nothing when that one failed, whatever has been typed, chosen or
deleted.\<close>

theorem services_of_last_query:
  assumes "service_list_init w st = Inr s" and "\<And>q. server q \<noteq> Null"
    and "(service_step True server tx)\<^sup>*\<^sup>* (view_init s) v" and "sv_pending v = []" and "sv_sent v \<noteq> []"
  shows "\<exists>ok. last (sv_done v) = (last (sv_sent v), ok) \<and>
    sl_dataSource (sv_page v) = (if ok then answer_rows (server (last (sv_sent v))) else Arr [])"
proof -
  have "consistent server v" "in_order v"
    using reachable_consistent [OF assms(3) _ assms(2)] reachable_in_order [OF assms(3)]
      init_consistent [OF assms(1)] by blast+
  then show ?thesis
    using assms(4,5)
    by (intro exI [of _ "snd (last (sv_done v))"])
      (auto simp: consistent_def in_order_def shown_rows_def last_map prod_eq_iff)
qed

definition page_query :: "service_list \<Rightarrow> nat \<Rightarrow> string" where
  "page_query s n = ''v1/ns/catalog/services?'' @ service_query (s\<lparr>sl_currentPage := n\<rparr>)"

lemma turn_runs:
  assumes "addr_ok (sl_win (sv_page v))"
  shows "\<exists>s'. sv_run (sl_on_gesture tx SlPages (SlTurn n)) v = v\<lparr>sv_page := s',
      sv_pending := sv_pending v @ [page_query (sv_page v) n], sv_sent := sv_sent v @ [page_query (sv_page v) n]\<rparr>
    \<and> addr_ok (sl_win s') \<and> sl_currentPage s' = n \<and> page_query s' = page_query (sv_page v)"
proof -
  let ?s = "(sv_page v)\<lparr>sl_currentPage := n\<rparr>"
  have "addr_ok (sl_win ?s)" using assms by simp
  from queryServiceList_run [OF this] obtain w' where w':
    "queryServiceList ?s = (?s\<lparr>sl_win := w', sl_loading := True\<rparr>,
      [Ajax ''GET'' (''v1/ns/catalog/services?'' @ service_query ?s) []], None)" "addr_ok w'" by blast
  then show ?thesis
    by (intro exI [of _ "?s\<lparr>sl_win := w', sl_loading := True\<rparr>"])
      (simp add: sv_run_def Let_def sl_on_gesture_def sl_changePage_def modify_def queries_def page_query_def
        fun_eq_iff service_query_def)
qed

lemma pages_drawn: "SlPages \<in> fst ` set (sl_render tx s)"
  by (simp add: sl_render_def)

lemma success_keeps_page: "sl_currentPage (state_of (list_success r s)) = sl_currentPage s"
  by (simp add: list_success_def Let_def throw_def modify_def)

text \<open>When the answers overtake one another, the page keeps the number that was turned to last, and shows the rows
of the page before.\<close>

theorem late_answer_wins:
  assumes "addr_ok (sl_win s)" and "\<And>q. server q \<noteq> Null"
  shows "\<exists>v. (service_step False server tx)\<^sup>*\<^sup>* (view_init s) v \<and> sv_pending v = [] \<and>
    last (sv_sent v) = page_query s n \<and> sl_currentPage (sv_page v) = n \<and>
    sl_dataSource (sv_page v) = answer_rows (server (page_query s m))"
proof -
  let ?step = "service_step False server tx" and ?v0 = "view_init s"
  obtain s1 where s1: "sv_run (sl_on_gesture tx SlPages (SlTurn m)) ?v0 =
      \<lparr>sv_page = s1, sv_pending = [page_query s m], sv_sent = [page_query s m], sv_done = []\<rparr>" (is "_ = ?v1")
      "addr_ok (sl_win s1)" "page_query s1 = page_query s"
    using turn_runs [of ?v0 tx m] assms(1) by (auto simp: view_init_def)
  obtain s2 where s2: "sv_run (sl_on_gesture tx SlPages (SlTurn n)) ?v1 =
      \<lparr>sv_page = s2, sv_pending = [page_query s m, page_query s n],
        sv_sent = [page_query s m, page_query s n], sv_done = []\<rparr>" (is "_ = ?v2")
      "sl_currentPage s2 = n"
    using turn_runs [of ?v1 tx n] s1(2,3) by auto
  let ?v3 = "sv_answer server (page_query s n) ([page_query s m] @ []) ?v2"
  let ?v4 = "sv_answer server (page_query s m) ([] @ []) ?v3"
  have "?step ?v0 ?v1" using service_step.gesture [OF pages_drawn, of False server tx ?v0 "SlTurn m"] s1(1) by simp
  moreover have "?step ?v1 ?v2"
    using service_step.gesture [OF pages_drawn, of False server tx ?v1 "SlTurn n"] s2(1) by simp
  moreover have "?step ?v2 ?v3" by (rule service_step.answered) simp_all
  moreover have "?step ?v3 ?v4" by (rule service_step.answered) (simp_all add: sv_answer_def)
  ultimately have "?step\<^sup>*\<^sup>* ?v0 ?v4" by (meson converse_rtranclp_into_rtranclp rtranclp.rtrancl_refl)
  moreover have "sl_dataSource (sv_page ?v4) = answer_rows (server (page_query s m))"
    using answered_rows [where server = server and q = "page_query s m" and v = ?v3 and rest = "[] @ []", OF assms(2)]
    by (simp add: consistent_def sv_answer_def shown_rows_def)
  ultimately show ?thesis
    using s2(2) by (intro exI [of _ ?v4]) (simp add: sv_answer_def success_keeps_page)
qed

theorem services_of_last_query_witness:
  "\<exists>s (v :: service_view). service_list_init sample_win [] = Inr s \<and>
    sl_dataSource (sv_page v) = Arr [Str (page_query s 2)] \<and> sv_sent v = [page_query s 2]"
proof -
  obtain s where s: "service_list_init sample_win [] = Inr s" "sl_win s = sample_win"
    using get_params_addr [OF sample_win_ok] service_keys by (auto simp: service_list_init_def)
  let ?server = "\<lambda>q. Obj [(''serviceList'', Arr [Str q])]" and ?v0 = "view_init s"
  obtain s1 where s1: "sv_run (sl_on_gesture (\<lambda>k. k) SlPages (SlTurn 2)) ?v0 =
      \<lparr>sv_page = s1, sv_pending = [page_query s 2], sv_sent = [page_query s 2], sv_done = []\<rparr>" (is "_ = ?v1")
    using turn_runs [of ?v0 "\<lambda>k. k" 2] s(2) sample_win_ok by (auto simp: view_init_def)
  let ?v2 = "sv_answer ?server (page_query s 2) ([] @ []) ?v1"
  have "service_step True ?server (\<lambda>k. k) ?v0 ?v1"
    using service_step.gesture [OF pages_drawn, of True ?server "\<lambda>k. k" ?v0 "SlTurn 2"] s1 by simp
  moreover have "service_step True ?server (\<lambda>k. k) ?v1 ?v2" by (rule service_step.answered) simp_all
  ultimately have reach: "(service_step True ?server (\<lambda>k. k))\<^sup>*\<^sup>* ?v0 ?v2"
    by (meson converse_rtranclp_into_rtranclp rtranclp.rtrancl_refl)
  have "sv_done ?v2 = [(page_query s 2, True)]" "sv_sent ?v2 = [page_query s 2]" by (simp_all add: sv_answer_def)
  then have "sl_dataSource (sv_page ?v2) = Arr [Str (page_query s 2)]"
    using services_of_last_query [OF s(1) _ reach] by (auto simp: answer_rows_def sv_answer_def with_default_def)
  then show ?thesis using s(1) \<open>sv_sent ?v2 = _\<close> by blast
qed

end
