(* ===== verification/Spec2Isabelle.thy ===== *)
theory Spec2Isabelle
  imports Event_Bus Layout Config_History Config_Editor
    Authority Cluster_Nodes Listening_Query Namespace_Page Config_Sync Region_Bar Editor_Machine
    Batch_Dialogs Round_Trips Old_Editor Small_Components
    Sample_Code Dist_Copy List_View Service_View
begin

text \<open>
  A verification development for the console of Nacos, the React application under
  \<open>src/console-ui/src\<close>.  Paths below are relative to that directory.

  \<^bold>\<open>The program and its parts.\<close>  The console is a single page behind a hash router.  Its pages keep
  their own state, share the address bar, the storage of the browser, a few globals of \<open>window\<close> and a
  redux store, and speak to the servers with two http clients.  What is hard in it is the shared state:
  the same search term, page number or namespace lives in an instance field, in the React state, in the
  address and in the storage, and pages hand it to one another through links.

  \<^bold>\<open>How a handler is modelled.\<close>  A handler is a statement (\<open>Js_Effects\<close>): it takes the state of its
  component to the new state, the list of its visible effects (navigations, dialogs, messages, requests
  that leave) and the exception that ended it, if one did.  An asynchronous call is split where it
  waits: one statement runs until the request leaves, others with the answer; \<open>settle\<close> runs \<open>success\<close> or
  \<open>error\<close> and then \<open>complete\<close>, as jQuery does.  The answers are arbitrary values of \<open>jsval\<close>.  React
  applies what a handler of a click sets with \<open>setState\<close> after the handler; where a handler reads the
  state after setting it, the model reads the value from before.  Fields of a state that nothing reads
  are left out.

  \<^bold>\<open>Theories.\<close>
  \<^item> \<open>Js_Prelude\<close>, \<open>Js_Effects\<close>, \<open>Js_Json\<close>: values, strings and objects of JavaScript, statements, the life
    of an ajax call (locales \<open>ajax_call\<close> and \<open>safe_ajax_call\<close>: an overlay that is raised before the request
    comes down with the answer), promises, and \<open>JSON.parse\<close> and \<open>JSON.stringify\<close>.
  \<^item> \<open>Validate_Content\<close>: \<open>utils/validateContent.js\<close>.  The character machine of the properties checker refines
    a line-wise reading; the verdict does not depend on line ends; one property is split as a recursive
    function splits it.
  \<^item> \<open>Event_Bus\<close>: \<open>nacosEvent\<close> and \<open>nacosUtils\<close> of \<open>globalLib.js\<close>, callbacks included that use the bus while
    they are called; delivery takes fuel, and a callback that needs unbounded fuel is exhibited.
  \<^item> \<open>Url_Params\<close>: \<open>getParams\<close>, \<open>setParams\<close>, \<open>removeParams\<close> of \<open>globalLib.js\<close>; the address is a store of
    parameters (locale \<open>param_store\<close>), on which every page below relies.
  \<^item> \<open>Nacos_Util\<close>, \<open>Session\<close>, \<open>Request_Pipeline\<close>, \<open>Axios_Client\<close>: \<open>utils/nacosutil.js\<close>, the login redirect and
    the storage, \<open>request\<close> with its middleware (\<open>globalLib.js\<close>, \<open>lib.js\<close>), and the interceptors of
    \<open>utils/request.js\<close>: what a request carries, and when a session is ended.
  \<^item> \<open>Start_Up\<close>: the rest of \<open>lib.js\<close>: links, the surrounding console, the change of size.
  \<^item> \<open>Store\<close>: \<open>reducers/\<close>, \<open>theme/\<close>, the start of \<open>index.js\<close>; the locale \<open>slice_reducer\<close> is what combining
    reducers relies on, and every reducer is an instance of it.
  \<^item> \<open>Layout\<close>: the menu, the side bar, the head line, the routes, the login and the settings page.
  \<^item> \<open>Service_Detail\<close>, \<open>Name_Spaces\<close>, \<open>Service_List\<close>: the page of a service with its dialogs, its filter and
    its tables, the bar of namespaces, the lists of services and of subscribers.
  \<^item> \<open>Config_List\<close>, \<open>Navigation\<close>, \<open>Config_History\<close>, \<open>Config_Detail\<close>, \<open>New_Config\<close>, \<open>Config_Editor\<close>: the list
    of configurations with removal, export, clone and import, links between pages, the versions of a
    configuration, its display, its creation and its publication.
  \<^item> \<open>Editor_Machine\<close>: the editor as a state machine.  Its actions leave requests that stay in flight and
    are answered in any order, each once; a switch of the step relation says whether the user waits for
    an answer before acting again.  With it the invariant \<open>beta_inv\<close> holds in every reachable state;
    without it a trace of two stops loses the switch of the beta.
  \<^item> \<open>Authority\<close>: the pages of users, roles and permissions with their windows.  The three pages share
    one shape, the locale \<open>listing_page\<close>, of which each is an instance.
  \<^item> \<open>Namespace_Page\<close>, \<open>Cluster_Nodes\<close>, \<open>Listening_Query\<close>: the list of namespaces with the windows that
    create and edit one, the nodes of the cluster, the listeners of a configuration and their pages.
  \<^item> \<open>Config_Sync\<close>, \<open>Region_Bar\<close>: the synchronisation of a configuration with the dialogs that compare
    and report, and the rest of the bar of regions.
  \<^item> \<open>Batch_Dialogs\<close>: the windows for clone, export, import and batches of the former list, which no page
    opens any more.  Two of them choose a policy in the same way, the locale \<open>policy_choice\<close>.
  \<^item> \<open>Old_Editor\<close>: \<open>ConfigEditor.js\<close>, the editor beside the one that the router leads to, as a state machine
    over its buttons, fields and answers.
  \<^item> \<open>Json_Roundtrip\<close>, \<open>Round_Trips\<close>: what \<open>JSON.stringify\<close> writes \<open>JSON.parse\<close> reads, for every value that JSON
    has and every indentation; with it the ways of data through several components: from the answer of
    the login through the storage to the head of a request, from the metadata of an instance through
    the window that edits it to the request, from the selected rows through the window of a clone to
    the body of the request.
  \<^item> \<open>Dictionary\<close>: \<open>locales/\<close>, the two dictionaries by the names of their texts, and what the handlers of the
    pages and the menu ask of them.  Everywhere else the texts are a function \<open>tx\<close>; here it is shown
    which of its values a handler looks at, and that both dictionaries have them.
  \<^item> \<open>Small_Components\<close>: copying a text, the head line of a page, the number of results, and the card of the
    dashboard, which no page shows.
  \<^item> \<open>Sample_Code\<close>: \<open>components/ShowCodeing/\<close>, the programs shown for a configuration or a service and the two
    windows with their timers (locale \<open>sample_dialog\<close>); a reader of string literals takes the data id back
    from the programs.
  \<^item> \<open>List_View\<close>, \<open>Service_View\<close>: the \<open>render\<close> of the lists of configurations and of services: the controls that are
    drawn in a state, with what they show, and the handler behind each.  A page is then a step relation of
    gestures on what is drawn and of answers; that of the services carries the queries on their way.
  \<^item> \<open>Dist_Copy\<close>: \<open>copy-dist.js\<close> and \<open>copyFile.js\<close> under \<open>src/console-ui/build\<close>, which bring a build into the
    resources of the server: a file system as a list of paths, Node's synchronous operations with the errors
    they raise, the recursions \<open>delDir\<close> and \<open>copyDir\<close> on fuel (one more than the longest path, which bounds
    the depth: a run that is cut off is shown not to occur), and the streams, which work after the script in
    any order.  \<open>prepares\<close> says what the script itself leaves behind, \<open>grafted\<close> and \<open>pruned\<close> what becomes of
    the disk; \<open>copy_dist_clash\<close> that a file in the way of a directory, or the other way round, stops it.

  \<^bold>\<open>What the properties show.\<close>  Reference readings of the checkers; the laws of the address bar; what a
  request carries; where the copies of the namespace, the search and the page number agree, and what
  survives a link, a reload or the way back; that overlays come down; that publishing is conditional on
  the version that was loaded and follows a check; how the states of a beta follow one another, and that
  a published beta can be stopped from every state that a user who waits can reach; that the lists of
  users, roles and permissions in the store stay lists whatever is dispatched; the bounds of the id of a
  namespace and of a page of listeners; what the windows refuse; that the token, the metadata and the
  selection arrive in the request that carries them as JSON text; that the former editor publishes what
  it loaded, and can no longer publish a beta; that the texts a page shows are there in both languages,
  and which are not; that the sample code names the row it was opened for; and where the code does
  something else than its comments or its names say, as it does; that a build arrives whole in the server's
  resources; that the list of configurations asks for what it shows, and that the list of services shows
  what it asked for last, if the answers keep their order.

  \<^bold>\<open>Bounds.\<close>  Characters are code units below 256.  Numbers are integers or decimal literals: the console
  compares and prints them and does not compute.  The JSON parser takes fuel, the length of its text,
  and it is shown that this is enough.

  \<^bold>\<open>Parameters.\<close>  The readers of XML, YAML and TOML, \<open>qs.stringify\<close>, the order of \<open>localeCompare\<close>, the
  wording of the texts and the answers of the servers.  The monaco editor is its text.

  \<^bold>\<open>Not modelled.\<close>  The table of links \<open>config.js\<close>; the set-up of the monaco editor in \<open>lib.js\<close>, tables of
  regular expressions for a library, and its wrapper in TypeScript; styles, and the markup but for the two lists that have a view;
  symbolic links and permissions on the disk that the build scripts work on.
  The scripts under \<open>console\<close> are built from this source or are those of the code mirror editor.
\<close>

end
